(* ===== verification/Hex_Prelude.thy ===== *)
theory Hex_Prelude
  imports Main "HOL-Library.Char_ord" "HOL-Library.List_Lexorder"
begin

text \<open>
  Prelude of the development: the Python values the generators of the plugin share.
  Exceptions are values of \<open>py_error\<close>, a fallible routine returns \<open>'a res\<close> (the
  error on the left), and \<open>bindR\<close>, \<open>assertR\<close> and \<open>mapR\<close> sequence such routines
  as statements, \<open>assert\<close> and a loop over a list do. Strings are \<open>string\<close> (the
  sources are ASCII), and the string methods the generators call
  (\<open>str\<close>, \<open>int\<close>, \<open>replace\<close>, \<open>split\<close>, \<open>strip\<close>,
  \<open>join\<close>, \<open>startswith\<close>) are written out here with the lemmas the components use.
\<close>

section \<open>Collections of rules\<close>

named_theorems res_simps \<open>sequencing of fallible routines\<close>
named_theorems init_defs \<open>constructors of the IL classes\<close>
named_theorems repr_defs \<open>serialization of the IL classes\<close>
named_theorems wp_intros \<open>rules that establish a postcondition\<close>
named_theorems eq_defs \<open>the methods \<open>__eq__\<close> of the IL classes\<close>

section \<open>Exceptions as values\<close>

datatype py_error =
    AssertionError
  | AttributeError
  | TypeError
  | ValueError
  | KeyError
  | IndexError
  | StopIteration
  | RecursionError
  | PyException string

type_synonym 'a res = "py_error + 'a"

definition bindR :: "'a res \<Rightarrow> ('a \<Rightarrow> 'b res) \<Rightarrow> 'b res" where
  "bindR m f = (case m of Inl e \<Rightarrow> Inl e | Inr x \<Rightarrow> f x)"

definition assertR :: "bool \<Rightarrow> 'a res \<Rightarrow> 'a res" where
  "assertR c m = (if c then m else Inl AssertionError)"

fun mapR :: "('a \<Rightarrow> 'b res) \<Rightarrow> 'a list \<Rightarrow> 'b list res" where
  "mapR f [] = Inr []"
| "mapR f (x # xs) = bindR (f x) (\<lambda>y. bindR (mapR f xs) (\<lambda>ys. Inr (y # ys)))"

lemma bindR_simps [simp]:
  "bindR (Inl e) f = Inl e"
  "bindR (Inr x) f = f x"
  by (simp_all add: bindR_def)

lemma bindR_eq_Inr [simp]: "bindR m f = Inr y \<longleftrightarrow> (\<exists>x. m = Inr x \<and> f x = Inr y)"
  by (cases m) simp_all

lemma bindR_eq_Inl: "bindR m f = Inl e \<longleftrightarrow> m = Inl e \<or> (\<exists>x. m = Inr x \<and> f x = Inl e)"
  by (cases m) simp_all

lemma bindR_cong [fundef_cong]:
  "m = m' \<Longrightarrow> (\<And>x. m' = Inr x \<Longrightarrow> f x = f' x) \<Longrightarrow> bindR m f = bindR m' f'"
  by (cases m') simp_all

lemma assertR_simps [simp]:
  "assertR True m = m"
  "assertR False m = Inl AssertionError"
  by (simp_all add: assertR_def)

lemma assertR_eq_Inr [simp]: "assertR c m = Inr x \<longleftrightarrow> c \<and> m = Inr x"
  by (simp add: assertR_def)

lemma assertR_cong [fundef_cong]:
  "c = c' \<Longrightarrow> (c' \<Longrightarrow> m = m') \<Longrightarrow> assertR c m = assertR c' m'"
  by (simp add: assertR_def)

lemma mapR_cong [fundef_cong]:
  "xs = ys \<Longrightarrow> (\<And>x. x \<in> set ys \<Longrightarrow> f x = g x) \<Longrightarrow> mapR f xs = mapR g ys"
proof (induction ys arbitrary: xs)
  case Nil
  then show ?case by simp
next
  case (Cons y ys)
  then show ?case by simp
qed

lemma mapR_Inr_iff: "mapR f xs = Inr ys \<longleftrightarrow> list_all2 (\<lambda>x y. f x = Inr y) xs ys"
  by (induction xs arbitrary: ys) (auto simp: list_all2_Cons1)

lemma mapR_length: "mapR f xs = Inr ys \<Longrightarrow> length ys = length xs"
  by (auto simp: mapR_Inr_iff dest: list_all2_lengthD)

lemma mapR_mem: "mapR f xs = Inr ys \<Longrightarrow> y \<in> set ys \<Longrightarrow> \<exists>x \<in> set xs. f x = Inr y"
proof (induction xs arbitrary: ys)
  case (Cons x xs)
  then obtain z zs where "f x = Inr z" "mapR f xs = Inr zs" "ys = z # zs" by auto
  then show ?case using Cons by auto
qed simp

lemma mapR_total: "(\<And>x. x \<in> set xs \<Longrightarrow> f x = Inr (g x)) \<Longrightarrow> mapR f xs = Inr (map g xs)"
  by (induction xs) auto

lemma mapR_append:
  "mapR f (xs @ ys) = bindR (mapR f xs) (\<lambda>us. bindR (mapR f ys) (\<lambda>vs. Inr (us @ vs)))"
proof (induction xs)
  case Nil
  then show ?case by (cases "mapR f ys") simp_all
next
  case (Cons x xs)
  then show ?case by (cases "f x"; cases "mapR f xs"; cases "mapR f ys") simp_all
qed

section \<open>Maps (Python dicts)\<close>

definition getitem :: "('k \<rightharpoonup> 'v) \<Rightarrow> 'k \<Rightarrow> 'v res" where
  "getitem m k = (case m k of None \<Rightarrow> Inl KeyError | Some v \<Rightarrow> Inr v)"

lemma getitem_Inr [simp]: "getitem m k = Inr v \<longleftrightarrow> m k = Some v"
  by (simp add: getitem_def split: option.splits)

lemma getitem_Inl: "getitem m k = Inl e \<longleftrightarrow> e = KeyError \<and> k \<notin> dom m"
  by (auto simp: getitem_def split: option.splits)

section \<open>Decimal numerals\<close>

definition is_digit :: "char \<Rightarrow> bool" where
  "is_digit c \<longleftrightarrow> 48 \<le> (of_char c :: nat) \<and> (of_char c :: nat) \<le> 57"

definition digit_char :: "nat \<Rightarrow> char" where
  "digit_char d = char_of (48 + d)"

definition digit_val :: "char \<Rightarrow> nat" where
  "digit_val c = of_char c - 48"

lemma of_char_digit_char: "d < 10 \<Longrightarrow> (of_char (digit_char d) :: nat) = 48 + d"
  by (simp add: digit_char_def)

lemma digit_val_char [simp]: "d < 10 \<Longrightarrow> digit_val (digit_char d) = d"
  by (simp add: digit_val_def of_char_digit_char)

lemma is_digit_char [simp]: "d < 10 \<Longrightarrow> is_digit (digit_char d)"
  by (simp add: is_digit_def of_char_digit_char)

text \<open>\<open>str(n)\<close> on a natural number.\<close>

fun show_nat :: "nat \<Rightarrow> string" where
  "show_nat n = (if n < 10 then [digit_char n] else show_nat (n div 10) @ [digit_char (n mod 10)])"

declare show_nat.simps [simp del]

text \<open>
  \<open>int(s)\<close> on a lexeme without a sign: digits, with single underscores between them, and
  \<open>ValueError\<close> for everything else (hexadecimal numerals included).
\<close>

fun decimal_lexeme :: "bool \<Rightarrow> string \<Rightarrow> bool" where
  "decimal_lexeme after_digit [] = after_digit"
| "decimal_lexeme after_digit (c # s) =
     (if c = CHR ''_'' then after_digit \<and> decimal_lexeme False s
      else is_digit c \<and> decimal_lexeme True s)"

definition py_int :: "string \<Rightarrow> nat res" where
  "py_int s =
     (if decimal_lexeme False s
      then Inr (foldl (\<lambda>n c. 10 * n + digit_val c) 0 (filter (\<lambda>c. c \<noteq> CHR ''_'') s))
      else Inl ValueError)"

lemma not_digit_underscore [simp]: "\<not> is_digit CHR ''_''"
  by (simp add: is_digit_def)

lemma decimal_lexeme_digits: "list_all is_digit s \<Longrightarrow> decimal_lexeme b s \<longleftrightarrow> b \<or> s \<noteq> []"
proof (induction s arbitrary: b)
  case (Cons c s)
  then have "c \<noteq> CHR ''_''" by auto
  with Cons show ?case by simp
qed simp

lemma filter_digits: "list_all is_digit s \<Longrightarrow> filter (\<lambda>c. c \<noteq> CHR ''_'') s = s"
  by (induction s) auto

lemma show_nat_digits: "list_all is_digit (show_nat n)" "show_nat n \<noteq> []"
proof (induction n rule: show_nat.induct)
  case (1 n)
  { case 1
    show ?case using "1.IH" by (subst show_nat.simps) simp
  next
    case 2
    show ?case by (subst show_nat.simps) simp
  }
qed

lemma foldl_show_nat: "foldl (\<lambda>n c. 10 * n + digit_val c) 0 (show_nat n) = n"
proof (induction n rule: show_nat.induct)
  case (1 n)
  then show ?case by (subst show_nat.simps) (simp add: mult.commute)
qed

lemma py_int_show_nat [simp]: "py_int (show_nat n) = Inr n"
  by (simp add: py_int_def show_nat_digits foldl_show_nat decimal_lexeme_digits filter_digits)

lemma show_nat_inject [simp]: "show_nat m = show_nat n \<longleftrightarrow> m = n"
  by (metis foldl_show_nat)

section \<open>String methods\<close>

definition starts_with :: "string \<Rightarrow> string \<Rightarrow> bool" where
  "starts_with s p \<longleftrightarrow> take (length p) s = p"

definition ends_with :: "string \<Rightarrow> string \<Rightarrow> bool" where
  "ends_with s p \<longleftrightarrow> length p \<le> length s \<and> drop (length s - length p) s = p"

text \<open>\<open>p in s\<close> on strings: some suffix of \<open>s\<close> starts with \<open>p\<close>.\<close>

fun str_in :: "string \<Rightarrow> string \<Rightarrow> bool" where
  "str_in p [] = (p = [])"
| "str_in p (c # s) = (starts_with (c # s) p \<or> str_in p s)"

text \<open>\<open>s.replace(p, q)\<close> for a non-empty \<open>p\<close>: leftmost, non-overlapping occurrences.\<close>

function str_replace :: "string \<Rightarrow> string \<Rightarrow> string \<Rightarrow> string" where
  "str_replace [] p q = []"
| "str_replace (c # s) p q =
     (if p \<noteq> [] \<and> starts_with (c # s) p then q @ str_replace (drop (length p) (c # s)) p q
      else c # str_replace s p q)"
  by pat_completeness auto
termination
  by (relation "measure (\<lambda>(s, p, q). length s)") (auto simp: neq_Nil_conv)

text \<open>\<open>s.split(sep)\<close> for a separator of one character.\<close>

fun str_split :: "char \<Rightarrow> string \<Rightarrow> string list" where
  "str_split d [] = [[]]"
| "str_split d (c # s) =
     (if c = d then [] # str_split d s
      else (case str_split d s of [] \<Rightarrow> [[c]] | w # ws \<Rightarrow> (c # w) # ws))"

definition is_space :: "char \<Rightarrow> bool" where
  "is_space c \<longleftrightarrow> (9 \<le> (of_char c :: nat) \<and> (of_char c :: nat) \<le> 13) \<or>
     (28 \<le> (of_char c :: nat) \<and> (of_char c :: nat) \<le> 32)"

definition str_strip :: "string \<Rightarrow> string" where
  "str_strip s = rev (dropWhile is_space (rev (dropWhile is_space s)))"

text \<open>\<open>sep.join(xs)\<close>.\<close>

fun str_join :: "string \<Rightarrow> string list \<Rightarrow> string" where
  "str_join sep [] = []"
| "str_join sep [x] = x"
| "str_join sep (x # y # xs) = x @ sep @ str_join sep (y # xs)"

lemma str_in_iff: "str_in p s \<longleftrightarrow> (\<exists>u v. s = u @ p @ v)"
proof (induction s)
  case Nil
  then show ?case by auto
next
  case (Cons c s)
  have "starts_with (c # s) p \<longleftrightarrow> (\<exists>v. c # s = p @ v)"
    unfolding starts_with_def by (metis append_eq_conv_conj append_take_drop_id)
  then show ?case using Cons by (auto simp: Cons_eq_append_conv)
qed

lemma str_split_nonempty [simp]: "str_split d s \<noteq> []"
  by (induction s) (auto split: list.splits)

lemma str_split_no_sep: "w \<in> set (str_split d s) \<Longrightarrow> d \<notin> set w"
  by (induction s arbitrary: w) (auto split: list.splits if_splits)

lemma str_join_split: "str_join [d] (str_split d s) = s"
proof (induction s)
  case Nil
  then show ?case by simp
next
  case (Cons c s)
  then show ?case by (cases "str_split d s"; cases "tl (str_split d s)") auto
qed

lemma str_split_join:
  assumes "ws \<noteq> []" and "\<forall>w \<in> set ws. d \<notin> set w"
  shows "str_split d (str_join [d] ws) = ws"
proof -
  have word: "str_split d w = [w]" if "d \<notin> set w" for w
    using that by (induction w) auto
  have cons: "str_split d (w @ d # s) = w # str_split d s" if "d \<notin> set w" for w s
    using that by (induction w) auto
  show ?thesis using assms
  proof (induction ws)
    case (Cons w ws)
    then show ?case by (cases ws) (auto simp: word cons)
  qed simp
qed

section \<open>Lists\<close>

text \<open>\<open>uniquify\<close> and \<open>ordered_unique\<close> keep the first occurrence of every element.\<close>

fun first_occs :: "'a list \<Rightarrow> 'a list \<Rightarrow> 'a list" where
  "first_occs seen [] = []"
| "first_occs seen (x # xs) =
     (if x \<in> set seen then first_occs seen xs else x # first_occs (x # seen) xs)"

lemma set_first_occs: "set (first_occs seen xs) = set xs - set seen"
  by (induction xs arbitrary: seen) auto

lemma distinct_first_occs: "distinct (first_occs seen xs)"
  by (induction xs arbitrary: seen) (auto simp: set_first_occs)

lemma first_occs_id: "distinct xs \<Longrightarrow> set xs \<inter> set seen = {} \<Longrightarrow> first_occs seen xs = xs"
  by (induction xs arbitrary: seen) auto

section \<open>Loops and insertion-ordered dicts\<close>

text \<open>\<open>for x in xs: s = f(x, s)\<close>, left at the first exception.\<close>

fun foldR :: "('a \<Rightarrow> 's \<Rightarrow> 's res) \<Rightarrow> 'a list \<Rightarrow> 's \<Rightarrow> 's res" where
  "foldR f [] s = Inr s"
| "foldR f (x # xs) s = bindR (f x s) (foldR f xs)"

lemma foldR_cong [fundef_cong]:
  "xs = ys \<Longrightarrow> s = t \<Longrightarrow> (\<And>x s. x \<in> set ys \<Longrightarrow> f x s = g x s) \<Longrightarrow> foldR f xs s = foldR g ys t"
proof (induction xs arbitrary: ys s t)
  case (Cons x xs)
  then show ?case by (cases ys) (auto intro!: bindR_cong)
qed simp

lemma foldR_append: "foldR f (xs @ ys) s = bindR (foldR f xs s) (foldR f ys)"
  by (induction xs arbitrary: s) (auto simp: bindR_def split: sum.splits)

text \<open>An invariant of a loop whose body never fails.\<close>

lemma foldR_invariant:
  assumes "P s" "\<And>x s. x \<in> set xs \<Longrightarrow> P s \<Longrightarrow> \<exists>t. f x s = Inr t \<and> P t"
  shows "\<exists>t. foldR f xs s = Inr t \<and> P t"
  using assms
proof (induction xs arbitrary: s)
  case (Cons x xs)
  then obtain t where "f x s = Inr t" "P t" by force
  with Cons show ?case by auto
qed simp

lemma foldR_preserves:
  assumes "\<And>x s t. x \<in> set xs \<Longrightarrow> P s \<Longrightarrow> f x s = Inr t \<Longrightarrow> P t"
  shows "P s \<Longrightarrow> foldR f xs s = Inr t \<Longrightarrow> P t"
  using assms
proof (induction xs arbitrary: s)
  case (Cons x xs)
  then obtain u where u: "f x s = Inr u" "foldR f xs u = Inr t" by auto
  have "P u" using Cons.prems(3) [of x s u] Cons.prems(1) u(1) by simp
  then show ?case by (rule Cons.IH) (use u(2) Cons.prems(3) in auto)
qed simp

lemma map_of_rev_zip_map: "map_of (rev (zip xs (map g xs))) x = (if x \<in> set xs then Some (g x) else None)"
proof -
  have "zip xs (map g xs) = map (\<lambda>y. (y, g y)) xs" by (induction xs) simp_all
  then have "map_of (rev (zip xs (map g xs))) x = map_of (map (\<lambda>y. (y, g y)) (rev xs)) x"
    by (simp add: rev_map)
  then show ?thesis by (simp add: map_of_map_restrict restrict_map_def)
qed

text \<open>A dict that is iterated over: a new key goes last, an old key keeps its place.\<close>

fun dict_set :: "'k \<Rightarrow> 'v \<Rightarrow> ('k \<times> 'v) list \<Rightarrow> ('k \<times> 'v) list" where
  "dict_set k v [] = [(k, v)]"
| "dict_set k v ((k', v') # xs) = (if k = k' then (k, v) # xs else (k', v') # dict_set k v xs)"

lemma map_of_dict_set: "map_of (dict_set k v xs) = (map_of xs)(k \<mapsto> v)"
  by (induction k v xs rule: dict_set.induct) auto

lemma keys_dict_set:
  "map fst (dict_set k v xs) = (if k \<in> fst ` set xs then map fst xs else map fst xs @ [k])"
  by (induction k v xs rule: dict_set.induct) auto

lemma map_of_filter_keys: "P k \<Longrightarrow> map_of (filter (\<lambda>(k, _). P k) xs) k = map_of xs k"
  by (induction xs) auto

end
