(* ===== verification/Py_Regex.thy ===== *)
theory Py_Regex
  imports Hex_Prelude
begin

text \<open>
  The part of Python's \<^verbatim>\<open>re\<close> module the generators use: a backtracking matcher.
  \<open>rx_match\<close> lists the ways a pattern matches at a position, in the order in which Python
  tries them (alternatives from left to right, repetition greedy), so the first element is the
  match Python reports. A position keeps the text before it (reversed), for word boundaries and
  the look-behind, the text after it, and the groups matched so far.
\<close>

section \<open>Patterns\<close>

datatype rx =
    Cls "char list"
  | NCls "char list"
  | Eps
  | Seq rx rx
  | Alt rx rx
  | Star rx
  | Grp nat rx
  | NotBehind string
  | WordB

definition Plus :: "rx \<Rightarrow> rx" where
  "Plus r = Seq r (Star r)"

definition Opt :: "rx \<Rightarrow> rx" where
  "Opt r = Alt r Eps"

definition Lit :: "string \<Rightarrow> rx" where
  "Lit w = foldr (\<lambda>c r. Seq (Cls [c]) r) w Eps"

fun alts :: "rx list \<Rightarrow> rx" where
  "alts [] = Eps"
| "alts [r] = r"
| "alts (r # rs) = Alt r (alts rs)"

record rx_state =
  pre_text :: string
  post_text :: string
  groups :: "(nat \<times> string) list"

definition is_word :: "char \<Rightarrow> bool" where
  "is_word c \<longleftrightarrow> is_digit c \<or> c = CHR ''_'' \<or> (65 \<le> (of_char c :: nat) \<and> (of_char c :: nat) \<le> 90) \<or>
     (97 \<le> (of_char c :: nat) \<and> (of_char c :: nat) \<le> 122)"

definition word_start :: "string \<Rightarrow> bool" where
  "word_start s \<longleftrightarrow> (case s of [] \<Rightarrow> False | c # _ \<Rightarrow> is_word c)"

section \<open>Matching\<close>

text \<open>An iteration of a repetition that consumes nothing ends it.\<close>

primrec star_match :: "(rx_state \<Rightarrow> rx_state list) \<Rightarrow> nat \<Rightarrow> rx_state \<Rightarrow> rx_state list" where
  "star_match f 0 st = [st]"
| "star_match f (Suc n) st =
     concat (map (\<lambda>st'. if length (post_text st') < length (post_text st) then star_match f n st' else []) (f st))
     @ [st]"

primrec rx_match :: "rx \<Rightarrow> rx_state \<Rightarrow> rx_state list" where
  "rx_match (Cls cs) st =
     (case post_text st of
        [] \<Rightarrow> []
      | c # s \<Rightarrow> if c \<in> set cs then [st\<lparr>pre_text := c # pre_text st, post_text := s\<rparr>] else [])"
| "rx_match (NCls cs) st =
     (case post_text st of
        [] \<Rightarrow> []
      | c # s \<Rightarrow> if c \<in> set cs then [] else [st\<lparr>pre_text := c # pre_text st, post_text := s\<rparr>])"
| "rx_match Eps st = [st]"
| "rx_match (Seq r q) st = concat (map (rx_match q) (rx_match r st))"
| "rx_match (Alt r q) st = rx_match r st @ rx_match q st"
| "rx_match (Star r) st = star_match (rx_match r) (length (post_text st)) st"
| "rx_match (Grp k r) st =
     map (\<lambda>st'. st'\<lparr>groups := (k, take (length (post_text st) - length (post_text st')) (post_text st)) # groups st'\<rparr>)
       (rx_match r st)"
| "rx_match (NotBehind w) st = (if starts_with (pre_text st) (rev w) then [] else [st])"
| "rx_match WordB st = (if word_start (pre_text st) = word_start (post_text st) then [] else [st])"

text \<open>The text never changes, it only moves from \<open>post_text\<close> to \<open>pre_text\<close>.\<close>

lemma star_match_text:
  assumes "\<And>st st'. st' \<in> set (f st) \<Longrightarrow> rev (pre_text st') @ post_text st' = rev (pre_text st) @ post_text st"
  shows "st' \<in> set (star_match f n st) \<Longrightarrow> rev (pre_text st') @ post_text st' = rev (pre_text st) @ post_text st"
proof (induction n arbitrary: st)
  case (Suc n)
  then show ?case using assms by (auto split: if_splits)
qed simp

lemma rx_match_text:
  "st' \<in> set (rx_match r st) \<Longrightarrow> rev (pre_text st') @ post_text st' = rev (pre_text st) @ post_text st"
proof (induction r arbitrary: st st')
  case (Seq r q)
  then obtain u where "u \<in> set (rx_match r st)" "st' \<in> set (rx_match q u)" by auto
  then show ?case using Seq.IH(1) [of u st] Seq.IH(2) [of st' u] by simp
next
  case (Star r)
  show ?case by (rule star_match_text [of "rx_match r"]) (use Star in auto)
qed (auto split: list.splits if_splits)

lemma star_match_length:
  assumes "\<And>st st'. st' \<in> set (f st) \<Longrightarrow> length (post_text st') \<le> length (post_text st)"
  shows "st' \<in> set (star_match f n st) \<Longrightarrow> length (post_text st') \<le> length (post_text st)"
proof (induction n arbitrary: st)
  case (Suc n)
  then consider u where "u \<in> set (f st)" "length (post_text u) < length (post_text st)" "st' \<in> set (star_match f n u)"
    | "st' = st"
    by (auto split: if_splits)
  then show ?case using Suc.IH by cases fastforce+
qed simp

lemma rx_match_length: "st' \<in> set (rx_match r st) \<Longrightarrow> length (post_text st') \<le> length (post_text st)"
proof (induction r arbitrary: st st')
  case (Seq r q)
  then obtain u where "u \<in> set (rx_match r st)" "st' \<in> set (rx_match q u)" by auto
  then show ?case using Seq.IH(1) [of u st] Seq.IH(2) [of st' u] by simp
next
  case (Star r)
  show ?case by (rule star_match_length [of "rx_match r"]) (use Star in auto)
qed (auto dest!: arg_cong [of _ "post_text _" length] split: list.splits if_splits)

section \<open>Searching\<close>

text \<open>
  \<open>findall\<close>: the matches from left to right, none overlapping an earlier one. After an empty
  match the next one at the same position must not be empty (\<open>must\<close>). A match is the pair of
  its text and its groups.
\<close>

definition matched :: "rx_state \<Rightarrow> rx_state \<Rightarrow> string" where
  "matched st st' = take (length (post_text st) - length (post_text st')) (post_text st)"

definition first_match :: "rx \<Rightarrow> bool \<Rightarrow> rx_state \<Rightarrow> rx_state option" where
  "first_match r must st =
     List.find (\<lambda>st'. must \<longrightarrow> length (post_text st') < length (post_text st)) (rx_match r st)"

lemma first_match_Some:
  assumes "first_match r must st = Some st'"
  shows "length (post_text st') \<le> length (post_text st)" "must \<Longrightarrow> length (post_text st') < length (post_text st)"
  using assms rx_match_length [of st' r st] by (auto simp: first_match_def find_Some_iff)

function finditer :: "rx \<Rightarrow> bool \<Rightarrow> string \<Rightarrow> string \<Rightarrow> (string \<times> (nat \<times> string) list) list" where
  "finditer r must b a =
     (let st = \<lparr>pre_text = b, post_text = a, groups = []\<rparr> in
      case first_match r must st of
        Some st' \<Rightarrow> (matched st st', groups st') #
          finditer r (length (post_text st') = length a) (pre_text st') (post_text st')
      | None \<Rightarrow> (case a of [] \<Rightarrow> [] | c # s \<Rightarrow> finditer r False (c # b) s))"
  by pat_completeness auto
termination
  by (relation "measure (\<lambda>(r, must, b, a). 2 * length a + (if must then 0 else 1))")
     (use first_match_Some in \<open>fastforce simp: le_less\<close>)+

declare finditer.simps [simp del]

definition findall :: "rx \<Rightarrow> string \<Rightarrow> string list" where
  "findall r s = map fst (finditer r False [] s)"

text \<open>A group that took no part in the match is the empty string, a repeated one its last text.\<close>

definition group_of :: "nat \<Rightarrow> (nat \<times> string) list \<Rightarrow> string" where
  "group_of k gs = (case map_of gs k of None \<Rightarrow> [] | Some w \<Rightarrow> w)"

definition findall_groups :: "nat list \<Rightarrow> rx \<Rightarrow> string \<Rightarrow> string list list" where
  "findall_groups ks r s = map (\<lambda>(_, gs). map (\<lambda>k. group_of k gs) ks) (finditer r False [] s)"

definition rx_search :: "rx \<Rightarrow> string \<Rightarrow> bool" where
  "rx_search r s \<longleftrightarrow> finditer r False [] s \<noteq> []"

definition rx_matches :: "rx \<Rightarrow> string \<Rightarrow> bool" where
  "rx_matches r s \<longleftrightarrow> rx_match r \<lparr>pre_text = [], post_text = s, groups = []\<rparr> \<noteq> []"

end
