(* ===== verification/Hex_Common.thy ===== *)
theory Hex_Common
  imports Py_Regex
begin

text \<open>
  \<^verbatim>\<open>third_party/qemu-hexagon/hex_common.py\<close>: the tables every generator reads. The module's
  globals are the fields of \<open>hexdb\<close>; a routine that fills a table maps a \<open>hexdb\<close> to the
  next one. The calls \<open>SEMANTICS(...)\<close>, \<open>ATTRIBUTES(...)\<close> and \<open>MACROATTRIB(...)\<close> come
  from a generated text file whose logical lines are passed to Python's \<open>eval\<close>; that evaluation
  is the parameter \<open>ev\<close> of \<open>read_semantics_file_obj\<close>. The order in which Python joins the
  macros' patterns (it goes through a \<open>set\<close>) is a parameter too, and proved not to matter.
\<close>

section \<open>State\<close>

record macro =
  mname :: string
  mbeh :: string
  mattribs :: "string set"

record attrib_info =
  rreg :: string
  wreg :: string
  descr :: string

record hexdb =
  behdict :: "string \<rightharpoonup> string"
  semdict :: "string \<rightharpoonup> string"
  attribdict :: "string \<rightharpoonup> string set"
  macros :: "(string \<times> macro) list"
  attribinfo :: "string \<rightharpoonup> attrib_info"
  tags :: "string list"
  finished_macros :: "string set"

definition empty_db :: hexdb where
  "empty_db = \<lparr>behdict = Map.empty, semdict = Map.empty, attribdict = Map.empty, macros = [],
     attribinfo = Map.empty, tags = [], finished_macros = {}\<rparr>"

definition uniquify :: "'a list \<Rightarrow> 'a list" where
  "uniquify xs = first_occs [] xs"

section \<open>Operand patterns\<close>

definition digit_rx :: rx where
  "digit_rx = Cls ''0123456789''"

definition regre :: rx where
  "regre =
     Seq (Grp 1 (Seq (NotBehind ''DUP'') (Cls ''MNORCPQXSGVZA'')))
    (Seq (Grp 2 (Plus (Cls ''stuvwxyzdefg'')))
    (Seq (Grp 3 (Seq (Opt (Cls ''.'')) (Opt (Cls ''LlHh''))))
         (Grp 4 (Seq (Plus digit_rx) (Opt (Cls ''S''))))))"

definition immre :: rx where
  "immre =
     Seq (Cls ''#'')
    (Seq (Grp 1 (Cls ''rRsSuUm''))
    (Seq (Grp 2 (Plus digit_rx))
         (Opt (Seq (Cls '':'') (Grp 3 (Plus digit_rx))))))"

type_synonym regop = "string \<times> string \<times> string \<times> string"
type_synonym immop = "string \<times> string \<times> string"

definition regs_in :: "string \<Rightarrow> regop list" where
  "regs_in s = map (\<lambda>(_, gs). (group_of 1 gs, group_of 2 gs, group_of 3 gs, group_of 4 gs))
     (finditer regre False [] s)"

definition imms_in :: "string \<Rightarrow> immop list" where
  "imms_in s = map (\<lambda>(_, gs). (group_of 1 gs, group_of 2 gs, group_of 3 gs))
     (finditer immre False [] s)"

definition compute_tag_regs :: "hexdb \<Rightarrow> string \<Rightarrow> regop list res" where
  "compute_tag_regs db tag = bindR (getitem (behdict db) tag) (\<lambda>b. Inr (uniquify (regs_in b)))"

definition compute_tag_immediates :: "hexdb \<Rightarrow> string \<Rightarrow> immop list res" where
  "compute_tag_immediates db tag = bindR (getitem (behdict db) tag) (\<lambda>b. Inr (uniquify (imms_in b)))"

definition get_tagregs :: "hexdb \<Rightarrow> (string \<rightharpoonup> regop list) res" where
  "get_tagregs db = bindR (mapR (compute_tag_regs db) (tags db)) (\<lambda>rs. Inr (map_of (rev (zip (tags db) rs))))"

definition get_tagimms :: "hexdb \<Rightarrow> (string \<rightharpoonup> immop list) res" where
  "get_tagimms db =
     bindR (mapR (compute_tag_immediates db) (tags db)) (\<lambda>rs. Inr (map_of (rev (zip (tags db) rs))))"

section \<open>Filling the tables\<close>

definition SEMANTICS :: "string \<Rightarrow> string \<Rightarrow> string \<Rightarrow> hexdb \<Rightarrow> hexdb" where
  "SEMANTICS tag b s db =
     db\<lparr>behdict := (behdict db)(tag \<mapsto> b), semdict := (semdict db)(tag \<mapsto> s),
        attribdict := (attribdict db)(tag \<mapsto> {}), tags := tags db @ [tag]\<rparr>"

definition add_attrib :: "string \<Rightarrow> string \<Rightarrow> hexdb \<Rightarrow> hexdb res" where
  "add_attrib tag a db =
     bindR (getitem (attribdict db) tag) (\<lambda>as. Inr (db\<lparr>attribdict := (attribdict db)(tag \<mapsto> insert a as)\<rparr>))"

definition ATTRIBUTES :: "string \<Rightarrow> string \<Rightarrow> hexdb \<Rightarrow> hexdb res" where
  "ATTRIBUTES tag attribstring db =
     (let s = str_replace (str_replace (str_replace attribstring ''ATTRIBS'' []) ''('' []) '')'' []
      in if s = [] then Inr db
         else foldR (\<lambda>a. add_attrib tag (str_strip a)) (str_split (CHR '','') s) db)"

definition Macro_init :: "string \<Rightarrow> string \<Rightarrow> string list \<Rightarrow> macro" where
  "Macro_init name b as = \<lparr>mname = name, mbeh = b, mattribs = set as\<rparr>"

definition MACROATTRIB :: "string \<Rightarrow> string \<Rightarrow> string \<Rightarrow> hexdb \<Rightarrow> hexdb" where
  "MACROATTRIB macname b attribstring db =
     (let s = str_replace (str_replace attribstring ''('' []) '')'' [];
          as = (if s \<noteq> [] then str_split (CHR '','') s else [])
      in db\<lparr>macros := dict_set macname (Macro_init macname b as) (macros db)\<rparr>)"

section \<open>Attributes inherited from macros\<close>

text \<open>\<open>\\bNAME\\b\<close>, and the alternation of all the macros' patterns in some order.\<close>

definition macro_re :: "string \<Rightarrow> rx" where
  "macro_re name = Seq WordB (Seq (Lit name) WordB)"

definition allmacros_re :: "string list \<Rightarrow> rx" where
  "allmacros_re names = alts (map macro_re names)"

definition or_attribs :: "string \<Rightarrow> string set \<Rightarrow> hexdb \<Rightarrow> hexdb" where
  "or_attribs key as db =
     db\<lparr>macros := map (\<lambda>(k, m). (k, if k = key then m\<lparr>mattribs := mattribs m \<union> as\<rparr> else m)) (macros db)\<rparr>"

definition macro_attribs :: "hexdb \<Rightarrow> string \<Rightarrow> string set res" where
  "macro_attribs db key = bindR (getitem (map_of (macros db)) key) (\<lambda>m. Inr (mattribs m))"

text \<open>The recursion is bounded by Python's recursion limit, the first argument.\<close>

fun expand_macro_attribs :: "nat \<Rightarrow> rx \<Rightarrow> string \<Rightarrow> hexdb \<Rightarrow> (hexdb \<times> string set) res" where
  "expand_macro_attribs 0 allmac_re key db = Inl RecursionError"
| "expand_macro_attribs (Suc n) allmac_re key db =
     bindR (getitem (map_of (macros db)) key) (\<lambda>m.
     bindR
       (if key \<in> finished_macros db then Inr db
        else foldR (\<lambda>submacro db.
               if submacro = [] then Inr db
               else bindR (getitem (map_of (macros db)) submacro) (\<lambda>_.
                    bindR (expand_macro_attribs n allmac_re submacro db) (\<lambda>(db', as).
                    Inr ((or_attribs key as db')\<lparr>finished_macros := insert key (finished_macros db')\<rparr>))))
             (findall allmac_re (mbeh m)) db)
       (\<lambda>db'. bindR (macro_attribs db' key) (\<lambda>as. Inr (db', as))))"

definition calculate_attribs :: "nat \<Rightarrow> string list \<Rightarrow> hexdb \<Rightarrow> hexdb res" where
  "calculate_attribs limit names db =
     (let r = allmacros_re names in
      bindR (foldR (\<lambda>key db. bindR (expand_macro_attribs limit r key db) (\<lambda>(db', _). Inr db'))
               (map fst (macros db)) db) (\<lambda>db1.
      foldR (\<lambda>tag db. bindR (getitem (semdict db) tag) (\<lambda>sem.
          foldR (\<lambda>macname db.
              if macname = [] then Inr db
              else bindR (macro_attribs db macname) (\<lambda>as.
                   bindR (getitem (attribdict db) tag) (\<lambda>old.
                   Inr (db\<lparr>attribdict := (attribdict db)(tag \<mapsto> old \<union> as)\<rparr>))))
            (findall r sem) db))
        (tags db1) db1))"

section \<open>Operand predicates\<close>

definition is_pair :: "string \<Rightarrow> bool" where
  "is_pair regid \<longleftrightarrow> length regid = 2"

definition is_single :: "string \<Rightarrow> bool" where
  "is_single regid \<longleftrightarrow> length regid = 1"

text \<open>\<open>regid[0] in letters\<close>\<close>

fun first_in :: "string \<Rightarrow> string \<Rightarrow> bool res" where
  "first_in [] letters = Inl IndexError"
| "first_in (c # _) letters = Inr (c \<in> set letters)"

definition is_written :: "string \<Rightarrow> bool res" where
  "is_written regid = first_in regid ''dexy''"

definition is_writeonly :: "string \<Rightarrow> bool res" where
  "is_writeonly regid = first_in regid ''de''"

definition is_read :: "string \<Rightarrow> bool res" where
  "is_read regid = first_in regid ''stuvwxy''"

definition is_readwrite :: "string \<Rightarrow> bool res" where
  "is_readwrite regid = first_in regid ''xy''"

definition is_scalar_reg :: "string \<Rightarrow> bool" where
  "is_scalar_reg regtype \<longleftrightarrow> str_in regtype ''RPC''"

definition is_hvx_reg :: "string \<Rightarrow> bool" where
  "is_hvx_reg regtype \<longleftrightarrow> str_in regtype ''VQ''"

definition is_old_val :: "hexdb \<Rightarrow> string \<Rightarrow> string \<Rightarrow> string \<Rightarrow> bool res" where
  "is_old_val db regtype regid tag =
     bindR (getitem (semdict db) tag) (\<lambda>s. Inr (str_in (regtype @ regid @ ''V'') s))"

definition is_new_val :: "hexdb \<Rightarrow> string \<Rightarrow> string \<Rightarrow> string \<Rightarrow> bool res" where
  "is_new_val db regtype regid tag =
     bindR (getitem (semdict db) tag) (\<lambda>s. Inr (str_in (regtype @ regid @ ''N'') s))"

definition need_slot :: "hexdb \<Rightarrow> string \<Rightarrow> nat res" where
  "need_slot db tag = bindR (getitem (attribdict db) tag) (\<lambda>as.
     Inr (if ''A_CONDEXEC'' \<in> as \<or> ''A_STORE'' \<in> as \<or> ''A_CVI'' \<in> as then 1 else 0))"

definition need_part1 :: "hexdb \<Rightarrow> string \<Rightarrow> bool res" where
  "need_part1 db tag = bindR (getitem (semdict db) tag) (\<lambda>s. Inr (rx_search (Lit ''fPART1'') s))"

definition need_ea :: "hexdb \<Rightarrow> string \<Rightarrow> bool res" where
  "need_ea db tag = bindR (getitem (semdict db) tag) (\<lambda>s. Inr (rx_search (macro_re ''EA'') s))"

definition imm_name :: "string \<Rightarrow> string" where
  "imm_name immlett = immlett @ ''iV''"

section \<open>Reading the generated files\<close>

text \<open>
  The files as lists of lines that keep their newline. The \<open>rstrip\<close> on a continued line has no
  effect in the source (its result is dropped), so the continuation stays in the text.
\<close>

fun read_semantics_lines :: "(string \<Rightarrow> hexdb \<Rightarrow> hexdb res) \<Rightarrow> string \<Rightarrow> string list \<Rightarrow> hexdb \<Rightarrow> hexdb res" where
  "read_semantics_lines ev eval_line [] db = Inr db"
| "read_semantics_lines ev eval_line (line # ls) db =
     (if starts_with line ''#'' then read_semantics_lines ev eval_line ls db
      else if ends_with line [CHR 0x5c, CHR 0x0a]
      then read_semantics_lines ev (eval_line @ line) ls db
      else bindR (ev (str_strip (eval_line @ line)) db) (read_semantics_lines ev [] ls))"

definition read_semantics_file_obj :: "(string \<Rightarrow> hexdb \<Rightarrow> hexdb res) \<Rightarrow> string list \<Rightarrow> hexdb \<Rightarrow> hexdb res" where
  "read_semantics_file_obj ev ls db = read_semantics_lines ev [] ls db"

definition ident_chars :: string where
  "ident_chars = ''ABCDEFGHIJKLMNOPQRSTUVWXYZabcdefghijklmnopqrstuvwxyz0123456789_''"

definition attribre :: rx where
  "attribre =
     Seq (Lit ''DEF_ATTRIB('') (Seq (Grp 1 (Plus (Cls ident_chars)))
    (Seq (Lit '', '') (Seq (Grp 2 (Star (NCls '','')))
    (Seq (Lit '', \"'') (Seq (Grp 3 (Star (Cls (ident_chars @ ''.''))))
    (Seq (Lit ''\", \"'') (Seq (Grp 4 (Star (Cls (ident_chars @ ''.''))))
         (Lit ''\")''))))))))"

fun read_attribs_line :: "string \<Rightarrow> hexdb \<Rightarrow> hexdb res" where
  "read_attribs_line line db =
     (if \<not> rx_matches attribre line then Inr db
      else case finditer attribre False [] line of
        [] \<Rightarrow> Inl IndexError
      | (_, gs) # _ \<Rightarrow> Inr (db\<lparr>attribinfo := (attribinfo db)(''A_'' @ group_of 1 gs \<mapsto>
          \<lparr>rreg = group_of 3 gs, wreg = group_of 4 gs, descr = group_of 2 gs\<rparr>)\<rparr>))"

definition read_attribs_file_obj :: "string list \<Rightarrow> hexdb \<Rightarrow> hexdb res" where
  "read_attribs_file_obj ls db = foldR read_attribs_line ls db"

end
