(* ===== verification/Insn_Text.thy ===== *)
theory Insn_Text
  imports Hex_Common
begin

text \<open>
  \<^verbatim>\<open>plugin/gen_insn_text_funcs.py\<close>: one C++ function per tag that prints the instruction. The
  Earley parser is Lark's and a parameter; its parse trees are the datatypes below, one constructor
  per rule or alias of \<open>insn_grammar\<close>. A node whose callback reads the matched text keeps
  the positions Lark gives it (\<open>meta.start_pos\<close>, \<open>meta.end_pos\<close>). Optional parts
  in brackets are options. The callbacks of \<open>InsnTreeTransformer\<close> have their source names, and
  \<open>t_operand\<close> to \<open>t_exp\<close> are the bottom-up traversal, left to right, with the
  transformer's two mutable flags passed along.
\<close>

section \<open>Parse trees\<close>

type_synonym span = "nat \<times> nat"

datatype reg_node = Reg char string "char option" string

datatype any_reg =
    PlainReg reg_node
  | RegDotNew reg_node span
  | PredDotNew string span
  | RegDotCur reg_node span
  | RegSubreg reg_node span
  | PredReg string
  | GpReg span
  | SysReg span
  | RegBrev reg_node
  | RegStar reg_node

datatype imm_node = Imm char string "string option"

datatype circ_imm = CircImm imm_node | CircI span

datatype operand =
    Const string
  | ImmOp imm_node
  | RegOp any_reg
  | NotReg span reg_node
  | CircAddr circ_imm reg_node

datatype insn_call =
    InsnOnly span
  | Call1NoParen span operand
  | Call1 span operand
  | Call2 span operand operand
  | Call2Rator span operand span operand
  | Call3 span operand operand operand
  | CallRator2 span operand span operand
  | CallRator3 span operand span operand span operand
  | CallNested1 span insn_call
  | CallNested2 span operand insn_call
  | CallNested3 span insn_call operand

text \<open>
  \<open>shift_hint\<close>, \<open>rnd_hint\<close>, \<open>sat_hint\<close> and the other hints without parts are
  \<open>TextHint\<close>: they share one callback.
\<close>

datatype hint = TextHint span | RawHint "span option"

datatype res_hints = OneHint hint | ResHint hint "res_hints option"

datatype cond = CondOp operand | Cond2 operand span operand | CondCall insn_call

datatype insn_exp =
    CallExp "span option" insn_call "res_hints option"
  | IfExp "span option" cond insn_exp
  | AssignToOp operand "reg_node option" "span option" "span option" rhs
  | AssignComma operand "span option" "span option" rhs insn_exp
  | AssignToExp insn_exp "span option" "span option" "span option" rhs "span option"
and rhs = RhsOp operand | RhsExp insn_exp

section \<open>Tokens and the transformer's state\<close>

datatype text_token =
    TextToken string
  | InstructionToken string
  | RegisterToken string
  | GPRegisterToken string
  | CodeRelativeAddressToken string string
  | IntegerToken string string

record insn_ctx =
  t_tag :: string
  t_beh :: string
  t_attribs :: "string \<rightharpoonup> string set"
  extendable_upper_imm :: bool
  extendable_lower_imm :: bool
  num_imms :: nat
  seenregs :: "string \<rightharpoonup> nat"

record imm_state =
  seen_cmpjump_imm :: bool
  seen_loop_imm :: bool

type_synonym tokens = "text_token list"
type_synonym 'a tr = "imm_state \<Rightarrow> ('a \<times> imm_state) res"

definition retT :: "'a \<Rightarrow> 'a tr" where
  "retT x st = Inr (x, st)"

definition bindT :: "'a tr \<Rightarrow> ('a \<Rightarrow> 'b tr) \<Rightarrow> 'b tr" where
  "bindT m f st = bindR (m st) (\<lambda>(x, st'). f x st')"

definition letter_rx :: rx where
  "letter_rx = Cls ''ABCDEFGHIJKLMNOPQRSTUVWXYZabcdefghijklmnopqrstuvwxyz''"

definition immext_casere :: rx where
  "immext_casere = Seq (Lit ''IMMEXT('') (Grp 1 letter_rx)"

definition upper_letter :: "char \<Rightarrow> bool" where
  "upper_letter c \<longleftrightarrow> 65 \<le> (of_char c :: nat) \<and> (of_char c :: nat) \<le> 90"

definition lower_letter :: "char \<Rightarrow> bool" where
  "lower_letter c \<longleftrightarrow> 97 \<le> (of_char c :: nat) \<and> (of_char c :: nat) \<le> 122"

definition InsnTreeTransformer_init :: "hexdb \<Rightarrow> string \<Rightarrow> regop list \<Rightarrow> immop list \<Rightarrow> insn_ctx res" where
  "InsnTreeTransformer_init db tag rs imms =
     bindR (getitem (behdict db) tag) (\<lambda>b.
     bindR (getitem (semdict db) tag) (\<lambda>sem.
       let m = (case finditer immext_casere False [] sem of [] \<Rightarrow> None | (_, gs) # _ \<Rightarrow> Some (group_of 1 gs));
           up = (case m of Some (c # _) \<Rightarrow> upper_letter c | _ \<Rightarrow> False)
       in Inr \<lparr>t_tag = tag, t_beh = b, t_attribs = attribdict db,
            extendable_upper_imm = up, extendable_lower_imm = (m \<noteq> None \<and> \<not> up), num_imms = length imms,
            seenregs = fold (\<lambda>(ri, (_, b, _, _)) m. m(b \<mapsto> ri)) (enumerate 0 rs) Map.empty\<rparr>))"

definition initial_imm_state :: imm_state where
  "initial_imm_state = \<lparr>seen_cmpjump_imm = False, seen_loop_imm = False\<rparr>"

section \<open>Callbacks for terminals\<close>

definition dq :: "string \<Rightarrow> string" where
  "dq s = ''\"'' @ s @ ''\"''"

definition span_text :: "insn_ctx \<Rightarrow> span \<Rightarrow> string" where
  "span_text C s = take (snd s - fst s) (drop (fst s) (t_beh C))"

definition wrap_full_match :: "insn_ctx \<Rightarrow> (string \<Rightarrow> text_token) \<Rightarrow> span \<Rightarrow> tokens" where
  "wrap_full_match C typ meta = [typ (dq (span_text C meta))]"

definition wrap_instruction_terminal :: "insn_ctx \<Rightarrow> span \<Rightarrow> tokens" where
  "wrap_instruction_terminal C meta = wrap_full_match C InstructionToken meta"

definition wrap_reg_terminal :: "insn_ctx \<Rightarrow> span \<Rightarrow> tokens" where
  "wrap_reg_terminal C meta = wrap_full_match C RegisterToken meta"

definition wrap_text_terminal :: "insn_ctx \<Rightarrow> span \<Rightarrow> tokens" where
  "wrap_text_terminal C meta = wrap_full_match C TextToken meta"

definition upper_char :: "char \<Rightarrow> char" where
  "upper_char c = (if lower_letter c then char_of (of_char c - 32 :: nat) else c)"

definition gp_reg :: "insn_ctx \<Rightarrow> span \<Rightarrow> tokens" where
  "gp_reg C meta = [GPRegisterToken (dq (map upper_char (span_text C meta)))]"

definition sys_name :: "string \<Rightarrow> string" where
  "sys_name w = (let word = map upper_char w; word = (if word = ''R29'' then ''SP'' else word)
     in if word = ''R31'' then ''LR'' else word)"

definition sys_reg :: "insn_ctx \<Rightarrow> span \<Rightarrow> tokens" where
  "sys_reg C meta = [RegisterToken (dq (sys_name (span_text C meta)))]"

definition pred_reg :: "string \<Rightarrow> tokens" where
  "pred_reg digit = [RegisterToken (dq (''P'' @ digit))]"

definition const_num :: "string \<Rightarrow> tokens" where
  "const_num num = [TextToken (dq ''#''), IntegerToken (''StrCat(\"0x\", Hex('' @ num @ ''))'') num]"

section \<open>Callbacks for registers and immediates\<close>

definition register_name :: "char \<Rightarrow> char option \<Rightarrow> nat \<Rightarrow> string \<Rightarrow> string" where
  "register_name a c regno inc =
     ''GetRegisterName(\"'' @ [a] @ ''\", \"'' @ (case c of None \<Rightarrow> [] | Some x \<Rightarrow> [x])
       @ ''\", insn.regno['' @ show_nat regno @ '']'' @ inc @ '')''"

definition reg_tokens :: "insn_ctx \<Rightarrow> reg_node \<Rightarrow> tokens res" where
  "reg_tokens C r =
     (case r of Reg a b c d \<Rightarrow>
      bindR (getitem (seenregs C) b) (\<lambda>regno.
        if length b = 1 then Inr [RegisterToken (register_name a c regno [])]
        else if length b = 2
        then assertR (c = None)
               (Inr [RegisterToken (register_name a c regno ''+1''), TextToken (dq '':''),
                     RegisterToken (register_name a c regno [])])
        else Inl AssertionError))"

definition is_jump :: "string set \<Rightarrow> bool" where
  "is_jump attrs \<longleftrightarrow> ''A_JUMP'' \<in> attrs"

definition is_call :: "string set \<Rightarrow> bool" where
  "is_call attrs \<longleftrightarrow> ''A_CALL'' \<in> attrs"

definition is_compound_comapre_jump :: "string set \<Rightarrow> bool" where
  "is_compound_comapre_jump attrs \<longleftrightarrow> ''A_NEWCMPJUMP'' \<in> attrs"

definition is_new_value_jump :: "string set \<Rightarrow> bool" where
  "is_new_value_jump attrs \<longleftrightarrow>
     ''A_JUMP'' \<in> attrs \<and> ''A_DOTNEWVALUE'' \<in> attrs \<and> ''A_MEMLIKE_PACKET_RULES'' \<in> attrs"

definition is_write_to_loop_start :: "string set \<Rightarrow> bool" where
  "is_write_to_loop_start attrs \<longleftrightarrow> ''A_IMPLICIT_WRITES_SA0'' \<in> attrs \<or> ''A_IMPLICIT_WRITES_SA1'' \<in> attrs"

text \<open>The first half of \<open>imm\<close>: whether the immediate is printed as an address, and the flags after it.\<close>

definition place_addr_token :: "insn_ctx \<Rightarrow> bool tr" where
  "place_addr_token C st =
     bindR (getitem (t_attribs C) (t_tag C)) (\<lambda>attrs.
     bindR (if is_jump attrs \<or> is_call attrs
            then if num_imms C > 1
                 then assertR (num_imms C = 2)
                        (assertR (t_tag C = ''J4_jumpseti'' \<or> is_compound_comapre_jump attrs \<or> is_new_value_jump attrs)
                           (Inr (seen_cmpjump_imm st, st\<lparr>seen_cmpjump_imm := True\<rparr>)))
                 else Inr (True, st)
            else Inr (False, st))
       (\<lambda>(place, st1).
          if is_write_to_loop_start attrs
          then Inr (\<not> seen_loop_imm st1, st1\<lparr>seen_loop_imm := True\<rparr>)
          else Inr (place, st1)))"

definition imm_tokens :: "insn_ctx \<Rightarrow> imm_node \<Rightarrow> tokens tr" where
  "imm_tokens C i =
     (case i of Imm immlett bits immshift \<Rightarrow>
      let ii = show_nat (if upper_letter immlett then 1 else 0) in
      bindT (place_addr_token C) (\<lambda>place.
        retT (if place
              then [CodeRelativeAddressToken (''StrCat(\"0x\", Hex(pc + insn.immed['' @ ii @ '']))'')
                      (''pc + insn.immed['' @ ii @ '']'')]
              else [TextToken (if upper_letter immlett \<and> extendable_upper_imm C \<or> lower_letter immlett \<and> extendable_lower_imm C
                               then ''(insn.extension_valid ? \"##\" : \"#\")'' else dq ''#''),
                    IntegerToken (''StrCat(\"0x\", Hex(insn.immed['' @ ii @ '']))'') (''insn.immed['' @ ii @ '']'')])))"

definition circ_addr :: "tokens \<Rightarrow> tokens \<Rightarrow> tokens" where
  "circ_addr imm reg = imm @ [TextToken (dq '':circ('')] @ reg @ [TextToken (dq '')'')]"

definition reg_dot :: "tokens \<Rightarrow> tokens \<Rightarrow> tokens" where
  "reg_dot reg dot = reg @ dot"

definition reg_brev :: "tokens \<Rightarrow> tokens" where
  "reg_brev reg = reg @ [TextToken (dq '':brev'')]"

definition reg_star :: "tokens \<Rightarrow> tokens" where
  "reg_star reg = reg @ [TextToken (dq ''*'')]"

definition not_reg :: "tokens \<Rightarrow> tokens \<Rightarrow> tokens" where
  "not_reg not_sign reg = not_sign @ reg"

section \<open>Callbacks for calls\<close>

definition call1_no_paren :: "tokens \<Rightarrow> tokens \<Rightarrow> tokens" where
  "call1_no_paren insn op1 = insn @ [TextToken (dq '' '')] @ op1"

definition call1 :: "tokens \<Rightarrow> tokens \<Rightarrow> tokens" where
  "call1 insn op1 = insn @ [TextToken (dq ''('')] @ op1 @ [TextToken (dq '')'')]"

definition call2 :: "tokens \<Rightarrow> tokens \<Rightarrow> tokens \<Rightarrow> tokens" where
  "call2 insn op1 op2 = insn @ [TextToken (dq ''('')] @ op1 @ [TextToken (dq '','')] @ op2 @ [TextToken (dq '')'')]"

definition call2_rator :: "tokens \<Rightarrow> tokens \<Rightarrow> tokens \<Rightarrow> tokens \<Rightarrow> tokens" where
  "call2_rator insn op1 rator op2 =
     insn @ [TextToken (dq ''('')] @ op1 @ [TextToken (dq '','')] @ rator @ op2 @ [TextToken (dq '')'')]"

definition call3 :: "tokens \<Rightarrow> tokens \<Rightarrow> tokens \<Rightarrow> tokens \<Rightarrow> tokens" where
  "call3 insn op1 op2 op3 =
     insn @ [TextToken (dq ''('')] @ op1 @ [TextToken (dq '','')] @ op2 @ [TextToken (dq '','')] @ op3 @ [TextToken (dq '')'')]"

definition call_rator2 :: "tokens \<Rightarrow> tokens \<Rightarrow> tokens \<Rightarrow> tokens \<Rightarrow> tokens" where
  "call_rator2 insn op1 rator op2 = insn @ [TextToken (dq ''('')] @ op1 @ rator @ op2 @ [TextToken (dq '')'')]"

definition call_rator3 :: "tokens \<Rightarrow> tokens \<Rightarrow> tokens \<Rightarrow> tokens \<Rightarrow> tokens \<Rightarrow> tokens \<Rightarrow> tokens" where
  "call_rator3 insn op1 rator1 op2 rator2 op3 =
     insn @ [TextToken (dq ''('')] @ op1 @ rator1 @ op2 @ rator2 @ op3 @ [TextToken (dq '')'')]"

definition call_nested1 :: "tokens \<Rightarrow> tokens \<Rightarrow> tokens" where
  "call_nested1 insn call = insn @ [TextToken (dq ''('')] @ call @ [TextToken (dq '')'')]"

definition call_nested2 :: "tokens \<Rightarrow> tokens \<Rightarrow> tokens \<Rightarrow> tokens" where
  "call_nested2 insn op1 call = insn @ [TextToken (dq ''('')] @ op1 @ [TextToken (dq '','')] @ call @ [TextToken (dq '')'')]"

definition call_nested3 :: "tokens \<Rightarrow> tokens \<Rightarrow> tokens \<Rightarrow> tokens" where
  "call_nested3 insn call op1 = insn @ [TextToken (dq ''('')] @ call @ [TextToken (dq '','')] @ op1 @ [TextToken (dq '')'')]"

section \<open>Callbacks for expressions\<close>

text \<open>\<open>x if x else []\<close> of an optional part.\<close>

definition opt :: "tokens option \<Rightarrow> tokens" where
  "opt x = (case x of None \<Rightarrow> [] | Some ts \<Rightarrow> ts)"

definition raw_hint :: "tokens option \<Rightarrow> tokens" where
  "raw_hint opt_hilo = [TextToken (dq '':raw'')] @ opt opt_hilo"

definition res_hint :: "tokens \<Rightarrow> tokens option \<Rightarrow> tokens" where
  "res_hint hint opt_more = hint @ opt opt_more"

definition call_exp :: "tokens option \<Rightarrow> tokens \<Rightarrow> tokens option \<Rightarrow> tokens" where
  "call_exp opt_not call opt_res_hint = opt opt_not @ call @ opt opt_res_hint"

definition if_exp :: "tokens option \<Rightarrow> tokens \<Rightarrow> tokens \<Rightarrow> tokens" where
  "if_exp opt_not cond exp = [TextToken (dq ''if ('')] @ opt opt_not @ cond @ [TextToken (dq '') '')] @ exp"

definition cond2 :: "tokens \<Rightarrow> tokens \<Rightarrow> tokens \<Rightarrow> tokens" where
  "cond2 op1 cmp_sign op2 = op1 @ cmp_sign @ op2"

definition assign_to_op :: "tokens \<Rightarrow> tokens option \<Rightarrow> tokens option \<Rightarrow> tokens option \<Rightarrow> tokens \<Rightarrow> tokens" where
  "assign_to_op op1 opt_reg opt_rator1 opt_rator2 op2_or_exp =
     op1 @ (case opt_reg of None \<Rightarrow> [] | Some r \<Rightarrow> if r = [] then [] else [TextToken (dq '','')] @ r)
       @ opt opt_rator1 @ [TextToken (dq '' = '')] @ opt opt_rator2 @ op2_or_exp"

definition assign_comma :: "tokens \<Rightarrow> tokens option \<Rightarrow> tokens option \<Rightarrow> tokens \<Rightarrow> tokens \<Rightarrow> tokens" where
  "assign_comma op1 opt_rator1 opt_rator2 op2_or_exp exp =
     op1 @ opt opt_rator1 @ [TextToken (dq '' = '')] @ opt opt_rator2 @ op2_or_exp @ [TextToken (dq '';'')] @ exp"

definition assign_to_exp ::
  "tokens \<Rightarrow> tokens option \<Rightarrow> tokens option \<Rightarrow> tokens option \<Rightarrow> tokens \<Rightarrow> tokens option \<Rightarrow> tokens" where
  "assign_to_exp exp1 opt_subfield1 opt_rator1 opt_rator2 op_or_exp2 opt_subfield2 =
     exp1 @ opt opt_subfield1 @ opt opt_rator1 @ [TextToken (dq '' = '')] @ opt opt_rator2 @ op_or_exp2
       @ opt opt_subfield2"

section \<open>The traversal\<close>

definition liftT :: "'a res \<Rightarrow> 'a tr" where
  "liftT m st = bindR m (\<lambda>x. Inr (x, st))"

abbreviation text_opt :: "insn_ctx \<Rightarrow> span option \<Rightarrow> tokens option" where
  "text_opt C s \<equiv> map_option (wrap_text_terminal C) s"

primrec t_any_reg :: "insn_ctx \<Rightarrow> any_reg \<Rightarrow> tokens res" where
  "t_any_reg C (PlainReg r) = reg_tokens C r"
| "t_any_reg C (RegDotNew r s) = bindR (reg_tokens C r) (\<lambda>x. Inr (reg_dot x (wrap_reg_terminal C s)))"
| "t_any_reg C (PredDotNew digit s) = Inr (reg_dot (pred_reg digit) (wrap_reg_terminal C s))"
| "t_any_reg C (RegDotCur r s) = bindR (reg_tokens C r) (\<lambda>x. Inr (reg_dot x (wrap_reg_terminal C s)))"
| "t_any_reg C (RegSubreg r s) = bindR (reg_tokens C r) (\<lambda>x. Inr (reg_dot x (wrap_reg_terminal C s)))"
| "t_any_reg C (PredReg digit) = Inr (pred_reg digit)"
| "t_any_reg C (GpReg s) = Inr (gp_reg C s)"
| "t_any_reg C (SysReg s) = Inr (sys_reg C s)"
| "t_any_reg C (RegBrev r) = bindR (reg_tokens C r) (\<lambda>x. Inr (reg_brev x))"
| "t_any_reg C (RegStar r) = bindR (reg_tokens C r) (\<lambda>x. Inr (reg_star x))"

primrec t_circ_imm :: "insn_ctx \<Rightarrow> circ_imm \<Rightarrow> tokens tr" where
  "t_circ_imm C (CircImm i) = imm_tokens C i"
| "t_circ_imm C (CircI s) = retT (wrap_text_terminal C s)"

primrec t_operand :: "insn_ctx \<Rightarrow> operand \<Rightarrow> tokens tr" where
  "t_operand C (Const num) = retT (const_num num)"
| "t_operand C (ImmOp i) = imm_tokens C i"
| "t_operand C (RegOp r) = liftT (t_any_reg C r)"
| "t_operand C (NotReg s r) = bindT (liftT (reg_tokens C r)) (\<lambda>x. retT (not_reg (wrap_text_terminal C s) x))"
| "t_operand C (CircAddr i r) =
     bindT (t_circ_imm C i) (\<lambda>x. bindT (liftT (reg_tokens C r)) (\<lambda>y. retT (circ_addr x y)))"

primrec t_call :: "insn_ctx \<Rightarrow> insn_call \<Rightarrow> tokens tr" where
  "t_call C (InsnOnly i) = retT (wrap_instruction_terminal C i)"
| "t_call C (Call1NoParen i p) = bindT (t_operand C p) (\<lambda>x. retT (call1_no_paren (wrap_instruction_terminal C i) x))"
| "t_call C (Call1 i p) = bindT (t_operand C p) (\<lambda>x. retT (call1 (wrap_instruction_terminal C i) x))"
| "t_call C (Call2 i p q) =
     bindT (t_operand C p) (\<lambda>x. bindT (t_operand C q) (\<lambda>y. retT (call2 (wrap_instruction_terminal C i) x y)))"
| "t_call C (Call2Rator i p r q) =
     bindT (t_operand C p) (\<lambda>x. bindT (t_operand C q) (\<lambda>y.
       retT (call2_rator (wrap_instruction_terminal C i) x (wrap_text_terminal C r) y)))"
| "t_call C (Call3 i p q u) =
     bindT (t_operand C p) (\<lambda>x. bindT (t_operand C q) (\<lambda>y. bindT (t_operand C u) (\<lambda>z.
       retT (call3 (wrap_instruction_terminal C i) x y z))))"
| "t_call C (CallRator2 i p r q) =
     bindT (t_operand C p) (\<lambda>x. bindT (t_operand C q) (\<lambda>y.
       retT (call_rator2 (wrap_instruction_terminal C i) x (wrap_text_terminal C r) y)))"
| "t_call C (CallRator3 i p r q r' u) =
     bindT (t_operand C p) (\<lambda>x. bindT (t_operand C q) (\<lambda>y. bindT (t_operand C u) (\<lambda>z.
       retT (call_rator3 (wrap_instruction_terminal C i) x (wrap_text_terminal C r) y (wrap_text_terminal C r') z))))"
| "t_call C (CallNested1 i c) = bindT (t_call C c) (\<lambda>x. retT (call_nested1 (wrap_instruction_terminal C i) x))"
| "t_call C (CallNested2 i p c) =
     bindT (t_operand C p) (\<lambda>x. bindT (t_call C c) (\<lambda>y. retT (call_nested2 (wrap_instruction_terminal C i) x y)))"
| "t_call C (CallNested3 i c p) =
     bindT (t_call C c) (\<lambda>x. bindT (t_operand C p) (\<lambda>y. retT (call_nested3 (wrap_instruction_terminal C i) x y)))"

primrec t_hint :: "insn_ctx \<Rightarrow> hint \<Rightarrow> tokens" where
  "t_hint C (TextHint s) = wrap_text_terminal C s"
| "t_hint C (RawHint s) = raw_hint (text_opt C s)"

fun t_hints :: "insn_ctx \<Rightarrow> res_hints \<Rightarrow> tokens" where
  "t_hints C (OneHint h) = t_hint C h"
| "t_hints C (ResHint h None) = res_hint (t_hint C h) None"
| "t_hints C (ResHint h (Some r)) = res_hint (t_hint C h) (Some (t_hints C r))"

primrec t_cond :: "insn_ctx \<Rightarrow> cond \<Rightarrow> tokens tr" where
  "t_cond C (CondOp p) = t_operand C p"
| "t_cond C (Cond2 p s q) =
     bindT (t_operand C p) (\<lambda>x. bindT (t_operand C q) (\<lambda>y. retT (cond2 x (wrap_text_terminal C s) y)))"
| "t_cond C (CondCall c) = t_call C c"

definition t_opt_reg :: "insn_ctx \<Rightarrow> reg_node option \<Rightarrow> tokens option res" where
  "t_opt_reg C r = (case r of None \<Rightarrow> Inr None | Some x \<Rightarrow> bindR (reg_tokens C x) (\<lambda>y. Inr (Some y)))"

primrec t_exp :: "insn_ctx \<Rightarrow> insn_exp \<Rightarrow> tokens tr" and t_rhs :: "insn_ctx \<Rightarrow> rhs \<Rightarrow> tokens tr" where
  "t_exp C (CallExp n c h) =
     bindT (t_call C c) (\<lambda>x. retT (call_exp (text_opt C n) x (map_option (t_hints C) h)))"
| "t_exp C (IfExp n c e) =
     bindT (t_cond C c) (\<lambda>x. bindT (t_exp C e) (\<lambda>y. retT (if_exp (text_opt C n) x y)))"
| "t_exp C (AssignToOp p r r1 r2 q) =
     bindT (t_operand C p) (\<lambda>x. bindT (liftT (t_opt_reg C r)) (\<lambda>y. bindT (t_rhs C q) (\<lambda>z.
       retT (assign_to_op x y (text_opt C r1) (text_opt C r2) z))))"
| "t_exp C (AssignComma p r1 r2 q e) =
     bindT (t_operand C p) (\<lambda>x. bindT (t_rhs C q) (\<lambda>y. bindT (t_exp C e) (\<lambda>z.
       retT (assign_comma x (text_opt C r1) (text_opt C r2) y z))))"
| "t_exp C (AssignToExp e s1 r1 r2 q s2) =
     bindT (t_exp C e) (\<lambda>x. bindT (t_rhs C q) (\<lambda>y.
       retT (assign_to_exp x (text_opt C s1) (text_opt C r1) (text_opt C r2) y (text_opt C s2))))"
| "t_rhs C (RhsOp p) = t_operand C p"
| "t_rhs C (RhsExp e) = t_exp C e"

section \<open>Printing\<close>

type_synonym insn_parser = "string \<Rightarrow> insn_exp res"

primrec wrap_call :: "text_token \<Rightarrow> string" where
  "wrap_call (TextToken a) = ''result.emplace_back(TextToken, '' @ a @ '');''"
| "wrap_call (InstructionToken a) = ''result.emplace_back(InstructionToken, '' @ a @ '');''"
| "wrap_call (RegisterToken a) = ''result.emplace_back(RegisterToken, '' @ a @ '');''"
| "wrap_call (GPRegisterToken a) =
     ''if (insn.extension_valid) {'' @ [CHR 0x0A] @
     ''                result.emplace_back(IntegerToken, \"0\", 0);'' @ [CHR 0x0A] @
     ''            } else {'' @ [CHR 0x0A] @
     ''                result.emplace_back(RegisterToken, '' @ a @ '');'' @ [CHR 0x0A] @ ''            }''"
| "wrap_call (CodeRelativeAddressToken a b) =
     ''result.emplace_back(CodeRelativeAddressToken, '' @ a @ '', '' @ b @ '');''"
| "wrap_call (IntegerToken a b) = ''result.emplace_back(IntegerToken, '' @ a @ '', '' @ b @ '');''"

definition process_insn_tokens :: "insn_parser \<Rightarrow> hexdb \<Rightarrow> string \<Rightarrow> regop list \<Rightarrow> immop list \<Rightarrow> tokens res" where
  "process_insn_tokens parse db tag rs imms =
     bindR (getitem (behdict db) tag) (\<lambda>b.
     bindR (parse b) (\<lambda>tree.
     bindR (InsnTreeTransformer_init db tag rs imms) (\<lambda>C.
     bindR (t_exp C tree initial_imm_state) (\<lambda>(ts, _). Inr ts))))"

definition gen_insn_text_func :: "insn_parser \<Rightarrow> hexdb \<Rightarrow> string \<Rightarrow> regop list \<Rightarrow> immop list \<Rightarrow> string res" where
  "gen_insn_text_func parse db tag rs imms =
     bindR (process_insn_tokens parse db tag rs imms) (\<lambda>ts. Inr (str_join [CHR 0x0A] (map wrap_call ts)))"

text \<open>
  The tags are processed in parallel; the results are put in the order of the tags, so only the
  choice among several exceptions depends on the schedule. A tag without behaviour has an empty body.
\<close>

definition process_all_tags ::
  "insn_parser \<Rightarrow> hexdb \<Rightarrow> (string \<rightharpoonup> regop list) \<Rightarrow> (string \<rightharpoonup> immop list) \<Rightarrow> (string \<times> string) list res" where
  "process_all_tags parse db tagregs tagimms =
     mapR (\<lambda>tag.
         bindR (getitem (behdict db) tag) (\<lambda>b.
         if b = [] then Inr (tag, [])
         else bindR (getitem tagregs tag) (\<lambda>rs. bindR (getitem tagimms tag) (\<lambda>imms.
              bindR (gen_insn_text_func parse db tag rs imms) (\<lambda>body. Inr (tag, body))))))
       (uniquify (tags db))"

definition text_header :: string where
  "text_header =
     [CHR 0x0A] @ ''#include <vector>'' @ [CHR 0x0A, CHR 0x0A] @ ''#include \"binaryninjaapi.h\"'' @ [CHR 0x0A] @
     ''#include \"absl/strings/str_cat.h\"'' @ [CHR 0x0A] @ ''#include \"plugin/text_util.h\"'' @ [CHR 0x0A] @
     ''#include \"third_party/qemu-hexagon/attribs.h\"'' @ [CHR 0x0A] @
     ''#include \"third_party/qemu-hexagon/iclass.h\"'' @ [CHR 0x0A] @
     ''#include \"third_party/qemu-hexagon/insn.h\"'' @ [CHR 0x0A] @
     ''#include \"third_party/qemu-hexagon/opcodes.h\"'' @ [CHR 0x0A, CHR 0x0A] @
     ''using namespace BinaryNinja;'' @ [CHR 0x0A] @ ''using absl::Hex;'' @ [CHR 0x0A] @
     ''using absl::StrCat;'' @ [CHR 0x0A, CHR 0x0A]"

definition tokenizer_head :: "string \<Rightarrow> string" where
  "tokenizer_head tag =
     ''void tokenize_'' @ tag @ ''(uint64_t pc,'' @ [CHR 0x0A] @
     ''                             const Packet &pkt,'' @ [CHR 0x0A] @
     ''                             const Insn &insn,'' @ [CHR 0x0A] @
     ''                             std::vector<InstructionTextToken> &result) {'' @ [CHR 0x0A]"

definition tokenizer_text :: "hexdb \<Rightarrow> string \<times> string \<Rightarrow> string res" where
  "tokenizer_text db e =
     bindR (getitem (behdict db) (fst e)) (\<lambda>b.
       Inr (''/*'' @ [CHR 0x0A] @ fst e @ '':  \"'' @ b @ ''\"'' @ [CHR 0x0A] @ ''*/'' @ tokenizer_head (fst e)
         @ snd e @ ''}'' @ [CHR 0x0A, CHR 0x0A]))"

definition text_table_head :: string where
  "text_table_head =
     ''typedef void (*InsnTextFunc)(uint64_t pc,'' @ [CHR 0x0A] @
     ''                            const Packet &pkt,'' @ [CHR 0x0A] @
     ''                            const Insn &insn,'' @ [CHR 0x0A] @
     ''                            std::vector<InstructionTextToken> &result);'' @ [CHR 0x0A, CHR 0x0A] @
     ''extern const InsnTextFunc opcode_textptr[XX_LAST_OPCODE] = {'' @ [CHR 0x0A]"

definition text_table_entry :: "string \<Rightarrow> string" where
  "text_table_entry tag = ''['' @ tag @ ''] = tokenize_'' @ tag @ '','' @ [CHR 0x0A]"

text \<open>The last loop returns from \<open>main\<close> at a tag without behaviour: then no file is written, \<open>None\<close>.\<close>

fun text_table :: "hexdb \<Rightarrow> string list \<Rightarrow> string option res" where
  "text_table db [] = Inr (Some (''};'' @ [CHR 0x0A]))"
| "text_table db (tag # ts) =
     bindR (getitem (behdict db) tag) (\<lambda>b.
     if b = [] then Inr None
     else bindR (text_table db ts) (\<lambda>r. Inr (map_option (\<lambda>s. text_table_entry tag @ s) r)))"

definition text_file :: "insn_parser \<Rightarrow> hexdb \<Rightarrow> string option res" where
  "text_file parse db =
     bindR (get_tagregs db) (\<lambda>tagregs.
     bindR (get_tagimms db) (\<lambda>tagimms.
     bindR (process_all_tags parse db tagregs tagimms) (\<lambda>bodies.
     bindR (mapR (tokenizer_text db) bodies) (\<lambda>fs.
     bindR (text_table db (tags db)) (\<lambda>t.
     Inr (map_option (\<lambda>t. text_header @ concat fs @ text_table_head @ t) t))))))"

definition main_insn_text ::
  "insn_parser \<Rightarrow> (string \<Rightarrow> hexdb \<Rightarrow> hexdb res) \<Rightarrow> (string list \<Rightarrow> string list) \<Rightarrow> nat \<Rightarrow>
   string list \<Rightarrow> string list \<Rightarrow> string option res" where
  "main_insn_text parse ev order limit semantics attribs =
     bindR (read_semantics_file_obj ev semantics empty_db) (\<lambda>db1.
     bindR (read_attribs_file_obj attribs db1) (\<lambda>db2.
     bindR (calculate_attribs limit (order (map fst (macros db2))) db2) (\<lambda>db3.
     text_file parse db3)))"

end
