(* ===== verification/Insn_Render.thy ===== *)
theory Insn_Render
  imports Insn_Text
begin

text \<open>
  What the tokenizers of \<open>Insn_Text\<close> print. \<open>insn_env\<close> is the decoded instruction at run
  time, \<open>cpp_string\<close> and \<open>cpp_int\<close> read the C++ expressions the generator writes,
  \<open>fringe\<close> is the leaves of a parse tree from left to right with the grammar's own literals,
  and \<open>render\<close> is the assembly text: the leaves, with the operands' values for the operands.
\<close>

section \<open>Reading the generated expressions\<close>

text \<open>\<open>GetRegisterName\<close> and \<open>absl::Hex\<close> (of a width) are functions of the environment.\<close>

record insn_env =
  e_regno :: "nat \<Rightarrow> nat"
  e_immed :: "nat \<Rightarrow> int"
  e_ext :: bool
  e_pc :: int
  e_regname :: "string \<Rightarrow> string \<Rightarrow> nat \<Rightarrow> string"
  e_hex :: "nat \<Rightarrow> int \<Rightarrow> string"

definition strip_prefix :: "string \<Rightarrow> string \<Rightarrow> string option" where
  "strip_prefix p s = (if starts_with s p then Some (drop (length p) s) else None)"

definition until :: "char \<Rightarrow> string \<Rightarrow> string \<times> string" where
  "until c s = (takeWhile (\<lambda>x. x \<noteq> c) s, tl (dropWhile (\<lambda>x. x \<noteq> c) s))"

lemma strip_prefix_app [simp]: "strip_prefix p (p @ s) = Some s"
  by (simp add: strip_prefix_def starts_with_def)

lemma strip_prefix_Nil [simp]: "strip_prefix [] s = Some s"
  by (simp add: strip_prefix_def starts_with_def)

lemma strip_prefix_Cons [simp]:
  "strip_prefix (c # p) (d # s) = (if c = d then strip_prefix p s else None)"
  "strip_prefix (c # p) [] = None"
  by (auto simp: strip_prefix_def starts_with_def)

lemma until_app [simp]: "c \<notin> set w \<Longrightarrow> until c (w @ c # s) = (w, s)"
proof -
  assume "c \<notin> set w"
  then have "\<forall>x \<in> set w. x \<noteq> c" by blast
  then show ?thesis by (simp add: until_def)
qed

lemma digits_no: "\<not> is_digit c \<Longrightarrow> c \<notin> set (show_nat n)"
  using show_nat_digits(1) [of n] by (auto simp: list_all_iff)

text \<open>A decimal literal with an optional sign.\<close>

definition int_lit :: "string \<Rightarrow> int option" where
  "int_lit s = (case s of
       c # r \<Rightarrow> if c = CHR ''-'' then (case py_int r of Inl _ \<Rightarrow> None | Inr n \<Rightarrow> Some (- int n))
                else (case py_int s of Inl _ \<Rightarrow> None | Inr n \<Rightarrow> Some (int n))
     | [] \<Rightarrow> None)"

definition cpp_quoted :: "string \<Rightarrow> string option" where
  "cpp_quoted s = Option.bind (strip_prefix ''\"'' s)
     (\<lambda>r. let (w, r) = until (CHR ''\"'') r in if r = [] then Some w else None)"

definition cpp_regname :: "insn_env \<Rightarrow> string \<Rightarrow> string option" where
  "cpp_regname env s = Option.bind (strip_prefix ''GetRegisterName(\"'' s) (\<lambda>r. let (a, r) = until (CHR ''\"'') r in
     Option.bind (strip_prefix '', \"'' r) (\<lambda>r. let (c, r) = until (CHR ''\"'') r in
     Option.bind (strip_prefix '', insn.regno['' r) (\<lambda>r. let (k, r) = until (CHR '']'') r in
     case py_int k of Inl _ \<Rightarrow> None
     | Inr k \<Rightarrow> if r = '')'' then Some (e_regname env a c (e_regno env k))
               else if r = ''+1)'' then Some (e_regname env a c (e_regno env k + 1)) else None)))"

text \<open>An integer expression: its width in bits and its value.\<close>

definition cpp_immed :: "string \<Rightarrow> nat option" where
  "cpp_immed s = Option.bind (strip_prefix ''insn.immed['' s) (\<lambda>r. let (k, r) = until (CHR '']'') r in
     case py_int k of Inl _ \<Rightarrow> None | Inr k \<Rightarrow> if r = [] then Some k else None)"

definition cpp_int :: "insn_env \<Rightarrow> string \<Rightarrow> (nat \<times> int) option" where
  "cpp_int env s =
     (case strip_prefix ''pc + '' s of
        Some r \<Rightarrow> map_option (\<lambda>k. (64, e_pc env + e_immed env k)) (cpp_immed r)
      | None \<Rightarrow>
          (case cpp_immed s of
             Some k \<Rightarrow> Some (32, e_immed env k)
           | None \<Rightarrow> map_option (\<lambda>n. (32, n)) (int_lit s)))"

definition cpp_hex :: "insn_env \<Rightarrow> string \<Rightarrow> string option" where
  "cpp_hex env s = Option.bind (strip_prefix ''StrCat(\"0x\", Hex('' s) (\<lambda>r. let (e, r) = until (CHR '')'') r in
     if r = '')'' then map_option (\<lambda>(w, n). ''0x'' @ e_hex env w n) (cpp_int env e) else None)"

definition cpp_string :: "insn_env \<Rightarrow> string \<Rightarrow> string option" where
  "cpp_string env s =
     (case cpp_quoted s of
        Some w \<Rightarrow> Some w
      | None \<Rightarrow>
          (case cpp_regname env s of
             Some w \<Rightarrow> Some w
           | None \<Rightarrow>
               (case cpp_hex env s of
                  Some w \<Rightarrow> Some w
                | None \<Rightarrow> if s = ''(insn.extension_valid ? \"##\" : \"#\")''
                          then Some (if e_ext env then ''##'' else ''#'') else None)))"

text \<open>What a printed statement appends to the result: the kind of token, its text, its value.\<close>

datatype out_kind = TextK | InstructionK | RegisterK | AddressK | IntegerK

record out_token =
  o_kind :: out_kind
  o_text :: string
  o_value :: int

definition out :: "out_kind \<Rightarrow> string \<Rightarrow> int \<Rightarrow> out_token" where
  "out k t v = \<lparr>o_kind = k, o_text = t, o_value = v\<rparr>"

definition out_str :: "insn_env \<Rightarrow> out_kind \<Rightarrow> string \<Rightarrow> out_token option" where
  "out_str env k a = map_option (\<lambda>t. out k t 0) (cpp_string env a)"

definition out_int :: "insn_env \<Rightarrow> out_kind \<Rightarrow> string \<Rightarrow> string \<Rightarrow> out_token option" where
  "out_int env k a b = Option.bind (cpp_string env a) (\<lambda>t. map_option (\<lambda>(_, v). out k t v) (cpp_int env b))"

primrec token_out :: "insn_env \<Rightarrow> text_token \<Rightarrow> out_token option" where
  "token_out env (TextToken a) = out_str env TextK a"
| "token_out env (InstructionToken a) = out_str env InstructionK a"
| "token_out env (RegisterToken a) = out_str env RegisterK a"
| "token_out env (GPRegisterToken a) = (if e_ext env then Some (out IntegerK ''0'' 0) else out_str env RegisterK a)"
| "token_out env (CodeRelativeAddressToken a b) = out_int env AddressK a b"
| "token_out env (IntegerToken a b) = out_int env IntegerK a b"

fun tokens_out :: "insn_env \<Rightarrow> tokens \<Rightarrow> out_token list option" where
  "tokens_out env [] = Some []"
| "tokens_out env (t # ts) = Option.bind (token_out env t) (\<lambda>o1. map_option (\<lambda>os. o1 # os) (tokens_out env ts))"

lemma tokens_out_append:
  "tokens_out env (xs @ ys) =
     Option.bind (tokens_out env xs) (\<lambda>a. map_option (\<lambda>b. a @ b) (tokens_out env ys))"
proof (induction xs)
  case Nil
  then show ?case by (cases "tokens_out env ys") simp_all
next
  case (Cons t xs)
  then show ?case
    by (cases "token_out env t"; cases "tokens_out env xs"; cases "tokens_out env ys") simp_all
qed

section \<open>Expressions of each kind\<close>

definition plain :: "string \<Rightarrow> bool" where
  "plain w \<longleftrightarrow> CHR ''\"'' \<notin> set w"

lemma cpp_string_dq [simp]: "plain w \<Longrightarrow> cpp_string env (dq w) = Some w"
  by (simp add: cpp_string_def cpp_quoted_def dq_def plain_def)

lemma cpp_regname_name:
  assumes "a \<noteq> CHR ''\"''" "c \<noteq> Some (CHR ''\"'')" "inc = [] \<or> inc = ''+1''"
  shows "cpp_string env (register_name a c k inc) =
    Some (e_regname env [a] (case c of None \<Rightarrow> [] | Some x \<Rightarrow> [x]) (e_regno env k + (if inc = [] then 0 else 1)))"
proof -
  let ?c = "case c of None \<Rightarrow> [] | Some x \<Rightarrow> [x]"
  have c: "CHR ''\"'' \<notin> set ?c" using assms(2) by (auto split: option.splits)
  have k: "until (CHR '']'') (show_nat k @ CHR '']'' # r) = (show_nat k, r)" for r
    by (rule until_app) (rule digits_no, simp add: is_digit_def)
  have u: "until (CHR ''\"'') (a # CHR ''\"'' # r) = ([a], r)" for r
    using until_app [of "CHR ''\"''" "[a]" r] assms(1) by simp
  have uc: "until (CHR ''\"'') (?c @ CHR ''\"'' # r) = (?c, r)" for r
    by (rule until_app [OF c])
  have s: "register_name a c k inc = ''GetRegisterName(\"'' @ [a] @ CHR ''\"'' # '', \"'' @ ?c @ CHR ''\"'' #
      '', insn.regno['' @ show_nat k @ CHR '']'' # inc @ '')''"
    by (simp add: register_name_def)
  have "cpp_regname env (register_name a c k inc) =
    Some (e_regname env [a] ?c (e_regno env k + (if inc = [] then 0 else 1)))"
    unfolding cpp_regname_def s using assms(3)
    by (auto simp: u uc k)
  moreover have "cpp_quoted (register_name a c k inc) = None"
    by (simp add: cpp_quoted_def register_name_def)
  ultimately show ?thesis by (simp add: cpp_string_def)
qed


lemma cpp_immed_show [simp]: "cpp_immed (''insn.immed['' @ show_nat k @ '']'') = Some k"
proof -
  have "until (CHR '']'') (show_nat k @ CHR '']'' # []) = (show_nat k, [])"
    by (rule until_app) (rule digits_no, simp add: is_digit_def)
  then show ?thesis by (simp add: cpp_immed_def)
qed

lemma cpp_int_immed [simp]: "cpp_int env (''insn.immed['' @ show_nat k @ '']'') = Some (32, e_immed env k)"
proof -
  have "strip_prefix ''pc + '' (''insn.immed['' @ show_nat k @ '']'') = None" by simp
  then show ?thesis unfolding cpp_int_def cpp_immed_show by simp
qed

lemma cpp_int_pc [simp]:
  "cpp_int env (''pc + insn.immed['' @ show_nat k @ '']'') = Some (64, e_pc env + e_immed env k)"
proof -
  have "strip_prefix ''pc + '' (''pc + insn.immed['' @ show_nat k @ '']'') = Some (''insn.immed['' @ show_nat k @ '']'')"
    by simp
  then show ?thesis unfolding cpp_int_def by (simp only: option.case cpp_immed_show option.map)
qed

definition is_int_num :: "string \<Rightarrow> bool" where
  "is_int_num s \<longleftrightarrow> (let r = (case s of c # r \<Rightarrow> if c = CHR ''-'' then r else s | [] \<Rightarrow> []) in r \<noteq> [] \<and> list_all is_digit r)"

lemma not_digits: "\<not> is_digit CHR ''p''" "\<not> is_digit CHR ''i''" "\<not> is_digit CHR '')''" "\<not> is_digit CHR ''-''"
  by (simp_all add: is_digit_def)

lemma py_int_digits: "list_all is_digit r \<Longrightarrow> r \<noteq> [] \<Longrightarrow> \<exists>n. py_int r = Inr n"
  by (simp add: py_int_def decimal_lexeme_digits)

lemma int_num:
  assumes "is_int_num s"
  shows "\<exists>n. int_lit s = Some n" "CHR '')'' \<notin> set s" "cpp_int env s = map_option (\<lambda>n. (32, n)) (int_lit s)"
proof -
  obtain c r where s: "s = c # r" using assms by (cases s) (auto simp: is_int_num_def)
  have c: "c = CHR ''-'' \<or> is_digit c" using assms s by (auto simp: is_int_num_def split: if_splits)
  then have "c \<noteq> CHR ''p''" "c \<noteq> CHR ''i''" "c \<noteq> CHR '')''" using not_digits by auto
  then have "strip_prefix ''pc + '' s = None" "cpp_immed s = None" using s by (simp_all add: cpp_immed_def)
  then show "cpp_int env s = map_option (\<lambda>n. (32, n)) (int_lit s)" by (simp add: cpp_int_def)
  show "CHR '')'' \<notin> set s"
    using assms s not_digits by (auto simp: is_int_num_def list_all_iff split: if_splits)
  show "\<exists>n. int_lit s = Some n"
    using assms s py_int_digits [of s] py_int_digits [of r] by (auto simp: is_int_num_def int_lit_def split: if_splits)
qed

lemma cpp_string_hex:
  assumes "CHR '')'' \<notin> set e" "cpp_int env e = Some (w, n)"
  shows "cpp_string env (''StrCat(\"0x\", Hex('' @ e @ ''))'') = Some (''0x'' @ e_hex env w n)"
proof -
  have "until (CHR '')'') (e @ CHR '')'' # '')'') = (e, '')'')" by (rule until_app [OF assms(1)])
  then have "cpp_hex env (''StrCat(\"0x\", Hex('' @ e @ ''))'') = Some (''0x'' @ e_hex env w n)"
    using assms(2) by (simp add: cpp_hex_def)
  then show ?thesis by (simp add: cpp_string_def cpp_quoted_def cpp_regname_def)
qed

lemma cpp_string_ext [simp]:
  "cpp_string env ''(insn.extension_valid ? \"##\" : \"#\")'' = Some (if e_ext env then ''##'' else ''#'')"
  by (simp add: cpp_string_def cpp_quoted_def cpp_regname_def cpp_hex_def)

section \<open>The leaves of a parse tree\<close>

datatype piece =
    Word string
  | RegP char string "char option"
  | ImmP char
  | ConstP string
  | GpP string
  | SysP string

abbreviation fr_span :: "insn_ctx \<Rightarrow> span \<Rightarrow> piece list" where
  "fr_span C s \<equiv> [Word (span_text C s)]"

definition fr_opt :: "insn_ctx \<Rightarrow> span option \<Rightarrow> piece list" where
  "fr_opt C s = (case s of None \<Rightarrow> [] | Some s \<Rightarrow> fr_span C s)"

primrec fr_reg :: "reg_node \<Rightarrow> piece list" where
  "fr_reg (Reg a b c d) = [RegP a b c]"

primrec fr_imm :: "imm_node \<Rightarrow> piece list" where
  "fr_imm (Imm immlett bits immshift) = [ImmP immlett]"

primrec fr_any_reg :: "insn_ctx \<Rightarrow> any_reg \<Rightarrow> piece list" where
  "fr_any_reg C (PlainReg r) = fr_reg r"
| "fr_any_reg C (RegDotNew r s) = fr_reg r @ fr_span C s"
| "fr_any_reg C (PredDotNew digit s) = [Word (''P'' @ digit)] @ fr_span C s"
| "fr_any_reg C (RegDotCur r s) = fr_reg r @ fr_span C s"
| "fr_any_reg C (RegSubreg r s) = fr_reg r @ fr_span C s"
| "fr_any_reg C (PredReg digit) = [Word (''P'' @ digit)]"
| "fr_any_reg C (GpReg s) = [GpP (span_text C s)]"
| "fr_any_reg C (SysReg s) = [SysP (span_text C s)]"
| "fr_any_reg C (RegBrev r) = fr_reg r @ [Word '':brev'']"
| "fr_any_reg C (RegStar r) = fr_reg r @ [Word ''*'']"

primrec fr_circ_imm :: "insn_ctx \<Rightarrow> circ_imm \<Rightarrow> piece list" where
  "fr_circ_imm C (CircImm i) = fr_imm i"
| "fr_circ_imm C (CircI s) = fr_span C s"

primrec fr_operand :: "insn_ctx \<Rightarrow> operand \<Rightarrow> piece list" where
  "fr_operand C (Const num) = [ConstP num]"
| "fr_operand C (ImmOp i) = fr_imm i"
| "fr_operand C (RegOp r) = fr_any_reg C r"
| "fr_operand C (NotReg s r) = fr_span C s @ fr_reg r"
| "fr_operand C (CircAddr i r) = fr_circ_imm C i @ [Word '':circ(''] @ fr_reg r @ [Word '')'']"

primrec fr_call :: "insn_ctx \<Rightarrow> insn_call \<Rightarrow> piece list" where
  "fr_call C (InsnOnly i) = fr_span C i"
| "fr_call C (Call1NoParen i p) = fr_span C i @ fr_operand C p"
| "fr_call C (Call1 i p) = fr_span C i @ [Word ''(''] @ fr_operand C p @ [Word '')'']"
| "fr_call C (Call2 i p q) =
     fr_span C i @ [Word ''(''] @ fr_operand C p @ [Word '',''] @ fr_operand C q @ [Word '')'']"
| "fr_call C (Call2Rator i p r q) =
     fr_span C i @ [Word ''(''] @ fr_operand C p @ [Word '',''] @ fr_span C r @ fr_operand C q @ [Word '')'']"
| "fr_call C (Call3 i p q u) =
     fr_span C i @ [Word ''(''] @ fr_operand C p @ [Word '',''] @ fr_operand C q @ [Word '',''] @ fr_operand C u
       @ [Word '')'']"
| "fr_call C (CallRator2 i p r q) =
     fr_span C i @ [Word ''(''] @ fr_operand C p @ fr_span C r @ fr_operand C q @ [Word '')'']"
| "fr_call C (CallRator3 i p r q r' u) =
     fr_span C i @ [Word ''(''] @ fr_operand C p @ fr_span C r @ fr_operand C q @ fr_span C r' @ fr_operand C u
       @ [Word '')'']"
| "fr_call C (CallNested1 i c) = fr_span C i @ [Word ''(''] @ fr_call C c @ [Word '')'']"
| "fr_call C (CallNested2 i p c) =
     fr_span C i @ [Word ''(''] @ fr_operand C p @ [Word '',''] @ fr_call C c @ [Word '')'']"
| "fr_call C (CallNested3 i c p) =
     fr_span C i @ [Word ''(''] @ fr_call C c @ [Word '',''] @ fr_operand C p @ [Word '')'']"

primrec fr_hint :: "insn_ctx \<Rightarrow> hint \<Rightarrow> piece list" where
  "fr_hint C (TextHint s) = fr_span C s"
| "fr_hint C (RawHint s) = [Word '':raw''] @ fr_opt C s"

fun fr_hints :: "insn_ctx \<Rightarrow> res_hints \<Rightarrow> piece list" where
  "fr_hints C (OneHint h) = fr_hint C h"
| "fr_hints C (ResHint h None) = fr_hint C h"
| "fr_hints C (ResHint h (Some r)) = fr_hint C h @ fr_hints C r"

primrec fr_cond :: "insn_ctx \<Rightarrow> cond \<Rightarrow> piece list" where
  "fr_cond C (CondOp p) = fr_operand C p"
| "fr_cond C (Cond2 p s q) = fr_operand C p @ fr_span C s @ fr_operand C q"
| "fr_cond C (CondCall c) = fr_call C c"

primrec fr_exp :: "insn_ctx \<Rightarrow> insn_exp \<Rightarrow> piece list" and fr_rhs :: "insn_ctx \<Rightarrow> rhs \<Rightarrow> piece list" where
  "fr_exp C (CallExp n c h) =
     fr_opt C n @ fr_call C c @ (case h of None \<Rightarrow> [] | Some h \<Rightarrow> fr_hints C h)"
| "fr_exp C (IfExp n c e) = [Word ''if(''] @ fr_opt C n @ fr_cond C c @ [Word '')''] @ fr_exp C e"
| "fr_exp C (AssignToOp p r r1 r2 q) =
     fr_operand C p @ (case r of None \<Rightarrow> [] | Some r \<Rightarrow> [Word '',''] @ fr_reg r) @ fr_opt C r1 @ [Word ''='']
       @ fr_opt C r2 @ fr_rhs C q"
| "fr_exp C (AssignComma p r1 r2 q e) =
     fr_operand C p @ fr_opt C r1 @ [Word ''=''] @ fr_opt C r2 @ fr_rhs C q @ [Word '';''] @ fr_exp C e"
| "fr_exp C (AssignToExp e s1 r1 r2 q s2) =
     fr_exp C e @ fr_opt C s1 @ fr_opt C r1 @ [Word ''=''] @ fr_opt C r2 @ fr_rhs C q @ fr_opt C s2"
| "fr_rhs C (RhsOp p) = fr_operand C p"
| "fr_rhs C (RhsExp e) = fr_exp C e"

section \<open>The assembly text\<close>

text \<open>
  Which immediates are branch targets, by their position in the syntax: in a loop instruction the
  first, in a jump or call the only one, or all but the first.
\<close>

definition is_address :: "insn_ctx \<Rightarrow> nat \<Rightarrow> bool" where
  "is_address C i =
     (case t_attribs C (t_tag C) of
        None \<Rightarrow> False
      | Some attrs \<Rightarrow> if is_write_to_loop_start attrs then i = 0
          else (is_jump attrs \<or> is_call attrs) \<and> (num_imms C \<le> 1 \<or> 0 < i))"

definition reg_text :: "insn_ctx \<Rightarrow> insn_env \<Rightarrow> char \<Rightarrow> string \<Rightarrow> char option \<Rightarrow> string" where
  "reg_text C env a b c =
     (case seenregs C b of
        None \<Rightarrow> []
      | Some k \<Rightarrow>
          let name = e_regname env [a] (case c of None \<Rightarrow> [] | Some x \<Rightarrow> [x]); n = e_regno env k
          in if length b = 2 then name (n + 1) @ '':'' @ name n else name n)"

definition imm_text :: "insn_ctx \<Rightarrow> insn_env \<Rightarrow> bool \<Rightarrow> char \<Rightarrow> string" where
  "imm_text C env address l =
     (let v = e_immed env (if upper_letter l then 1 else 0);
          extendable = (if upper_letter l then extendable_upper_imm C else lower_letter l \<and> extendable_lower_imm C)
      in if address then ''0x'' @ e_hex env 64 (e_pc env + v)
         else (if extendable \<and> e_ext env then ''##'' else ''#'') @ ''0x'' @ e_hex env 32 v)"

fun render :: "insn_ctx \<Rightarrow> insn_env \<Rightarrow> nat \<Rightarrow> piece list \<Rightarrow> string" where
  "render C env i [] = []"
| "render C env i (Word w # ps) = w @ render C env i ps"
| "render C env i (RegP a b c # ps) = reg_text C env a b c @ render C env i ps"
| "render C env i (ImmP l # ps) = imm_text C env (is_address C i) l @ render C env (Suc i) ps"
| "render C env i (ConstP num # ps) =
     ''#0x'' @ e_hex env 32 (case int_lit num of None \<Rightarrow> 0 | Some n \<Rightarrow> n) @ render C env i ps"
| "render C env i (GpP w # ps) = (if e_ext env then ''0'' else map upper_char w) @ render C env i ps"
| "render C env i (SysP w # ps) = sys_name w @ render C env i ps"

primrec is_imm :: "piece \<Rightarrow> bool" where
  "is_imm (Word w) = False"
| "is_imm (RegP a b c) = False"
| "is_imm (ImmP l) = True"
| "is_imm (ConstP num) = False"
| "is_imm (GpP w) = False"
| "is_imm (SysP w) = False"

definition imms :: "piece list \<Rightarrow> nat" where
  "imms ps = length (filter is_imm ps)"

lemma imms_simps [simp]:
  "imms [] = 0" "imms (p # ps) = (if is_imm p then Suc (imms ps) else imms ps)" "imms (ps @ qs) = imms ps + imms qs"
  by (simp_all add: imms_def)

lemma render_append: "render C env i (ps @ qs) = render C env i ps @ render C env (i + imms ps) qs"
  by (induction C env i ps rule: render.induct) simp_all

text \<open>What the lexer guarantees of the leaves: no quotes in words and letters, constants are integers.\<close>

primrec piece_ok :: "piece \<Rightarrow> bool" where
  "piece_ok (Word w) = plain w"
| "piece_ok (RegP a b c) = (a \<noteq> CHR ''\"'' \<and> c \<noteq> Some (CHR ''\"''))"
| "piece_ok (ImmP l) = True"
| "piece_ok (ConstP num) = is_int_num num"
| "piece_ok (GpP w) = plain w"
| "piece_ok (SysP w) = plain w"

definition despace :: "string \<Rightarrow> string" where
  "despace s = filter (\<lambda>c. c \<noteq> CHR '' '') s"

lemma despace_append [simp]: "despace (s @ t) = despace s @ despace t"
  by (simp add: despace_def)

end
