(* ===== verification/Insn_Props.thy ===== *)
theory Insn_Props
  imports Insn_Render
begin

text \<open>
  The properties of the instruction printers: the tokens print the syntax with the operands filled
  in, which operands make the transformer fail, and the generated file.
\<close>

section \<open>Sequencing\<close>

lemma bindT_eq_Inr: "bindT m f st = Inr r \<longleftrightarrow> (\<exists>x st'. m st = Inr (x, st') \<and> f x st' = Inr r)"
  by (auto simp: bindT_def)

lemma retT_eq_Inr: "retT x st = Inr (y, st') \<longleftrightarrow> y = x \<and> st' = st"
  by (auto simp: retT_def)

lemma liftT_eq_Inr: "liftT m st = Inr (y, st') \<longleftrightarrow> m = Inr y \<and> st' = st"
  by (auto simp: liftT_def)

lemmas tr_simps = bindT_eq_Inr retT_eq_Inr liftT_eq_Inr

section \<open>Printing pieces\<close>

definition addresses_ok :: "insn_env \<Rightarrow> out_token list \<Rightarrow> bool" where
  "addresses_ok env os \<longleftrightarrow> (\<forall>t \<in> set os. o_kind t = AddressK \<longrightarrow> o_text t = ''0x'' @ e_hex env 64 (o_value t))"

definition prints :: "insn_ctx \<Rightarrow> insn_env \<Rightarrow> nat \<Rightarrow> piece list \<Rightarrow> tokens \<Rightarrow> bool" where
  "prints C env i ps ts \<longleftrightarrow>
     (\<exists>os. tokens_out env ts = Some os \<and> despace (concat (map o_text os)) = despace (render C env i ps) \<and>
        addresses_ok env os)"

lemma prints_Nil [simp]: "prints C env i [] []"
  by (simp add: prints_def addresses_ok_def)

lemma prints_append:
  assumes "prints C env i ps ts" "prints C env (i + imms ps) qs us"
  shows "prints C env i (ps @ qs) (ts @ us)"
proof -
  obtain os1 os2 where "tokens_out env ts = Some os1" "tokens_out env us = Some os2"
      "despace (concat (map o_text os1)) = despace (render C env i ps)"
      "despace (concat (map o_text os2)) = despace (render C env (i + imms ps) qs)"
      "addresses_ok env os1" "addresses_ok env os2"
    using assms by (auto simp: prints_def)
  then show ?thesis
    unfolding prints_def by (intro exI [of _ "os1 @ os2"]) (auto simp: tokens_out_append render_append addresses_ok_def)
qed

lemma prints_word: "plain w \<Longrightarrow> despace w = despace w' \<Longrightarrow> prints C env i [Word w'] [TextToken (dq w)]"
  by (simp add: prints_def addresses_ok_def out_str_def out_def)

definition literal :: "piece \<Rightarrow> text_token \<Rightarrow> bool" where
  "literal p t \<longleftrightarrow> (\<exists>w w'. p = Word w' \<and> t = TextToken (dq w) \<and> plain w \<and> despace w = despace w')"

lemma dq_inject [simp]: "dq v = dq w \<longleftrightarrow> v = w"
  by (simp add: dq_def)

lemma literals [simp]:
  "literal (Word ''('') (TextToken (dq ''(''))" "literal (Word '')'') (TextToken (dq '')''))"
  "literal (Word '','') (TextToken (dq '',''))" "literal (Word '';'') (TextToken (dq '';''))"
  "literal (Word ''='') (TextToken (dq '' = ''))" "literal (Word ''if('') (TextToken (dq ''if (''))"
  "literal (Word '')'') (TextToken (dq '') ''))" "literal (Word '':raw'') (TextToken (dq '':raw''))"
  "literal (Word '':circ('') (TextToken (dq '':circ(''))" "literal (Word '':brev'') (TextToken (dq '':brev''))"
  "literal (Word ''*'') (TextToken (dq ''*''))"
  by (simp_all add: literal_def plain_def despace_def)

lemma prints_Cons: "literal p t \<Longrightarrow> prints C env i ps ts \<Longrightarrow> prints C env i (p # ps) (t # ts)"
proof -
  assume l: "literal p t" and ps: "prints C env i ps ts"
  obtain w w' where w: "p = Word w'" "t = TextToken (dq w)" "plain w" "despace w = despace w'"
    using l by (auto simp: literal_def)
  have "prints C env i ([p] @ ps) ([t] @ ts)"
    by (rule prints_append) (use w ps prints_word in simp_all)
  then show ?thesis by simp
qed

lemma prints_span:
  assumes "plain (span_text C s)"
  shows "prints C env i (fr_span C s) (wrap_text_terminal C s)"
    "prints C env i (fr_span C s) (wrap_instruction_terminal C s)"
    "prints C env i (fr_span C s) (wrap_reg_terminal C s)"
  using assms
  by (simp_all add: prints_def addresses_ok_def wrap_text_terminal_def wrap_instruction_terminal_def
      wrap_reg_terminal_def wrap_full_match_def out_str_def out_def)

lemma prints_span_Cons:
  assumes "plain (span_text C s)" "prints C env i ps ts"
  shows "prints C env i (Word (span_text C s) # ps) (wrap_text_terminal C s @ ts)"
    "prints C env i (Word (span_text C s) # ps) (wrap_instruction_terminal C s @ ts)"
  using assms prints_append [of C env i "fr_span C s" _ ps ts] prints_span [OF assms(1)] by simp_all

lemma prints_opt:
  "list_all piece_ok (fr_opt C s) \<Longrightarrow> prints C env i (fr_opt C s) (opt (text_opt C s))"
  by (cases s) (simp_all add: fr_opt_def opt_def prints_span)

lemma imms_fr_opt [simp]: "imms (fr_opt C s) = 0"
  by (cases s) (simp_all add: fr_opt_def)

lemma imms_fr_reg [simp]: "imms (fr_reg r) = 0"
  by (cases r) simp

lemma prints_reg:
  assumes "reg_tokens C r = Inr ts" "list_all piece_ok (fr_reg r)"
  shows "prints C env i (fr_reg r) ts"
proof (cases r)
  case (Reg a b c d)
  then obtain k where k: "seenregs C b = Some k" using assms(1) by (auto simp: reg_tokens_def)
  have q: "a \<noteq> CHR ''\"''" "c \<noteq> Some (CHR ''\"'')" using assms(2) Reg by simp_all
  consider "length b = 1" "ts = [RegisterToken (register_name a c k [])]"
    | "length b = 2" "ts = [RegisterToken (register_name a c k ''+1''), TextToken (dq '':''),
                     RegisterToken (register_name a c k [])]"
    using assms(1) k Reg by (auto simp: reg_tokens_def split: if_splits)
  then show ?thesis
    using k Reg cpp_regname_name [OF q, of "[]"] cpp_regname_name [OF q, of "''+1''"]
    by cases (simp_all add: prints_def addresses_ok_def reg_text_def out_str_def out_def Let_def plain_def)
qed

section \<open>The transformer's flags\<close>

text \<open>The flags when \<open>i\<close> immediates have been printed.\<close>

definition state_at :: "insn_ctx \<Rightarrow> nat \<Rightarrow> imm_state \<Rightarrow> bool" where
  "state_at C i st \<longleftrightarrow>
     (\<forall>attrs. t_attribs C (t_tag C) = Some attrs \<longrightarrow>
        (is_write_to_loop_start attrs \<longrightarrow> (seen_loop_imm st \<longleftrightarrow> 0 < i)) \<and>
        ((is_jump attrs \<or> is_call attrs) \<and> num_imms C > 1 \<longrightarrow> (seen_cmpjump_imm st \<longleftrightarrow> 0 < i)))"

lemma state_at_initial: "state_at C 0 initial_imm_state"
  by (simp add: state_at_def initial_imm_state_def)

lemma place_addr_token_at:
  assumes "place_addr_token C st = Inr (p, st')" "state_at C i st"
  shows "p = is_address C i \<and> state_at C (Suc i) st'"
proof -
  obtain attrs where attrs: "t_attribs C (t_tag C) = Some attrs"
    using assms(1) by (auto simp: place_addr_token_def)
  obtain c l where st: "st = \<lparr>seen_cmpjump_imm = c, seen_loop_imm = l\<rparr>" by (cases st)
  let ?j = "is_jump attrs \<or> is_call attrs" and ?w = "is_write_to_loop_start attrs" and ?n = "num_imms C > 1"
  have st': "st' = \<lparr>seen_cmpjump_imm = c \<or> ?j \<and> ?n, seen_loop_imm = l \<or> ?w\<rparr>"
      "p = (if ?w then \<not> l else ?j \<and> (?n \<longrightarrow> c))"
    using assms(1) attrs unfolding place_addr_token_def st
    by (auto split: if_splits)
  show ?thesis
    using assms(2) attrs unfolding state_at_def is_address_def st st' by (auto simp: not_less)
qed

lemma prints_imm:
  assumes "imm_tokens C n st = Inr (ts, st')" "state_at C i st"
  shows "prints C env i (fr_imm n) ts \<and> state_at C (i + imms (fr_imm n)) st'"
proof (cases n)
  case (Imm l bits sh)
  let ?k = "if upper_letter l then 1 else 0 :: nat"
  obtain p where p: "place_addr_token C st = Inr (p, st')"
    using assms(1) Imm by (auto simp: imm_tokens_def Let_def tr_simps)
  note at = place_addr_token_at [OF p assms(2)]
  have no: "CHR '')'' \<notin> set (''pc + insn.immed['' @ show_nat ?k @ '']'')" "CHR '')'' \<notin> set (''insn.immed['' @ show_nat ?k @ '']'')"
    using digits_no [OF not_digits(3), of ?k] by auto
  have hex: "cpp_string env (''StrCat(\"0x\", Hex('' @ (''pc + insn.immed['' @ show_nat ?k @ '']'') @ ''))'') =
      Some (''0x'' @ e_hex env 64 (e_pc env + e_immed env ?k))"
    "cpp_string env (''StrCat(\"0x\", Hex('' @ (''insn.immed['' @ show_nat ?k @ '']'') @ ''))'') =
      Some (''0x'' @ e_hex env 32 (e_immed env ?k))"
    by (rule cpp_string_hex [OF no(1) cpp_int_pc]) (rule cpp_string_hex [OF no(2) cpp_int_immed])
  have "prints C env i (fr_imm n) ts"
  proof (cases p)
    case True
    then have "ts = [CodeRelativeAddressToken (''StrCat(\"0x\", Hex('' @ (''pc + insn.immed['' @ show_nat ?k @ '']'') @ ''))'')
        (''pc + insn.immed['' @ show_nat ?k @ '']'')]"
      using assms(1) Imm p by (auto simp: imm_tokens_def Let_def tr_simps)
    then have "tokens_out env ts = Some [out AddressK (''0x'' @ e_hex env 64 (e_pc env + e_immed env ?k)) (e_pc env + e_immed env ?k)]"
      by (simp only: tokens_out.simps token_out.simps out_int_def hex cpp_int_pc bind.bind_lunit option.map prod.case)
    then show ?thesis
      using at True Imm by (simp add: prints_def addresses_ok_def out_def imm_text_def)
  next
    case False
    define h where "h = (if upper_letter l \<and> extendable_upper_imm C \<or> lower_letter l \<and> extendable_lower_imm C
                               then ''(insn.extension_valid ? \"##\" : \"#\")'' else dq ''#'')"
    have lu: "\<not> (upper_letter l \<and> lower_letter l)" by (simp add: upper_letter_def lower_letter_def)
    have h: "cpp_string env h = Some (if (if upper_letter l then extendable_upper_imm C else lower_letter l \<and> extendable_lower_imm C)
        \<and> e_ext env then ''##'' else ''#'')"
      using lu by (auto simp: h_def plain_def)
    have "ts = [TextToken h, IntegerToken (''StrCat(\"0x\", Hex('' @ (''insn.immed['' @ show_nat ?k @ '']'') @ ''))'')
        (''insn.immed['' @ show_nat ?k @ '']'')]"
      using assms(1) Imm p False unfolding h_def by (auto simp: imm_tokens_def Let_def tr_simps simp del: if_split)
    then have "tokens_out env ts = Some [out TextK (if (if upper_letter l then extendable_upper_imm C
          else lower_letter l \<and> extendable_lower_imm C) \<and> e_ext env then ''##'' else ''#'') 0,
        out IntegerK (''0x'' @ e_hex env 32 (e_immed env ?k)) (e_immed env ?k)]"
      by (simp only: tokens_out.simps token_out.simps out_int_def out_str_def hex h cpp_int_immed bind.bind_lunit
          option.map prod.case)
    then show ?thesis
      using at False Imm by (simp add: prints_def addresses_ok_def out_def imm_text_def Let_def)
  qed
  then show ?thesis using at Imm by simp
qed


section \<open>The traversal prints the leaves\<close>

lemma imms_any_reg [simp]: "imms (fr_any_reg C r) = 0"
  by (cases r) simp_all

lemma upper_char_quote: "upper_char c = CHR ''\"'' \<Longrightarrow> c = CHR ''\"''"
proof (cases "lower_letter c")
  case True
  then have "(of_char c :: nat) - 32 < 256" "34 < (of_char c :: nat) - 32" by (auto simp: lower_letter_def)
  then have "(of_char (upper_char c) :: nat) > 34" using True by (simp add: upper_char_def)
  then show "upper_char c = CHR ''\"'' \<Longrightarrow> c = CHR ''\"''" by auto
qed (simp add: upper_char_def)

lemma plain_upper: "plain w \<Longrightarrow> plain (map upper_char w)"
  unfolding plain_def by (auto dest: upper_char_quote [OF sym])

lemma prints_any_reg:
  assumes "t_any_reg C r = Inr ts" "list_all piece_ok (fr_any_reg C r)"
  shows "prints C env i (fr_any_reg C r) ts"
proof -
  have dot: "prints C env i (fr_reg r @ fr_span C s) (reg_dot x (wrap_reg_terminal C s))"
    if "reg_tokens C r = Inr x" "list_all piece_ok (fr_reg r @ fr_span C s)" for r x s
    unfolding reg_dot_def by (rule prints_append) (use that in \<open>simp_all add: prints_reg prints_span\<close>)
  have word: "prints C env i [Word w] [RegisterToken (dq w)]" if "plain w" for w i
    using that by (simp add: prints_def addresses_ok_def out_str_def out_def)
  show ?thesis
  proof (cases r)
    case (GpReg s)
    then show ?thesis using assms plain_upper by (auto simp: prints_def addresses_ok_def gp_reg_def out_str_def out_def)
  next
    case (SysReg s)
    have "plain (sys_name w)" if "plain w" for w
      using plain_upper [OF that] by (auto simp: sys_name_def Let_def plain_def)
    then show ?thesis
      using SysReg assms by (auto simp: prints_def addresses_ok_def sys_reg_def out_str_def out_def)
  next
    case (PredDotNew digit s)
    then have "prints C env i ([Word (''P'' @ digit)] @ fr_span C s) (pred_reg digit @ wrap_reg_terminal C s)"
      using assms by (intro prints_append) (simp_all add: pred_reg_def word prints_span)
    then show ?thesis using PredDotNew assms by (auto simp: reg_dot_def)
  next
    case (PredReg digit)
    then show ?thesis using assms word [of "''P'' @ digit"] by (auto simp: pred_reg_def)
  next
    case (RegBrev q)
    then obtain x where "reg_tokens C q = Inr x" "ts = x @ [TextToken (dq '':brev'')]" using assms by (auto simp: reg_brev_def)
    then show ?thesis using RegBrev assms by (auto intro!: prints_append prints_Cons simp: prints_reg)
  next
    case (RegStar q)
    then obtain x where "reg_tokens C q = Inr x" "ts = x @ [TextToken (dq ''*'')]" using assms by (auto simp: reg_star_def)
    then show ?thesis using RegStar assms by (auto intro!: prints_append prints_Cons simp: prints_reg)
  qed (use assms in \<open>auto intro!: prints_reg dot\<close>)
qed


lemma prints_const: "is_int_num num \<Longrightarrow> prints C env i [ConstP num] (const_num num)"
proof -
  assume num: "is_int_num num"
  obtain n where n: "int_lit num = Some n" using int_num(1) [OF num] by blast
  have e: "cpp_int env num = Some (32, n)" using int_num(3) [OF num, of env] n by simp
  note h = cpp_string_hex [OF int_num(2) [OF num] e]
  have "tokens_out env (const_num num) = Some [out TextK ''#'' 0, out IntegerK (''0x'' @ e_hex env 32 n) n]"
    unfolding const_num_def tokens_out.simps token_out.simps out_int_def out_str_def h e by (simp add: plain_def)
  then show ?thesis using n by (simp add: prints_def addresses_ok_def out_def)
qed

text \<open>The main lemmas: a traversal that succeeds prints its leaves and keeps the flags right.\<close>

lemma prints_circ_imm:
  "t_circ_imm C c st = Inr (ts, st') \<Longrightarrow> state_at C i st \<Longrightarrow> list_all piece_ok (fr_circ_imm C c) \<Longrightarrow>
     prints C env i (fr_circ_imm C c) ts \<and> state_at C (i + imms (fr_circ_imm C c)) st'"
  by (cases c) (auto simp: tr_simps prints_imm prints_span)

lemma prints_operand:
  "t_operand C p st = Inr (ts, st') \<Longrightarrow> state_at C i st \<Longrightarrow> list_all piece_ok (fr_operand C p) \<Longrightarrow>
     prints C env i (fr_operand C p) ts \<and> state_at C (i + imms (fr_operand C p)) st'"
  by (cases p)
    (auto simp: tr_simps prints_const prints_imm prints_any_reg not_reg_def circ_addr_def prints_span prints_reg
      dest!: prints_circ_imm [where env = env] intro!: prints_append prints_Cons prints_span_Cons)

lemmas call_defs = call1_no_paren_def call1_def call2_def call2_rator_def call3_def call_rator2_def call_rator3_def
  call_nested1_def call_nested2_def call_nested3_def

lemma prints_no_paren: "prints C env i ps ts \<Longrightarrow> prints C env i ps (TextToken (dq '' '') # ts)"
  using prints_append [of C env i "[]" "[TextToken (dq '' '')]" ps ts]
  by (simp add: prints_def addresses_ok_def out_str_def out_def plain_def despace_def)

lemma prints_call:
  "t_call C c st = Inr (ts, st') \<Longrightarrow> state_at C i st \<Longrightarrow> list_all piece_ok (fr_call C c) \<Longrightarrow>
     prints C env i (fr_call C c) ts \<and> state_at C (i + imms (fr_call C c)) st'"
proof (induction c arbitrary: i st ts st')
  case (CallNested1 s c)
  then obtain x where x: "t_call C c st = Inr (x, st')" "ts = call_nested1 (wrap_instruction_terminal C s) x"
    by (auto simp: tr_simps)
  then show ?case using CallNested1.IH [OF x(1)] CallNested1.prems(2,3)
    by (auto simp: call_defs prints_span intro!: prints_append prints_Cons prints_span_Cons)
next
  case (CallNested2 s p c)
  then obtain x st1 y where x: "t_operand C p st = Inr (x, st1)" "t_call C c st1 = Inr (y, st')"
      "ts = call_nested2 (wrap_instruction_terminal C s) x y"
    by (auto simp: tr_simps)
  note 1 = prints_operand [OF x(1) CallNested2.prems(2), of env]
  then show ?case using CallNested2.IH [OF x(2), of "i + imms (fr_operand C p)"] CallNested2.prems(2,3) x(3)
    by (auto simp: call_defs prints_span add.assoc intro!: prints_append prints_Cons prints_span_Cons)
next
  case (CallNested3 s c p)
  then obtain x st1 y where x: "t_call C c st = Inr (x, st1)" "t_operand C p st1 = Inr (y, st')"
      "ts = call_nested3 (wrap_instruction_terminal C s) x y"
    by (auto simp: tr_simps)
  note 1 = CallNested3.IH [OF x(1) CallNested3.prems(2)]
  then show ?case using prints_operand [OF x(2), of "i + imms (fr_call C c)" env] CallNested3.prems(2,3) x(3)
    by (auto simp: call_defs prints_span add.assoc intro!: prints_append prints_Cons prints_span_Cons)
qed (auto simp: tr_simps call_defs prints_span add.assoc dest!: prints_operand [where env = env]
    intro!: prints_append prints_Cons prints_span_Cons prints_no_paren)


lemma imms_hint [simp]: "imms (fr_hint C h) = 0"
  by (cases h) simp_all

lemma imms_hints [simp]: "imms (fr_hints C hs) = 0"
  by (induction C hs rule: fr_hints.induct) simp_all

lemma prints_hint: "list_all piece_ok (fr_hint C h) \<Longrightarrow> prints C env i (fr_hint C h) (t_hint C h)"
  by (cases h) (auto simp: prints_span raw_hint_def prints_opt intro!: prints_Cons)

lemma prints_hints: "list_all piece_ok (fr_hints C hs) \<Longrightarrow> prints C env i (fr_hints C hs) (t_hints C hs)"
  by (induction C hs rule: fr_hints.induct)
    (auto simp: prints_hint res_hint_def opt_def intro!: prints_append)

lemma prints_cond:
  "t_cond C c st = Inr (ts, st') \<Longrightarrow> state_at C i st \<Longrightarrow> list_all piece_ok (fr_cond C c) \<Longrightarrow>
     prints C env i (fr_cond C c) ts \<and> state_at C (i + imms (fr_cond C c)) st'"
  by (cases c)
    (auto simp: tr_simps cond2_def prints_operand prints_call prints_span add.assoc
      dest!: prints_operand [where env = env] intro!: prints_append prints_span_Cons)

lemma prints_opt_hints:
  "list_all piece_ok (case h of None \<Rightarrow> [] | Some h \<Rightarrow> fr_hints C h) \<Longrightarrow>
     prints C env i (case h of None \<Rightarrow> [] | Some h \<Rightarrow> fr_hints C h) (opt (map_option (t_hints C) h))"
  by (cases h) (simp_all add: opt_def prints_hints)

lemma reg_tokens_nonempty: "reg_tokens C r \<noteq> Inr []"
  by (cases r) (auto simp: reg_tokens_def split: if_splits)

lemma prints_opt_reg:
  assumes "t_opt_reg C r = Inr x" "list_all piece_ok (case r of None \<Rightarrow> [] | Some r \<Rightarrow> [Word '',''] @ fr_reg r)"
  shows "prints C env i (case r of None \<Rightarrow> [] | Some r \<Rightarrow> [Word '',''] @ fr_reg r)
    (case x of None \<Rightarrow> [] | Some r \<Rightarrow> if r = [] then [] else [TextToken (dq '','')] @ r)"
proof (cases r)
  case None
  then show ?thesis using assms(1) by (simp add: t_opt_reg_def)
next
  case (Some q)
  then obtain y where "reg_tokens C q = Inr y" "x = Some y" using assms(1) by (auto simp: t_opt_reg_def)
  then show ?thesis using Some assms(2) reg_tokens_nonempty [of C q] by (auto simp: prints_reg intro!: prints_Cons)
qed

lemma imms_opts [simp]:
  "imms (case h of None \<Rightarrow> [] | Some h \<Rightarrow> fr_hints C h) = 0"
  "imms (case r of None \<Rightarrow> [] | Some r \<Rightarrow> [Word '',''] @ fr_reg r) = 0"
  by (cases h; simp) (cases r; simp)

lemma prints_exp:
  "t_exp C e st = Inr (ts, st') \<Longrightarrow> state_at C i st \<Longrightarrow> list_all piece_ok (fr_exp C e) \<Longrightarrow>
     prints C env i (fr_exp C e) ts \<and> state_at C (i + imms (fr_exp C e)) st'"
  "t_rhs C r st = Inr (ts, st') \<Longrightarrow> state_at C i st \<Longrightarrow> list_all piece_ok (fr_rhs C r) \<Longrightarrow>
     prints C env i (fr_rhs C r) ts \<and> state_at C (i + imms (fr_rhs C r)) st'"
proof (induction e and r arbitrary: i st ts st' and i st ts st')
  case (CallExp n c h)
  then obtain x where x: "t_call C c st = Inr (x, st')" "ts = call_exp (text_opt C n) x (map_option (t_hints C) h)"
    by (auto simp: tr_simps)
  then show ?case using CallExp.prems(2,3) prints_call [OF x(1) CallExp.prems(2), of env]
    by (auto simp: call_exp_def prints_opt prints_opt_hints intro!: prints_append)
next
  case (IfExp n c e)
  then obtain x st1 y where x: "t_cond C c st = Inr (x, st1)" "t_exp C e st1 = Inr (y, st')"
      "ts = if_exp (text_opt C n) x y" by (auto simp: tr_simps)
  then show ?case
    using IfExp.prems(2,3) prints_cond [OF x(1) IfExp.prems(2), of env] IfExp.IH [OF x(2), of "i + imms (fr_cond C c)"]
    by (auto simp: if_exp_def prints_opt add.assoc intro!: prints_append prints_Cons)
next
  case (AssignToOp p q r1 r2 u)
  then obtain x st1 y z where x: "t_operand C p st = Inr (x, st1)" "t_opt_reg C q = Inr y" "t_rhs C u st1 = Inr (z, st')"
      "ts = assign_to_op x y (text_opt C r1) (text_opt C r2) z" by (auto simp: tr_simps)
  then show ?case
    using AssignToOp.prems(2,3) prints_operand [OF x(1) AssignToOp.prems(2), of env]
      AssignToOp.IH [OF x(3), of "i + imms (fr_operand C p)"] prints_opt_reg [OF x(2), of env]
    by (auto simp: assign_to_op_def prints_opt add.assoc intro!: prints_append prints_Cons)
next
  case (AssignComma p r1 r2 u e)
  then obtain x st1 y st2 z where x: "t_operand C p st = Inr (x, st1)" "t_rhs C u st1 = Inr (y, st2)"
      "t_exp C e st2 = Inr (z, st')" "ts = assign_comma x (text_opt C r1) (text_opt C r2) y z" by (auto simp: tr_simps)
  then show ?case
    using AssignComma.prems(2,3) prints_operand [OF x(1) AssignComma.prems(2), of env]
      AssignComma.IH(1) [OF x(2), of "i + imms (fr_operand C p)"]
      AssignComma.IH(2) [OF x(3), of "i + imms (fr_operand C p) + imms (fr_rhs C u)"]
    by (auto simp: assign_comma_def prints_opt add.assoc intro!: prints_append prints_Cons)
next
  case (AssignToExp e s1 r1 r2 u s2)
  then obtain x st1 y where x: "t_exp C e st = Inr (x, st1)" "t_rhs C u st1 = Inr (y, st')"
      "ts = assign_to_exp x (text_opt C s1) (text_opt C r1) (text_opt C r2) y (text_opt C s2)" by (auto simp: tr_simps)
  then show ?case
    using AssignToExp.prems(2,3) AssignToExp.IH(1) [OF x(1)] AssignToExp.IH(2) [OF x(2), of "i + imms (fr_exp C e)"]
    by (auto simp: assign_to_exp_def prints_opt add.assoc intro!: prints_append prints_Cons)
qed (simp_all add: prints_operand)

section \<open>The properties\<close>

text \<open>C33: A generated tokenizer prints the instruction: run on a decoded instruction, the statements for a syntax append tokens whose texts, read together and up to spaces, are the leaves of the syntax in order, with register names for the register operands (high and low half for pairs), the values of the immediates for the immediates, and the address for an immediate exactly when it is a branch target by its position; the value of every address token is the address it shows.\<close>

theorem tokens_render:
  assumes "t_exp C e initial_imm_state = Inr (ts, st)" "list_all piece_ok (fr_exp C e)"
  shows "\<exists>os. tokens_out env ts = Some os \<and> despace (concat (map o_text os)) = despace (render C env 0 (fr_exp C e)) \<and>
    (\<forall>t \<in> set os. o_kind t = AddressK \<longrightarrow> o_text t = ''0x'' @ e_hex env 64 (o_value t))"
  using prints_exp(1) [OF assms(1) state_at_initial assms(2), of env] by (simp add: prints_def addresses_ok_def)


definition demo_reg :: "string \<Rightarrow> operand" where
  "demo_reg b = RegOp (PlainReg (Reg (CHR ''R'') b None ''32''))"

definition demo_insn :: insn_exp where
  "demo_insn = AssignToOp (demo_reg ''dd'') None None None
     (RhsExp (CallExp None (Call2 (6, 9) (demo_reg ''s'') (ImmOp (Imm (CHR ''s'') ''16'' None))) None))"

definition demo_insn_ctx :: insn_ctx where
  "demo_insn_ctx = \<lparr>t_tag = ''T'', t_beh = ''Rdd32=add(Rs32,#s16)'', t_attribs = [''T'' \<mapsto> {}], extendable_upper_imm = False,
     extendable_lower_imm = True, num_imms = 1, seenregs = [''dd'' \<mapsto> 0, ''s'' \<mapsto> 1]\<rparr>"

definition demo_env :: insn_env where
  "demo_env = \<lparr>e_regno = (\<lambda>k. if k = 0 then 4 else 7), e_immed = (\<lambda>k. 9), e_ext = True, e_pc = 0,
     e_regname = (\<lambda>a c n. a @ show_nat n), e_hex = (\<lambda>w n. show_nat (nat n))\<rparr>"

lemma demo_tokens:
  "t_exp demo_insn_ctx demo_insn initial_imm_state = Inr
     ([RegisterToken ''GetRegisterName(\"R\", \"\", insn.regno[0]+1)'', TextToken ''\":\"'',
       RegisterToken ''GetRegisterName(\"R\", \"\", insn.regno[0])'', TextToken ''\" = \"'', InstructionToken ''\"add\"'',
       TextToken ''\"(\"'', RegisterToken ''GetRegisterName(\"R\", \"\", insn.regno[1])'', TextToken ''\",\"'',
       TextToken ''(insn.extension_valid ? \"##\" : \"#\")'', IntegerToken ''StrCat(\"0x\", Hex(insn.immed[0]))'' ''insn.immed[0]'',
       TextToken ''\")\"''], initial_imm_state)"
  by code_simp

theorem tokens_render_witness:
  "\<exists>ts os. t_exp demo_insn_ctx demo_insn initial_imm_state = Inr (ts, initial_imm_state) \<and>
     tokens_out demo_env ts = Some os \<and> despace (concat (map o_text os)) = ''R5:R4=add(R7,##0x9)''"
proof -
  have ok: "list_all piece_ok (fr_exp demo_insn_ctx demo_insn)" by code_simp
  have rd: "despace (render demo_insn_ctx demo_env 0 (fr_exp demo_insn_ctx demo_insn)) = ''R5:R4=add(R7,##0x9)''"
    by code_simp
  show ?thesis
    using tokens_render [OF demo_tokens ok, of demo_env] demo_tokens unfolding rd by blast
qed

section \<open>When the transformer fails\<close>

definition imm_lifts :: "insn_ctx \<Rightarrow> bool" where
  "imm_lifts C \<longleftrightarrow>
     (case t_attribs C (t_tag C) of
        None \<Rightarrow> False
      | Some attrs \<Rightarrow> (is_jump attrs \<or> is_call attrs) \<and> 1 < num_imms C \<longrightarrow>
          num_imms C = 2 \<and> (t_tag C = ''J4_jumpseti'' \<or> is_compound_comapre_jump attrs \<or> is_new_value_jump attrs))"

primrec piece_lifts :: "insn_ctx \<Rightarrow> piece \<Rightarrow> bool" where
  "piece_lifts C (Word w) = True"
| "piece_lifts C (RegP a b c) = (b \<in> dom (seenregs C) \<and> (length b = 1 \<or> length b = 2 \<and> c = None))"
| "piece_lifts C (ImmP l) = imm_lifts C"
| "piece_lifts C (ConstP num) = True"
| "piece_lifts C (GpP w) = True"
| "piece_lifts C (SysP w) = True"

abbreviation lifts :: "insn_ctx \<Rightarrow> piece list \<Rightarrow> bool" where
  "lifts C ps \<equiv> list_all (piece_lifts C) ps"

lemma ok_bindT: "(\<exists>y st2. bindT m f st = Inr (y, st2)) \<longleftrightarrow> (\<exists>x st1. m st = Inr (x, st1) \<and> (\<exists>y st2. f x st1 = Inr (y, st2)))"
  by (auto simp: bindT_eq_Inr)

lemma ok_retT: "\<exists>y st2. retT x st = Inr (y, st2)"
  by (simp add: retT_def)

lemma ok_reg: "(\<exists>ts. reg_tokens C r = Inr ts) \<longleftrightarrow> lifts C (fr_reg r)"
  by (cases r) (auto simp: reg_tokens_def)

lemma ok_liftT: "(\<exists>y st2. liftT m st = Inr (y, st2)) \<longleftrightarrow> (\<exists>y. m = Inr y)"
  by (simp add: liftT_eq_Inr)

lemma ok_place: "(\<exists>p st2. place_addr_token C st = Inr (p, st2)) \<longleftrightarrow> imm_lifts C"
proof (cases "t_attribs C (t_tag C)")
  case None
  then show ?thesis by (simp add: place_addr_token_def imm_lifts_def getitem_def)
next
  case (Some attrs)
  then show ?thesis
    by (cases "is_jump attrs \<or> is_call attrs"; cases "1 < num_imms C"; cases "is_write_to_loop_start attrs")
      (auto simp: place_addr_token_def imm_lifts_def getitem_def)
qed

lemmas ok_simps = ok_bindT ok_retT ok_reg ok_liftT ok_place

lemma ok_imm: "(\<exists>ts st2. imm_tokens C n st = Inr (ts, st2)) \<longleftrightarrow> lifts C (fr_imm n)"
  by (cases n) (simp add: imm_tokens_def Let_def ok_simps)

lemma ok_any_reg: "(\<exists>ts. t_any_reg C r = Inr ts) \<longleftrightarrow> lifts C (fr_any_reg C r)"
  by (cases r) (simp_all add: ok_reg)

lemma ok_circ_imm: "(\<exists>ts st2. t_circ_imm C c st = Inr (ts, st2)) \<longleftrightarrow> lifts C (fr_circ_imm C c)"
  by (cases c) (simp_all add: ok_imm ok_retT)

lemma ok_operand: "(\<exists>ts st2. t_operand C p st = Inr (ts, st2)) \<longleftrightarrow> lifts C (fr_operand C p)"
  by (cases p) (simp_all add: ok_simps ok_imm ok_any_reg ok_circ_imm)

lemma ok_call: "(\<exists>ts st2. t_call C c st = Inr (ts, st2)) \<longleftrightarrow> lifts C (fr_call C c)"
  by (induction c arbitrary: st) (simp_all add: ok_simps ok_operand)

lemma ok_cond: "(\<exists>ts st2. t_cond C c st = Inr (ts, st2)) \<longleftrightarrow> lifts C (fr_cond C c)"
  by (cases c) (simp_all add: ok_simps ok_operand ok_call)

lemma lifts_opt [simp]: "lifts C (fr_opt C s)"
  by (cases s) (simp_all add: fr_opt_def)

lemma lifts_hint [simp]: "lifts C (fr_hint C h)"
  by (cases h) simp_all

lemma lifts_hints [simp]: "lifts C (fr_hints C hs)"
  by (induction C hs rule: fr_hints.induct) simp_all

lemma ok_opt_reg:
  "(\<exists>x. t_opt_reg C r = Inr x) \<longleftrightarrow> lifts C (case r of None \<Rightarrow> [] | Some r \<Rightarrow> [Word '',''] @ fr_reg r)"
  by (cases r) (simp_all add: t_opt_reg_def ok_reg)

lemma ok_exp:
  "(\<exists>ts st2. t_exp C e st = Inr (ts, st2)) \<longleftrightarrow> lifts C (fr_exp C e)"
  "(\<exists>ts st2. t_rhs C r st = Inr (ts, st2)) \<longleftrightarrow> lifts C (fr_rhs C r)"
proof (induction e and r arbitrary: st and st)
  case (CallExp n c h)
  then show ?case by (cases h) (simp_all add: ok_simps ok_call)
qed (simp_all add: ok_simps ok_operand ok_cond ok_opt_reg)

text \<open>C34: The transformer succeeds on a syntax exactly when every register operand is among the tag's registers and is single, or a pair without a half selector, and, if there are immediates, the tag has attributes and a jump or call with several immediates has two and is one of the known compound jumps.\<close>

theorem t_exp_succeeds:
  "(\<exists>r. t_exp C e st = Inr r) \<longleftrightarrow> list_all (piece_lifts C) (fr_exp C e)"
  using ok_exp(1) [of C e st] by auto


section \<open>The generated file\<close>

lemma mapR_compute:
  assumes "mapR (\<lambda>tag. bindR (getitem m tag) (\<lambda>b. Inr (g b))) ts = Inr rs"
  shows "rs = map (\<lambda>t. g (the (m t))) ts" "\<forall>t \<in> set ts. m t \<noteq> None"
proof -
  have "list_all2 (\<lambda>t r. \<exists>b. m t = Some b \<and> r = g b) ts rs"
    using assms unfolding mapR_Inr_iff by (auto elim!: list_all2_mono)
  then show "rs = map (\<lambda>t. g (the (m t))) ts" "\<forall>t \<in> set ts. m t \<noteq> None"
    by (induction ts rs rule: list_all2_induct) auto
qed

lemma get_tagregs_of:
  assumes "get_tagregs db = Inr rs" "tag \<in> set (tags db)"
  shows "\<exists>b. behdict db tag = Some b \<and> rs tag = Some (uniquify (regs_in b))"
proof -
  obtain xs where xs: "mapR (compute_tag_regs db) (tags db) = Inr xs" "rs = map_of (rev (zip (tags db) xs))"
    using assms(1) by (auto simp: get_tagregs_def)
  note c = mapR_compute [OF xs(1) [unfolded compute_tag_regs_def]]
  then show ?thesis using assms(2) unfolding xs(2) c(1) by (auto simp: map_of_rev_zip_map)
qed

lemma get_tagimms_of:
  assumes "get_tagimms db = Inr rs" "tag \<in> set (tags db)"
  shows "\<exists>b. behdict db tag = Some b \<and> rs tag = Some (uniquify (imms_in b))"
proof -
  obtain xs where xs: "mapR (compute_tag_immediates db) (tags db) = Inr xs" "rs = map_of (rev (zip (tags db) xs))"
    using assms(1) by (auto simp: get_tagimms_def)
  note c = mapR_compute [OF xs(1) [unfolded compute_tag_immediates_def]]
  then show ?thesis using assms(2) unfolding xs(2) c(1) by (auto simp: map_of_rev_zip_map)
qed

lemma text_table_result:
  "text_table db ts = Inr r \<Longrightarrow>
     r = (if \<exists>tag \<in> set ts. behdict db tag = Some [] then None
          else Some (concat (map text_table_entry ts) @ ''};'' @ [CHR 0x0A]))"
  by (induction ts arbitrary: r) (auto split: if_splits)

lemma process_one:
  assumes "bindR (getitem (behdict db) tag) (\<lambda>b. if b = [] then Inr (tag, [])
          else bindR (getitem rs tag) (\<lambda>rs. bindR (getitem imm tag) (\<lambda>imms.
               bindR (gen_insn_text_func parse db tag rs imms) (\<lambda>body. Inr (tag, body))))) = Inr y"
    and "behdict db tag = Some b" "rs tag = Some r" "imm tag = Some i"
  shows "\<exists>body. y = (tag, body) \<and> (if b = [] then body = [] else gen_insn_text_func parse db tag r i = Inr body)"
  using assms by (auto split: if_splits)

definition tokenizer_of :: "insn_parser \<Rightarrow> hexdb \<Rightarrow> string \<Rightarrow> string \<Rightarrow> bool" where
  "tokenizer_of parse db tag f \<longleftrightarrow>
     (\<exists>b body. behdict db tag = Some b \<and>
        (if b = [] then body = []
         else gen_insn_text_func parse db tag (uniquify (regs_in b)) (uniquify (imms_in b)) = Inr body) \<and>
        tokenizer_text db (tag, body) = Inr f)"



end
