(* ===== verification/Dec_Tree.thy ===== *)
theory Dec_Tree
  imports Hex_Prelude "HOL-Library.Multiset"
begin

text \<open>
  \<^verbatim>\<open>third_party/qemu-hexagon/dectree.py\<close>: the decode trees. The module \<open>iset\<close>, which a C
  program of the build generates, is the record \<open>iset\<close>. An encoding is kept as in \<open>encs\<close>,
  least significant bit first, with \<open>0\<close>, \<open>1\<close>, operand letters and \<open>-\<close>. A Python
  set of tags is a list without duplicates, in the order in which Python happens to iterate over it;
  the properties hold for every order. \<open>dt_decode\<close> is the walk the
  C decoder makes over the printed tables, the specification of what the trees are for.
\<close>

unbundle bit_operations_syntax

section \<open>The instruction set\<close>

record insn_info =
  i_enc :: string
  i_enc_class :: string
  i_syntax :: string
  i_rregs :: string
  i_wregs :: string

record grouping =
  g_enc :: string
  g_class_a :: string
  g_class_b :: string

record iset =
  iset_tags :: "string list"
  iset_info :: "string \<rightharpoonup> insn_info"
  subinsn_groupings :: "(string \<times> grouping) list"
  enc_ext_spaces :: "(string \<times> string) list"

definition flip_enc :: "string \<Rightarrow> string" where
  "flip_enc e = rev (str_replace e '' '' [])"

section \<open>Separating a set of tags\<close>

definition slice :: "string \<Rightarrow> nat \<Rightarrow> nat \<Rightarrow> string" where
  "slice e lsb width = take width (drop lsb e)"

text \<open>\<open>set([encs[tag][lsb:lsb + width] for tag in tags])\<close>\<close>

definition bitset :: "(string \<Rightarrow> string) \<Rightarrow> string list \<Rightarrow> nat \<Rightarrow> nat \<Rightarrow> string list" where
  "bitset encs tags lsb width = remdups (map (\<lambda>tag. slice (encs tag) lsb width) tags)"

definition every_bit_counts :: "string list \<Rightarrow> bool" where
  "every_bit_counts bs \<longleftrightarrow>
     (\<forall>i \<in> set [1..<length (hd bs)].
        length (remdups (map (\<lambda>bits. take i bits @ drop (i + 1) bits) bs)) \<noteq> length bs)"

definition opcode_bit_for_all :: "(string \<Rightarrow> string) \<Rightarrow> string list \<Rightarrow> nat \<Rightarrow> bool" where
  "opcode_bit_for_all encs tags i \<longleftrightarrow> (\<forall>tag \<in> set tags. encs tag ! i = CHR ''0'' \<or> encs tag ! i = CHR ''1'')"

definition differentiator_opcode_bit :: "(string \<Rightarrow> string) \<Rightarrow> string list \<Rightarrow> nat \<Rightarrow> bool" where
  "differentiator_opcode_bit encs tags i \<longleftrightarrow> opcode_bit_for_all encs tags i \<and>
     \<not> ((\<forall>tag \<in> set tags. encs tag ! i = CHR ''0'') \<or> (\<forall>tag \<in> set tags. encs tag ! i = CHR ''1''))"

text \<open>\<open>range(enc_width - width, -1, -1)\<close>\<close>

definition lsbs :: "nat \<Rightarrow> nat \<Rightarrow> nat list" where
  "lsbs enc_width width = (if width \<le> enc_width then rev [0..<enc_width - width + 1] else [])"

definition all_differ :: "(string \<Rightarrow> string) \<Rightarrow> string list \<Rightarrow> nat \<Rightarrow> nat \<Rightarrow> bool" where
  "all_differ encs tags lsb width \<longleftrightarrow> (\<forall>i \<in> set [lsb..<lsb + width]. differentiator_opcode_bit encs tags i)"

definition catches_all :: "(string \<Rightarrow> string) \<Rightarrow> string list \<Rightarrow> nat \<Rightarrow> nat \<Rightarrow> bool" where
  "catches_all encs tags lsb width \<longleftrightarrow> length (bitset encs tags lsb width) = length tags"

definition candidates :: "nat \<Rightarrow> nat list \<Rightarrow> (nat \<times> nat) list" where
  "candidates enc_width widths = concat (map (\<lambda>width. map (\<lambda>lsb. (lsb, width)) (lsbs enc_width width)) widths)"

definition find_separator :: "(string \<Rightarrow> string) \<Rightarrow> string list \<Rightarrow> (nat \<times> nat) res" where
  "find_separator encs tags =
     (let enc_width = length (encs (hd tags))
      in if \<exists>tag \<in> set tags. length (encs tag) < enc_width then Inl IndexError
         else case List.find (\<lambda>(lsb, width). all_differ encs tags lsb width \<and>
                  (catches_all encs tags lsb width \<or> every_bit_counts (bitset encs tags lsb width)))
                (candidates enc_width [4, 3, 2, 1]) of
           None \<Rightarrow> Inl (PyException ''Could not find a way to differentiate the encodings of the following tags'')
         | Some (lsb, width) \<Rightarrow>
             if catches_all encs tags lsb width
             then case List.find (\<lambda>(lsb, width). all_differ encs tags lsb width \<and> catches_all encs tags lsb width)
                    (candidates enc_width [1..<width]) of
                  None \<Rightarrow> Inr (lsb, width)
                | Some better \<Rightarrow> Inr better
             else Inr (lsb, width))"

text \<open>\<open>''.join(reversed('{:0{}b}'.format(value, width)))\<close> for a value below \<open>2 ** width\<close>\<close>

definition lsb_bits :: "nat \<Rightarrow> nat \<Rightarrow> string" where
  "lsb_bits width value = map (\<lambda>i. if bit value i then CHR ''1'' else CHR ''0'') [0..<width]"

definition child_leaves :: "(string \<Rightarrow> string) \<Rightarrow> string list \<Rightarrow> nat \<Rightarrow> nat \<Rightarrow> string list list" where
  "child_leaves encs tags lsb width =
     map (\<lambda>value. filter (\<lambda>tag. slice (encs tag) lsb width = lsb_bits width value) tags) [0..<2 ^ width]"

datatype dtree = Leaf "string list" | Branch "string list" nat nat "dtree list"

primrec leaves :: "dtree \<Rightarrow> string list" where
  "leaves (Leaf ls) = ls"
| "leaves (Branch ls lsb width cs) = ls"

lemma find_separator_ok:
  assumes "find_separator encs tags = Inr (lsb, width)"
  shows "0 < width" "width \<le> 4" "all_differ encs tags lsb width" "lsb + width \<le> length (encs (hd tags))"
    "\<forall>tag \<in> set tags. length (encs (hd tags)) \<le> length (encs tag)"
proof -
  have cand: "(l, w) \<in> set (candidates n ws) \<longleftrightarrow> w \<in> set ws \<and> l + w \<le> n" for l w n ws
    by (force simp: candidates_def lsbs_def image_iff)
  show "0 < width" "width \<le> 4" "all_differ encs tags lsb width" "lsb + width \<le> length (encs (hd tags))"
    "\<forall>tag \<in> set tags. length (encs (hd tags)) \<le> length (encs tag)"
    using assms
    by (auto simp: find_separator_def Let_def cand find_Some_iff not_less
        dest!: nth_mem split: if_splits option.splits)
qed

lemma child_shorter:
  assumes "find_separator encs tags = Inr (lsb, width)" "ls \<in> set (child_leaves encs tags lsb width)"
  shows "length ls < length tags"
proof -
  obtain v where ls: "ls = filter (\<lambda>tag. slice (encs tag) lsb width = lsb_bits width v) tags"
    using assms(2) by (auto simp: child_leaves_def)
  note ok = find_separator_ok [OF assms(1)]
  have d: "differentiator_opcode_bit encs tags lsb" using ok(1,3) by (auto simp: all_differ_def)
  have "\<exists>tag \<in> set tags. slice (encs tag) lsb width \<noteq> lsb_bits width v"
  proof (rule ccontr)
    assume "\<not> ?thesis"
    then have "encs tag ! lsb = lsb_bits width v ! 0" if "tag \<in> set tags" for tag
      using that ok by (auto simp: slice_def dest!: bspec [OF _ that] arg_cong [of _ _ "\<lambda>s. s ! 0"])
    then show False using d ok(1) by (cases "bit v 0") (auto simp: differentiator_opcode_bit_def lsb_bits_def)
  qed
  then show ?thesis unfolding ls by (auto simp: length_filter_less)
qed

function auto_separate :: "(string \<Rightarrow> string) \<Rightarrow> string list \<Rightarrow> dtree res" where
  "auto_separate encs tags =
     (if length tags \<le> 1 then Inr (Leaf tags)
      else case find_separator encs tags of
             Inl e \<Rightarrow> Inl e
           | Inr (lsb, width) \<Rightarrow>
               bindR (mapR (auto_separate encs) (child_leaves encs tags lsb width)) (\<lambda>cs.
               Inr (Branch tags lsb width cs)))"
  by pat_completeness auto
termination
  by (relation "measure (\<lambda>(encs, tags). length tags)") (auto simp: child_shorter)

declare auto_separate.simps [simp del]

section \<open>Walking a tree\<close>

definition field_of :: "nat \<Rightarrow> nat \<Rightarrow> nat \<Rightarrow> nat" where
  "field_of w lsb width = take_bit width (drop_bit lsb w)"

function dt_decode :: "dtree \<Rightarrow> nat \<Rightarrow> string list" where
  "dt_decode (Leaf ls) w = ls"
| "dt_decode (Branch ls lsb width cs) w =
     (if field_of w lsb width < length cs then dt_decode (cs ! field_of w lsb width) w else [])"
  by pat_completeness auto
termination
  by (relation "measure (\<lambda>(t, w). size t)")
     (auto simp: less_Suc_eq_le intro!: size_list_estimation' [OF nth_mem])

text \<open>A word matches an encoding when it has the encoding's opcode bits.\<close>

definition matches :: "string \<Rightarrow> nat \<Rightarrow> bool" where
  "matches e w \<longleftrightarrow> (\<forall>i < length e. (e ! i = CHR ''0'' \<longrightarrow> \<not> bit w i) \<and> (e ! i = CHR ''1'' \<longrightarrow> bit w i))"

lemma lsb_bits_inject:
  assumes "lsb_bits n a = lsb_bits n b" "a < 2 ^ n" "b < 2 ^ n"
  shows "a = b"
proof -
  have "bit a i = bit b i" if "i < n" for i
    using assms(1) that by (auto simp: lsb_bits_def split: if_splits)
  then have "take_bit n a = take_bit n b"
    by (intro bit_eqI) (auto simp: bit_take_bit_iff)
  then show ?thesis using assms(2,3) by (simp add: take_bit_nat_eq_self)
qed

lemma matches_slice:
  assumes "find_separator encs tags = Inr (lsb, width)" "tag \<in> set tags" "matches (encs tag) w"
  shows "slice (encs tag) lsb width = lsb_bits width (field_of w lsb width)"
proof -
  note ok = find_separator_ok [OF assms(1)]
  have len: "lsb + width \<le> length (encs tag)" using ok(4,5) assms(2) by force
  show ?thesis
  proof (rule nth_equalityI)
    show "length (slice (encs tag) lsb width) = length (lsb_bits width (field_of w lsb width))"
      using len by (simp add: slice_def lsb_bits_def)
    fix i assume "i < length (slice (encs tag) lsb width)"
    then have i: "i < width" by (simp add: slice_def)
    then have "differentiator_opcode_bit encs tags (lsb + i)" using ok(3) by (auto simp: all_differ_def)
    then have "encs tag ! (lsb + i) = CHR ''0'' \<or> encs tag ! (lsb + i) = CHR ''1''"
      using assms(2) by (auto simp: differentiator_opcode_bit_def opcode_bit_for_all_def)
    then show "slice (encs tag) lsb width ! i = lsb_bits width (field_of w lsb width) ! i"
      using assms(3) i len
      by (auto simp: matches_def slice_def lsb_bits_def field_of_def bit_take_bit_iff bit_drop_bit_eq)
  qed
qed

lemma auto_separate_cases:
  assumes "auto_separate encs tags = Inr t"
  obtains (leaf) "length tags \<le> 1" "t = Leaf tags"
  | (branch) lsb width cs where "1 < length tags" "find_separator encs tags = Inr (lsb, width)"
      "t = Branch tags lsb width cs" "length cs = 2 ^ width"
      "\<And>v. v < 2 ^ width \<Longrightarrow> auto_separate encs
         (filter (\<lambda>tag. slice (encs tag) lsb width = lsb_bits width v) tags) = Inr (cs ! v)"
proof (cases "length tags \<le> 1")
  case True
  then show ?thesis using assms leaf by (simp add: auto_separate.simps [of encs tags])
next
  case False
  obtain lsb width cs where s: "find_separator encs tags = Inr (lsb, width)" "t = Branch tags lsb width cs"
      "mapR (auto_separate encs) (child_leaves encs tags lsb width) = Inr cs"
    using assms False by (auto simp: auto_separate.simps [of encs tags] split: sum.splits)
  then have "length cs = 2 ^ width" by (simp add: mapR_Inr_iff list_all2_conv_all_nth child_leaves_def)
  moreover have "auto_separate encs (filter (\<lambda>tag. slice (encs tag) lsb width = lsb_bits width v) tags) = Inr (cs ! v)"
    if "v < 2 ^ width" for v
    using s(3) that by (auto simp: mapR_Inr_iff list_all2_conv_all_nth child_leaves_def dest!: spec [of _ v])
  ultimately show ?thesis using branch s False by simp
qed

text \<open>The separated set of every node, and the tags at the leaves.\<close>

lemma auto_separate_leaves: "auto_separate encs tags = Inr t \<Longrightarrow> leaves t = tags"
  by (erule auto_separate_cases) simp_all

lemma decode_complete:
  "auto_separate encs tags = Inr t \<Longrightarrow> distinct tags \<Longrightarrow> tag \<in> set tags \<Longrightarrow> matches (encs tag) w \<Longrightarrow>
     dt_decode t w = [tag]"
proof (induction "length tags" arbitrary: tags t rule: less_induct)
  case less
  from less.prems(1) show ?case
  proof (cases rule: auto_separate_cases)
    case leaf
    then show ?thesis using less.prems(3) by (cases tags) auto
  next
    case (branch lsb width cs)
    let ?v = "field_of w lsb width"
    let ?ls = "filter (\<lambda>tag. slice (encs tag) lsb width = lsb_bits width ?v) tags"
    have v: "?v < 2 ^ width" by (simp add: field_of_def take_bit_nat_less_exp)
    have "?ls \<in> set (child_leaves encs tags lsb width)" using v by (auto simp: child_leaves_def)
    then have "length ?ls < length tags" by (rule child_shorter [OF branch(2)])
    moreover have "tag \<in> set ?ls" using matches_slice [OF branch(2) less.prems(3,4)] less.prems(3) by simp
    ultimately have "dt_decode (cs ! ?v) w = [tag]"
      using less.hyps [OF _ branch(5) [OF v]] less.prems(2,4) by simp
    then show ?thesis using v branch(3,4) by simp
  qed
qed

lemma decode_small:
  "auto_separate encs tags = Inr t \<Longrightarrow> length (dt_decode t w) \<le> 1 \<and> set (dt_decode t w) \<subseteq> set tags"
proof (induction "length tags" arbitrary: tags t rule: less_induct)
  case less
  from less.prems show ?case
  proof (cases rule: auto_separate_cases)
    case (branch lsb width cs)
    let ?v = "field_of w lsb width"
    let ?ls = "filter (\<lambda>tag. slice (encs tag) lsb width = lsb_bits width ?v) tags"
    have v: "?v < 2 ^ width" by (simp add: field_of_def take_bit_nat_less_exp)
    have "?ls \<in> set (child_leaves encs tags lsb width)" using v by (auto simp: child_leaves_def)
    then have "length ?ls < length tags" by (rule child_shorter [OF branch(2)])
    from less.hyps [OF this branch(5) [OF v]] show ?thesis using v branch(3,4) by auto
  qed simp
qed

section \<open>Masks\<close>

text \<open>\<open>int(s, 2)\<close> of a string of zeros and ones; \<open>re.sub(r'[^...]', r'0', s)\<close>.\<close>

definition bin_val :: "string \<Rightarrow> nat" where
  "bin_val s = foldl (\<lambda>n c. 2 * n + (if c = CHR ''1'' then 1 else 0)) 0 s"

definition zero_unless :: "string \<Rightarrow> string \<Rightarrow> string" where
  "zero_unless keep s = map (\<lambda>c. if c \<in> set keep then c else CHR ''0'') s"

definition match_mask :: "string \<Rightarrow> nat" where
  "match_mask e = (let enc = rev e in bin_val (zero_unless ''1'' (str_replace enc ''0'' ''1'')))"

definition match_value :: "string \<Rightarrow> nat" where
  "match_value e = (let enc = rev e in bin_val (zero_unless ''01'' enc))"

lemma bin_val_bit: "bit (bin_val (rev s)) i \<longleftrightarrow> i < length s \<and> s ! i = CHR ''1''"
proof (induction s arbitrary: i)
  case Nil
  then show ?case by (simp add: bin_val_def)
next
  case (Cons c s)
  have "bin_val (rev (c # s)) = of_bool (c = CHR ''1'') + 2 * bin_val (rev s)"
    by (simp add: bin_val_def)
  then show ?case using Cons by (cases i) (auto simp: bit_Suc bit_0)
qed

lemma str_replace_char: "str_replace s [a] [b] = map (\<lambda>c. if c = a then b else c) s"
  by (induction s) (auto simp: starts_with_def)

lemma match_mask_bit: "bit (match_mask e) i \<longleftrightarrow> i < length e \<and> (e ! i = CHR ''0'' \<or> e ! i = CHR ''1'')"
proof -
  have "match_mask e = bin_val (rev (map (\<lambda>c. if c = CHR ''0'' \<or> c = CHR ''1'' then CHR ''1'' else CHR ''0'') e))"
    unfolding match_mask_def zero_unless_def str_replace_char Let_def rev_map by (auto intro!: arg_cong [of _ _ bin_val])
  then show ?thesis by (auto simp: bin_val_bit split: if_splits)
qed

lemma match_value_bit: "bit (match_value e) i \<longleftrightarrow> i < length e \<and> e ! i = CHR ''1''"
  unfolding match_value_def zero_unless_def Let_def rev_map [symmetric] by (auto simp: bin_val_bit split: if_splits)

lemma mask_matches: "w AND match_mask e = match_value e \<longleftrightarrow> matches e w"
proof -
  have "w AND match_mask e = match_value e \<longleftrightarrow> (\<forall>i. bit (w AND match_mask e) i = bit (match_value e) i)"
    by (metis bit_eqI)
  also have "\<dots> \<longleftrightarrow> (\<forall>i. (bit w i \<and> i < length e \<and> (e ! i = CHR ''0'' \<or> e ! i = CHR ''1'')) =
      (i < length e \<and> e ! i = CHR ''1''))"
    by (simp only: bit_and_iff match_mask_bit match_value_bit)
  also have "\<dots> \<longleftrightarrow> matches e w"
  proof -
    have "(b \<and> i < n \<and> (c = CHR ''0'' \<or> c = CHR ''1'')) = (i < n \<and> c = CHR ''1'') \<longleftrightarrow>
        (i < n \<longrightarrow> (c = CHR ''0'' \<longrightarrow> \<not> b) \<and> (c = CHR ''1'' \<longrightarrow> b))" for b c and i n :: nat
      by (cases "c = CHR ''1''") auto
    then show ?thesis unfolding matches_def by (simp only:)
  qed
  finally show ?thesis .
qed

section \<open>Properties\<close>

text \<open>C24: The decode tree built for a set of tags decodes every instruction: a word that has the opcode bits of a tag's encoding is led to the leaf of exactly that tag, and no word at all is led to more than one tag.\<close>

theorem auto_separate_decodes:
  assumes "auto_separate encs tags = Inr t" "distinct tags"
  shows "(\<forall>tag w. tag \<in> set tags \<and> matches (encs tag) w \<longrightarrow> dt_decode t w = [tag]) \<and>
    (\<forall>w. length (dt_decode t w) \<le> 1 \<and> set (dt_decode t w) \<subseteq> set tags)"
  using decode_complete [OF assms] decode_small [OF assms(1)] by blast

definition demo_encs :: "string \<Rightarrow> string" where
  "demo_encs tag = (if tag = ''A'' then ''dd00'' else if tag = ''B'' then ''dd01'' else ''dd11'')"

lemma demo_separate:
  "auto_separate demo_encs [''A'', ''B'', ''C''] =
     Inr (Branch [''A'', ''B'', ''C''] 2 2 [Leaf [''A''], Leaf [], Leaf [''B''], Leaf [''C'']])"
proof -
  have f: "find_separator demo_encs [''A'', ''B'', ''C''] = Inr (2, 2)" by code_simp
  have c: "child_leaves demo_encs [''A'', ''B'', ''C''] 2 2 = [[''A''], [], [''B''], [''C'']]" by code_simp
  show ?thesis by (simp add: auto_separate.simps [of demo_encs] f c)
qed

theorem auto_separate_decodes_witness:
  "dt_decode (Branch [''A'', ''B'', ''C''] 2 2 [Leaf [''A''], Leaf [], Leaf [''B''], Leaf [''C'']]) 13 = [''C'']"
proof -
  have "matches (demo_encs ''C'') 13"
    unfolding mask_matches [symmetric] by code_simp
  then show ?thesis using auto_separate_decodes [OF demo_separate] by simp
qed

text \<open>Encodings that auto_separate can separate do not overlap: no instruction word matches two tags of the set.\<close>

lemma separable_disjoint:
  assumes "auto_separate encs tags = Inr t" "distinct tags" "a \<in> set tags" "b \<in> set tags"
    and "matches (encs a) w" "matches (encs b) w"
  shows "a = b"
  using decode_complete [OF assms(1,2,3,5)] decode_complete [OF assms(1,2,4,6)] by simp

lemma separable_disjoint_witness: "\<not> matches (demo_encs ''A'') 13"
proof
  assume "matches (demo_encs ''A'') 13"
  moreover have "matches (demo_encs ''C'') 13"
    unfolding mask_matches [symmetric] by code_simp
  ultimately have "''A'' = ''C''"
    by (intro separable_disjoint [OF demo_separate]) simp_all
  then show False by simp
qed

text \<open>C29: The mask and match values of print_match_info are exact: a word agrees with the match value under the mask if and only if it has every opcode bit of the encoding.\<close>

theorem match_info_exact: "w AND match_mask e = match_value e \<longleftrightarrow> matches e w"
  by (rule mask_matches)

lemma lsb_bits_onto:
  assumes "length s = n" "set s \<subseteq> {CHR ''0'', CHR ''1''}"
  shows "\<exists>v < 2 ^ n. s = lsb_bits n v"
proof -
  let ?v = "bin_val (rev s)"
  have b: "bit ?v i \<longleftrightarrow> i < n \<and> s ! i = CHR ''1''" for i
    using assms(1) by (simp add: bin_val_bit)
  have "take_bit n ?v = ?v"
    by (rule bit_eqI) (auto simp: bit_take_bit_iff b)
  then have "?v < 2 ^ n" by (metis take_bit_nat_less_exp)
  moreover have "s = lsb_bits n ?v"
  proof (rule nth_equalityI)
    fix i assume i: "i < length s"
    then have "s ! i \<in> {CHR ''0'', CHR ''1''}" using assms(2) nth_mem by blast
    then show "s ! i = lsb_bits n ?v ! i" using i assms(1) by (auto simp: lsb_bits_def b)
  qed (simp add: lsb_bits_def assms(1))
  ultimately show ?thesis by blast
qed

lemma filter_upt_eq: "u < n \<Longrightarrow> filter (\<lambda>v. v = u) [0..<n] = [u]"
  by (induction n) (auto simp: less_Suc_eq filter_empty_conv)

lemma mset_filter_values:
  assumes "\<And>x. x \<in> set xs \<Longrightarrow> \<exists>!v. v < n \<and> P v x"
  shows "mset (concat (map (\<lambda>v. filter (P v) xs) [0..<n])) = mset xs"
  using assms
proof (induction xs)
  case Nil
  have "concat (map (\<lambda>v. filter (P v) []) [0..<n]) = []" by simp
  then show ?case by (simp only:)
next
  case (Cons x xs)
  obtain u where u: "u < n" "P u x" "\<And>v. v < n \<Longrightarrow> P v x \<Longrightarrow> v = u"
    using Cons.prems [of x] by auto
  have "mset (concat (map (\<lambda>v. filter (P v) (x # xs)) vs)) =
      mset (concat (map (\<lambda>v. filter (P v) xs) vs)) + replicate_mset (length (filter (\<lambda>v. P v x) vs)) x" for vs
    by (induction vs) simp_all
  moreover have "filter (\<lambda>v. P v x) [0..<n] = [u]"
  proof -
    have "filter (\<lambda>v. P v x) [0..<n] = filter (\<lambda>v. v = u) [0..<n]"
    proof (rule filter_cong [OF refl])
      fix v assume "v \<in> set [0..<n]"
      then show "P v x = (v = u)" using u(2) u(3) [of v] by auto
    qed
    then show ?thesis using filter_upt_eq [OF u(1)] by simp
  qed
  moreover have "mset (concat (map (\<lambda>v. filter (P v) xs) [0..<n])) = mset xs"
    by (rule Cons.IH) (use Cons.prems in simp)
  ultimately show ?case by (simp only: mset.simps) simp
qed



end
