(* ===== verification/Dec_Print.thy ===== *)
theory Dec_Print
  imports Dec_Tree Hex_Common
begin

text \<open>
  The rest of \<^verbatim>\<open>dectree.py\<close>: sorting the tags into the decode trees, and printing tables, match
  masks and operand fields. Output is the list of printed lines. \<open>next(iter(s))\<close> of a set is the
  first element of the list that stands for it. Dictionaries that are iterated over are association
  lists.
\<close>

section \<open>Sorting the tags into trees\<close>

record dec_sets =
  s_encs :: "(string \<times> string) list"
  s_normal :: "string list"
  s_16bit :: "string list"
  s_groupings :: "string list"
  s_subinsns :: "(string \<times> string list) list"
  s_extensions :: "(string \<times> string list) list"

definition set_add :: "'a \<Rightarrow> 'a list \<Rightarrow> 'a list" where
  "set_add x xs = (if x \<in> set xs then xs else xs @ [x])"

definition info_of :: "iset \<Rightarrow> string \<Rightarrow> insn_info res" where
  "info_of I tag = getitem (iset_info I) tag"

definition base_encs :: "iset \<Rightarrow> (string \<times> string) list res" where
  "base_encs I =
     foldR (\<lambda>tag encs. bindR (info_of I tag) (\<lambda>i.
         Inr (if i_enc i = ''MISSING ENCODING'' then encs else dict_set tag (flip_enc (i_enc i)) encs)))
       (iset_tags I) []"

definition enc_classes :: "iset \<Rightarrow> (string \<times> string) list \<Rightarrow> string list res" where
  "enc_classes I encs =
     bindR (mapR (\<lambda>(tag, _). bindR (info_of I tag) (\<lambda>i. Inr (i_enc_class i))) encs) (\<lambda>cs. Inr (remdups cs))"

definition is_subinsn :: "string \<Rightarrow> bool" where
  "is_subinsn c = starts_with c ''SUBINSN_''"

definition is_extension :: "string \<Rightarrow> bool" where
  "is_extension c \<longleftrightarrow> c \<notin> {''NORMAL'', ''16BIT''} \<and> \<not> is_subinsn c"

definition add_to_class :: "string \<Rightarrow> string \<Rightarrow> (string \<times> string list) list \<Rightarrow> (string \<times> string list) list res" where
  "add_to_class c tag m = bindR (getitem (map_of m) c) (\<lambda>ls. Inr (dict_set c (set_add tag ls) m))"

definition classify_tag :: "iset \<Rightarrow> string \<Rightarrow> dec_sets \<Rightarrow> dec_sets res" where
  "classify_tag I tag st =
     (if tag \<in> fst ` set (subinsn_groupings I)
      then Inr (st\<lparr>s_groupings := set_add tag (s_groupings st)\<rparr>)
      else bindR (info_of I tag) (\<lambda>i. bindR (getitem (map_of (s_encs st)) tag) (\<lambda>enc.
        let c = i_enc_class i in
        if is_subinsn c
        then bindR (add_to_class c tag (s_subinsns st)) (\<lambda>m.
               Inr (st\<lparr>s_encs := (if length enc \<noteq> 32
                        then dict_set tag (enc @ replicate (32 - length enc) (CHR ''0'')) (s_encs st)
                        else s_encs st), s_subinsns := m\<rparr>))
        else if c = ''16BIT''
        then (if length enc \<noteq> 16 then Inl (PyException ''width of 16 bits'')
              else Inr (st\<lparr>s_16bit := set_add tag (s_16bit st)\<rparr>))
        else if length enc \<noteq> 32 then Inl (PyException ''width of 32 bits'')
        else if c = ''NORMAL'' then Inr (st\<lparr>s_normal := set_add tag (s_normal st)\<rparr>)
        else bindR (add_to_class c tag (s_extensions st)) (\<lambda>m. Inr (st\<lparr>s_extensions := m\<rparr>)))))"

definition add_ext_space :: "string \<times> string \<Rightarrow> dec_sets \<Rightarrow> dec_sets" where
  "add_ext_space e st =
     st\<lparr>s_encs := dict_set (fst e) (flip_enc (snd e)) (s_encs st), s_normal := set_add (fst e) (s_normal st)\<rparr>"

definition faketags :: "iset \<Rightarrow> string set" where
  "faketags I = fst ` set (enc_ext_spaces I) \<union> fst ` set (subinsn_groupings I)"

definition build_sets :: "iset \<Rightarrow> dec_sets res" where
  "build_sets I =
     bindR (base_encs I) (\<lambda>encs0.
     bindR (enc_classes I encs0) (\<lambda>classes.
     let encs = fold (\<lambda>(tag, g). dict_set tag (flip_enc (g_enc g))) (subinsn_groupings I) encs0;
         st = \<lparr>s_encs = encs, s_normal = [], s_16bit = [], s_groupings = [],
               s_subinsns = map (\<lambda>c. (c, [])) (filter is_subinsn classes),
               s_extensions = map (\<lambda>c. (c, [])) (filter is_extension classes)\<rparr>
     in bindR (foldR (classify_tag I) (map fst encs) st) (\<lambda>st'.
        Inr (fold add_ext_space (enc_ext_spaces I) st'))))"

definition enc_fun :: "(string \<times> string) list \<Rightarrow> string \<Rightarrow> string" where
  "enc_fun encs tag = (case map_of encs tag of None \<Rightarrow> [] | Some e \<Rightarrow> e)"

section \<open>Names of tables\<close>

text \<open>What the printing routines read: the instruction set, the encodings left after the fake tags are deleted, and the encoding classes.\<close>

record dec_ctx =
  c_iset :: iset
  c_encs :: "(string \<times> string) list"
  c_classes :: "string list"

text \<open>\<open>xs.index(x)\<close>\<close>

fun list_index :: "'a \<Rightarrow> 'a list \<Rightarrow> nat res" where
  "list_index x [] = Inl ValueError"
| "list_index x (y # ys) = (if y = x then Inr 0 else bindR (list_index x ys) (\<lambda>n. Inr (Suc n)))"

text \<open>\<open>bits[lsb:lsb + width] = new\<close>\<close>

definition slice_assign :: "nat \<Rightarrow> nat \<Rightarrow> string \<Rightarrow> string \<Rightarrow> string" where
  "slice_assign lsb width new bits = take lsb bits @ new @ drop (lsb + width) bits"

fun determine :: "dtree list \<Rightarrow> string \<Rightarrow> string res" where
  "determine (Branch ls lsb width cs # child # path) bits =
     bindR (list_index child cs) (\<lambda>value.
     determine (child # path) (slice_assign lsb width (lsb_bits width value) bits))"
| "determine (Leaf ls # child # path) bits = Inl KeyError"
| "determine _ bits = Inr bits"

definition name_base :: "dec_ctx \<Rightarrow> string \<Rightarrow> nat \<Rightarrow> string res" where
  "name_base C tag enc_width =
     bindR (info_of (c_iset C) tag) (\<lambda>i.
       let c = i_enc_class i
       in Inr (if c \<in> set (c_classes C) \<and> is_extension c then ''DECODE_EXT_'' @ c
               else if c \<in> set (c_classes C) \<and> is_subinsn c then ''DECODE_SUBINSN_'' @ c
               else ''DECODE_ROOT_'' @ show_nat enc_width))"

definition table_base :: "dec_ctx \<Rightarrow> string list \<Rightarrow> (string \<times> nat) res" where
  "table_base C ls =
     (case ls of
        [] \<Rightarrow> Inl StopIteration
      | tag # _ \<Rightarrow>
          (case map_of (subinsn_groupings (c_iset C)) tag of
             Some g \<Rightarrow> Inr (''DECODE_ROOT_EE'', length (str_replace (g_enc g) '' '' []))
           | None \<Rightarrow>
               (case filter (\<lambda>t. t \<notin> faketags (c_iset C)) ls of
                  [] \<Rightarrow> Inl StopIteration
                | t # _ \<Rightarrow> bindR (getitem (map_of (c_encs C)) t) (\<lambda>e.
                    bindR (name_base C t (length e)) (\<lambda>n. Inr (n, length e))))))"

definition table_name :: "dec_ctx \<Rightarrow> dtree list \<Rightarrow> dtree \<Rightarrow> string res" where
  "table_name C parents node =
     (let path = parents @ [node] in
      bindR (table_base C (leaves node)) (\<lambda>(name, enc_width).
      bindR (determine path (replicate enc_width (CHR ''_''))) (\<lambda>bits.
      Inr (if node \<noteq> hd path then name @ ''_'' @ rev bits else name))))"

section \<open>Tables\<close>

definition table_line :: "string \<Rightarrow> string \<Rightarrow> nat \<Rightarrow> nat \<Rightarrow> string" where
  "table_line kind name lsb width =
     kind @ ''('' @ name @ '','' @ show_nat (2 ^ width) @ '',DECODE_SEPARATOR_BITS('' @ show_nat lsb @ '','' @ show_nat width @ ''))''"

definition leaf_line :: "dec_ctx \<Rightarrow> string \<Rightarrow> string res" where
  "leaf_line C tag =
     (case map_of (subinsn_groupings (c_iset C)) tag of
        Some g \<Rightarrow>
          Inr (if str_in ''RESERVED'' tag then ''INVALID()''
               else ''SUBINSNS('' @ tag @ '','' @ g_class_a g @ '','' @ g_class_b g @ '',\"''
                    @ str_replace (g_enc g) '' '' [] @ ''\")'')
      | None \<Rightarrow>
          (case map_of (enc_ext_spaces (c_iset C)) tag of
             Some e \<Rightarrow> Inr (''EXTSPACE('' @ tag @ '',\"'' @ str_replace e '' '' [] @ ''\")'')
           | None \<Rightarrow> bindR (getitem (map_of (c_encs C)) tag) (\<lambda>e.
               Inr (''TERMINAL('' @ tag @ '',\"'' @ rev e @ ''\")''))))"

definition link_line :: "string \<Rightarrow> string" where
  "link_line n = ''TABLE_LINK('' @ n @ '')''"

definition child_line :: "dec_ctx \<Rightarrow> dtree list \<Rightarrow> dtree \<Rightarrow> string res" where
  "child_line C path child =
     (case leaves child of
        [] \<Rightarrow> Inr ''INVALID()''
      | [tag] \<Rightarrow> leaf_line C tag
      | _ \<Rightarrow> bindR (table_name C path child) (\<lambda>n. Inr (link_line n)))"

fun print_node :: "dec_ctx \<Rightarrow> dtree list \<Rightarrow> dtree \<Rightarrow> string list res" where
  "print_node C parents (Leaf ls) = (if length ls \<le> 1 then Inr [] else Inl KeyError)"
| "print_node C parents (Branch ls lsb width cs) =
     (let node = Branch ls lsb width cs in
      if length ls \<le> 1 then Inr []
      else bindR (table_name C parents node) (\<lambda>name.
           bindR (mapR (child_line C (parents @ [node])) cs) (\<lambda>rows.
           bindR (mapR (print_node C (parents @ [node])) cs) (\<lambda>subs.
           Inr (table_line ''DECODE_NEW_TABLE'' name lsb width # rows
                @ [table_line ''DECODE_END_TABLE'' name lsb width, []] @ concat subs)))))"

definition print_tree :: "dec_ctx \<Rightarrow> dtree \<Rightarrow> string list res" where
  "print_tree C t = print_node C [] t"

section \<open>Masks\<close>

text \<open>\<open>'{:x}'.format(n)\<close>\<close>

fun show_hex :: "nat \<Rightarrow> string" where
  "show_hex n =
     (let d = (\<lambda>k. if k < 10 then char_of (48 + k) else char_of (87 + k))
      in if n < 16 then [d n] else show_hex (n div 16) @ [d (n mod 16)])"

declare show_hex.simps [simp del]

definition sorted_tags :: "dec_ctx \<Rightarrow> string list res" where
  "sorted_tags C =
     (if \<forall>(tag, _) \<in> set (c_encs C). tag \<in> set (iset_tags (c_iset C))
      then Inr (filter (\<lambda>t. t \<in> fst ` set (c_encs C)) (first_occs [] (iset_tags (c_iset C))))
      else Inl ValueError)"

definition match_info_line :: "string \<Rightarrow> string \<Rightarrow> string" where
  "match_info_line tag e =
     ''DECODE_MATCH_INFO('' @ tag @ '',0x'' @ show_hex (match_mask e) @ ''U,0x'' @ show_hex (match_value e) @ ''U)''"

definition print_match_info :: "dec_ctx \<Rightarrow> string list res" where
  "print_match_info C =
     bindR (sorted_tags C) (\<lambda>ts. Inr (map (\<lambda>tag. match_info_line tag (enc_fun (c_encs C) tag)) ts))"

section \<open>Operand fields\<close>

text \<open>The maximal runs of a letter, as pairs of start and length: the matches of \<open>letter+\<close>.\<close>

function runs :: "char \<Rightarrow> nat \<Rightarrow> string \<Rightarrow> (nat \<times> nat) list" where
  "runs c k [] = []"
| "runs c k (x # s) =
     (if x = c
      then (let n = length (takeWhile (\<lambda>y. y = c) s) in (k, Suc n) # runs c (k + Suc n) (drop n s))
      else runs c (Suc k) s)"
  by pat_completeness auto
termination
  by (relation "measure (\<lambda>(c, k, s). length s)") auto

definition rstrip_char :: "char \<Rightarrow> string \<Rightarrow> string" where
  "rstrip_char c s = rev (dropWhile (\<lambda>x. x = c) (rev s))"

text \<open>\<open>s.index(p)\<close>\<close>

fun str_index :: "string \<Rightarrow> string \<Rightarrow> nat res" where
  "str_index p [] = (if p = [] then Inr 0 else Inl ValueError)"
| "str_index p (c # s) = (if starts_with (c # s) p then Inr 0 else bindR (str_index p s) (\<lambda>n. Inr (Suc n)))"

definition num_registers :: "string \<Rightarrow> nat option" where
  "num_registers t = (if t = ''R'' \<or> t = ''V'' then Some 32 else None)"

definition reg_lines :: "string \<Rightarrow> nat \<Rightarrow> regop \<Rightarrow> string list res" where
  "reg_lines enc regno reg =
     (case reg of (reg_type, regid, toss, num) \<Rightarrow>
      case regid of
        [] \<Rightarrow> Inl IndexError
      | letter # _ \<Rightarrow>
          bindR (py_int (rstrip_char (CHR ''S'') num)) (\<lambda>choices.
          case runs letter 0 enc of
            [] \<Rightarrow> Inl (PyException ''missing register field'')
          | [(start, n)] \<Rightarrow>
              if 2 ^ n \<noteq> choices then Inl (PyException ''incorrect register field width'')
              else bindR (str_index (replicate n letter) enc) (\<lambda>pos.
                Inr ((''        DECODE_REG('' @ show_nat regno @ '','' @ show_nat n @ '','' @ show_nat pos @ '')'') #
                  (case num_registers reg_type of
                     Some k \<Rightarrow> (if choices \<noteq> k
                       then [''        DECODE_MAPPED_REG('' @ show_nat regno @ '','' @ reg_type
                              @ replicate (length regid) (CHR ''_'') @ num @ '')'']
                       else [])
                   | None \<Rightarrow> [])))
          | _ \<Rightarrow> Inl (PyException ''split register field'')))"

definition implicit_registers :: "(string \<times> nat) list" where
  "implicit_registers = [(''SP'', 29), (''FP'', 30), (''LR'', 31)]"

definition implicit_lines :: "insn_info \<Rightarrow> nat \<Rightarrow> string list" where
  "implicit_lines i regno =
     (let named = set (str_split (CHR '','') (i_rregs i)) \<union> set (str_split (CHR '','') (i_wregs i));
          rs = filter (\<lambda>(r, _). r \<in> named) implicit_registers
      in map (\<lambda>(k, _, n). ''        DECODE_IMPL_REG('' @ show_nat k @ '','' @ show_nat n @ '')'')
           (enumerate regno rs))"

definition show_int :: "int \<Rightarrow> string" where
  "show_int n = (if n < 0 then ''-'' @ show_nat (nat (- n)) else show_nat (nat n))"

text \<open>The pieces of an immediate: length, start and what remains of the width, from the highest run down.\<close>

fun imm_pieces :: "int \<Rightarrow> (nat \<times> nat) list \<Rightarrow> (nat \<times> nat \<times> int) list" where
  "imm_pieces remainder [] = []"
| "imm_pieces remainder ((start, n) # ms) =
     (n, start, remainder - int n) # imm_pieces (remainder - int n) ms"

definition imm_lines :: "string \<Rightarrow> immop \<Rightarrow> string list res" where
  "imm_lines enc imm =
     (case imm of (imm_type, w, sh) \<Rightarrow>
      let upper = (case imm_type of [] \<Rightarrow> False | c # _ \<Rightarrow> 65 \<le> (of_char c :: nat) \<and> (of_char c :: nat) \<le> 90);
          immno = show_nat (if upper then 1 else 0);
          letter = (if upper then CHR ''I'' else CHR ''i'');
          lower = (if upper then map (\<lambda>c. char_of (of_char c + 32 :: nat)) imm_type else imm_type)
      in bindR (py_int w) (\<lambda>imm_width.
         bindR (if sh = [] then Inr 0 else py_int sh) (\<lambda>imm_shift.
         let ps = imm_pieces (int imm_width) (rev (runs letter 0 enc))
         in if int imm_width \<noteq> (\<Sum>(n, _) \<leftarrow> ps. int n)
            then Inl (if sh \<noteq> [] then TypeError else PyException ''incorrect number of encoding bits'')
            else Inr (map (\<lambda>(n, start, r). ''        DECODE_IMM('' @ immno @ '','' @ show_nat n @ '','' @ show_nat start
                              @ '','' @ show_int r @ '')'') ps
              @ (if str_in lower ''sr'' then [''        DECODE_IMM_SXT('' @ immno @ '','' @ show_nat imm_width @ '')''] else [])
              @ (if lower = ''n'' then [''        DECODE_IMM_NEG('' @ immno @ '','' @ show_nat imm_width @ '')''] else [])
              @ (if imm_shift \<noteq> 0
                 then [''        DECODE_IMM_SHIFT('' @ immno @ '','' @ show_nat imm_shift @ '')''] else [])))))"

fun first_upper :: "immop list \<Rightarrow> bool" where
  "first_upper ((c # _, _) # _) = (65 \<le> (of_char c :: nat) \<and> (of_char c :: nat) \<le> 90)"
| "first_upper _ = False"

definition op_info :: "dec_ctx \<Rightarrow> string \<Rightarrow> string list res" where
  "op_info C tag =
     bindR (info_of (c_iset C) tag) (\<lambda>i.
       let enc = enc_fun (c_encs C) tag;
           rs = uniquify (regs_in (i_syntax i));
           imms = uniquify (imms_in (i_syntax i));
           imms' = (if imms \<noteq> [] \<and> first_upper imms then rev imms else imms)
       in bindR (mapR (\<lambda>(k, r). reg_lines enc k r) (enumerate 0 rs)) (\<lambda>rls.
          bindR (mapR (imm_lines enc) imms') (\<lambda>ils.
          Inr ([[], ''DECODE_OPINFO('' @ tag @ '','']
               @ concat rls @ implicit_lines i (length rs) @ concat ils @ ['')'']))))"

definition print_op_info :: "dec_ctx \<Rightarrow> string list res" where
  "print_op_info C = bindR (sorted_tags C) (\<lambda>ts. bindR (mapR (op_info C) ts) (\<lambda>ls. Inr (concat ls)))"

section \<open>The generated file\<close>

definition separate_classes :: "(string \<Rightarrow> string) \<Rightarrow> (string \<times> string list) list \<Rightarrow> (string \<times> dtree) list res" where
  "separate_classes encs m = mapR (\<lambda>(c, ls). bindR (auto_separate encs ls) (\<lambda>t. Inr (c, t))) m"

definition print_class_trees :: "dec_ctx \<Rightarrow> (string \<times> dtree) list \<Rightarrow> string list res" where
  "print_class_trees C m =
     bindR (mapR (\<lambda>(_, t). print_tree C t) (sort_key fst m)) (\<lambda>ls. Inr (concat ls))"

text \<open>The trees of the module: normal, 16-bit, groupings (separated only if there are any), subinstruction classes, extension classes.\<close>

record dec_trees =
  t_normal :: dtree
  t_16bit :: dtree
  t_groupings :: dtree
  t_subinsns :: "(string \<times> dtree) list"
  t_extensions :: "(string \<times> dtree) list"

definition separate_all :: "iset \<Rightarrow> dec_sets \<Rightarrow> dec_trees res" where
  "separate_all I st =
     (let encs = enc_fun (s_encs st) in
      bindR (auto_separate encs (s_normal st)) (\<lambda>n.
      bindR (auto_separate encs (s_16bit st)) (\<lambda>h.
      bindR (if subinsn_groupings I = [] then Inr (Leaf (s_groupings st)) else auto_separate encs (s_groupings st)) (\<lambda>g.
      bindR (separate_classes encs (s_subinsns st)) (\<lambda>s.
      bindR (separate_classes encs (s_extensions st)) (\<lambda>x.
      Inr \<lparr>t_normal = n, t_16bit = h, t_groupings = g, t_subinsns = s, t_extensions = x\<rparr>))))))"

definition dec_context :: "iset \<Rightarrow> string list \<Rightarrow> dec_sets \<Rightarrow> dec_ctx" where
  "dec_context I classes st =
     \<lparr>c_iset = I, c_encs = filter (\<lambda>(t, _). t \<notin> faketags I) (s_encs st), c_classes = classes\<rparr>"

definition main_dectree :: "iset \<Rightarrow> string list res" where
  "main_dectree I =
     bindR (base_encs I) (\<lambda>encs0.
     bindR (enc_classes I encs0) (\<lambda>classes.
     bindR (build_sets I) (\<lambda>st.
     bindR (separate_all I st) (\<lambda>t.
       let C = dec_context I classes st in
       bindR (print_tree C (t_normal t)) (\<lambda>l1.
       bindR (print_tree C (t_16bit t)) (\<lambda>l2.
       bindR (if subinsn_groupings I = [] then Inr [] else print_tree C (t_groupings t)) (\<lambda>l3.
       bindR (print_class_trees C (t_subinsns t)) (\<lambda>l4.
       bindR (print_class_trees C (t_extensions t)) (\<lambda>l5.
       bindR (print_match_info C) (\<lambda>l6.
       bindR (print_op_info C) (\<lambda>l7.
       Inr (l1 @ l2 @ l3 @ l4 @ l5 @ l6 @ l7))))))))))))"

end
