(* ===== verification/Dec_Props.thy ===== *)
theory Dec_Props
  imports Dec_Print
begin

text \<open>
  Properties of what \<open>Dec_Print\<close> prints: operand fields cover exactly the operand's letters of
  the encoding, every table that is linked to is printed, and the tags in the trees have the widths
  of their trees.
\<close>

section \<open>Operand fields\<close>

abbreviation run_total :: "(nat \<times> nat) list \<Rightarrow> nat" where
  "run_total rs \<equiv> sum_list (map snd rs)"

lemma count_list_replicate: "count_list (replicate m c) c = m"
  by (induction m) simp_all

lemma takeWhile_replicate: "takeWhile (\<lambda>y. y = c) s = replicate (length (takeWhile (\<lambda>y. y = c) s)) c"
  by (induction s) simp_all

lemma runs_split:
  "runs c k s = pre @ (st, n) # post \<Longrightarrow>
     k \<le> st \<and> run_total pre = count_list (take (st - k) s) c \<and>
     (\<forall>j < n. st - k + j < length s \<and> s ! (st - k + j) = c)"
proof (induction c k s arbitrary: pre rule: runs.induct)
  case (1 c k)
  then show ?case by simp
next
  case (2 c k x s)
  show ?case
  proof (cases "x = c")
    case False
    then have "runs c (Suc k) s = pre @ (st, n) # post" using "2.prems" by simp
    from "2.IH"(2) [OF False this] have ih: "Suc k \<le> st" "run_total pre = count_list (take (st - Suc k) s) c"
      "\<forall>j < n. st - Suc k + j < length s \<and> s ! (st - Suc k + j) = c" by auto
    have e: "st - k = Suc (st - Suc k)" using ih(1) by simp
    show ?thesis using ih False unfolding e by simp
  next
    case True
    define m where "m = length (takeWhile (\<lambda>y. y = c) s)"
    have all: "s ! j = c" "j < length s" if "j < m" for j
      using that nth_mem [of j "takeWhile (\<lambda>y. y = c) s"] set_takeWhileD [of _ "\<lambda>y. y = c" s]
        length_takeWhile_le [of "\<lambda>y. y = c" s]
      by (auto simp: m_def takeWhile_nth)
    have r: "(k, Suc m) # runs c (k + Suc m) (drop m s) = pre @ (st, n) # post"
      using "2.prems" True by (simp add: m_def Let_def)
    show ?thesis
    proof (cases pre)
      case Nil
      with r have [simp]: "st = k" "n = Suc m" by auto
      show ?thesis using Nil True all by (auto simp: less_Suc_eq_0_disj)
    next
      case (Cons p pre')
      with r have p: "p = (k, Suc m)" "runs c (k + Suc m) (drop m s) = pre' @ (st, n) # post" by auto
      from "2.IH"(1) [OF True m_def p(2)]
      have ih: "k + Suc m \<le> st" "run_total pre' = count_list (take (st - (k + Suc m)) (drop m s)) c"
        "\<forall>j < n. st - (k + Suc m) + j < length (drop m s) \<and> drop m s ! (st - (k + Suc m) + j) = c" by auto
      define d where "d = st - (k + Suc m)"
      have e: "st - k = Suc (m + d)" using ih(1) by (simp add: d_def)
      have "m \<le> length s" by (simp add: m_def length_takeWhile_le)
      have "take m s = replicate m c"
        unfolding m_def by (metis takeWhile_eq_take takeWhile_replicate)
      then have "count_list (take m s) c = m" by (simp add: count_list_replicate)
      then have "count_list (take (m + d) s) c = m + count_list (take d (drop m s)) c"
        by (simp add: take_add count_list_append)
      then show ?thesis using ih Cons p(1) True \<open>m \<le> length s\<close> unfolding e d_def [symmetric]
        by (auto simp: add.assoc)
    qed
  qed
qed

lemma runs_total: "run_total (runs c k s) = count_list s c"
proof (induction c k s rule: runs.induct)
  case (2 c k x s)
  show ?case
  proof (cases "x = c")
    case True
    define m where "m = length (takeWhile (\<lambda>y. y = c) s)"
    have "count_list s c = count_list (take m s) c + count_list (drop m s) c"
      by (metis append_take_drop_id count_list_append)
    also have "take m s = replicate m c"
      unfolding m_def by (metis takeWhile_eq_take takeWhile_replicate)
    also have "count_list (replicate m c) c = m" by (rule count_list_replicate)
    finally show ?thesis using True "2.IH"(1) [OF True m_def] by (simp add: m_def Let_def)
  qed (use "2.IH"(2) in simp)
qed simp

lemma imm_pieces_mem:
  "(n, st, r) \<in> set (imm_pieces W ms) \<Longrightarrow> \<exists>a b. ms = a @ (st, n) # b \<and> r = W - int (run_total a) - int n"
proof (induction W ms rule: imm_pieces.induct)
  case (2 W s m ms)
  show ?case
  proof (cases "(n, st, r) = (m, s, W - int m)")
    case True
    then show ?thesis by (intro exI [of _ "[]"] exI [of _ ms]) simp
  next
    case False
    then obtain a b where "ms = a @ (st, n) # b" "r = W - int m - int (run_total a) - int n" using 2 by auto
    then show ?thesis by (intro exI [of _ "(s, m) # a"] exI [of _ b]) simp
  qed
qed simp

lemma imm_pieces_total: "(\<Sum>(n, _) \<leftarrow> imm_pieces W ms. int n) = int (run_total ms)"
  by (induction W ms rule: imm_pieces.induct) auto



lemma runs_positive: "(st, n) \<in> set (runs c k s) \<Longrightarrow> 0 < n"
  by (induction c k s rule: runs.induct) (auto simp: Let_def split: if_splits)

lemma runs_cover: "j < length s \<Longrightarrow> s ! j = c \<Longrightarrow> \<exists>(st, n) \<in> set (runs c k s). st \<le> k + j \<and> k + j < st + n"
proof (induction c k s arbitrary: j rule: runs.induct)
  case (2 c k x s)
  show ?case
  proof (cases "x = c")
    case True
    define m where "m = length (takeWhile (\<lambda>y. y = c) s)"
    have r: "runs c k (x # s) = (k, Suc m) # runs c (k + Suc m) (drop m s)" using True by (simp add: m_def Let_def)
    show ?thesis
    proof (cases "j < Suc m")
      case True
      then show ?thesis unfolding r by auto
    next
      case False
      then have "j - Suc m < length (drop m s)" "drop m s ! (j - Suc m) = c"
        using "2.prems" by (auto simp: nth_Cons' m_def)
      from "2.IH"(1) [OF True m_def this] show ?thesis unfolding r using False by auto
    qed
  next
    case False
    with "2.prems" have "j \<noteq> 0" by (cases j) auto
    then have "j - 1 < length s" "s ! (j - 1) = c" using "2.prems" by (auto simp: nth_Cons')
    from "2.IH"(2) [OF False this] show ?thesis using False \<open>j \<noteq> 0\<close> by auto
  qed
qed simp

lemma str_index_found: "str_index p s = Inr k \<Longrightarrow> k + length p \<le> length s \<and> (\<forall>j < length p. s ! (k + j) = p ! j)"
proof (induction p s arbitrary: k rule: str_index.induct)
  case (2 p c s)
  show ?case
  proof (cases "starts_with (c # s) p")
    case True
    then have p: "take (length p) (c # s) = p" "k = 0" using "2.prems" by (auto simp: starts_with_def)
    then have "length p \<le> length (c # s)" by (metis length_take min.cobounded1)
    moreover have "(c # s) ! j = p ! j" if "j < length p" for j
      using p(1) that by (metis nth_take)
    ultimately show ?thesis using p(2) by simp
  next
    case False
    then obtain n where "str_index p s = Inr n" "k = Suc n" using "2.prems" by auto
    with "2.IH" [OF False this(1)] show ?thesis by simp
  qed
qed (simp split: if_splits)

text \<open>C31: The field printed for a register operand is exactly the place of the operand's letter: the letter stands in the encoding at the printed position, at the next ones up to the printed width and nowhere else, and the width selects among as many registers as the operand allows. A missing or split field and a wrong width are exceptions.\<close>

theorem reg_lines_field:
  assumes "reg_lines enc regno (t, letter # ids, toss, num) = Inr ls" "py_int (rstrip_char (CHR ''S'') num) = Inr choices"
  shows "\<exists>n pos. hd ls = ''        DECODE_REG('' @ show_nat regno @ '','' @ show_nat n @ '','' @ show_nat pos @ '')'' \<and>
    2 ^ n = choices \<and> {p. p < length enc \<and> enc ! p = letter} = {pos..<pos + n}"
proof -
  obtain start n where r: "runs letter 0 enc = [(start, n)]"
    using assms by (auto simp: reg_lines_def split: list.splits if_splits)
  then obtain pos where pos: "str_index (replicate n letter) enc = Inr pos" "2 ^ n = choices"
      "hd ls = ''        DECODE_REG('' @ show_nat regno @ '','' @ show_nat n @ '','' @ show_nat pos @ '')''"
    using assms by (auto simp: reg_lines_def split: if_splits)
  have run: "start + j < length enc" "enc ! (start + j) = letter" if "j < n" for j
    using runs_split [of letter 0 enc "[]" start n "[]"] r that by auto
  have all: "start \<le> p \<and> p < start + n" if "p < length enc" "enc ! p = letter" for p
    using runs_cover [OF that, of 0] r by auto
  have nz: "n \<noteq> 0" using runs_positive [of start n letter 0 enc] r by simp
  have "start = pos"
  proof -
    note f = str_index_found [OF pos(1)]
    have "start \<le> pos" using all [of pos] f nz by (auto dest!: spec [of _ 0])
    moreover have "pos + (n - 1) < start + n" using all [of "pos + (n - 1)"] f nz by (auto dest!: spec [of _ "n - 1"])
    ultimately show ?thesis using nz by simp
  qed
  have cover: "p < length enc \<and> enc ! p = letter" if "start \<le> p" "p < start + n" for p
    using run [of "p - start"] that by auto
  have "(p < length enc \<and> enc ! p = letter) = (p \<in> {pos..<pos + n})" for p
    using all [of p] cover [of p] \<open>start = pos\<close> by (metis atLeastLessThan_iff)
  then have "{p. p < length enc \<and> enc ! p = letter} = {pos..<pos + n}" by blast
  then show ?thesis using pos by blast
qed

theorem reg_lines_field_witness:
  "\<exists>ls. reg_lines ''110dd00'' 0 (''R'', ''d'', [], ''4'') = Inr ls \<and>
     hd ls = ''        DECODE_REG(0,2,3)'' \<and> {p. p < length ''110dd00'' \<and> ''110dd00'' ! p = CHR ''d''} = {3..<5::nat}"
proof -
  have r: "runs CHR ''d'' 0 ''110dd00'' = [(3, 2)]" by code_simp
  have four: "py_int (rstrip_char (CHR ''S'') ''4'') = Inr 4"
    by (simp add: py_int_def is_digit_def digit_val_def rstrip_char_def)
  have x: "str_index ''dd'' ''110dd00'' = Inr 3" by code_simp
  have s: "show_nat 2 = ''2''" "show_nat 0 = ''0''" "show_nat (Suc (Suc 0)) = ''2''" "show_nat 3 = ''3''" by code_simp+
  have d: "replicate 2 CHR ''d'' = ''dd''" by code_simp
  obtain ls where ls: "reg_lines ''110dd00'' 0 (''R'', ''d'', [], ''4'') = Inr ls"
      "hd ls = ''        DECODE_REG(0,2,3)''"
    by (simp add: reg_lines_def r four d x s del: str_index.simps show_nat.simps)
  from reg_lines_field [OF ls(1) four] obtain n pos where f: "2 ^ n = (4::nat)"
      "{p. p < length ''110dd00'' \<and> ''110dd00'' ! p = CHR ''d''} = {pos..<pos + n}" by blast
  have "n = 2" using f(1) power_inject_exp [of "2::nat" n 2] by simp
  moreover have "pos = 3"
  proof -
    have "(3::nat) \<in> {pos..<pos + n}" "\<not> (2::nat) \<in> {pos..<pos + n}" unfolding f(2) [symmetric] by simp_all
    then show ?thesis by simp
  qed
  ultimately show ?thesis using ls f(2) by simp
qed

section \<open>Links between tables\<close>

lemma leaf_line_no_link: "leaf_line C tag \<noteq> Inr (link_line n)"
  by (auto simp: leaf_line_def link_line_def split: option.splits)

lemma table_line_no_link: "link_line n \<noteq> table_line ''DECODE_NEW_TABLE'' name lsb width"
    "link_line n \<noteq> table_line ''DECODE_END_TABLE'' name lsb width" "link_line n \<noteq> []"
  by (simp_all add: table_line_def link_line_def)

lemma print_node_head:
  assumes "print_node C parents t = Inr ls" "2 \<le> length (leaves t)" "table_name C parents t = Inr n"
  shows "\<exists>lsb width. table_line ''DECODE_NEW_TABLE'' n lsb width \<in> set ls"
  using assms by (cases t) (auto simp: Let_def intro!: exI)

lemma child_line_link:
  "child_line C path child = Inr (link_line n) \<Longrightarrow>
     2 \<le> length (leaves child) \<and> table_name C path child = Inr n"
  by (auto simp: child_line_def leaf_line_no_link split: list.splits) (simp_all add: link_line_def)

text \<open>Every TABLE_LINK that print_tree prints names a table that print_tree also prints.\<close>

lemma print_tree_links:
  assumes "print_tree C t = Inr ls" "link_line n \<in> set ls"
  shows "\<exists>lsb width. table_line ''DECODE_NEW_TABLE'' n lsb width \<in> set ls"
proof -
  have "\<exists>lsb width. table_line ''DECODE_NEW_TABLE'' n lsb width \<in> set ls"
    if "print_node C parents t = Inr ls" "link_line n \<in> set ls" for parents
    using that
  proof (induction t arbitrary: parents ls)
    case (Branch lv lsb width cs)
    let ?node = "Branch lv lsb width cs" and ?link = "link_line n"
    have "\<not> length lv \<le> 1" using Branch.prems by auto
    then obtain name rows subs where p: "mapR (child_line C (parents @ [?node])) cs = Inr rows"
        "mapR (print_node C (parents @ [?node])) cs = Inr subs"
        "ls = table_line ''DECODE_NEW_TABLE'' name lsb width # rows
                @ [table_line ''DECODE_END_TABLE'' name lsb width, []] @ concat subs"
      using Branch.prems(1) by (auto simp: Let_def)
    from p(3) have "?link \<in> set rows \<or> (\<exists>sub \<in> set subs. ?link \<in> set sub)"
      using Branch.prems(2) by (simp add: table_line_no_link)
    then obtain i where i: "i < length cs" "?link = rows ! i \<or> ?link \<in> set (subs ! i)"
      using mapR_length [OF p(1)] mapR_length [OF p(2)] by (metis in_set_conv_nth)
    have row: "child_line C (parents @ [?node]) (cs ! i) = Inr (rows ! i)"
      and sub: "print_node C (parents @ [?node]) (cs ! i) = Inr (subs ! i)" "set (subs ! i) \<subseteq> set ls"
      using p i(1) by (auto simp: mapR_Inr_iff list_all2_conv_all_nth)
    show ?case
    proof (cases "?link = rows ! i")
      case True
      then have "2 \<le> length (leaves (cs ! i)) \<and> table_name C (parents @ [?node]) (cs ! i) = Inr n"
        using child_line_link [of C "parents @ [?node]" "cs ! i" n] row by simp
      then show ?thesis using print_node_head [OF sub(1)] sub(2) by blast
    next
      case False
      then show ?thesis using Branch.IH [OF nth_mem [OF i(1)] sub(1)] i(2) sub(2) by blast
    qed
  qed (simp split: if_splits)
  then show ?thesis using assms unfolding print_tree_def by blast
qed

definition demo_info :: insn_info where
  "demo_info = \<lparr>i_enc = [], i_enc_class = ''NORMAL'', i_syntax = [], i_rregs = [], i_wregs = []\<rparr>"

definition demo_ctx :: dec_ctx where
  "demo_ctx = \<lparr>c_iset = \<lparr>iset_tags = [''A'', ''B'', ''C''], iset_info = (\<lambda>_. Some demo_info), subinsn_groupings = [], enc_ext_spaces = []\<rparr>,
     c_encs = [(''A'', ''00''), (''B'', ''10''), (''C'', ''11'')], c_classes = [''NORMAL'']\<rparr>"

definition demo_tree :: dtree where
  "demo_tree = Branch [''A'', ''B'', ''C''] 0 1 [Leaf [''A''], Branch [''B'', ''C''] 1 1 [Leaf [''B''], Leaf [''C'']]]"

lemma demo_print:
  "print_tree demo_ctx demo_tree = Inr
     [''DECODE_NEW_TABLE(DECODE_ROOT_2,2,DECODE_SEPARATOR_BITS(0,1))'', ''TERMINAL(A,\"00\")'', ''TABLE_LINK(DECODE_ROOT_2__1)'',
      ''DECODE_END_TABLE(DECODE_ROOT_2,2,DECODE_SEPARATOR_BITS(0,1))'', [],
      ''DECODE_NEW_TABLE(DECODE_ROOT_2__1,2,DECODE_SEPARATOR_BITS(1,1))'', ''TERMINAL(B,\"01\")'', ''TERMINAL(C,\"11\")'',
      ''DECODE_END_TABLE(DECODE_ROOT_2__1,2,DECODE_SEPARATOR_BITS(1,1))'', []]"
  by code_simp

lemma print_tree_links_witness:
  "\<exists>lsb width. table_line ''DECODE_NEW_TABLE'' ''DECODE_ROOT_2__1'' lsb width \<in>
     set (case print_tree demo_ctx demo_tree of Inr ls \<Rightarrow> ls | Inl _ \<Rightarrow> [])"
  using print_tree_links [OF demo_print, of "''DECODE_ROOT_2__1''"] unfolding demo_print by (simp add: link_line_def)

end
