(* ===== verification/Dec_Tables.thy ===== *)
theory Dec_Tables
  imports Dec_Props
begin

text \<open>
  The printed decode tables against the decode trees. \<open>decodes\<close> reads the printed lines: from
  the table of a name to the row the separator bits select, along the links. It is the walk of the
  C decoder over the generated tables, and the property says that it ends at the row of the tag
  whose opcode bits the word has.
\<close>

section \<open>Reading the printed lines\<close>

inductive decodes :: "string list \<Rightarrow> nat \<Rightarrow> string \<Rightarrow> string \<Rightarrow> bool" for ls w where
  row: "ls = xs @ table_line ''DECODE_NEW_TABLE'' n lsb width # ys \<Longrightarrow> r = ys ! field_of w lsb width \<Longrightarrow>
    (\<And>m. r \<noteq> link_line m) \<Longrightarrow> decodes ls w n r"
| link: "ls = xs @ table_line ''DECODE_NEW_TABLE'' n lsb width # ys \<Longrightarrow> ys ! field_of w lsb width = link_line m \<Longrightarrow>
    decodes ls w m r \<Longrightarrow> decodes ls w n r"

inductive_cases decodesE: "decodes ls w n r"

lemma split_at_char: "c \<notin> set a \<Longrightarrow> c \<notin> set a' \<Longrightarrow> a @ c # r = a' @ c # r' \<Longrightarrow> a = a' \<and> r = r'"
proof (induction a arbitrary: a')
  case Nil
  then show ?case by (cases a') auto
next
  case (Cons x a)
  then show ?case by (cases a') auto
qed

lemma no_comma_digits: "CHR '','' \<notin> set (show_nat n)"
  using show_nat_digits(1) [of n] by (auto simp: list_all_iff is_digit_def)

lemma table_line_inject:
  assumes "table_line ''DECODE_NEW_TABLE'' n lsb width = table_line ''DECODE_NEW_TABLE'' n' lsb' width'"
    and "CHR '','' \<notin> set n" "CHR '','' \<notin> set n'"
  shows "n = n' \<and> lsb = lsb' \<and> width = width'"
proof -
  define t where "t = (\<lambda>lsb width. show_nat lsb @ CHR '','' # (show_nat width @ ''))''))"
  have "n @ CHR '','' # show_nat (2 ^ width) @ CHR '','' # ''DECODE_SEPARATOR_BITS('' @ t lsb width =
      n' @ CHR '','' # show_nat (2 ^ width') @ CHR '','' # ''DECODE_SEPARATOR_BITS('' @ t lsb' width'"
    using assms(1) by (simp add: table_line_def t_def)
  then have n: "n = n'"
    "show_nat (2 ^ width) @ CHR '','' # ''DECODE_SEPARATOR_BITS('' @ t lsb width =
      show_nat (2 ^ width') @ CHR '','' # ''DECODE_SEPARATOR_BITS('' @ t lsb' width'"
    by (blast dest: split_at_char [OF assms(2,3)])+
  from split_at_char [OF no_comma_digits no_comma_digits n(2)]
  have s: "show_nat (2 ^ width) = show_nat (2 ^ width')"
    "''DECODE_SEPARATOR_BITS('' @ t lsb width = ''DECODE_SEPARATOR_BITS('' @ t lsb' width'" by blast+
  have "t lsb width = t lsb' width'" using s(2) by (rule same_append_eq [THEN iffD1])
  then have "show_nat lsb = show_nat lsb'" unfolding t_def by (blast dest: split_at_char [OF no_comma_digits no_comma_digits])
  moreover have "width = width'" using s(1) power_inject_exp [of "2::nat" width width'] by simp
  ultimately show ?thesis using n(1) by simp
qed

lemma concat_mem:
  "concat xss = xs @ x # ys \<Longrightarrow> \<exists>i us vs ws. i < length xss \<and> xss ! i = us @ x # vs \<and> ys = vs @ ws"
proof (induction xss arbitrary: xs)
  case (Cons zs xss)
  show ?case
  proof (cases "length xs < length zs")
    case True
    have "zs = take (length zs) (xs @ x # ys)" using Cons.prems by (metis append_eq_conv_conj concat.simps(2))
    then have "zs = xs @ x # take (length zs - Suc (length xs)) ys" using True by (simp add: take_Cons')
    moreover from this have "ys = take (length zs - Suc (length xs)) ys @ concat xss"
      using Cons.prems by (metis append.assoc append_Cons concat.simps(2) list.inject same_append_eq)
    ultimately show ?thesis by (intro exI [of _ 0]) auto
  next
    case False
    then obtain xs' where "xs = zs @ xs'" "concat xss = xs' @ x # ys"
      using Cons.prems by (auto simp: append_eq_append_conv2 Cons_eq_append_conv)
    from Cons.IH [OF this(2)] obtain i us vs ws where "i < length xss" "xss ! i = us @ x # vs" "ys = vs @ ws" by blast
    then show ?thesis by (intro exI [of _ "Suc i"]) auto
  qed
qed simp

section \<open>The nodes of a tree\<close>

text \<open>A node with its ancestors and the bits the way to it determines.\<close>

inductive reach :: "dtree \<Rightarrow> string \<Rightarrow> dtree list \<Rightarrow> string \<Rightarrow> dtree \<Rightarrow> bool" for t0 b0 where
  root: "reach t0 b0 [] b0 t0"
| child: "reach t0 b0 ps b (Branch lv lsb width cs) \<Longrightarrow> v < length cs \<Longrightarrow> 2 \<le> length (leaves (cs ! v)) \<Longrightarrow>
    reach t0 b0 (ps @ [Branch lv lsb width cs]) (slice_assign lsb width (lsb_bits width v) b) (cs ! v)"

definition bits_tags :: "(string \<Rightarrow> string) \<Rightarrow> string list \<Rightarrow> string \<Rightarrow> string list" where
  "bits_tags encs ts b = filter (\<lambda>tag. \<forall>i < length b. b ! i \<noteq> CHR ''_'' \<longrightarrow> encs tag ! i = b ! i) ts"

definition node_ok :: "(string \<Rightarrow> string) \<Rightarrow> string list \<Rightarrow> nat \<Rightarrow> string \<Rightarrow> dtree \<Rightarrow> bool" where
  "node_ok encs ts W b node \<longleftrightarrow>
     auto_separate encs (leaves node) = Inr node \<and> leaves node = bits_tags encs ts b \<and> length b = W \<and>
     set b \<subseteq> {CHR ''_'', CHR ''0'', CHR ''1''}"

lemma nth_slice_assign:
  "length new = width \<Longrightarrow> lsb + width \<le> length b \<Longrightarrow> i < length b \<Longrightarrow>
     slice_assign lsb width new b ! i = (if lsb \<le> i \<and> i < lsb + width then new ! (i - lsb) else b ! i)"
  by (auto simp: slice_assign_def nth_append)

lemma length_slice_assign:
  "length new = width \<Longrightarrow> lsb + width \<le> length b \<Longrightarrow> length (slice_assign lsb width new b) = length b"
  by (simp add: slice_assign_def)

lemma length_lsb_bits [simp]: "length (lsb_bits width v) = width"
  by (simp add: lsb_bits_def)

text \<open>The separator bits of a node are not yet determined: they differ among its tags.\<close>

lemma separator_undetermined:
  assumes "find_separator encs (bits_tags encs ts b) = Inr (lsb, width)" "lsb + width \<le> length b" "i < width"
  shows "b ! (lsb + i) = CHR ''_''"
proof (rule ccontr)
  assume b: "b ! (lsb + i) \<noteq> CHR ''_''"
  let ?ts = "bits_tags encs ts b"
  have d: "differentiator_opcode_bit encs ?ts (lsb + i)"
    using find_separator_ok(3) [OF assms(1)] assms(3) by (auto simp: all_differ_def)
  have c: "encs tag ! (lsb + i) = b ! (lsb + i)" if "tag \<in> set ?ts" for tag
    using that b assms(2,3) by (auto simp: bits_tags_def)
  show False
  proof (cases "?ts = []")
    case False
    then obtain tag where "tag \<in> set ?ts" by (metis list.set_sel(1))
    then have "b ! (lsb + i) = CHR ''0'' \<or> b ! (lsb + i) = CHR ''1''"
      using d c [of tag] by (auto simp: differentiator_opcode_bit_def opcode_bit_for_all_def)
    then show ?thesis using d c by (auto simp: differentiator_opcode_bit_def)
  qed (use d in \<open>simp add: differentiator_opcode_bit_def\<close>)
qed

lemma child_ok:
  assumes ok: "node_ok encs ts W b (Branch lv lsb width cs)" and v: "v < length cs"
    and len: "\<forall>tag \<in> set ts. length (encs tag) = W"
  shows "node_ok encs ts W (slice_assign lsb width (lsb_bits width v) b) (cs ! v)"
proof -
  let ?b = "slice_assign lsb width (lsb_bits width v) b"
  have sep: "auto_separate encs lv = Inr (Branch lv lsb width cs)" and lv: "lv = bits_tags encs ts b"
    and bW: "length b = W" and bc: "set b \<subseteq> {CHR ''_'', CHR ''0'', CHR ''1''}"
    using ok by (auto simp: node_ok_def)
  obtain fs: "find_separator encs lv = Inr (lsb, width)" and cs: "length cs = 2 ^ width"
      "auto_separate encs (filter (\<lambda>tag. slice (encs tag) lsb width = lsb_bits width v) lv) = Inr (cs ! v)"
      and lv1: "1 < length lv"
    using sep v by (cases rule: auto_separate_cases) auto
  have "hd lv \<in> set lv" using lv1 by (cases lv) auto
  then have hd: "hd lv \<in> set ts" unfolding lv bits_tags_def by auto
  then have lW: "lsb + width \<le> length b" using find_separator_ok(4) [OF fs] len bW by auto
  have und: "b ! (lsb + i) = CHR ''_''" if "i < width" for i
    using separator_undetermined [OF fs [unfolded lv] lW that] .
  have bits: "lsb_bits width v ! i \<noteq> CHR ''_''" if "i < width" for i
    using that by (simp add: lsb_bits_def)
  have "filter (\<lambda>tag. slice (encs tag) lsb width = lsb_bits width v) lv = bits_tags encs ts ?b"
    unfolding lv bits_tags_def filter_filter
  proof (rule filter_cong [OF refl])
    fix tag assume "tag \<in> set ts"
    then have l: "length (slice (encs tag) lsb width) = width" using len lW bW by (simp add: slice_def)
    have s: "slice (encs tag) lsb width = lsb_bits width v \<longleftrightarrow> (\<forall>i < width. encs tag ! (lsb + i) = lsb_bits width v ! i)"
      using l by (auto simp: list_eq_iff_nth_eq) (auto simp: slice_def)
    show "((\<forall>i < length b. b ! i \<noteq> CHR ''_'' \<longrightarrow> encs tag ! i = b ! i) \<and> slice (encs tag) lsb width = lsb_bits width v) =
        (\<forall>i < length ?b. ?b ! i \<noteq> CHR ''_'' \<longrightarrow> encs tag ! i = ?b ! i)" (is "?L = ?R")
    proof
      assume L: ?L
      show ?R
      proof (intro allI impI)
        fix i assume i: "i < length ?b" "?b ! i \<noteq> CHR ''_''"
        show "encs tag ! i = ?b ! i"
        proof (cases "lsb \<le> i \<and> i < lsb + width")
          case True
          then have "i - lsb < width" by auto
          then have "encs tag ! (lsb + (i - lsb)) = lsb_bits width v ! (i - lsb)" using L s by blast
          then show ?thesis using True i lW by (simp add: nth_slice_assign length_slice_assign)
        next
          case False
          then show ?thesis using L i lW by (auto simp: nth_slice_assign length_slice_assign)
        qed
      qed
    next
      assume R: ?R
      have "encs tag ! (lsb + i) = lsb_bits width v ! i" if "i < width" for i
        using R [rule_format, of "lsb + i"] that lW bits by (simp add: nth_slice_assign length_slice_assign)
      moreover have "encs tag ! i = b ! i" if in_b: "i < length b" and und_b: "b ! i \<noteq> CHR ''_''" for i
      proof -
        have "\<not> (lsb \<le> i \<and> i < lsb + width)"
        proof (rule notI)
          assume "lsb \<le> i \<and> i < lsb + width"
          then have "i - lsb < width" "lsb + (i - lsb) = i" by auto
          then show False using und [of "i - lsb"] und_b by simp
        qed
        then show ?thesis using R [rule_format, of i] in_b und_b lW by (auto simp: nth_slice_assign length_slice_assign)
      qed
      ultimately show ?L using s by blast
    qed
  qed
  moreover have "leaves (cs ! v) = filter (\<lambda>tag. slice (encs tag) lsb width = lsb_bits width v) lv"
    by (rule auto_separate_leaves [OF cs(2)])
  moreover have "set ?b \<subseteq> {CHR ''_'', CHR ''0'', CHR ''1''}"
    using bc by (auto simp: slice_assign_def lsb_bits_def dest: in_set_takeD in_set_dropD)
  ultimately show ?thesis using cs(2) bW lW by (simp add: node_ok_def length_slice_assign)
qed

lemma reach_ok:
  assumes "auto_separate encs ts = Inr t0" "\<forall>tag \<in> set ts. length (encs tag) = W"
  shows "reach t0 (replicate W (CHR ''_'')) ps b node \<Longrightarrow> node_ok encs ts W b node"
proof (induction rule: reach.induct)
  case root
  show ?case using assms(1) auto_separate_leaves [OF assms(1)]
    by (auto simp: node_ok_def bits_tags_def)
next
  case (child ps b lv lsb width cs v)
  show ?case by (rule child_ok [OF child.IH child.hyps(2) assms(2)])
qed

text \<open>So the determined bits determine the node.\<close>

lemma node_ok_unique: "node_ok encs ts W b node \<Longrightarrow> node_ok encs ts W b node' \<Longrightarrow> node = node'"
  by (auto simp: node_ok_def)

section \<open>Names of tables\<close>

lemma determine_snoc:
  "determine (ps @ [Branch lv lsb width cs, c]) b =
     bindR (determine (ps @ [Branch lv lsb width cs]) b) (\<lambda>b'. bindR (list_index c cs) (\<lambda>v.
       Inr (slice_assign lsb width (lsb_bits width v) b')))"
proof (induction ps arbitrary: b)
  case Nil
  then show ?case by simp
next
  case (Cons p ps)
  show ?case
  proof (cases p)
    case (Branch ls l w cs')
    obtain q qs where q: "ps @ [Branch lv lsb width cs] = q # qs" by (cases ps) auto
    then have e: "ps @ [Branch lv lsb width cs, c] = q # qs @ [c]" by (cases ps) auto
    show ?thesis using Cons.IH [unfolded e q] Branch by (simp add: e q bindR_def split: sum.splits)
  next
    case (Leaf ls)
    then show ?thesis by (cases ps) (auto simp: bindR_def)
  qed
qed

lemma list_index_nth: "v < length cs \<Longrightarrow> (\<And>u. u < v \<Longrightarrow> cs ! u \<noteq> cs ! v) \<Longrightarrow> list_index (cs ! v) cs = Inr v"
proof (induction cs arbitrary: v)
  case (Cons c cs)
  show ?case
  proof (cases v)
    case (Suc k)
    then have "c \<noteq> cs ! k" "\<And>u. u < k \<Longrightarrow> cs ! u \<noteq> cs ! k" using Cons.prems(2) [of 0] Cons.prems(2) [of "Suc _"] by auto
    then show ?thesis using Cons.IH [of k] Cons.prems(1) Suc by simp
  qed simp
qed simp

lemma children_differ:
  assumes "auto_separate encs lv = Inr (Branch lv lsb width cs)" "v < length cs" "u < length cs" "leaves (cs ! v) \<noteq> []"
    "cs ! u = cs ! v"
  shows "u = v"
  using assms(1)
proof (cases rule: auto_separate_cases)
  case (branch lsb' width' cs')
  then have c: "leaves (cs ! k) = filter (\<lambda>tag. slice (encs tag) lsb width = lsb_bits width k) lv" if "k < length cs" for k
    using auto_separate_leaves [OF branch(5)] that by simp
  obtain tag where "tag \<in> set (leaves (cs ! v))" using assms(4) by (metis list.set_sel(1))
  moreover from this have "tag \<in> set (leaves (cs ! u))" using assms(5) by simp
  ultimately have "slice (encs tag) lsb width = lsb_bits width v" "slice (encs tag) lsb width = lsb_bits width u"
    using c [OF assms(2)] c [OF assms(3)] by auto
  then have "lsb_bits width u = lsb_bits width v" by simp
  then show ?thesis using lsb_bits_inject assms(2,3) branch(3,4) by simp
qed simp

lemma separate_shorter:
  assumes "auto_separate encs lv = Inr (Branch lv lsb width cs)" "v < length cs"
  shows "length (leaves (cs ! v)) < length lv"
  using assms(1)
proof (cases rule: auto_separate_cases)
  case (branch lsb' width' cs')
  then have c: "leaves (cs ! v) = filter (\<lambda>tag. slice (encs tag) lsb width = lsb_bits width v) lv" and w: "v < 2 ^ width"
    using auto_separate_leaves [OF branch(5)] assms(2) by simp_all
  then have "leaves (cs ! v) \<in> set (child_leaves encs lv lsb width)" by (auto simp: child_leaves_def)
  then show ?thesis using child_shorter branch(2,3) by fastforce
qed simp

lemma reach_determine:
  assumes "auto_separate encs ts = Inr t0" "\<forall>tag \<in> set ts. length (encs tag) = W"
  shows "reach t0 (replicate W (CHR ''_'')) ps b node \<Longrightarrow>
    determine (ps @ [node]) (replicate W (CHR ''_'')) = Inr b \<and>
    (if ps = [] then node = t0 else hd ps = t0 \<and> length (leaves node) < length (leaves t0)) \<and>
    length (leaves node) \<le> length (leaves t0)"
proof (induction rule: reach.induct)
  case root
  then show ?case by (cases t0) simp_all
next
  case (child ps b lv lsb width cs v)
  have ok: "node_ok encs ts W b (Branch lv lsb width cs)" by (rule reach_ok [OF assms child.hyps(1)])
  then have sep: "auto_separate encs lv = Inr (Branch lv lsb width cs)"
    unfolding node_ok_def leaves.simps by blast
  have "leaves (cs ! v) \<noteq> []" using child.hyps(3) by auto
  then have "list_index (cs ! v) cs = Inr v"
    using children_differ [OF sep child.hyps(2)] child.hyps(2) by (intro list_index_nth) (metis less_irrefl_nat order.strict_trans)+
  moreover have "length (leaves (cs ! v)) < length lv"
    using separate_shorter [OF sep child.hyps(2)] .
  ultimately show ?case using child.IH determine_snoc [of ps lv lsb width cs "cs ! v"]
    by (cases ps) auto
qed

text \<open>A tag whose table, if it has one, is named after a base name of its own: not an extension space.\<close>

definition tag_base_ok :: "dec_ctx \<Rightarrow> string \<Rightarrow> nat \<Rightarrow> string \<Rightarrow> bool" where
  "tag_base_ok C base W tag \<longleftrightarrow>
     table_base C [tag] = Inr (base, W) \<or> (tag \<in> faketags (c_iset C) \<and> map_of (subinsn_groupings (c_iset C)) tag = None)"

lemma table_base_uniform:
  assumes "table_base C ns = Inr x" "\<forall>tag \<in> set ns. tag_base_ok C base W tag"
  shows "x = (base, W)"
proof -
  let ?G = "subinsn_groupings (c_iset C)" and ?F = "faketags (c_iset C)"
  obtain tag ns' where ns: "ns = tag # ns'" using assms(1) by (cases ns) (auto simp: table_base_def)
  show ?thesis
  proof (cases "map_of ?G tag")
    case (Some g)
    then show ?thesis using assms by (auto simp: ns table_base_def tag_base_ok_def)
  next
    case None
    then obtain t ts where f: "filter (\<lambda>t. t \<notin> ?F) ns = t # ts"
      using assms(1) unfolding ns by (auto simp: table_base_def simp del: filter.simps split: list.splits)
    then have "t \<in> set (filter (\<lambda>t. t \<notin> ?F) ns)" by simp
    then have t: "t \<in> set ns" "t \<notin> ?F" by simp_all
    then have g: "map_of ?G t = None" by (auto simp: faketags_def map_of_eq_None_iff)
    have "table_base C ns = table_base C [t]"
      using None f t(2) g by (simp add: table_base_def ns)
    then show ?thesis using assms t by (auto simp: tag_base_ok_def)
  qed
qed

definition node_name :: "string \<Rightarrow> dtree list \<Rightarrow> string \<Rightarrow> string" where
  "node_name base ps b = (if ps = [] then base else base @ ''_'' @ rev b)"

text \<open>
  A tree and the lines \<open>ls\<close> printed for it, in a file whose other tables have names that do not
  start like those of the tree.
\<close>

definition foreign :: "string \<Rightarrow> string list \<Rightarrow> bool" where
  "foreign base ls \<longleftrightarrow>
     (\<forall>n lsb width. table_line ''DECODE_NEW_TABLE'' n lsb width \<in> set ls \<longrightarrow> \<not> starts_with n base)"

definition printed ::
    "(string \<Rightarrow> string) \<Rightarrow> string list \<Rightarrow> nat \<Rightarrow> dec_ctx \<Rightarrow> string \<Rightarrow> dtree \<Rightarrow> string list \<Rightarrow> string list \<Rightarrow> bool" where
  "printed encs ts W C base t ls file \<longleftrightarrow>
     auto_separate encs ts = Inr t \<and> (\<forall>tag \<in> set ts. length (encs tag) = W) \<and>
     CHR '','' \<notin> set base \<and> (\<forall>tag \<in> set ts. tag_base_ok C base W tag) \<and> print_tree C t = Inr ls \<and>
     (\<exists>pre post. file = pre @ ls @ post \<and> foreign base pre \<and> foreign base post)"

abbreviation free_bits :: "nat \<Rightarrow> string" where
  "free_bits W \<equiv> replicate W (CHR ''_'')"

lemma printed_node_ok: "printed encs ts W C base t ls file \<Longrightarrow> reach t (free_bits W) ps b node \<Longrightarrow> node_ok encs ts W b node"
  by (rule reach_ok) (auto simp: printed_def)

lemma node_ok_branch:
  "node_ok encs ts W b (Branch lv lsb width cs) \<Longrightarrow> 2 \<le> length lv \<and> length cs = 2 ^ width"
  by (auto simp: node_ok_def elim!: auto_separate_cases)

lemma node_ok_leaf: "node_ok encs ts W b node \<Longrightarrow> length (leaves node) \<le> 1 \<Longrightarrow> node = Leaf (leaves node)"
  by (auto simp: node_ok_def elim!: auto_separate_cases)

lemma reach_table_name:
  assumes p: "printed encs ts W C base t ls file" and r: "reach t (free_bits W) ps b node" and n: "table_name C ps node = Inr n"
  shows "n = node_name base ps b"
proof -
  note ok = printed_node_ok [OF p r]
  have "\<forall>tag \<in> set (leaves node). tag_base_ok C base W tag"
    using p ok by (auto simp: printed_def node_ok_def bits_tags_def)
  moreover obtain x where x: "table_base C (leaves node) = Inr x" using n by (auto simp: table_name_def Let_def)
  ultimately have base: "table_base C (leaves node) = Inr (base, W)" using table_base_uniform by blast
  have d: "determine (ps @ [node]) (free_bits W) = Inr b"
    "if ps = [] then node = t else hd ps = t \<and> length (leaves node) < length (leaves t)"
    using reach_determine [OF _ _ r] p by (auto simp: printed_def)
  have "node \<noteq> hd (ps @ [node]) \<longleftrightarrow> ps \<noteq> []" using d(2) by (cases ps) auto
  then show ?thesis using n base d(1) by (auto simp: table_name_def node_name_def Let_def)
qed

lemma node_name_inject:
  assumes p: "printed encs ts W C base t ls file" and r: "reach t (free_bits W) ps b node" "reach t (free_bits W) ps' b' node'"
    and e: "node_name base ps b = node_name base ps' b'"
  shows "node = node' \<and> b = b'"
proof (cases "ps = []")
  case True
  then have "ps' = []" using e by (auto simp: node_name_def split: if_splits)
  then show ?thesis using True r by (auto elim!: reach.cases)
next
  case False
  then have "ps' \<noteq> []" "b = b'" using e by (auto simp: node_name_def split: if_splits)
  then show ?thesis using node_ok_unique printed_node_ok [OF p r(1)] printed_node_ok [OF p r(2)] by blast
qed

lemma node_name_no_comma:
  assumes "printed encs ts W C base t ls file" "reach t (free_bits W) ps b node"
  shows "CHR '','' \<notin> set (node_name base ps b)"
proof -
  have "set b \<subseteq> {CHR ''_'', CHR ''0'', CHR ''1''}"
    using printed_node_ok [OF assms] by (simp add: node_ok_def)
  then show ?thesis using assms(1) by (auto simp: printed_def node_name_def)
qed

section \<open>Blocks of printed lines\<close>

text \<open>Every table header that is printed is the header of a node of the tree, with the node's rows after it.\<close>

lemma child_line_no_table: "child_line C path child = Inr r \<Longrightarrow> r \<noteq> table_line ''DECODE_NEW_TABLE'' n lsb width"
  by (auto simp: child_line_def leaf_line_def link_line_def table_line_def split: list.splits option.splits if_splits)

lemma print_node_branch:
  assumes "print_node C ps (Branch lv lsb width cs) = Inr ls" "2 \<le> length lv"
  obtains name rows subs where "table_name C ps (Branch lv lsb width cs) = Inr name"
    "mapR (child_line C (ps @ [Branch lv lsb width cs])) cs = Inr rows"
    "mapR (print_node C (ps @ [Branch lv lsb width cs])) cs = Inr subs"
    "ls = table_line ''DECODE_NEW_TABLE'' name lsb width # rows
       @ [table_line ''DECODE_END_TABLE'' name lsb width, []] @ concat subs"
  using assms by (auto simp: Let_def)

lemma print_node_few: "print_node C ps node = Inr ls \<Longrightarrow> length (leaves node) \<le> 1 \<Longrightarrow> ls = []"
  by (cases node) (auto split: if_splits)

lemma printed_header:
  assumes "print_node C ps node = Inr ls" "reach t b0 ps b node" "ls = xs @ table_line ''DECODE_NEW_TABLE'' n lsb width # ys"
  shows "\<exists>ps' b' lv' lsb' width' cs' n' rows zs. reach t b0 ps' b' (Branch lv' lsb' width' cs') \<and>
     table_name C ps' (Branch lv' lsb' width' cs') = Inr n' \<and>
     table_line ''DECODE_NEW_TABLE'' n lsb width = table_line ''DECODE_NEW_TABLE'' n' lsb' width' \<and>
     mapR (child_line C (ps' @ [Branch lv' lsb' width' cs'])) cs' = Inr rows \<and> ys = rows @ zs"
  using assms
proof (induction node arbitrary: ps b ls xs ys)
  case (Leaf lv)
  then show ?case by (auto split: if_splits)
next
  case (Branch lv l w cs)
  let ?h = "table_line ''DECODE_NEW_TABLE'' n lsb width"
  have "2 \<le> length lv" using Branch.prems(1,3) print_node_few [of C ps "Branch lv l w cs" ls] by fastforce
  then obtain name rows subs where p: "table_name C ps (Branch lv l w cs) = Inr name"
      "mapR (child_line C (ps @ [Branch lv l w cs])) cs = Inr rows"
      "mapR (print_node C (ps @ [Branch lv l w cs])) cs = Inr subs"
      "ls = table_line ''DECODE_NEW_TABLE'' name l w # (rows @ [table_line ''DECODE_END_TABLE'' name l w, []]) @ concat subs"
    by (auto elim: print_node_branch [OF Branch.prems(1)])
  show ?case
  proof (cases xs)
    case Nil
    then have "?h = table_line ''DECODE_NEW_TABLE'' name l w"
      "ys = rows @ ([table_line ''DECODE_END_TABLE'' name l w, []] @ concat subs)"
      using Branch.prems(3) p(4) by simp_all
    then show ?thesis using Branch.prems(2) p(1,2) by blast
  next
    case (Cons x xs')
    let ?rs = "rows @ [table_line ''DECODE_END_TABLE'' name l w, []]"
    have "?h \<notin> set rows"
      using p(2) child_line_no_table by (fastforce simp: mapR_Inr_iff list_all2_conv_all_nth in_set_conv_nth)
    then have h: "?h \<notin> set ?rs" by (simp add: table_line_def)
    have e: "?rs @ concat subs = xs' @ ?h # ys" using Branch.prems(3) p(4) Cons by simp
    then obtain xs'' where "concat subs = xs'' @ ?h # ys"
      using h by (fastforce simp del: append_assoc simp: append_eq_append_conv2 Cons_eq_append_conv append_eq_Cons_conv)
    from concat_mem [OF this] obtain i us vs ws where i: "i < length subs" "subs ! i = us @ ?h # vs" "ys = vs @ ws" by blast
    have sub: "print_node C (ps @ [Branch lv l w cs]) (cs ! i) = Inr (subs ! i)" and ic: "i < length cs"
      using p(3) i(1) by (auto simp: mapR_Inr_iff list_all2_conv_all_nth)
    have "2 \<le> length (leaves (cs ! i))" using print_node_few [OF sub] i(2) by fastforce
    from reach.child [OF Branch.prems(2) ic this] Branch.IH [OF nth_mem [OF ic] sub _ i(2)] i(3)
    show ?thesis by (metis append.assoc)
  qed
qed

text \<open>Every node with several tags is printed.\<close>

lemma reach_printed:
  assumes p: "printed encs ts W C base t ls file"
  shows "reach t (free_bits W) ps b node \<Longrightarrow> \<exists>pre sub post. ls = pre @ sub @ post \<and> print_node C ps node = Inr sub"
proof (induction rule: reach.induct)
  case root
  then show ?case using p by (intro exI [of _ "[]"] exI [of _ ls]) (simp add: printed_def print_tree_def)
next
  case (child ps b lv lsb width cs v)
  have "2 \<le> length lv" using node_ok_branch [OF printed_node_ok [OF p child.hyps(1)]] by blast
  moreover obtain pre sub post where s: "ls = pre @ sub @ post" "print_node C ps (Branch lv lsb width cs) = Inr sub"
    using child.IH by blast
  ultimately obtain name rows subs where q: "mapR (print_node C (ps @ [Branch lv lsb width cs])) cs = Inr subs"
      "sub = (table_line ''DECODE_NEW_TABLE'' name lsb width # rows
         @ [table_line ''DECODE_END_TABLE'' name lsb width, []]) @ concat subs"
    by (auto elim: print_node_branch [OF s(2)])
  have v: "v < length subs" "print_node C (ps @ [Branch lv lsb width cs]) (cs ! v) = Inr (subs ! v)"
    using q(1) child.hyps(2) by (auto simp: mapR_Inr_iff list_all2_conv_all_nth)
  have "concat subs = concat (take v subs) @ subs ! v @ concat (drop (Suc v) subs)"
    using id_take_nth_drop [OF v(1)] by (metis concat.simps(2) concat_append)
  then have "\<exists>pre' post'. ls = pre' @ subs ! v @ post'" unfolding s(1) q(2) by (metis append.assoc)
  then show ?case using v(2) by blast
qed

section \<open>The walk\<close>

lemma row_at:
  assumes p: "printed encs ts W C base t ls file" and r: "reach t (free_bits W) ps b (Branch lv lsb width cs)"
    and m: "mapR (child_line C (ps @ [Branch lv lsb width cs])) cs = Inr rows" and v: "v < length cs"
  shows "v < length rows \<and>
    (if length (leaves (cs ! v)) \<le> 1 then child_line C [] (Leaf (leaves (cs ! v))) = Inr (rows ! v)
     else rows ! v = link_line (node_name base (ps @ [Branch lv lsb width cs]) (slice_assign lsb width (lsb_bits width v) b)))"
proof -
  have row: "v < length rows" "child_line C (ps @ [Branch lv lsb width cs]) (cs ! v) = Inr (rows ! v)"
    using m v by (auto simp: mapR_Inr_iff list_all2_conv_all_nth)
  show ?thesis
  proof (cases "length (leaves (cs ! v)) \<le> 1")
    case True
    then show ?thesis using row by (auto simp: child_line_def split: list.splits)
  next
    case False
    then obtain n where n: "table_name C (ps @ [Branch lv lsb width cs]) (cs ! v) = Inr n" "rows ! v = link_line n"
      using row(2) by (auto simp: child_line_def split: list.splits)
    have "2 \<le> length (leaves (cs ! v))" using False by simp
    from reach_table_name [OF p reach.child [OF r v this] n(1)] show ?thesis using n(2) row(1) False by simp
  qed
qed

text \<open>What the table of a node's name holds, wherever its header is found.\<close>

lemma own_rows:
  assumes p: "printed encs ts W C base t ls file" and r: "reach t (free_bits W) ps b (Branch lv lsb width cs)"
    and h: "ls = xs @ table_line ''DECODE_NEW_TABLE'' (node_name base ps b) l k # ys" and v: "v < length cs"
  shows "v < length ys \<and> l = lsb \<and> k = width \<and>
    (if length (leaves (cs ! v)) \<le> 1 then child_line C [] (Leaf (leaves (cs ! v))) = Inr (ys ! v)
     else \<exists>qs. reach t (free_bits W) qs (slice_assign lsb width (lsb_bits width v) b) (cs ! v) \<and>
       ys ! v = link_line (node_name base qs (slice_assign lsb width (lsb_bits width v) b)))"
proof -
  have "print_node C [] t = Inr ls" using p by (simp add: printed_def print_tree_def)
  from printed_header [OF this reach.root h] obtain ps' b' lv' lsb' width' cs' n' rows zs where
    q: "reach t (free_bits W) ps' b' (Branch lv' lsb' width' cs')" "table_name C ps' (Branch lv' lsb' width' cs') = Inr n'"
      "table_line ''DECODE_NEW_TABLE'' (node_name base ps b) l k = table_line ''DECODE_NEW_TABLE'' n' lsb' width'"
      "mapR (child_line C (ps' @ [Branch lv' lsb' width' cs'])) cs' = Inr rows" "ys = rows @ zs" by blast
  have n': "n' = node_name base ps' b'" by (rule reach_table_name [OF p q(1,2)])
  have inj: "node_name base ps b = n'" "l = lsb'" "k = width'"
    using table_line_inject [OF q(3)] node_name_no_comma [OF p r] node_name_no_comma [OF p q(1)] by (simp_all add: n')
  have "Branch lv lsb width cs = Branch lv' lsb' width' cs' \<and> b = b'"
    by (rule node_name_inject [OF p r q(1)]) (simp add: inj(1) n' [symmetric])
  then have same: "lv' = lv" "lsb' = lsb" "width' = width" "cs' = cs" "b' = b" by simp_all
  note row = row_at [OF p q(1) [unfolded same] q(4) [unfolded same] v]
  have "2 \<le> length (leaves (cs ! v)) \<Longrightarrow>
      reach t (free_bits W) (ps' @ [Branch lv lsb width cs]) (slice_assign lsb width (lsb_bits width v) b) (cs ! v)"
    by (rule reach.child [OF q(1) [unfolded same] v])
  then show ?thesis using row inj(2,3) same q(5) by (auto simp: nth_append)
qed

lemma node_name_starts: "starts_with (node_name base ps b) base"
  by (simp add: node_name_def starts_with_def)

lemma table_rows:
  assumes p: "printed encs ts W C base t ls file" and r: "reach t (free_bits W) ps b (Branch lv lsb width cs)"
    and h: "file = xs @ table_line ''DECODE_NEW_TABLE'' (node_name base ps b) l k # ys" and v: "v < length cs"
  shows "l = lsb \<and> k = width \<and>
    (if length (leaves (cs ! v)) \<le> 1 then child_line C [] (Leaf (leaves (cs ! v))) = Inr (ys ! v)
     else \<exists>qs. reach t (free_bits W) qs (slice_assign lsb width (lsb_bits width v) b) (cs ! v) \<and>
       ys ! v = link_line (node_name base qs (slice_assign lsb width (lsb_bits width v) b)))"
proof -
  let ?h = "table_line ''DECODE_NEW_TABLE'' (node_name base ps b) l k"
  obtain pre post where f: "file = concat [pre, ls, post]" "foreign base pre" "foreign base post"
    using p by (auto simp: printed_def)
  from concat_mem [OF h [unfolded f(1)]] obtain i us vs ws where
    i: "i < length [pre, ls, post]" "[pre, ls, post] ! i = us @ ?h # vs" "ys = vs @ ws" by blast
  have "?h \<in> set ([pre, ls, post] ! i)" unfolding i(2) by simp
  moreover have "?h \<notin> set pre" "?h \<notin> set post" using f(2,3) node_name_starts unfolding foreign_def by blast+
  ultimately have "i = 1" using i(1) by (auto simp: less_Suc_eq)
  then have "ls = us @ ?h # vs" using i(2) by simp
  from own_rows [OF p r this v] show ?thesis unfolding i(3) by (simp add: nth_append)
qed

lemma table_exists:
  assumes p: "printed encs ts W C base t ls file" and r: "reach t (free_bits W) ps b (Branch lv lsb width cs)"
  shows "\<exists>xs ys. file = xs @ table_line ''DECODE_NEW_TABLE'' (node_name base ps b) lsb width # ys"
proof -
  obtain pre sub post where s: "ls = pre @ sub @ post" "print_node C ps (Branch lv lsb width cs) = Inr sub"
    using reach_printed [OF p r] by blast
  moreover have "2 \<le> length lv" using node_ok_branch [OF printed_node_ok [OF p r]] by blast
  ultimately obtain name rest where "table_name C ps (Branch lv lsb width cs) = Inr name"
      "sub = table_line ''DECODE_NEW_TABLE'' name lsb width # rest"
    by (auto elim: print_node_branch [OF s(2)])
  moreover obtain pre' post' where "file = pre' @ ls @ post'" using p by (auto simp: printed_def)
  ultimately show ?thesis using reach_table_name [OF p r] s(1) by (metis append.assoc append_Cons)
qed

lemma walk:
  assumes p: "printed encs ts W C base t ls file" and r: "reach t (free_bits W) ps b node" and two: "2 \<le> length (leaves node)"
  shows "decodes file w (node_name base ps b) r \<longleftrightarrow> child_line C [] (Leaf (dt_decode node w)) = Inr r"
  using r two
proof (induction "size node" arbitrary: node ps b rule: less_induct)
  case less
  note ok = printed_node_ok [OF p less.prems(1)]
  obtain lv lsb width cs where node: "node = Branch lv lsb width cs"
    using ok less.prems(2) by (auto simp: node_ok_def elim!: auto_separate_cases)
  note reach = less.prems(1) [unfolded node]
  define v where "v = field_of w lsb width"
  have v: "v < length cs"
    using node_ok_branch [OF ok [unfolded node]] by (simp add: v_def field_of_def take_bit_nat_less_exp)
  have size: "size (cs ! v) < size node"
    using v by (auto simp: node less_Suc_eq_le intro!: size_list_estimation' [OF nth_mem])
  have step: "dt_decode node w = dt_decode (cs ! v) w" using v by (simp add: node v_def)
  note rows = table_rows [OF p reach _ v]
  obtain xs ys where h: "file = xs @ table_line ''DECODE_NEW_TABLE'' (node_name base ps b) lsb width # ys"
    using table_exists [OF p reach] by blast
  show ?case
  proof (cases "length (leaves (cs ! v)) \<le> 1")
    case True
    have "node_ok encs ts W (slice_assign lsb width (lsb_bits width v) b) (cs ! v)"
      using child_ok [OF ok [unfolded node] v] p by (auto simp: printed_def)
    from node_ok_leaf [OF this True] have d: "dt_decode node w = leaves (cs ! v)"
      unfolding step by (metis dt_decode.simps(1))
    have nolink: "child_line C [] (Leaf (leaves (cs ! v))) \<noteq> Inr (link_line m)" for m
      using child_line_link [of C "[]" "Leaf (leaves (cs ! v))" m] True by auto
    show ?thesis
    proof
      assume "decodes file w (node_name base ps b) r"
      then show "child_line C [] (Leaf (dt_decode node w)) = Inr r"
      proof (cases rule: decodes.cases)
        case (row xs l k ys)
        then show ?thesis using rows [OF row(1)] True by (simp add: d v_def)
      next
        case (link xs l k ys m)
        then show ?thesis using rows [OF link(1)] True nolink by (simp add: v_def)
      qed
    next
      assume "child_line C [] (Leaf (dt_decode node w)) = Inr r"
      then have "r = ys ! field_of w lsb width" "\<And>m. r \<noteq> link_line m"
        using rows [OF h] True nolink by (auto simp: d v_def)
      then show "decodes file w (node_name base ps b) r" by (rule decodes.row [OF h])
    qed
  next
    case False
    then have IH: "decodes file w (node_name base qs b') r \<longleftrightarrow> child_line C [] (Leaf (dt_decode node w)) = Inr r"
      if "reach t (free_bits W) qs b' (cs ! v)" for qs b'
      using less.hyps [OF size that] unfolding step by simp
    have link_eq: "link_line a = link_line a' \<Longrightarrow> a = a'" for a a' by (simp add: link_line_def)
    show ?thesis
    proof
      assume "decodes file w (node_name base ps b) r"
      then show "child_line C [] (Leaf (dt_decode node w)) = Inr r"
      proof (cases rule: decodes.cases)
        case (row xs l k ys)
        then show ?thesis using rows [OF row(1)] False by (auto simp: v_def)
      next
        case (link xs l k ys m)
        then show ?thesis using rows [OF link(1)] False IH by (auto simp: v_def dest!: link_eq)
      qed
    next
      assume *: "child_line C [] (Leaf (dt_decode node w)) = Inr r"
      obtain qs b' where q: "reach t (free_bits W) qs b' (cs ! v)" "ys ! v = link_line (node_name base qs b')"
        using rows [OF h] False by auto
      show "decodes file w (node_name base ps b) r"
        by (rule decodes.link [OF h q(2) [unfolded v_def]]) (use IH [OF q(1)] * in simp)
    qed
  qed
qed

lemma walk_ends:
  assumes p: "printed encs ts W C base t ls file" and r: "reach t (free_bits W) ps b node" and two: "2 \<le> length (leaves node)"
  shows "\<exists>r. decodes file w (node_name base ps b) r"
  using r two
proof (induction "size node" arbitrary: node ps b rule: less_induct)
  case less
  obtain lv lsb width cs where node: "node = Branch lv lsb width cs"
    using printed_node_ok [OF p less.prems(1)] less.prems(2) by (auto simp: node_ok_def elim!: auto_separate_cases)
  note reach = less.prems(1) [unfolded node]
  define v where "v = field_of w lsb width"
  have v: "v < length cs"
    using node_ok_branch [OF printed_node_ok [OF p reach]] by (simp add: v_def field_of_def take_bit_nat_less_exp)
  obtain xs ys where h: "file = xs @ table_line ''DECODE_NEW_TABLE'' (node_name base ps b) lsb width # ys"
    using table_exists [OF p reach] by blast
  note row = table_rows [OF p reach h v]
  show ?case
  proof (cases "length (leaves (cs ! v)) \<le> 1")
    case True
    then have "ys ! v \<noteq> link_line m" for m
      using row child_line_link [of C "[]" "Leaf (leaves (cs ! v))" m] by auto
    then show ?thesis using decodes.row [OF h] unfolding v_def by blast
  next
    case False
    then obtain qs b' where q: "reach t (free_bits W) qs b' (cs ! v)" "ys ! v = link_line (node_name base qs b')"
      using row by auto
    have "size (cs ! v) < size node"
      using v by (auto simp: node less_Suc_eq_le intro!: size_list_estimation' [OF nth_mem])
    from less.hyps [OF this q(1)] False obtain r where "decodes file w (node_name base qs b') r" by auto
    then show ?thesis using decodes.link [OF h q(2) [unfolded v_def]] by blast
  qed
qed

lemma printed_decodes:
  assumes p: "printed encs ts W C base t ls file" and ts: "distinct ts" "2 \<le> length ts"
  shows "decodes file w base r \<longleftrightarrow> child_line C [] (Leaf (dt_decode t w)) = Inr r"
    and "tag \<in> set ts \<Longrightarrow> matches (encs tag) w \<Longrightarrow> decodes file w base r \<longleftrightarrow> leaf_line C tag = Inr r"
    and "\<exists>!r. decodes file w base r"
proof -
  have sep: "auto_separate encs ts = Inr t" using p by (simp add: printed_def)
  show d: "decodes file w base r \<longleftrightarrow> child_line C [] (Leaf (dt_decode t w)) = Inr r"
    using walk [OF p reach.root] auto_separate_leaves [OF sep] ts(2) by (simp add: node_name_def)
  show "decodes file w base r \<longleftrightarrow> leaf_line C tag = Inr r" if "tag \<in> set ts" "matches (encs tag) w"
    unfolding d using decode_complete [OF sep ts(1) that] by (simp add: child_line_def)
  have unique: "decodes file w base r \<longleftrightarrow> child_line C [] (Leaf (dt_decode t w)) = Inr r" for r
    using walk [OF p reach.root] auto_separate_leaves [OF sep] ts(2) by (simp add: node_name_def)
  obtain r where "decodes file w base r"
    using walk_ends [OF p reach.root] auto_separate_leaves [OF sep] ts(2) by (auto simp: node_name_def)
  then show "\<exists>!r. decodes file w base r" using unique by (metis sum.inject(2))
qed

section \<open>The property\<close>

text \<open>C27: The printed tables decode as the tree does. Starting at the root table and following the links, a word reaches exactly the row printed for the leaf that the tree gives it: INVALID where there is none and, for a word with the opcode bits of a tag of the set, the line of that tag. So a walk over the tables never ends in a wrong row, and no two tables of a tree share a name.\<close>

theorem tables_decode:
  assumes "auto_separate encs ts = Inr t" "distinct ts" "2 \<le> length ts" "\<forall>tag \<in> set ts. length (encs tag) = W"
    and "CHR '','' \<notin> set base" "\<forall>tag \<in> set ts. tag_base_ok C base W tag" "print_tree C t = Inr ls"
  shows "(\<forall>w r. decodes ls w base r \<longleftrightarrow> child_line C [] (Leaf (dt_decode t w)) = Inr r) \<and>
    (\<forall>tag w r. tag \<in> set ts \<and> matches (encs tag) w \<longrightarrow> (decodes ls w base r \<longleftrightarrow> leaf_line C tag = Inr r))"
proof -
  have "printed encs ts W C base t ls ls"
    using assms by (auto simp: printed_def foreign_def intro!: exI [of _ "[]"])
  from printed_decodes [OF this assms(2,3)] show ?thesis by blast
qed

definition demo_ctx4 :: dec_ctx where
  "demo_ctx4 = demo_ctx\<lparr>c_encs := [(''A'', ''dd00''), (''B'', ''dd01''), (''C'', ''dd11'')]\<rparr>"

lemma demo_print4:
  "print_tree demo_ctx4 (Branch [''A'', ''B'', ''C''] 2 2 [Leaf [''A''], Leaf [], Leaf [''B''], Leaf [''C'']]) = Inr
     [''DECODE_NEW_TABLE(DECODE_ROOT_4,4,DECODE_SEPARATOR_BITS(2,2))'', ''TERMINAL(A,\"00dd\")'', ''INVALID()'',
      ''TERMINAL(B,\"10dd\")'', ''TERMINAL(C,\"11dd\")'',
      ''DECODE_END_TABLE(DECODE_ROOT_4,4,DECODE_SEPARATOR_BITS(2,2))'', []]"
  by code_simp

theorem tables_decode_witness:
  "decodes (case print_tree demo_ctx4 (Branch [''A'', ''B'', ''C''] 2 2 [Leaf [''A''], Leaf [], Leaf [''B''], Leaf [''C'']]) of
       Inr ls \<Rightarrow> ls | Inl _ \<Rightarrow> []) 13 ''DECODE_ROOT_4'' ''TERMINAL(C,\"11dd\")''"
proof -
  have b: "\<forall>tag \<in> set [''A'', ''B'', ''C'']. tag_base_ok demo_ctx4 ''DECODE_ROOT_4'' 4 tag" by code_simp
  have l: "\<forall>tag \<in> set [''A'', ''B'', ''C'']. length (demo_encs tag) = 4" by code_simp
  have m: "matches (demo_encs ''C'') 13" unfolding mask_matches [symmetric] by code_simp
  have c: "leaf_line demo_ctx4 ''C'' = Inr ''TERMINAL(C,\"11dd\")''" by code_simp
  note d = tables_decode [OF demo_separate _ _ l _ b demo_print4, THEN conjunct2, rule_format, of "''C''"]
  show ?thesis unfolding demo_print4 sum.case
    by (rule d [THEN iffD2, OF _ _ _ _ c]) (simp_all add: m)
qed

end
