(* ===== verification/Dec_Sort.thy ===== *)
theory Dec_Sort
  imports Dec_Print
begin

text \<open>
  The module level of \<^verbatim>\<open>dectree.py\<close> that sorts the tags into the decode trees: what each of the
  sets holds after the loop over the encodings, whatever the order of the tags.
\<close>

section \<open>The outcomes of sorting one tag\<close>

definition has_class :: "iset \<Rightarrow> string \<Rightarrow> string \<Rightarrow> bool" where
  "has_class I tag c \<longleftrightarrow> tag \<notin> fst ` set (subinsn_groupings I) \<and>
     (case iset_info I tag of None \<Rightarrow> False | Some i \<Rightarrow> i_enc_class i = c)"

definition members :: "(string \<times> string list) list \<Rightarrow> string \<Rightarrow> string set" where
  "members m c = (case map_of m c of None \<Rightarrow> {} | Some ls \<Rightarrow> set ls)"

lemma set_set_add [simp]: "set (set_add x xs) = insert x (set xs)"
  by (auto simp: set_add_def)

lemma enc_fun_dict_set: "enc_fun (dict_set tag e encs) t = (if t = tag then e else enc_fun encs t)"
  by (simp add: enc_fun_def map_of_dict_set)

lemma add_to_class_members:
  "add_to_class c tag m = Inr m' \<Longrightarrow> members m' k = (if k = c then insert tag (members m c) else members m k)"
  by (auto simp: add_to_class_def members_def map_of_dict_set)

lemma classify_tag_cases:
  assumes "classify_tag I tag st = Inr st'"
  obtains (grouping) "tag \<in> fst ` set (subinsn_groupings I)" "st' = st\<lparr>s_groupings := set_add tag (s_groupings st)\<rparr>"
  | (subinsn) c m encs where "has_class I tag c" "is_subinsn c" "add_to_class c tag (s_subinsns st) = Inr m"
      "st' = st\<lparr>s_encs := encs, s_subinsns := m\<rparr>" "32 \<le> length (enc_fun encs tag)"
      "\<And>t. t \<noteq> tag \<Longrightarrow> enc_fun encs t = enc_fun (s_encs st) t" "fst ` set encs = fst ` set (s_encs st)"
  | (half) "has_class I tag ''16BIT''" "length (enc_fun (s_encs st) tag) = 16" "st' = st\<lparr>s_16bit := set_add tag (s_16bit st)\<rparr>"
  | (normal) "has_class I tag ''NORMAL''" "length (enc_fun (s_encs st) tag) = 32" "st' = st\<lparr>s_normal := set_add tag (s_normal st)\<rparr>"
  | (extension) c m where "has_class I tag c" "is_extension c" "length (enc_fun (s_encs st) tag) = 32"
      "add_to_class c tag (s_extensions st) = Inr m" "st' = st\<lparr>s_extensions := m\<rparr>"
proof (cases "tag \<in> fst ` set (subinsn_groupings I)")
  case True
  then show ?thesis using assms grouping by (simp add: classify_tag_def)
next
  case False
  then obtain i enc where i: "iset_info I tag = Some i" "map_of (s_encs st) tag = Some enc"
    using assms by (auto simp: classify_tag_def info_of_def)
  have hc: "has_class I tag (i_enc_class i)" using False i by (simp add: has_class_def)
  have enc: "enc_fun (s_encs st) tag = enc" using i by (simp add: enc_fun_def)
  have ks: "fst ` set (dict_set tag x (s_encs st)) = fst ` set (s_encs st)" for x
    using keys_dict_set [of tag x "s_encs st"] map_of_SomeD [OF i(2)]
    by (metis image_eqI fst_conv list.set_map)
  show ?thesis
  proof (cases "is_subinsn (i_enc_class i)")
    case True
    define e where "e = (if length enc \<noteq> 32
      then dict_set tag (enc @ replicate (32 - length enc) (CHR ''0'')) (s_encs st) else s_encs st)"
    from True obtain m where m: "add_to_class (i_enc_class i) tag (s_subinsns st) = Inr m"
        "st' = st\<lparr>s_encs := e, s_subinsns := m\<rparr>"
      using assms False i by (auto simp: classify_tag_def info_of_def Let_def e_def)
    show ?thesis
      by (rule subinsn [OF hc True m]) (auto simp: e_def enc_fun_dict_set enc ks)
  next
    case sub: False
    show ?thesis
    proof (cases "i_enc_class i = ''16BIT''")
      case True
      then show ?thesis using assms False i sub hc enc half
        by (auto simp: classify_tag_def info_of_def Let_def split: if_splits)
    next
      case h: False
      have len: "length enc = 32" using assms False i sub h
        by (auto simp: classify_tag_def info_of_def Let_def split: if_splits)
      show ?thesis
      proof (cases "i_enc_class i = ''NORMAL''")
        case True
        then show ?thesis using assms False i sub h len hc enc normal
          by (auto simp: classify_tag_def info_of_def Let_def)
      next
        case n: False
        then obtain m where "add_to_class (i_enc_class i) tag (s_extensions st) = Inr m" "st' = st\<lparr>s_extensions := m\<rparr>"
          using assms False i sub h len by (auto simp: classify_tag_def info_of_def Let_def)
        then show ?thesis using extension [OF hc _ _ _] n h sub enc len by (simp add: is_extension_def)
      qed
    qed
  qed
qed

section \<open>Invariants of the loop\<close>

text \<open>Every set holds only tags of its class, with encodings of its width.\<close>

definition sorted_sound :: "iset \<Rightarrow> dec_sets \<Rightarrow> string \<Rightarrow> bool" where
  "sorted_sound I st tag \<longleftrightarrow>
     (tag \<in> set (s_groupings st) \<longrightarrow> tag \<in> fst ` set (subinsn_groupings I)) \<and>
     (tag \<in> set (s_16bit st) \<longrightarrow> has_class I tag ''16BIT'' \<and> length (enc_fun (s_encs st) tag) = 16) \<and>
     (tag \<in> set (s_normal st) \<longrightarrow> has_class I tag ''NORMAL'' \<and> length (enc_fun (s_encs st) tag) = 32) \<and>
     (\<forall>c. tag \<in> members (s_extensions st) c \<longrightarrow>
        has_class I tag c \<and> is_extension c \<and> length (enc_fun (s_encs st) tag) = 32) \<and>
     (\<forall>c. tag \<in> members (s_subinsns st) c \<longrightarrow>
        has_class I tag c \<and> is_subinsn c \<and> 32 \<le> length (enc_fun (s_encs st) tag))"

lemma has_class_unique: "has_class I tag c \<Longrightarrow> has_class I tag d \<Longrightarrow> c = d"
  by (auto simp: has_class_def split: option.splits)

lemma classes_distinct: "\<not> is_subinsn ''16BIT''" "\<not> is_subinsn ''NORMAL''" "is_extension c \<Longrightarrow> \<not> is_subinsn c"
  by (simp_all add: is_subinsn_def is_extension_def starts_with_def)

lemma classify_tag_sound:
  assumes "classify_tag I x st = Inr st'" "sorted_sound I st tag"
  shows "sorted_sound I st' tag"
  using assms(1)
proof (cases rule: classify_tag_cases)
  case (subinsn c m encs)
  note mem = add_to_class_members [OF subinsn(3)]
  have st: "s_16bit st' = s_16bit st" "s_normal st' = s_normal st" "s_groupings st' = s_groupings st"
      "s_extensions st' = s_extensions st" "s_subinsns st' = m" "s_encs st' = encs"
    using subinsn(4) by simp_all
  show ?thesis
  proof (cases "tag = x")
    case False
    then have "tag \<in> members m k \<longleftrightarrow> tag \<in> members (s_subinsns st) k" for k
      using mem [of k] False by auto
    then show ?thesis using assms(2) unfolding sorted_sound_def st subinsn(6) [OF False] by simp
  next
    case True
    have only: "d = c" if "has_class I tag d" for d
      using has_class_unique [OF that] subinsn(1) True by simp
    have "tag \<notin> set (s_16bit st)" "tag \<notin> set (s_normal st)" "\<And>d. tag \<notin> members (s_extensions st) d"
      using assms(2) only subinsn(2) classes_distinct unfolding sorted_sound_def by blast+
    moreover have "has_class I tag d \<and> is_subinsn d \<and> 32 \<le> length (enc_fun encs tag)" if "tag \<in> members m d" for d
    proof -
      have "d = c" using that mem [of d] assms(2) only unfolding sorted_sound_def by (auto split: if_splits)
      then show ?thesis using subinsn(1,2,5) True by simp
    qed
    ultimately show ?thesis using assms(2) unfolding sorted_sound_def st by blast
  qed
next
  case (extension c m)
  note mem = add_to_class_members [OF extension(4)]
  have st: "s_16bit st' = s_16bit st" "s_normal st' = s_normal st" "s_groupings st' = s_groupings st"
      "s_extensions st' = m" "s_subinsns st' = s_subinsns st" "s_encs st' = s_encs st"
    using extension(5) by simp_all
  have "has_class I tag d \<and> is_extension d \<and> length (enc_fun (s_encs st) tag) = 32" if "tag \<in> members m d" for d
    using that mem [of d] assms(2) extension(1,2,3) unfolding sorted_sound_def by (auto split: if_splits)
  then show ?thesis using assms(2) unfolding sorted_sound_def st by blast
qed (use assms(2) in \<open>auto simp: sorted_sound_def\<close>)

text \<open>A tag of the encodings is in the set its class sends it to.\<close>

definition class_members :: "dec_sets \<Rightarrow> string \<Rightarrow> string set" where
  "class_members st c =
     (if c = ''16BIT'' then set (s_16bit st) else if c = ''NORMAL'' then set (s_normal st)
      else if is_subinsn c then members (s_subinsns st) c else members (s_extensions st) c)"

definition sorted_in :: "iset \<Rightarrow> dec_sets \<Rightarrow> string \<Rightarrow> bool" where
  "sorted_in I st tag \<longleftrightarrow>
     (if tag \<in> fst ` set (subinsn_groupings I) then tag \<in> set (s_groupings st)
      else \<exists>c. has_class I tag c \<and> tag \<in> class_members st c)"

lemma not_grouping: "has_class I tag c \<Longrightarrow> tag \<notin> fst ` set (subinsn_groupings I)"
  by (simp add: has_class_def)

lemma class_members_simps:
  "class_members st ''16BIT'' = set (s_16bit st)" "class_members st ''NORMAL'' = set (s_normal st)"
  "is_subinsn c \<Longrightarrow> class_members st c = members (s_subinsns st) c"
  "is_extension c \<Longrightarrow> class_members st c = members (s_extensions st) c"
  using classes_distinct by (auto simp: class_members_def is_extension_def)

lemma sorted_inI: "has_class I tag c \<Longrightarrow> tag \<in> class_members st c \<Longrightarrow> sorted_in I st tag"
  using not_grouping unfolding sorted_in_def by metis

lemma classify_tag_sorts:
  assumes "classify_tag I tag st = Inr st'"
  shows "sorted_in I st' tag"
  using assms
proof (cases rule: classify_tag_cases)
  case grouping
  then show ?thesis by (simp add: sorted_in_def)
next
  case (subinsn c m encs)
  show ?thesis
    by (rule sorted_inI [OF subinsn(1)])
      (simp add: class_members_simps(3) subinsn(2,4) add_to_class_members [OF subinsn(3)])
next
  case half
  show ?thesis by (rule sorted_inI [OF half(1)]) (simp add: class_members_simps half(3))
next
  case normal
  show ?thesis by (rule sorted_inI [OF normal(1)]) (simp add: class_members_simps normal(3))
next
  case (extension c m)
  show ?thesis
    by (rule sorted_inI [OF extension(1)])
      (simp add: class_members_simps(4) extension(2,5) add_to_class_members [OF extension(4)])
qed

lemma classify_tag_grows:
  assumes "classify_tag I x st = Inr st'"
  shows "set (s_groupings st) \<subseteq> set (s_groupings st')" "class_members st c \<subseteq> class_members st' c"
    "fst ` set (s_encs st') = fst ` set (s_encs st)"
proof -
  have m: "members m k \<subseteq> members m' k" if "add_to_class c x m = Inr m'" for c m m' k
    using add_to_class_members [OF that, of k] by auto
  show "set (s_groupings st) \<subseteq> set (s_groupings st')" "class_members st c \<subseteq> class_members st' c"
    "fst ` set (s_encs st') = fst ` set (s_encs st)"
    using assms by (cases rule: classify_tag_cases; use m in \<open>force simp: class_members_def\<close>)+
qed

lemma classify_tag_sorted_in:
  "classify_tag I x st = Inr st' \<Longrightarrow> sorted_in I st tag \<Longrightarrow> sorted_in I st' tag"
  using classify_tag_grows [of I x st st'] unfolding sorted_in_def by (meson subsetD)

lemma classify_all:
  "foldR (classify_tag I) ts st = Inr st' \<Longrightarrow> tag \<in> set ts \<or> sorted_in I st tag \<Longrightarrow> sorted_in I st' tag"
proof (induction ts arbitrary: st)
  case (Cons x ts)
  then obtain u where u: "classify_tag I x st = Inr u" "foldR (classify_tag I) ts u = Inr st'" by auto
  then show ?case
    using Cons.IH [OF u(2)] Cons.prems(2) classify_tag_sorts [OF u(1)] classify_tag_sorted_in [OF u(1)] by auto
qed simp

lemma classify_keys:
  assumes "foldR (classify_tag I) ts st = Inr st'"
  shows "fst ` set (s_encs st') = fst ` set (s_encs st)"
  by (rule foldR_preserves [OF _ refl assms]) (simp add: classify_tag_grows(3))

lemma add_ext_spaces_other:
  "tag \<notin> fst ` set es \<Longrightarrow> st' = fold add_ext_space es st \<Longrightarrow>
     enc_fun (s_encs st') tag = enc_fun (s_encs st) tag \<and> (tag \<in> set (s_normal st') \<longleftrightarrow> tag \<in> set (s_normal st)) \<and>
     (tag \<in> fst ` set (s_encs st') \<longleftrightarrow> tag \<in> fst ` set (s_encs st)) \<and>
     s_16bit st' = s_16bit st \<and> s_groupings st' = s_groupings st \<and> s_subinsns st' = s_subinsns st \<and>
     s_extensions st' = s_extensions st"
proof (induction es arbitrary: st)
  case (Cons e es)
  have "tag \<in> fst ` set (dict_set (fst e) x encs) \<longleftrightarrow> tag \<in> fst ` set encs" for x :: string and encs
    using keys_dict_set [of "fst e" x encs] Cons.prems(1) unfolding list.set_map [symmetric] by auto
  then show ?case using Cons by (simp add: add_ext_space_def enc_fun_dict_set)
qed simp

lemma sorted_sound_empty:
  "sorted_sound I \<lparr>s_encs = encs, s_normal = [], s_16bit = [], s_groupings = [],
     s_subinsns = map (\<lambda>c. (c, [])) cs, s_extensions = map (\<lambda>c. (c, [])) ds\<rparr> tag"
  by (auto simp: sorted_sound_def members_def map_of_map_keys split: option.splits dest!: map_of_SomeD)

section \<open>The sorted sets\<close>

text \<open>C32: The tags are sorted into the trees by their encoding class, each tag with an encoding into exactly the one set of its class, and the encodings in a set have the width of the set: 16 bits for 16-bit instructions, 32 for normal and extension instructions, at least 32 (padded) for subinstructions. A wrong width is an exception. (Extension spaces, whose encodings are not checked, are left out.)\<close>

theorem build_sets_sorted:
  assumes "build_sets I = Inr st" "tag \<notin> fst ` set (enc_ext_spaces I)"
  shows "sorted_sound I st tag \<and> (tag \<in> fst ` set (s_encs st) \<longrightarrow> sorted_in I st tag)"
proof -
  obtain st0 encs cs ds u where u: "st0 = \<lparr>s_encs = encs, s_normal = [], s_16bit = [], s_groupings = [],
        s_subinsns = map (\<lambda>c. (c, [])) cs, s_extensions = map (\<lambda>c. (c, [])) ds\<rparr>"
      "foldR (classify_tag I) (map fst encs) st0 = Inr u" "st = fold add_ext_space (enc_ext_spaces I) u"
    using assms(1) by (auto simp: build_sets_def Let_def)
  have "sorted_sound I u tag"
    by (rule foldR_preserves [OF _ _ u(2)]) (use classify_tag_sound sorted_sound_empty u(1) in blast)+
  moreover have "sorted_in I u tag" if "tag \<in> fst ` set (s_encs u)"
    using classify_all [OF u(2)] classify_keys [OF u(2)] that u(1) by simp
  moreover note same = add_ext_spaces_other [OF assms(2) u(3)]
  have "tag \<in> class_members st c \<longleftrightarrow> tag \<in> class_members u c" for c
    using same unfolding class_members_def by presburger
  ultimately show ?thesis
    using same unfolding sorted_sound_def sorted_in_def by presburger
qed

definition demo_iset :: iset where
  "demo_iset = \<lparr>iset_tags = [''A''], iset_info = [''A'' \<mapsto> \<lparr>i_enc = ''1100 ssss 0000 dddd'', i_enc_class = ''16BIT'',
     i_syntax = [], i_rregs = [], i_wregs = []\<rparr>], subinsn_groupings = [], enc_ext_spaces = []\<rparr>"

definition demo_sets :: dec_sets where
  "demo_sets = \<lparr>s_encs = [(''A'', ''dddd0000ssss0011'')], s_normal = [], s_16bit = [''A''], s_groupings = [],
     s_subinsns = [], s_extensions = []\<rparr>"

lemma demo_build: "build_sets demo_iset = Inr demo_sets"
  by code_simp

theorem build_sets_sorted_witness: "sorted_in demo_iset demo_sets ''A''"
proof -
  have "''A'' \<notin> fst ` set (enc_ext_spaces demo_iset)" "''A'' \<in> fst ` set (s_encs demo_sets)"
    by (simp_all add: demo_iset_def demo_sets_def)
  then show ?thesis using build_sets_sorted [OF demo_build] by blast
qed

end
