(* ===== verification/Dec_Main.thy ===== *)
theory Dec_Main
  imports Dec_Tables Dec_Sort
begin

text \<open>
  \<^verbatim>\<open>dectree.py\<close> as a whole, from the instruction set to the printed file: the sets of
  \<open>Dec_Sort\<close> separated by \<open>Dec_Tree\<close>, printed by \<open>Dec_Print\<close> and read again by the
  walk of \<open>Dec_Tables\<close>.
\<close>

section \<open>What the sets hold\<close>

text \<open>Extension spaces have names of their own and 32 bits, which the program takes for granted.\<close>

definition ext_spaces_ok :: "iset \<Rightarrow> bool" where
  "ext_spaces_ok I \<longleftrightarrow> (\<forall>(tag, e) \<in> set (enc_ext_spaces I).
     tag \<notin> set (iset_tags I) \<and> tag \<notin> fst ` set (subinsn_groupings I) \<and> length (flip_enc e) = 32)"

definition class_sets_ok :: "iset \<Rightarrow> string set \<Rightarrow> string set \<Rightarrow> (string \<Rightarrow> bool) \<Rightarrow> (string \<times> string list) list \<Rightarrow> bool" where
  "class_sets_ok I K cls kind m \<longleftrightarrow>
     (\<forall>(c, ls) \<in> set m. c \<in> cls \<and> kind c \<and> (\<forall>t \<in> set ls. t \<in> K \<and> has_class I t c))"

definition sets_ok :: "iset \<Rightarrow> string set \<Rightarrow> string set \<Rightarrow> dec_sets \<Rightarrow> bool" where
  "sets_ok I K cls st \<longleftrightarrow>
     distinct (s_normal st) \<and> distinct (s_16bit st) \<and> set (s_16bit st) \<subseteq> K \<and> set (s_normal st) \<subseteq> K \<and>
     set (s_groupings st) \<subseteq> fst ` set (subinsn_groupings I) \<and>
     class_sets_ok I K cls is_subinsn (s_subinsns st) \<and> class_sets_ok I K cls is_extension (s_extensions st)"

lemma distinct_set_add [simp]: "distinct (set_add x xs) = distinct xs"
  by (simp add: set_add_def)

lemma set_dict_set: "set (dict_set k v xs) \<subseteq> insert (k, v) (set xs)"
  by (induction k v xs rule: dict_set.induct) auto

lemma key_set_dict_set: "fst ` set (dict_set k v xs) = insert k (fst ` set xs)"
  using keys_dict_set [of k v xs] unfolding list.set_map [symmetric] by (auto simp: insert_absorb)

lemma add_to_class_ok:
  assumes "add_to_class c tag m = Inr m'" "class_sets_ok I K cls kind m" "has_class I tag c" "tag \<in> K"
  shows "class_sets_ok I K cls kind m'"
proof -
  obtain ls where ls: "map_of m c = Some ls" "m' = dict_set c (set_add tag ls) m"
    using assms(1) by (auto simp: add_to_class_def)
  then have "(c, ls) \<in> set m" by (simp add: map_of_SomeD)
  then have "c \<in> cls \<and> kind c \<and> (\<forall>t \<in> set (set_add tag ls). t \<in> K \<and> has_class I t c)"
    using assms(2,3,4) by (auto simp: class_sets_ok_def)
  then show ?thesis using assms(2) set_dict_set [of c "set_add tag ls" m] unfolding class_sets_ok_def ls(2) by fastforce
qed

lemma classify_tag_ok:
  assumes "classify_tag I tag st = Inr st'" "sets_ok I K cls st" "tag \<in> K"
  shows "sets_ok I K cls st'"
  using assms(1)
proof (cases rule: classify_tag_cases)
  case (subinsn c m encs)
  then show ?thesis using assms(2,3) add_to_class_ok [OF subinsn(3) _ subinsn(1) assms(3)] by (simp add: sets_ok_def)
next
  case (extension c m)
  then show ?thesis using assms(2,3) add_to_class_ok [OF extension(4) _ extension(1) assms(3)] by (simp add: sets_ok_def)
qed (use assms(2,3) in \<open>auto simp: sets_ok_def\<close>)

lemma base_encs_tags: "base_encs I = Inr encs \<Longrightarrow> fst ` set encs \<subseteq> set (iset_tags I)"
proof -
  assume e: "base_encs I = Inr encs"
  show ?thesis
  proof (rule foldR_preserves [OF _ _ e [unfolded base_encs_def]])
    fix tag encs encs' assume *: "tag \<in> set (iset_tags I)" "fst ` set encs \<subseteq> set (iset_tags I)"
      "bindR (info_of I tag) (\<lambda>i. Inr (if i_enc i = ''MISSING ENCODING'' then encs else dict_set tag (flip_enc (i_enc i)) encs)) = Inr encs'"
    then consider "encs' = encs" | x where "encs' = dict_set tag x encs" by (auto split: if_splits)
    then show "fst ` set encs' \<subseteq> set (iset_tags I)" using *(1,2) by cases (simp_all only: key_set_dict_set insert_subset simp_thms)
  qed simp
qed

lemma grouping_keys:
  "fst ` set (fold (\<lambda>(tag, g). dict_set tag (flip_enc (g_enc g))) gs encs) \<subseteq> fst ` set encs \<union> fst ` set gs"
proof (induction gs arbitrary: encs)
  case (Cons p gs)
  obtain tag g where p: "p = (tag, g)" by force
  show ?case using Cons [of "dict_set tag (flip_enc (g_enc g)) encs"] by (simp add: p key_set_dict_set)
qed simp

lemma add_ext_spaces_sets:
  "st' = fold add_ext_space es st \<Longrightarrow> distinct (s_normal st) \<Longrightarrow>
     distinct (s_normal st') \<and> set (s_normal st') = set (s_normal st) \<union> fst ` set es \<and>
     s_16bit st' = s_16bit st \<and> s_groupings st' = s_groupings st \<and> s_subinsns st' = s_subinsns st \<and>
     s_extensions st' = s_extensions st"
  by (induction es arbitrary: st) (auto simp: add_ext_space_def)

lemma add_ext_spaces_encs:
  "\<forall>(t, e) \<in> set es. length (flip_enc e) = 32 \<Longrightarrow>
     tag \<in> fst ` set es \<or> length (enc_fun (s_encs st) tag) = 32 \<Longrightarrow>
     length (enc_fun (s_encs (fold add_ext_space es st)) tag) = 32"
proof (induction es arbitrary: st)
  case (Cons e es)
  then show ?case using Cons.IH [of "add_ext_space e st"] by (cases e) (auto simp: add_ext_space_def enc_fun_dict_set)
qed simp

text \<open>The sets of the module, after the loops.\<close>

lemma build_sets_ok:
  assumes "build_sets I = Inr st" "base_encs I = Inr encs0" "enc_classes I encs0 = Inr classes" "ext_spaces_ok I"
  shows "distinct (s_normal st)" "distinct (s_16bit st)"
    "tag \<in> set (s_normal st) \<Longrightarrow> tag \<in> fst ` set (enc_ext_spaces I) \<or> has_class I tag ''NORMAL''"
    "tag \<in> set (s_normal st) \<Longrightarrow> length (enc_fun (s_encs st) tag) = 32"
    "tag \<in> set (s_16bit st) \<Longrightarrow> has_class I tag ''16BIT'' \<and> length (enc_fun (s_encs st) tag) = 16"
    "set (s_16bit st) \<inter> fst ` set (enc_ext_spaces I) = {}"
    "set (s_groupings st) \<subseteq> fst ` set (subinsn_groupings I)"
    "class_sets_ok I UNIV (set classes) is_subinsn (s_subinsns st)"
    "class_sets_ok I UNIV (set classes) is_extension (s_extensions st)"
proof -
  define encs where "encs = fold (\<lambda>(tag, g). dict_set tag (flip_enc (g_enc g))) (subinsn_groupings I) encs0"
  define K where "K = fst ` set encs"
  obtain st0 u where u: "st0 = \<lparr>s_encs = encs, s_normal = [], s_16bit = [], s_groupings = [],
        s_subinsns = map (\<lambda>c. (c, [])) (filter is_subinsn classes),
        s_extensions = map (\<lambda>c. (c, [])) (filter is_extension classes)\<rparr>"
      "foldR (classify_tag I) (map fst encs) st0 = Inr u" "st = fold add_ext_space (enc_ext_spaces I) u"
    using assms(1,2,3) by (auto simp: build_sets_def Let_def encs_def)
  have "sets_ok I K (set classes) st0" by (auto simp: u(1) sets_ok_def class_sets_ok_def)
  then have ok: "sets_ok I K (set classes) u"
    by (rule foldR_preserves [OF _ _ u(2), rotated]) (auto intro: classify_tag_ok simp: K_def)
  have "K \<subseteq> set (iset_tags I) \<union> fst ` set (subinsn_groupings I)"
    using grouping_keys [of "subinsn_groupings I" encs0] base_encs_tags [OF assms(2)] by (auto simp: K_def encs_def)
  then have K: "K \<inter> fst ` set (enc_ext_spaces I) = {}" using assms(4) by (fastforce simp: ext_spaces_ok_def)
  have sound: "sorted_sound I st tag" if "tag \<in> K" for tag
    using build_sets_sorted [OF assms(1)] that K by blast
  have e32: "\<forall>(t, e) \<in> set (enc_ext_spaces I). length (flip_enc e) = 32" using assms(4) by (auto simp: ext_spaces_ok_def)
  have d: "distinct (s_normal u)" using ok by (simp add: sets_ok_def)
  note same = add_ext_spaces_sets [OF u(3) d]
  have sub: "set (s_normal u) \<subseteq> K" "set (s_16bit u) \<subseteq> K" using ok by (simp_all add: sets_ok_def)
  show "distinct (s_normal st)" using same by simp
  show "distinct (s_16bit st)" "set (s_groupings st) \<subseteq> fst ` set (subinsn_groupings I)" using ok same by (simp_all add: sets_ok_def)
  show "set (s_16bit st) \<inter> fst ` set (enc_ext_spaces I) = {}" using K sub(2) same by auto
  show "class_sets_ok I UNIV (set classes) is_subinsn (s_subinsns st)"
    "class_sets_ok I UNIV (set classes) is_extension (s_extensions st)"
    using ok same by (auto simp: sets_ok_def class_sets_ok_def)
  show "has_class I tag ''16BIT'' \<and> length (enc_fun (s_encs st) tag) = 16" if "tag \<in> set (s_16bit st)"
  proof -
    have "tag \<in> K" using sub(2) same that by auto
    from sound [OF this] that show ?thesis by (simp add: sorted_sound_def)
  qed
  show "tag \<in> fst ` set (enc_ext_spaces I) \<or> has_class I tag ''NORMAL''" "length (enc_fun (s_encs st) tag) = 32"
    if t: "tag \<in> set (s_normal st)"
  proof -
    consider "tag \<in> fst ` set (enc_ext_spaces I)" | "tag \<in> K" using same sub(1) t by blast
    then have "(tag \<in> fst ` set (enc_ext_spaces I) \<or> has_class I tag ''NORMAL'') \<and> length (enc_fun (s_encs st) tag) = 32"
    proof cases
      case 1
      then show ?thesis using add_ext_spaces_encs [OF e32] u(3) by blast
    next
      case 2
      from sound [OF this] t show ?thesis by (simp add: sorted_sound_def)
    qed
    then show "tag \<in> fst ` set (enc_ext_spaces I) \<or> has_class I tag ''NORMAL''" "length (enc_fun (s_encs st) tag) = 32" by blast+
  qed
qed

section \<open>Names of the tables of each tree\<close>

text \<open>No name that starts with \<open>B\<close> starts with \<open>base\<close>.\<close>

definition clash_free :: "string \<Rightarrow> string \<Rightarrow> bool" where
  "clash_free base B \<longleftrightarrow> (\<forall>x. \<not> starts_with (B @ x) base)"

lemma clash_freeI: "i < length base \<Longrightarrow> i < length B \<Longrightarrow> base ! i \<noteq> B ! i \<Longrightarrow> clash_free base B"
  unfolding clash_free_def starts_with_def by (metis nth_append nth_take)

lemma clash_free_append: "clash_free base B \<Longrightarrow> clash_free base (B @ y)"
  by (simp add: clash_free_def)

lemma table_line_starts:
  assumes "table_line ''DECODE_NEW_TABLE'' n lsb width = table_line ''DECODE_NEW_TABLE'' n' lsb' width'" "clash_free base n'"
  shows "\<not> starts_with n base"
proof
  assume n: "starts_with n base"
  obtain x x' where "n @ x = n' @ x'" using assms(1) by (auto simp: table_line_def)
  moreover have "starts_with (n @ x) base"
    using n by (metis append_eq_conv_conj append_take_drop_id append_assoc starts_with_def)
  ultimately show False using assms(2) by (metis clash_free_def)
qed

lemma reach_leaves:
  assumes "auto_separate encs ts = Inr t0"
  shows "reach t0 b0 ps b node \<Longrightarrow> auto_separate encs (leaves node) = Inr node \<and> set (leaves node) \<subseteq> set ts"
proof (induction rule: reach.induct)
  case root
  then show ?case using assms auto_separate_leaves [OF assms] by simp
next
  case (child ps b lv lsb width cs v)
  then have sep: "auto_separate encs lv = Inr (Branch lv lsb width cs)" "set lv \<subseteq> set ts" by simp_all
  from sep(1) show ?case
  proof (cases rule: auto_separate_cases)
    case (branch lsb' width' cs')
    then have "auto_separate encs (filter (\<lambda>tag. slice (encs tag) lsb width = lsb_bits width v) lv) = Inr (cs ! v)"
      using child.hyps(2) by simp
    moreover from auto_separate_leaves [OF this]
    have "leaves (cs ! v) = filter (\<lambda>tag. slice (encs tag) lsb width = lsb_bits width v) lv" .
    ultimately show ?thesis using sep(2) by auto
  qed simp
qed

text \<open>A tree whose names start otherwise is foreign.\<close>

lemma print_tree_foreign:
  assumes "print_tree C t = Inr ls" "auto_separate encs ts = Inr t"
    and "\<And>ns B W. set ns \<subseteq> set ts \<Longrightarrow> table_base C ns = Inr (B, W) \<Longrightarrow> clash_free base B"
  shows "foreign base ls"
  unfolding foreign_def
proof (intro allI impI)
  fix n lsb width assume "table_line ''DECODE_NEW_TABLE'' n lsb width \<in> set ls"
  then obtain xs ys where "ls = xs @ table_line ''DECODE_NEW_TABLE'' n lsb width # ys" by (meson split_list)
  from printed_header [OF assms(1) [unfolded print_tree_def] reach.root this]
  obtain ps' b' lv' lsb' width' cs' n' where q: "reach t [] ps' b' (Branch lv' lsb' width' cs')"
      "table_name C ps' (Branch lv' lsb' width' cs') = Inr n'"
      "table_line ''DECODE_NEW_TABLE'' n lsb width = table_line ''DECODE_NEW_TABLE'' n' lsb' width'" by blast
  obtain B W y where B: "table_base C lv' = Inr (B, W)" "n' = B @ y"
    using q(2) by (auto simp: table_name_def Let_def split: if_splits)
  have "set lv' \<subseteq> set ts" using reach_leaves [OF assms(2) q(1)] by simp
  from clash_free_append [OF assms(3) [OF this B(1)]] show "\<not> starts_with n base"
    using table_line_starts [OF q(3)] B(2) by simp
qed

lemma print_class_trees_foreign:
  assumes "print_class_trees C ts = Inr ls" "separate_classes encs m = Inr ts"
    and "\<And>c ns B W lv. (c, lv) \<in> set m \<Longrightarrow> set ns \<subseteq> set lv \<Longrightarrow> table_base C ns = Inr (B, W) \<Longrightarrow> clash_free base B"
  shows "foreign base ls"
proof -
  obtain lss where lss: "mapR (\<lambda>(_, t). print_tree C t) (sort_key fst ts) = Inr lss" "ls = concat lss"
    using assms(1) by (auto simp: print_class_trees_def)
  have "foreign base l" if l: "l \<in> set lss" for l
  proof -
    obtain c t where ct: "print_tree C t = Inr l" "(c, t) \<in> set ts"
      using mapR_mem [OF lss(1) l] by auto
    from mapR_mem [OF assms(2) [unfolded separate_classes_def] ct(2)] obtain lv where
      "(c, lv) \<in> set m" "auto_separate encs lv = Inr t" by auto
    with ct(1) assms(3) show ?thesis using print_tree_foreign by blast
  qed
  then show ?thesis unfolding lss(2) foreign_def by (simp only: set_concat) blast
qed

lemma foreign_append [simp]: "foreign base (xs @ ys) \<longleftrightarrow> foreign base xs \<and> foreign base ys" "foreign base []"
  unfolding foreign_def set_append Un_iff by (blast, simp)

section \<open>The lines after the tables\<close>

definition no_table :: "string \<Rightarrow> bool" where
  "no_table l \<longleftrightarrow> take 9 l \<noteq> ''DECODE_NE''"

lemma no_table_foreign: "\<forall>l \<in> set ls. no_table l \<Longrightarrow> foreign base ls"
  by (auto simp: foreign_def no_table_def table_line_def dest: bspec)

lemma print_match_info_foreign: "print_match_info C = Inr ls \<Longrightarrow> foreign base ls"
  by (rule no_table_foreign) (auto simp: print_match_info_def match_info_line_def no_table_def)

lemma reg_lines_no_table:
  assumes "reg_lines enc k r = Inr ls" "l \<in> set ls"
  shows "no_table l"
proof -
  obtain t regid toss num where r: "r = (t, regid, toss, num)" by (cases r)
  obtain letter ids where l: "regid = letter # ids" using assms(1) by (cases regid) (auto simp: r reg_lines_def)
  obtain choices where c: "py_int (rstrip_char (CHR ''S'') num) = Inr choices"
    using assms(1) by (cases "py_int (rstrip_char (CHR ''S'') num)") (auto simp: r l reg_lines_def bindR_def)
  obtain start n where "runs letter 0 enc = [(start, n)]"
    using assms(1) c by (cases "runs letter 0 enc" rule: remdups_adj.cases) (auto simp: r l reg_lines_def)
  then show ?thesis using assms c
    by (auto simp: r l reg_lines_def no_table_def split: option.splits if_splits)
qed

lemma imm_lines_no_table: "imm_lines enc i = Inr ls \<Longrightarrow> l \<in> set ls \<Longrightarrow> no_table l"
  by (auto simp: imm_lines_def no_table_def Let_def split: prod.splits if_splits)

lemma implicit_lines_no_table: "l \<in> set (implicit_lines i k) \<Longrightarrow> no_table l"
  by (auto simp: implicit_lines_def no_table_def Let_def)

lemma mapR_concat_no_table:
  assumes "mapR f xs = Inr lss" "\<And>x ls. f x = Inr ls \<Longrightarrow> \<forall>l \<in> set ls. no_table l"
  shows "\<forall>l \<in> set (concat lss). no_table l"
  using mapR_mem [OF assms(1)] assms(2) by fastforce

lemma op_info_no_table:
  assumes "op_info C tag = Inr ls"
  shows "\<forall>l \<in> set ls. no_table l"
proof -
  obtain i where i: "info_of (c_iset C) tag = Inr i" using assms by (auto simp: op_info_def)
  let ?enc = "enc_fun (c_encs C) tag" and ?rs = "uniquify (regs_in (i_syntax i))"
  define imms where "imms = (let imms = uniquify (imms_in (i_syntax i)) in if imms \<noteq> [] \<and> first_upper imms then rev imms else imms)"
  obtain rls ils where o: "mapR (\<lambda>(k, r). reg_lines ?enc k r) (enumerate 0 ?rs) = Inr rls" "mapR (imm_lines ?enc) imms = Inr ils"
      "ls = [[], ''DECODE_OPINFO('' @ tag @ '',''] @ concat rls @ implicit_lines i (length ?rs) @ concat ils @ ['')'']"
    using assms unfolding op_info_def i bindR_simps imms_def Let_def by auto
  have "\<forall>l \<in> set (concat rls). no_table l"
    by (rule mapR_concat_no_table [OF o(1)]) (auto dest: reg_lines_no_table)
  moreover have "\<forall>l \<in> set (concat ils). no_table l"
    by (rule mapR_concat_no_table [OF o(2)]) (auto dest: imm_lines_no_table)
  moreover have "no_table []" "no_table '')''" "no_table (''DECODE_OPINFO('' @ tag @ '','')" by (simp_all add: no_table_def)
  ultimately show ?thesis unfolding o(3) using implicit_lines_no_table by (simp add: ball_Un)
qed

lemma print_op_info_foreign:
  assumes "print_op_info C = Inr ls"
  shows "foreign base ls"
proof (rule no_table_foreign)
  obtain ts lss where l: "mapR (op_info C) ts = Inr lss" "ls = concat lss" using assms by (auto simp: print_op_info_def)
  show "\<forall>l \<in> set ls. no_table l"
    unfolding l(2) by (rule mapR_concat_no_table [OF l(1)]) (rule op_info_no_table)
qed

section \<open>The names of the trees\<close>

lemma grouping_base:
  "set ns \<subseteq> fst ` set (subinsn_groupings (c_iset C)) \<Longrightarrow> table_base C ns = Inr (B, W) \<Longrightarrow> B = ''DECODE_ROOT_EE''"
  by (auto simp: table_base_def map_of_eq_None_iff split: list.splits option.splits)

lemma no_grouping_base:
  assumes "table_base C ns = Inr (B, W)" "set ns \<inter> fst ` set (subinsn_groupings (c_iset C)) = {}"
  shows "\<exists>t \<in> set ns. t \<notin> faketags (c_iset C) \<and>
     (\<exists>e. map_of (c_encs C) t = Some e \<and> W = length e \<and> name_base C t W = Inr B)"
proof -
  obtain tag ns' where ns: "ns = tag # ns'" using assms(1) by (cases ns) (auto simp: table_base_def)
  have "map_of (subinsn_groupings (c_iset C)) tag = None" using assms(2) by (simp add: ns map_of_eq_None_iff)
  then obtain t ts where f: "filter (\<lambda>t. t \<notin> faketags (c_iset C)) ns = t # ts"
      "bindR (getitem (map_of (c_encs C)) t) (\<lambda>e. bindR (name_base C t (length e)) (\<lambda>n. Inr (n, length e))) = Inr (B, W)"
    using assms(1) unfolding ns by (auto simp: table_base_def simp del: filter.simps split: list.splits)
  have "t \<in> set (filter (\<lambda>t. t \<notin> faketags (c_iset C)) ns)" unfolding f(1) by simp
  then show ?thesis using f(2) by (intro bexI [of _ t]) (auto simp: getitem_def split: option.splits)
qed

lemma name_base_class:
  assumes "has_class (c_iset C) t c" "name_base C t W = Inr B"
  shows "B = (if c \<in> set (c_classes C) \<and> is_extension c then ''DECODE_EXT_'' @ c
     else if c \<in> set (c_classes C) \<and> is_subinsn c then ''DECODE_SUBINSN_'' @ c
     else ''DECODE_ROOT_'' @ show_nat W)"
  using assms by (auto simp: has_class_def name_base_def info_of_def getitem_def Let_def split: option.splits)

lemma class_base:
  assumes "\<forall>t \<in> set ns. has_class (c_iset C) t c" "table_base C ns = Inr (B, W)"
  shows "B = (if c \<in> set (c_classes C) \<and> is_extension c then ''DECODE_EXT_'' @ c
     else if c \<in> set (c_classes C) \<and> is_subinsn c then ''DECODE_SUBINSN_'' @ c
     else ''DECODE_ROOT_'' @ show_nat W)"
proof -
  have "set ns \<inter> fst ` set (subinsn_groupings (c_iset C)) = {}" using assms(1) not_grouping by blast
  from no_grouping_base [OF assms(2) this] obtain t where "t \<in> set ns" "name_base C t W = Inr B" by blast
  with assms(1) name_base_class show ?thesis by blast
qed

section \<open>The generated file\<close>

lemma ext_not_grouping: "ext_spaces_ok I \<Longrightarrow> tag \<in> fst ` set (enc_ext_spaces I) \<Longrightarrow> tag \<notin> fst ` set (subinsn_groupings I)"
  unfolding ext_spaces_ok_def by force

text \<open>An instruction tag of a set: its own base name and its row.\<close>

definition terminal_line :: "string \<Rightarrow> string \<Rightarrow> string" where
  "terminal_line tag e = ''TERMINAL('' @ tag @ '',\"'' @ rev e @ ''\")''"

lemma instruction_tag:
  assumes "has_class I tag c" "tag \<notin> fst ` set (enc_ext_spaces I)" "length (enc_fun (s_encs st) tag) = W" "0 < W"
    and C: "C = dec_context I classes st"
  shows "leaf_line C tag = Inr (terminal_line tag (enc_fun (s_encs st) tag))"
    "c \<in> {''NORMAL'', ''16BIT''} \<Longrightarrow> table_base C [tag] = Inr (''DECODE_ROOT_'' @ show_nat W, W)"
proof -
  let ?e = "enc_fun (s_encs st) tag"
  have g: "map_of (subinsn_groupings I) tag = None" and x: "map_of (enc_ext_spaces I) tag = None"
    and f: "tag \<notin> faketags I"
    using assms(1,2) not_grouping by (auto simp: map_of_eq_None_iff faketags_def)
  have "map_of (s_encs st) tag = Some ?e"
    using assms(3,4) by (auto simp: enc_fun_def split: option.splits)
  then have e: "map_of (c_encs C) tag = Some ?e"
    using f map_of_filter_keys [of "\<lambda>t. t \<notin> faketags I" tag "s_encs st"] by (simp add: C dec_context_def)
  have I: "c_iset C = I" by (simp add: C dec_context_def)
  show "leaf_line C tag = Inr (terminal_line tag ?e)"
    by (simp add: leaf_line_def terminal_line_def I g x e getitem_def)
  obtain i where i: "iset_info I tag = Some i" "i_enc_class i = c"
    using assms(1) by (auto simp: has_class_def split: option.splits)
  assume "c \<in> {''NORMAL'', ''16BIT''}"
  then have "\<not> is_extension c" "\<not> is_subinsn c" by (auto simp: is_extension_def is_subinsn_def starts_with_def)
  then have "name_base C tag W = Inr (''DECODE_ROOT_'' @ show_nat W)"
    by (simp add: name_base_def info_of_def I getitem_def i Let_def)
  then show "table_base C [tag] = Inr (''DECODE_ROOT_'' @ show_nat W, W)"
    using f by (simp add: table_base_def I g e getitem_def assms(3))
qed

lemma main_parts:
  assumes "main_dectree I = Inr out" "build_sets I = Inr st"
  obtains encs0 classes t l1 l2 l3 l4 l5 l6 l7 C where
    "base_encs I = Inr encs0" "enc_classes I encs0 = Inr classes" "separate_all I st = Inr t"
    "C = dec_context I classes st" "print_tree C (t_normal t) = Inr l1" "print_tree C (t_16bit t) = Inr l2"
    "(if subinsn_groupings I = [] then Inr [] else print_tree C (t_groupings t)) = Inr l3"
    "print_class_trees C (t_subinsns t) = Inr l4" "print_class_trees C (t_extensions t) = Inr l5"
    "print_match_info C = Inr l6" "print_op_info C = Inr l7" "out = l1 @ l2 @ l3 @ l4 @ l5 @ l6 @ l7"
  using assms by (auto simp: main_dectree_def Let_def)

lemma show_widths: "show_nat 32 = ''32''" "show_nat 16 = ''16''"
  by code_simp+

lemma clash_free_roots:
  "clash_free ''DECODE_ROOT_32'' ''DECODE_ROOT_16''" "clash_free ''DECODE_ROOT_16'' ''DECODE_ROOT_32''"
  "base \<in> {''DECODE_ROOT_32'', ''DECODE_ROOT_16''} \<Longrightarrow> clash_free base ''DECODE_ROOT_EE''"
  "base \<in> {''DECODE_ROOT_32'', ''DECODE_ROOT_16''} \<Longrightarrow> clash_free base (''DECODE_EXT_'' @ c)"
  "base \<in> {''DECODE_ROOT_32'', ''DECODE_ROOT_16''} \<Longrightarrow> clash_free base (''DECODE_SUBINSN_'' @ c)"
  by (auto intro: clash_freeI [of 12] clash_freeI [of 7])

lemma class_trees_foreign:
  assumes "print_class_trees C ts = Inr ls" "separate_classes encs m = Inr ts"
    and "class_sets_ok (c_iset C) UNIV (set (c_classes C)) kind m" "kind = is_subinsn \<or> kind = is_extension"
    and base: "base \<in> {''DECODE_ROOT_32'', ''DECODE_ROOT_16''}"
  shows "foreign base ls"
proof (rule print_class_trees_foreign [OF assms(1,2)])
  fix c ns B W lv assume m: "(c, lv) \<in> set m" and ns: "set ns \<subseteq> set lv" and t: "table_base C ns = Inr (B, W)"
  have c: "c \<in> set (c_classes C)" "kind c" "\<forall>t \<in> set lv. has_class (c_iset C) t c"
    using assms(3) m by (auto simp: class_sets_ok_def)
  have "\<forall>t \<in> set ns. has_class (c_iset C) t c" using c(3) ns by blast
  from class_base [OF this t] have "B = ''DECODE_EXT_'' @ c \<or> B = ''DECODE_SUBINSN_'' @ c"
    using c(1,2) assms(4) by (auto split: if_splits)
  then show "clash_free base B" using clash_free_roots(4,5) [OF base] by blast
qed

text \<open>The normal and the 16-bit tree are printed so that the walk of their tables is the walk of the trees.\<close>

lemma main_printed:
  assumes "main_dectree I = Inr out" "build_sets I = Inr st" "ext_spaces_ok I"
  obtains C classes tn th ln lh where "C = dec_context I classes st"
    "printed (enc_fun (s_encs st)) (s_normal st) 32 C ''DECODE_ROOT_32'' tn ln out"
    "printed (enc_fun (s_encs st)) (s_16bit st) 16 C ''DECODE_ROOT_16'' th lh out"
proof -
  obtain encs0 classes t l1 l2 l3 l4 l5 l6 l7 C where m: "base_encs I = Inr encs0" "enc_classes I encs0 = Inr classes"
    "separate_all I st = Inr t" "C = dec_context I classes st" "print_tree C (t_normal t) = Inr l1" "print_tree C (t_16bit t) = Inr l2"
    "(if subinsn_groupings I = [] then Inr [] else print_tree C (t_groupings t)) = Inr l3"
    "print_class_trees C (t_subinsns t) = Inr l4" "print_class_trees C (t_extensions t) = Inr l5"
    "print_match_info C = Inr l6" "print_op_info C = Inr l7" "out = l1 @ l2 @ l3 @ l4 @ l5 @ l6 @ l7"
    using main_parts [OF assms(1,2)] by metis
  note ok = build_sets_ok [OF assms(2) m(1,2) assms(3)]
  let ?encs = "enc_fun (s_encs st)"
  have C: "c_iset C = I" "c_classes C = classes" by (simp_all add: m(4) dec_context_def)
  have sep: "auto_separate ?encs (s_normal st) = Inr (t_normal t)" "auto_separate ?encs (s_16bit st) = Inr (t_16bit t)"
    "subinsn_groupings I = [] \<or> auto_separate ?encs (s_groupings st) = Inr (t_groupings t)"
    "separate_classes ?encs (s_subinsns st) = Inr (t_subinsns t)" "separate_classes ?encs (s_extensions st) = Inr (t_extensions t)"
    using m(3) by (auto simp: separate_all_def Let_def split: if_splits)
  have n: "tag_base_ok C ''DECODE_ROOT_32'' 32 tag" if "tag \<in> set (s_normal st)" for tag
  proof (cases "tag \<in> fst ` set (enc_ext_spaces I)")
    case True
    then have "tag \<notin> fst ` set (subinsn_groupings I)" by (rule ext_not_grouping [OF assms(3)])
    then show ?thesis using True by (simp add: tag_base_ok_def C faketags_def map_of_eq_None_iff)
  next
    case False
    then have "has_class I tag ''NORMAL''" using ok(3) that by blast
    from instruction_tag(2) [OF this False ok(4) [OF that] _ m(4)] show ?thesis
      by (simp add: tag_base_ok_def show_widths)
  qed
  have h: "tag_base_ok C ''DECODE_ROOT_16'' 16 tag" if "tag \<in> set (s_16bit st)" for tag
  proof -
    have "has_class I tag ''16BIT''" "length (?encs tag) = 16" "tag \<notin> fst ` set (enc_ext_spaces I)"
      using ok(5) [OF that] ok(6) that by auto
    from instruction_tag(2) [OF this(1,3,2) _ m(4)] show ?thesis by (simp add: tag_base_ok_def show_widths)
  qed
  have rest: "foreign base (l3 @ l4 @ l5 @ l6 @ l7)" if base: "base \<in> {''DECODE_ROOT_32'', ''DECODE_ROOT_16''}" for base
  proof -
    have "foreign base l3"
    proof (cases "subinsn_groupings I = []")
      case False
      then have "print_tree C (t_groupings t) = Inr l3" "auto_separate ?encs (s_groupings st) = Inr (t_groupings t)"
        using m(7) sep(3) by simp_all
      then show ?thesis
      proof (rule print_tree_foreign)
        fix ns B W assume "set ns \<subseteq> set (s_groupings st)" "table_base C ns = Inr (B, W)"
        then have "B = ''DECODE_ROOT_EE''" using grouping_base [of ns C] ok(7) by (simp add: C)
        then show "clash_free base B" using clash_free_roots(3) [OF base] by simp
      qed
    qed (use m(7) in simp)
    moreover have "foreign base l4" "foreign base l5"
      using class_trees_foreign [OF m(8) sep(4) _ _ base] class_trees_foreign [OF m(9) sep(5) _ _ base] ok(8,9) by (auto simp: C)
    ultimately show ?thesis using print_match_info_foreign [OF m(10)] print_op_info_foreign [OF m(11)] by simp
  qed
  have f1: "foreign ''DECODE_ROOT_16'' l1"
    by (rule print_tree_foreign [OF m(5) sep(1)]) (use table_base_uniform n clash_free_roots(2) in blast)
  have f2: "foreign ''DECODE_ROOT_32'' l2"
    by (rule print_tree_foreign [OF m(6) sep(2)]) (use table_base_uniform h clash_free_roots(1) in blast)
  have "printed ?encs (s_normal st) 32 C ''DECODE_ROOT_32'' (t_normal t) l1 out"
    unfolding printed_def using sep(1) ok(4) n m(5,12) f2 rest [of "''DECODE_ROOT_32''"]
    by (intro conjI exI [of _ "[]"] exI [of _ "l2 @ l3 @ l4 @ l5 @ l6 @ l7"]) simp_all
  moreover have "printed ?encs (s_16bit st) 16 C ''DECODE_ROOT_16'' (t_16bit t) l2 out"
    unfolding printed_def using sep(2) ok(5) h m(6,12) f1 rest [of "''DECODE_ROOT_16''"]
    by (intro conjI exI [of _ l1] exI [of _ "l3 @ l4 @ l5 @ l6 @ l7"]) simp_all
  ultimately show ?thesis using that m(4) by blast
qed

text \<open>The two trees that instructions are decoded from, with their root tables.\<close>

definition main_roots :: "dec_sets \<Rightarrow> (string list \<times> string) list" where
  "main_roots st = [(s_normal st, ''DECODE_ROOT_32''), (s_16bit st, ''DECODE_ROOT_16'')]"

text \<open>C25: The generated file decodes: when the program ends without an exception, a word with the opcode bits of a 32-bit instruction, looked up from the table DECODE_ROOT_32 along the links of the file, leads to the TERMINAL row of that instruction and to no other row, and likewise for 16-bit instructions from DECODE_ROOT_16, although the file holds the tables of all the other trees as well. (The roots exist when there are at least two tags; extension spaces have 32 bits and names of their own.)\<close>

theorem main_dectree_decodes:
  assumes "main_dectree I = Inr out" "build_sets I = Inr st" "ext_spaces_ok I" "matches (enc_fun (s_encs st) tag) w"
    and "(ts, root) \<in> set (main_roots st)"
    and "tag \<in> set ts" "2 \<le> length ts" "tag \<notin> fst ` set (enc_ext_spaces I)"
  shows "decodes out w root r \<longleftrightarrow> r = terminal_line tag (enc_fun (s_encs st) tag)"
proof -
  obtain C classes tn th ln lh where p: "C = dec_context I classes st"
    "printed (enc_fun (s_encs st)) (s_normal st) 32 C ''DECODE_ROOT_32'' tn ln out"
    "printed (enc_fun (s_encs st)) (s_16bit st) 16 C ''DECODE_ROOT_16'' th lh out"
    by (rule main_printed [OF assms(1,2,3)])
  obtain encs0 classes' where b: "base_encs I = Inr encs0" "enc_classes I encs0 = Inr classes'"
    using main_parts [OF assms(1,2)] by metis
  note ok = build_sets_ok [OF assms(2) b assms(3)]
  have "decodes out w root r \<longleftrightarrow> leaf_line C tag = Inr r"
    using assms(4-7) printed_decodes(2) [OF p(2) ok(1)] printed_decodes(2) [OF p(3) ok(2)] by (auto simp: main_roots_def)
  moreover have "tag \<in> set (s_normal st) \<or> tag \<in> set (s_16bit st)" using assms(5,6) by (auto simp: main_roots_def)
  then have "(\<exists>c. has_class I tag c) \<and> 0 < length (enc_fun (s_encs st) tag)"
    using ok(3) [of tag] ok(4) [of tag] ok(5) [of tag] assms(8) by (metis zero_less_numeral)
  then obtain c where "has_class I tag c" "0 < length (enc_fun (s_encs st) tag)" by blast
  from instruction_tag(1) [OF this(1) assms(8) refl this(2) p(1)]
  have "leaf_line C tag = Inr (terminal_line tag (enc_fun (s_encs st) tag))" .
  ultimately show ?thesis by auto
qed

text \<open>C26: Decoding always ends: from the root table of the generated file, every word, an instruction or not, is led along the links to exactly one row that is not a link. No word runs in circles, meets a link to a missing table or has two outcomes.\<close>

theorem main_dectree_total:
  assumes "main_dectree I = Inr out" "build_sets I = Inr st" "ext_spaces_ok I"
    and "(ts, root) \<in> set (main_roots st)" "2 \<le> length ts"
  shows "\<exists>!r. decodes out w root r"
proof -
  obtain C classes tn th ln lh where p: "C = dec_context I classes st"
    "printed (enc_fun (s_encs st)) (s_normal st) 32 C ''DECODE_ROOT_32'' tn ln out"
    "printed (enc_fun (s_encs st)) (s_16bit st) 16 C ''DECODE_ROOT_16'' th lh out"
    by (rule main_printed [OF assms(1,2,3)])
  obtain encs0 classes' where b: "base_encs I = Inr encs0" "enc_classes I encs0 = Inr classes'"
    using main_parts [OF assms(1,2)] by metis
  note ok = build_sets_ok [OF assms(2) b assms(3)]
  from assms(4) consider "ts = s_normal st" "root = ''DECODE_ROOT_32''" | "ts = s_16bit st" "root = ''DECODE_ROOT_16''"
    by (auto simp: main_roots_def)
  then show ?thesis
  proof cases
    case 1
    with assms(5) show ?thesis using printed_decodes(3) [OF p(2) ok(1)] by blast
  next
    case 2
    with assms(5) show ?thesis using printed_decodes(3) [OF p(3) ok(2)] by blast
  qed
qed

definition demo_two :: iset where
  "demo_two = \<lparr>iset_tags = [''A'', ''B''],
     iset_info = [''A'' \<mapsto> \<lparr>i_enc = ''0000 ssss 0000 dddd'', i_enc_class = ''16BIT'', i_syntax = [], i_rregs = [], i_wregs = []\<rparr>,
       ''B'' \<mapsto> \<lparr>i_enc = ''1000 ssss 0000 dddd'', i_enc_class = ''16BIT'', i_syntax = [], i_rregs = [], i_wregs = []\<rparr>],
     subinsn_groupings = [], enc_ext_spaces = []\<rparr>"

definition demo_two_sets :: dec_sets where
  "demo_two_sets = \<lparr>s_encs = [(''A'', ''dddd0000ssss0000''), (''B'', ''dddd0000ssss0001'')], s_normal = [], s_16bit = [''A'', ''B''],
     s_groupings = [], s_subinsns = [], s_extensions = []\<rparr>"

definition demo_two_tree :: dtree where
  "demo_two_tree = Branch [''A'', ''B''] 15 1 [Leaf [''A''], Leaf [''B'']]"

lemma demo_two_separate: "auto_separate (enc_fun (s_encs demo_two_sets)) [''A'', ''B''] = Inr demo_two_tree"
proof -
  have f: "find_separator (enc_fun (s_encs demo_two_sets)) [''A'', ''B''] = Inr (15, 1)" by code_simp
  have c: "child_leaves (enc_fun (s_encs demo_two_sets)) [''A'', ''B''] 15 1 = [[''A''], [''B'']]" by code_simp
  show ?thesis by (simp add: auto_separate.simps [of "enc_fun (s_encs demo_two_sets)"] f c demo_two_tree_def del: One_nat_def)
qed

lemma not_isl: "\<not> isl x \<Longrightarrow> \<exists>y. x = Inr y"
  by (cases x) auto

lemma demo_two_main: "\<exists>out. main_dectree demo_two = Inr out"
proof -
  let ?C = "dec_context demo_two [''16BIT''] demo_two_sets"
  have b: "base_encs demo_two = Inr (s_encs demo_two_sets)" "enc_classes demo_two (s_encs demo_two_sets) = Inr [''16BIT'']"
    "build_sets demo_two = Inr demo_two_sets" by code_simp+
  have s: "separate_all demo_two demo_two_sets =
    Inr \<lparr>t_normal = Leaf [], t_16bit = demo_two_tree, t_groupings = Leaf [], t_subinsns = [], t_extensions = []\<rparr>"
    using demo_two_separate
    by (simp add: separate_all_def Let_def demo_two_def demo_two_sets_def auto_separate.simps [of _ "[]"] separate_classes_def)
  have "\<not> isl (print_tree ?C demo_two_tree)" by code_simp
  then have t: "\<exists>ls. print_tree ?C demo_two_tree = Inr ls" by (rule not_isl)
  have "sorted_tags ?C = Inr [''A'', ''B'']" by code_simp
  then have m: "\<exists>ls. print_match_info ?C = Inr ls" by (simp add: print_match_info_def)
  have "\<not> isl (print_op_info ?C)" by code_simp
  then have o: "\<exists>ls. print_op_info ?C = Inr ls" by (rule not_isl)
  have g: "subinsn_groupings demo_two = []" by (simp add: demo_two_def)
  show ?thesis using t m o
    by (auto simp: main_dectree_def b s g Let_def print_tree_def print_class_trees_def simp del: bindR_eq_Inr)
qed

theorem main_dectree_decodes_witness:
  "\<exists>out. main_dectree demo_two = Inr out \<and> (\<forall>r. decodes out (2 ^ 15) ''DECODE_ROOT_16'' r \<longleftrightarrow> r = ''TERMINAL(B,\"1000ssss0000dddd\")'')"
proof -
  obtain out where out: "main_dectree demo_two = Inr out" using demo_two_main by blast
  have b: "build_sets demo_two = Inr demo_two_sets" by code_simp
  have x: "ext_spaces_ok demo_two" "''B'' \<notin> fst ` set (enc_ext_spaces demo_two)" by (simp_all add: ext_spaces_ok_def demo_two_def)
  define e where "e = enc_fun (s_encs demo_two_sets) ''B''"
  have "\<forall>i \<in> set [0..<length e]. (e ! i = CHR ''0'' \<longrightarrow> i \<noteq> 15) \<and> (e ! i = CHR ''1'' \<longrightarrow> i = 15)"
    unfolding e_def by code_simp
  then have m: "matches e (2 ^ 15)" unfolding matches_def bit_exp_iff by simp
  have t: "terminal_line ''B'' (enc_fun (s_encs demo_two_sets) ''B'') = ''TERMINAL(B,\"1000ssss0000dddd\")''" by code_simp
  have "decodes out (2 ^ 15) ''DECODE_ROOT_16'' r \<longleftrightarrow> r = ''TERMINAL(B,\"1000ssss0000dddd\")''" for r
    using main_dectree_decodes [OF out b x(1) m [unfolded e_def], of "s_16bit demo_two_sets" "''DECODE_ROOT_16''" r] x(2)
    by (simp add: t main_roots_def) (simp add: demo_two_sets_def)
  then show ?thesis using out by blast
qed

theorem main_dectree_total_witness:
  "\<exists>out. main_dectree demo_two = Inr out \<and> (\<exists>!r. decodes out 7 ''DECODE_ROOT_16'' r)"
proof -
  obtain out where out: "main_dectree demo_two = Inr out" using demo_two_main by blast
  have b: "build_sets demo_two = Inr demo_two_sets" by code_simp
  have x: "ext_spaces_ok demo_two" by (simp add: ext_spaces_ok_def demo_two_def)
  have "\<exists>!r. decodes out 7 ''DECODE_ROOT_16'' r"
    by (rule main_dectree_total [OF out b x, of "s_16bit demo_two_sets"]) (simp_all add: demo_two_sets_def main_roots_def)
  then show ?thesis using out by blast
qed

end
