(* ===== verification/Type_Check.thy ===== *)
theory Type_Check
  imports Hex_Prelude
begin

text \<open>
  \<^verbatim>\<open>plugin/type_util.py\<close>: the decorator \<open>type_check\<close>, which checks arguments and results
  against annotations at run time. \<open>py_val\<close> is the part of Python's values it looks into;
  \<open>mro\<close>, the classes an object of a class is an instance of, is a parameter (\<open>isinstance\<close>).
  A generator is its elements and the exception it ends with, if any; checking one is lazy, so what
  goes wrong is at its end and not in the call. A hint that \<open>typing\<close> represents by another
  generic alias (\<open>dict\<close>, \<open>Generator\<close>) is \<open>TGeneric\<close>, one that is neither an
  alias nor a class is \<open>TOther\<close>.
\<close>

section \<open>Values and hints\<close>

datatype py_val =
    PObj string
  | PList "py_val list"
  | PTuple "py_val list"
  | PGen "py_val list" "py_error option"

datatype hint_type =
    TAny
  | TUnion "hint_type list"
  | TListOf "hint_type list"
  | TTupleOf "hint_type list"
  | TGeneric string "hint_type list"
  | TClass string
  | TOther string

type_synonym mro = "string \<Rightarrow> string list"

primrec class_of :: "py_val \<Rightarrow> string" where
  "class_of (PObj c) = c"
| "class_of (PList vs) = ''list''"
| "class_of (PTuple vs) = ''tuple''"
| "class_of (PGen vs e) = ''generator''"

definition is_instance :: "mro \<Rightarrow> py_val \<Rightarrow> string \<Rightarrow> bool" where
  "is_instance mro v c \<longleftrightarrow> c \<in> set (mro (class_of v))"

section \<open>Checking a value\<close>

text \<open>\<open>any\<close> and \<open>all\<close> of a generator: from left to right, left early, with the exception of an element.\<close>

fun anyR :: "('a \<Rightarrow> bool res) \<Rightarrow> 'a list \<Rightarrow> bool res" where
  "anyR f [] = Inr False"
| "anyR f (x # xs) = bindR (f x) (\<lambda>b. if b then Inr True else anyR f xs)"

fun allR :: "('a \<Rightarrow> bool res) \<Rightarrow> 'a list \<Rightarrow> bool res" where
  "allR f [] = Inr True"
| "allR f (x # xs) = bindR (f x) (\<lambda>b. if b then allR f xs else Inr False)"

lemma anyR_cong [fundef_cong]: "xs = ys \<Longrightarrow> (\<And>x. x \<in> set ys \<Longrightarrow> f x = g x) \<Longrightarrow> anyR f xs = anyR g ys"
  by (induction xs arbitrary: ys) (auto intro!: bindR_cong)

lemma allR_cong [fundef_cong]: "xs = ys \<Longrightarrow> (\<And>x. x \<in> set ys \<Longrightarrow> f x = g x) \<Longrightarrow> allR f xs = allR g ys"
  by (induction xs arbitrary: ys) (auto intro!: bindR_cong)

lemma size_in_list: "(x :: hint_type) \<in> set xs \<Longrightarrow> size x \<le> size_list size xs"
  by (induction xs) auto

lemma size_in_zip: "(v, x :: hint_type) \<in> set (zip vs xs) \<Longrightarrow> size x \<le> size_list size xs"
  by (rule size_in_list) (rule set_zip_rightD)

function has_type :: "mro \<Rightarrow> py_val \<Rightarrow> hint_type \<Rightarrow> bool res" where
  "has_type mro v TAny = Inr True"
| "has_type mro v (TUnion ts) = anyR (has_type mro v) ts"
| "has_type mro v (TListOf ts) =
     (case v of PList vs \<Rightarrow> allR (\<lambda>x. anyR (has_type mro x) ts) vs | _ \<Rightarrow> Inr False)"
| "has_type mro v (TTupleOf ts) =
     (case v of
        PTuple vs \<Rightarrow> if length vs \<noteq> length ts then Inr False else allR (\<lambda>(x, t). has_type mro x t) (zip vs ts)
      | _ \<Rightarrow> Inr False)"
| "has_type mro v (TGeneric orig ts) = Inl TypeError"
| "has_type mro v (TClass c) = Inr (is_instance mro v c)"
| "has_type mro v (TOther s) = Inl TypeError"
  by pat_completeness auto
termination
  by (relation "measure (\<lambda>(mro, v, t). size t)")
    (auto dest!: size_in_zip size_in_list simp: less_Suc_eq_le)

abbreviation has_any_type :: "mro \<Rightarrow> py_val \<Rightarrow> hint_type list \<Rightarrow> bool res" where
  "has_any_type mro v ts \<equiv> anyR (has_type mro v) ts"

type_synonym hints = "string \<rightharpoonup> hint_type"

definition check_type :: "mro \<Rightarrow> hints \<Rightarrow> string \<Rightarrow> py_val \<Rightarrow> unit res" where
  "check_type mro type_hints name v =
     (case type_hints name of
        None \<Rightarrow> Inr ()
      | Some t \<Rightarrow> bindR (has_type mro v t) (\<lambda>b. if b then Inr () else Inl TypeError))"

section \<open>Checking a generator\<close>

fun check_elements :: "mro \<Rightarrow> hint_type \<Rightarrow> py_val list \<Rightarrow> py_error option \<Rightarrow> py_val list \<times> py_error option" where
  "check_elements mro t [] e = ([], e)"
| "check_elements mro t (y # ys) e =
     (case has_type mro y t of
        Inl er \<Rightarrow> ([], Some er)
      | Inr False \<Rightarrow> ([], Some TypeError)
      | Inr True \<Rightarrow> (let (zs, e') = check_elements mro t ys e in (y # zs, e')))"

definition none_type :: hint_type where
  "none_type = TClass ''NoneType''"

definition check_generator ::
  "mro \<Rightarrow> hints \<Rightarrow> string \<Rightarrow> py_val list \<times> py_error option \<Rightarrow> py_val list \<times> py_error option" where
  "check_generator mro type_hints name g =
     (case type_hints name of
        None \<Rightarrow> g
      | Some (TGeneric orig ts) \<Rightarrow>
          if orig \<noteq> ''Generator'' then ([], Some TypeError)
          else (case ts of
                  [res_type, send_type, return_type] \<Rightarrow>
                    if send_type = none_type \<and> return_type = none_type
                    then check_elements mro res_type (fst g) (snd g)
                    else ([], Some AssertionError)
                | _ \<Rightarrow> ([], Some IndexError))
      | Some _ \<Rightarrow> ([], Some TypeError))"

section \<open>The wrapper\<close>

type_synonym py_func = "py_val list \<Rightarrow> (string \<times> py_val) list \<Rightarrow> py_val res"

definition check_args :: "mro \<Rightarrow> hints \<Rightarrow> string list \<Rightarrow> py_val list \<Rightarrow> unit res" where
  "check_args mro type_hints func_args args =
     foldR (\<lambda>(i, v) _. if i < length func_args then check_type mro type_hints (func_args ! i) v else Inl IndexError)
       (enumerate 0 args) ()"

definition check_kwargs :: "mro \<Rightarrow> hints \<Rightarrow> (string \<times> py_val) list \<Rightarrow> unit res" where
  "check_kwargs mro type_hints kwargs = foldR (\<lambda>(n, v) _. check_type mro type_hints n v) kwargs ()"

definition wrapper :: "mro \<Rightarrow> hints \<Rightarrow> string list \<Rightarrow> py_func \<Rightarrow> py_func" where
  "wrapper mro type_hints func_args func args kwargs =
     bindR (check_args mro type_hints func_args args) (\<lambda>_.
     bindR (check_kwargs mro type_hints kwargs) (\<lambda>_.
     bindR (func args kwargs) (\<lambda>r.
       case r of
         PGen vs e \<Rightarrow> (case check_generator mro type_hints ''return'' (vs, e) of (vs', e') \<Rightarrow> Inr (PGen vs' e'))
       | _ \<Rightarrow> bindR (check_type mro type_hints ''return'' r) (\<lambda>_. Inr r))))"

definition type_check :: "bool \<Rightarrow> mro \<Rightarrow> hints \<Rightarrow> string list \<Rightarrow> py_func \<Rightarrow> py_func" where
  "type_check skip mro type_hints func_args func = (if skip then func else wrapper mro type_hints func_args func)"

section \<open>What the hints mean\<close>

text \<open>Membership of a value in a hint, for the hints the checker knows.\<close>

fun hint_ok :: "hint_type \<Rightarrow> bool" where
  "hint_ok TAny = True"
| "hint_ok (TUnion ts) = (\<forall>t \<in> set ts. hint_ok t)"
| "hint_ok (TListOf ts) = (\<forall>t \<in> set ts. hint_ok t)"
| "hint_ok (TTupleOf ts) = (\<forall>t \<in> set ts. hint_ok t)"
| "hint_ok (TGeneric orig ts) = False"
| "hint_ok (TClass c) = True"
| "hint_ok (TOther s) = False"

inductive inhabits :: "mro \<Rightarrow> py_val \<Rightarrow> hint_type \<Rightarrow> bool" for mro where
  any: "inhabits mro v TAny"
| union: "t \<in> set ts \<Longrightarrow> inhabits mro v t \<Longrightarrow> inhabits mro v (TUnion ts)"
| list: "(\<And>v. v \<in> set vs \<Longrightarrow> \<exists>t \<in> set ts. inhabits mro v t) \<Longrightarrow> inhabits mro (PList vs) (TListOf ts)"
| tuple: "list_all2 (inhabits mro) vs ts \<Longrightarrow> inhabits mro (PTuple vs) (TTupleOf ts)"
| cls: "is_instance mro v c \<Longrightarrow> inhabits mro v (TClass c)"
  monos list.rel_mono_strong

inductive_simps inhabits_simps [simp]:
  "inhabits mro v TAny" "inhabits mro v (TUnion ts)" "inhabits mro v (TListOf ts)" "inhabits mro v (TTupleOf ts)"
  "inhabits mro v (TClass c)" "inhabits mro v (TGeneric orig ts)" "inhabits mro v (TOther s)"

lemma anyR_ok: "(\<And>x. x \<in> set xs \<Longrightarrow> f x = Inr (P x)) \<Longrightarrow> anyR f xs = Inr (\<exists>x \<in> set xs. P x)"
  by (induction xs) auto

lemma allR_ok: "(\<And>x. x \<in> set xs \<Longrightarrow> f x = Inr (P x)) \<Longrightarrow> allR f xs = Inr (\<forall>x \<in> set xs. P x)"
  by (induction xs) auto

lemma has_type_ok: "hint_ok t \<Longrightarrow> has_type mro v t = Inr (inhabits mro v t)"
proof (induction mro v t rule: has_type.induct)
  case (2 mro v ts)
  then have "anyR (has_type mro v) ts = Inr (\<exists>t \<in> set ts. inhabits mro v t)" by (intro anyR_ok) simp
  then show ?case by auto
next
  case (3 mro v ts)
  have "anyR (has_type mro x) ts = Inr (\<exists>t \<in> set ts. inhabits mro x t)" if "v = PList vs" "x \<in> set vs" for vs x
    using 3 that by (intro anyR_ok) simp
  then have "allR (\<lambda>x. anyR (has_type mro x) ts) vs = Inr (\<forall>x \<in> set vs. \<exists>t \<in> set ts. inhabits mro x t)" if "v = PList vs" for vs
    using that by (intro allR_ok) simp
  then show ?case by (cases v) auto
next
  case (4 mro v ts)
  show ?case
  proof (cases "\<exists>vs. v = PTuple vs \<and> length vs = length ts")
    case True
    then obtain vs where vs: "v = PTuple vs" "length vs = length ts" by blast
    have ih: "has_type mro a b = Inr (inhabits mro a b)" if "(a, b) \<in> set (zip vs ts)" for a b
    proof -
      have "hint_ok b" using 4(2) set_zip_rightD [OF that] by simp
      then show ?thesis using 4(1) [of vs] vs that by blast
    qed
    have "allR (\<lambda>(x, t). has_type mro x t) (zip vs ts) = Inr (\<forall>p \<in> set (zip vs ts). inhabits mro (fst p) (snd p))"
      by (rule allR_ok) (use ih in auto)
    then show ?thesis using vs by (force simp: list_all2_iff)
  qed (cases v; auto dest: list_all2_lengthD)
qed auto

definition typed :: "mro \<Rightarrow> hints \<Rightarrow> string \<Rightarrow> py_val \<Rightarrow> bool" where
  "typed mro type_hints name v \<longleftrightarrow> (case type_hints name of None \<Rightarrow> True | Some t \<Rightarrow> inhabits mro v t)"

definition args_typed :: "mro \<Rightarrow> hints \<Rightarrow> string list \<Rightarrow> py_val list \<Rightarrow> (string \<times> py_val) list \<Rightarrow> bool" where
  "args_typed mro type_hints func_args args kwargs \<longleftrightarrow>
     (\<forall>i < length args. typed mro type_hints (func_args ! i) (args ! i)) \<and>
     (\<forall>(n, v) \<in> set kwargs. typed mro type_hints n v)"

lemma check_type_typed:
  "(\<And>t. type_hints n = Some t \<Longrightarrow> hint_ok t) \<Longrightarrow>
     check_type mro type_hints n v = (if typed mro type_hints n v then Inr () else Inl TypeError)"
  by (auto simp: check_type_def typed_def has_type_ok split: option.splits)

lemma foldR_checks:
  "(\<And>x. x \<in> set xs \<Longrightarrow> f x () = (if P x then Inr () else Inl e)) \<Longrightarrow>
     foldR f xs () = (if \<forall>x \<in> set xs. P x then Inr () else Inl e)"
  by (induction xs) auto

lemma check_args_typed:
  assumes "\<And>n t. type_hints n = Some t \<Longrightarrow> hint_ok t" "length args \<le> length func_args"
  shows "check_args mro type_hints func_args args =
    (if \<forall>i < length args. typed mro type_hints (func_args ! i) (args ! i) then Inr () else Inl TypeError)"
proof -
  have "check_args mro type_hints func_args args =
      (if \<forall>(i, v) \<in> set (enumerate 0 args). typed mro type_hints (func_args ! i) v then Inr () else Inl TypeError)"
    unfolding check_args_def using assms
    by (subst foldR_checks [where P = "\<lambda>(i, v). typed mro type_hints (func_args ! i) v" and e = TypeError])
      (auto simp: in_set_enumerate_eq check_type_typed)
  then show ?thesis by (auto simp: in_set_enumerate_eq)
qed

lemma check_kwargs_typed:
  assumes "\<And>n t. type_hints n = Some t \<Longrightarrow> hint_ok t"
  shows "check_kwargs mro type_hints kwargs =
    (if \<forall>(n, v) \<in> set kwargs. typed mro type_hints n v then Inr () else Inl TypeError)"
  unfolding check_kwargs_def using assms
  by (intro foldR_checks [where P = "\<lambda>(n, v). typed mro type_hints n v"]) (auto simp: check_type_typed)

section \<open>Properties\<close>

text \<open>C38: has_type decides the meaning of an annotation: for annotations built of Any, classes, Union, Optional, List and Tuple it never raises, and says True exactly for the values that belong to the annotation.\<close>

theorem has_type_decides:
  assumes "hint_ok t"
  shows "has_type mro v t = Inr (inhabits mro v t)"
  by (rule has_type_ok [OF assms])

theorem has_type_decides_witness:
  "has_type (\<lambda>c. [c, ''object'']) (PList [PObj ''int'', PObj ''str'']) (TListOf [TClass ''int'']) = Inr False"
  using has_type_decides [of "TListOf [TClass ''int'']" "\<lambda>c. [c, ''object'']" "PList [PObj ''int'', PObj ''str'']"]
  by (simp add: is_instance_def)



text \<open>C40: A decorated generator function yields the same elements as the function, in the same order and one by one, up to the first that does not belong to the element annotation; there it raises TypeError, and if there is none it ends as the function's generator ends.\<close>

theorem check_generator_prefix:
  assumes "type_hints name = Some (TGeneric ''Generator'' [t, none_type, none_type])" "hint_ok t"
  shows "check_generator mro type_hints name (ys, e) =
    (takeWhile (\<lambda>y. inhabits mro y t) ys, if \<forall>y \<in> set ys. inhabits mro y t then e else Some TypeError)"
proof -
  have "check_elements mro t ys e =
      (takeWhile (\<lambda>y. inhabits mro y t) ys, if \<forall>y \<in> set ys. inhabits mro y t then e else Some TypeError)" for ys
    by (induction ys) (auto simp: has_type_ok [OF assms(2)] split: bool.splits)
  then show ?thesis using assms(1) by (simp add: check_generator_def)
qed

theorem check_generator_prefix_witness:
  "check_generator (\<lambda>c. [c]) [''return'' \<mapsto> TGeneric ''Generator'' [TClass ''str'', none_type, none_type]] ''return''
     ([PObj ''str'', PObj ''int'', PObj ''str''], None) = ([PObj ''str''], Some TypeError)"
  using check_generator_prefix [of "[''return'' \<mapsto> TGeneric ''Generator'' [TClass ''str'', none_type, none_type]]" "''return''"
      "TClass ''str''" "\<lambda>c. [c]" "[PObj ''str'', PObj ''int'', PObj ''str'']" None]
  by (simp add: is_instance_def)

end
