(* ===== verification/Il_Ast.thy ===== *)
theory Il_Ast
  imports Hex_Prelude
begin

text \<open>
  The IL classes of \<^verbatim>\<open>plugin/gen_il_funcs.py\<close>: one constructor of \<open>il\<close> per
  subclass of \<open>IlExprId\<close>, one \<open>_init\<close> definition per \<open>__init__\<close>, the method
  \<open>__repr__\<close> as \<open>il_repr\<close> and the items of a lifter body (\<open>IlLabel\<close>,
  \<open>RawC\<close>, IL instructions).

  \<open>__eq__\<close> of every class compares the fields and not the attribute \<open>signed\<close>, so
  \<open>signed\<close> is kept beside the node (\<open>il_obj\<close>) and Python's equality of two objects is
  \<open>obj x = obj y\<close>. The attribute is set by the constructor from the operands and
  overwritten by some macros, always on a fresh copy (\<open>copy.copy\<close> in \<open>lift_operand\<close>),
  and it is read on the top object only, so the flags of nested objects need not be kept.
  The class attributes of the values are checked by \<open>type_check\<close>; here by HOL's types.
\<close>

section \<open>Nodes\<close>

datatype (plugins del: quickcheck_random quickcheck_exhaustive quickcheck_bounded_forall
    quickcheck_full_exhaustive quickcheck_narrowing transfer lifting) il =
    IlSetRegister nat string il
  | IlRegister nat string
  | IlSetRegisterSplit nat string string il
  | IlRegisterSplit nat string string
  | IlConst nat string
  | IlConstPointer nat string
  | IlLowPart nat il
  | IlZeroExtend nat il
  | IlSignExtend nat il
  | IlAdd nat il il
  | IlSub nat il il
  | IlOr nat il il
  | IlAnd nat il il
  | IlXor nat il il
  | IlNot nat il
  | IlNeg nat il
  | IlStore nat il il
  | IlLoad nat il
  | IlJump il
  | IlCall il
  | IlReturn il
  | IlShiftLeft nat il il
  | IlLogicalShiftRight nat il il
  | IlArithShiftRight nat il il
  | IlRotateLeft nat il il
  | IlMult nat il il
  | IlTrap il
  | IlSystemCall
  | IlBreakpoint
  | IlBoolToInt nat il
  | IlCompareEqual nat il il
  | IlCompareNotEqual nat il il
  | IlCompareSignedGreaterThan nat il il
  | IlCompareUnsignedGreaterThan nat il il
  | IlCompareSignedGreaterEqual nat il il
  | IlCompareSignedLessThan nat il il
  | IlCompareUnsignedGreaterEqual nat il il
  | IlCompareUnsignedLessThan nat il il
  | IlCompareSignedLessEqual nat il il
  | IlCompareUnsignedLessEqual nat il il
  | IlIf il string string
  | IlGoto string
  | IlPush nat il
  | IlPop nat
  | IlReadGP nat

text \<open>An object: its node and its attribute \<open>signed\<close>.\<close>

record il_obj =
  signed :: bool
  obj :: il

text \<open>The value of an \<open>IlConst\<close> is an \<open>int\<close> or a \<open>str\<close>; the constructor turns it into a \<open>str\<close>.\<close>

datatype const_arg = CInt nat | CStr string

fun const_str :: "const_arg \<Rightarrow> string" where
  "const_str (CInt n) = show_nat n"
| "const_str (CStr s) = s"

section \<open>Constructors\<close>

definition IlExprId_init :: "bool \<Rightarrow> il \<Rightarrow> il_obj" where
  [init_defs]: "IlExprId_init sg x = \<lparr>signed = sg, obj = x\<rparr>"

definition IlSetRegister_init :: "nat \<Rightarrow> string \<Rightarrow> il_obj \<Rightarrow> il_obj" where
  [init_defs]: "IlSetRegister_init sz reg val =
     IlExprId_init (signed val) (IlSetRegister sz reg (obj val))"

definition IlRegister_init :: "nat \<Rightarrow> string \<Rightarrow> il_obj" where
  [init_defs]: "IlRegister_init sz reg = IlExprId_init True (IlRegister sz reg)"

definition IlSetRegisterSplit_init :: "nat \<Rightarrow> string \<Rightarrow> string \<Rightarrow> il_obj \<Rightarrow> il_obj" where
  [init_defs]: "IlSetRegisterSplit_init sz hi lo val =
     IlExprId_init (signed val) (IlSetRegisterSplit sz hi lo (obj val))"

definition IlRegisterSplit_init :: "nat \<Rightarrow> string \<Rightarrow> string \<Rightarrow> il_obj" where
  [init_defs]: "IlRegisterSplit_init sz hi lo = IlExprId_init True (IlRegisterSplit sz hi lo)"

definition IlConst_init :: "nat \<Rightarrow> const_arg \<Rightarrow> il_obj" where
  [init_defs]: "IlConst_init sz val = IlExprId_init True (IlConst sz (const_str val))"

definition IlConstPointer_init :: "nat \<Rightarrow> string \<Rightarrow> il_obj" where
  [init_defs]: "IlConstPointer_init sz val = IlExprId_init False (IlConstPointer sz val)"

definition IlLowPart_init :: "nat \<Rightarrow> il_obj \<Rightarrow> il_obj" where
  [init_defs]: "IlLowPart_init sz a = IlExprId_init (signed a) (IlLowPart sz (obj a))"

definition IlZeroExtend_init :: "nat \<Rightarrow> il_obj \<Rightarrow> il_obj" where
  [init_defs]: "IlZeroExtend_init sz a = IlExprId_init False (IlZeroExtend sz (obj a))"

definition IlSignExtend_init :: "nat \<Rightarrow> il_obj \<Rightarrow> il_obj" where
  [init_defs]: "IlSignExtend_init sz a = IlExprId_init True (IlSignExtend sz (obj a))"

definition IlAdd_init :: "nat \<Rightarrow> il_obj \<Rightarrow> il_obj \<Rightarrow> il_obj" where
  [init_defs]: "IlAdd_init sz a b = IlExprId_init (signed a) (IlAdd sz (obj a) (obj b))"

definition IlSub_init :: "nat \<Rightarrow> il_obj \<Rightarrow> il_obj \<Rightarrow> il_obj" where
  [init_defs]: "IlSub_init sz a b = IlExprId_init (signed a) (IlSub sz (obj a) (obj b))"

definition IlOr_init :: "nat \<Rightarrow> il_obj \<Rightarrow> il_obj \<Rightarrow> il_obj" where
  [init_defs]: "IlOr_init sz a b = IlExprId_init False (IlOr sz (obj a) (obj b))"

definition IlAnd_init :: "nat \<Rightarrow> il_obj \<Rightarrow> il_obj \<Rightarrow> il_obj" where
  [init_defs]: "IlAnd_init sz a b = IlExprId_init False (IlAnd sz (obj a) (obj b))"

definition IlXor_init :: "nat \<Rightarrow> il_obj \<Rightarrow> il_obj \<Rightarrow> il_obj" where
  [init_defs]: "IlXor_init sz a b = IlExprId_init False (IlXor sz (obj a) (obj b))"

definition IlNot_init :: "nat \<Rightarrow> il_obj \<Rightarrow> il_obj" where
  [init_defs]: "IlNot_init sz a = IlExprId_init False (IlNot sz (obj a))"

definition IlNeg_init :: "nat \<Rightarrow> il_obj \<Rightarrow> il_obj" where
  [init_defs]: "IlNeg_init sz a = IlExprId_init False (IlNeg sz (obj a))"

definition IlStore_init :: "nat \<Rightarrow> il_obj \<Rightarrow> il_obj \<Rightarrow> il_obj" where
  [init_defs]: "IlStore_init sz addr val =
     IlExprId_init (signed val) (IlStore sz (obj addr) (obj val))"

definition IlLoad_init :: "nat \<Rightarrow> il_obj \<Rightarrow> il_obj" where
  [init_defs]: "IlLoad_init sz addr = IlExprId_init True (IlLoad sz (obj addr))"

definition IlJump_init :: "il_obj \<Rightarrow> il_obj" where
  [init_defs]: "IlJump_init dest = IlExprId_init True (IlJump (obj dest))"

definition IlCall_init :: "il_obj \<Rightarrow> il_obj" where
  [init_defs]: "IlCall_init dest = IlExprId_init True (IlCall (obj dest))"

definition IlReturn_init :: "il_obj \<Rightarrow> il_obj" where
  [init_defs]: "IlReturn_init dest = IlExprId_init True (IlReturn (obj dest))"

definition IlShiftLeft_init :: "nat \<Rightarrow> il_obj \<Rightarrow> il_obj \<Rightarrow> il_obj" where
  [init_defs]: "IlShiftLeft_init sz a b = IlExprId_init (signed a) (IlShiftLeft sz (obj a) (obj b))"

definition IlLogicalShiftRight_init :: "nat \<Rightarrow> il_obj \<Rightarrow> il_obj \<Rightarrow> il_obj" where
  [init_defs]: "IlLogicalShiftRight_init sz a b = IlExprId_init (signed a) (IlLogicalShiftRight sz (obj a) (obj b))"

definition IlArithShiftRight_init :: "nat \<Rightarrow> il_obj \<Rightarrow> il_obj \<Rightarrow> il_obj" where
  [init_defs]: "IlArithShiftRight_init sz a b = IlExprId_init (signed a) (IlArithShiftRight sz (obj a) (obj b))"

definition IlRotateLeft_init :: "nat \<Rightarrow> il_obj \<Rightarrow> il_obj \<Rightarrow> il_obj" where
  [init_defs]: "IlRotateLeft_init sz a b = IlExprId_init (signed a) (IlRotateLeft sz (obj a) (obj b))"

definition IlMult_init :: "nat \<Rightarrow> il_obj \<Rightarrow> il_obj \<Rightarrow> il_obj" where
  [init_defs]: "IlMult_init sz a b = IlExprId_init (signed a) (IlMult sz (obj a) (obj b))"

definition IlTrap_init :: "il_obj \<Rightarrow> il_obj" where
  [init_defs]: "IlTrap_init num = IlExprId_init True (IlTrap (obj num))"

definition IlSystemCall_init :: il_obj where
  [init_defs]: "IlSystemCall_init = IlExprId_init True IlSystemCall"

definition IlBreakpoint_init :: il_obj where
  [init_defs]: "IlBreakpoint_init = IlExprId_init True IlBreakpoint"

definition IlBoolToInt_init :: "nat \<Rightarrow> il_obj \<Rightarrow> il_obj" where
  [init_defs]: "IlBoolToInt_init sz a = IlExprId_init True (IlBoolToInt sz (obj a))"

definition IlCompareEqual_init :: "nat \<Rightarrow> il_obj \<Rightarrow> il_obj \<Rightarrow> il_obj" where
  [init_defs]: "IlCompareEqual_init sz a b = IlExprId_init False (IlCompareEqual sz (obj a) (obj b))"

definition IlCompareNotEqual_init :: "nat \<Rightarrow> il_obj \<Rightarrow> il_obj \<Rightarrow> il_obj" where
  [init_defs]: "IlCompareNotEqual_init sz a b = IlExprId_init False (IlCompareNotEqual sz (obj a) (obj b))"

definition IlCompareSignedGreaterThan_init :: "nat \<Rightarrow> il_obj \<Rightarrow> il_obj \<Rightarrow> il_obj" where
  [init_defs]: "IlCompareSignedGreaterThan_init sz a b = IlExprId_init False (IlCompareSignedGreaterThan sz (obj a) (obj b))"

definition IlCompareUnsignedGreaterThan_init :: "nat \<Rightarrow> il_obj \<Rightarrow> il_obj \<Rightarrow> il_obj" where
  [init_defs]: "IlCompareUnsignedGreaterThan_init sz a b = IlExprId_init False (IlCompareUnsignedGreaterThan sz (obj a) (obj b))"

definition IlCompareSignedGreaterEqual_init :: "nat \<Rightarrow> il_obj \<Rightarrow> il_obj \<Rightarrow> il_obj" where
  [init_defs]: "IlCompareSignedGreaterEqual_init sz a b = IlExprId_init False (IlCompareSignedGreaterEqual sz (obj a) (obj b))"

definition IlCompareSignedLessThan_init :: "nat \<Rightarrow> il_obj \<Rightarrow> il_obj \<Rightarrow> il_obj" where
  [init_defs]: "IlCompareSignedLessThan_init sz a b = IlExprId_init False (IlCompareSignedLessThan sz (obj a) (obj b))"

definition IlCompareUnsignedGreaterEqual_init :: "nat \<Rightarrow> il_obj \<Rightarrow> il_obj \<Rightarrow> il_obj" where
  [init_defs]: "IlCompareUnsignedGreaterEqual_init sz a b = IlExprId_init False (IlCompareUnsignedGreaterEqual sz (obj a) (obj b))"

definition IlCompareUnsignedLessThan_init :: "nat \<Rightarrow> il_obj \<Rightarrow> il_obj \<Rightarrow> il_obj" where
  [init_defs]: "IlCompareUnsignedLessThan_init sz a b = IlExprId_init False (IlCompareUnsignedLessThan sz (obj a) (obj b))"

definition IlCompareSignedLessEqual_init :: "nat \<Rightarrow> il_obj \<Rightarrow> il_obj \<Rightarrow> il_obj" where
  [init_defs]: "IlCompareSignedLessEqual_init sz a b = IlExprId_init False (IlCompareSignedLessEqual sz (obj a) (obj b))"

definition IlCompareUnsignedLessEqual_init :: "nat \<Rightarrow> il_obj \<Rightarrow> il_obj \<Rightarrow> il_obj" where
  [init_defs]: "IlCompareUnsignedLessEqual_init sz a b = IlExprId_init False (IlCompareUnsignedLessEqual sz (obj a) (obj b))"

definition IlIf_init :: "il_obj \<Rightarrow> string \<Rightarrow> string \<Rightarrow> il_obj" where
  [init_defs]: "IlIf_init cond t f = IlExprId_init True (IlIf (obj cond) t f)"

definition IlGoto_init :: "string \<Rightarrow> il_obj" where
  [init_defs]: "IlGoto_init l = IlExprId_init True (IlGoto l)"

definition IlPush_init :: "nat \<Rightarrow> il_obj \<Rightarrow> il_obj" where
  [init_defs]: "IlPush_init sz val = IlExprId_init True (IlPush sz (obj val))"

definition IlPop_init :: "nat \<Rightarrow> il_obj" where
  [init_defs]: "IlPop_init sz = IlExprId_init True (IlPop sz)"

definition IlReadGP_init :: "nat \<Rightarrow> il_obj" where
  [init_defs]: "IlReadGP_init sz = IlExprId_init True (IlReadGP sz)"

section \<open>The attribute size and the class tests\<close>

text \<open>
  \<open>size\<close> of an object. Jumps, calls, returns, traps, \<open>IlIf\<close>, \<open>IlGoto\<close>,
  \<open>IlSystemCall\<close> and \<open>IlBreakpoint\<close> have no such attribute; they are instructions and
  never operands (\<open>transform_expr_ok\<close> in \<open>Il_Closed\<close>), and get 0 here.
\<close>

primrec il_size :: "il \<Rightarrow> nat" where
  "il_size (IlSetRegister n _ _) = n"
| "il_size (IlRegister n _) = n"
| "il_size (IlSetRegisterSplit n _ _ _) = n"
| "il_size (IlRegisterSplit n _ _) = n"
| "il_size (IlConst n _) = n"
| "il_size (IlConstPointer n _) = n"
| "il_size (IlLowPart n _) = n"
| "il_size (IlZeroExtend n _) = n"
| "il_size (IlSignExtend n _) = n"
| "il_size (IlAdd n _ _) = n"
| "il_size (IlSub n _ _) = n"
| "il_size (IlOr n _ _) = n"
| "il_size (IlAnd n _ _) = n"
| "il_size (IlXor n _ _) = n"
| "il_size (IlShiftLeft n _ _) = n"
| "il_size (IlLogicalShiftRight n _ _) = n"
| "il_size (IlArithShiftRight n _ _) = n"
| "il_size (IlRotateLeft n _ _) = n"
| "il_size (IlMult n _ _) = n"
| "il_size (IlNot n _) = n"
| "il_size (IlNeg n _) = n"
| "il_size (IlStore n _ _) = n"
| "il_size (IlLoad n _) = n"
| "il_size (IlBoolToInt n _) = n"
| "il_size (IlCompareEqual n _ _) = n"
| "il_size (IlCompareNotEqual n _ _) = n"
| "il_size (IlCompareSignedGreaterThan n _ _) = n"
| "il_size (IlCompareUnsignedGreaterThan n _ _) = n"
| "il_size (IlCompareSignedGreaterEqual n _ _) = n"
| "il_size (IlCompareSignedLessThan n _ _) = n"
| "il_size (IlCompareUnsignedGreaterEqual n _ _) = n"
| "il_size (IlCompareUnsignedLessThan n _ _) = n"
| "il_size (IlCompareSignedLessEqual n _ _) = n"
| "il_size (IlCompareUnsignedLessEqual n _ _) = n"
| "il_size (IlPush n _) = n"
| "il_size (IlPop n) = n"
| "il_size (IlReadGP n) = n"
| "il_size (IlJump _) = 0"
| "il_size (IlCall _) = 0"
| "il_size (IlReturn _) = 0"
| "il_size (IlTrap _) = 0"
| "il_size (IlSystemCall) = 0"
| "il_size (IlBreakpoint) = 0"
| "il_size (IlIf _ _ _) = 0"
| "il_size (IlGoto _) = 0"


abbreviation size_of :: "il_obj \<Rightarrow> nat" where
  "size_of x \<equiv> il_size (obj x)"

definition is_branch :: "il \<Rightarrow> bool" where
  "is_branch x = (case x of IlJump _ \<Rightarrow> True | IlCall _ \<Rightarrow> True | IlReturn _ \<Rightarrow> True | _ \<Rightarrow> False)"

definition is_compare :: "il \<Rightarrow> bool" where
  "is_compare x = (case x of
     IlCompareEqual _ _ _ \<Rightarrow> True
   | IlCompareNotEqual _ _ _ \<Rightarrow> True
   | IlCompareSignedGreaterThan _ _ _ \<Rightarrow> True
   | IlCompareUnsignedGreaterThan _ _ _ \<Rightarrow> True
   | IlCompareSignedGreaterEqual _ _ _ \<Rightarrow> True
   | IlCompareSignedLessThan _ _ _ \<Rightarrow> True
   | IlCompareUnsignedGreaterEqual _ _ _ \<Rightarrow> True
   | IlCompareUnsignedLessThan _ _ _ \<Rightarrow> True
   | IlCompareSignedLessEqual _ _ _ \<Rightarrow> True
   | IlCompareUnsignedLessEqual _ _ _ \<Rightarrow> True
   | _ \<Rightarrow> False)"

section \<open>Serialization\<close>

text \<open>The argument list of a generated call: \<open>f(a, b, c)\<close>.\<close>

definition cc_call :: "string \<Rightarrow> string list \<Rightarrow> string" where
  "cc_call f args = f @ ''('' @ str_join '', '' args @ '')''"

definition il_const_val :: "il \<Rightarrow> string" where
  "il_const_val x = (case x of IlConst _ v \<Rightarrow> v | _ \<Rightarrow> [])"

text \<open>
  \<open>__repr__\<close>, one definition per class: the operands are printed with their own
  \<open>__repr__\<close> (\<open>IlTrap\<close> prints the value of its constant).
\<close>

definition IlSetRegister_repr :: "nat \<Rightarrow> string \<Rightarrow> string \<Rightarrow> string" where
  [repr_defs]: "IlSetRegister_repr n r v = cc_call ''il.SetRegister'' [show_nat n, r, v]"

definition IlRegister_repr :: "nat \<Rightarrow> string \<Rightarrow> string" where
  [repr_defs]: "IlRegister_repr n r = cc_call ''il.Register'' [show_nat n, r]"

definition IlSetRegisterSplit_repr :: "nat \<Rightarrow> string \<Rightarrow> string \<Rightarrow> string \<Rightarrow> string" where
  [repr_defs]: "IlSetRegisterSplit_repr n h l v = cc_call ''il.SetRegisterSplit'' [show_nat n, h, l, v]"

definition IlRegisterSplit_repr :: "nat \<Rightarrow> string \<Rightarrow> string \<Rightarrow> string" where
  [repr_defs]: "IlRegisterSplit_repr n h l = cc_call ''il.RegisterSplit'' [show_nat n, h, l]"

definition IlConst_repr :: "nat \<Rightarrow> string \<Rightarrow> string" where
  [repr_defs]: "IlConst_repr n v = cc_call ''il.Const'' [show_nat n, v]"

definition IlConstPointer_repr :: "nat \<Rightarrow> string \<Rightarrow> string" where
  [repr_defs]: "IlConstPointer_repr n v = cc_call ''il.ConstPointer'' [show_nat n, v]"

definition IlLowPart_repr :: "nat \<Rightarrow> string \<Rightarrow> string" where
  [repr_defs]: "IlLowPart_repr n a = cc_call ''il.LowPart'' [show_nat n, a]"

definition IlZeroExtend_repr :: "nat \<Rightarrow> string \<Rightarrow> string" where
  [repr_defs]: "IlZeroExtend_repr n a = cc_call ''il.ZeroExtend'' [show_nat n, a]"

definition IlSignExtend_repr :: "nat \<Rightarrow> string \<Rightarrow> string" where
  [repr_defs]: "IlSignExtend_repr n a = cc_call ''il.SignExtend'' [show_nat n, a]"

definition IlAdd_repr :: "nat \<Rightarrow> string \<Rightarrow> string \<Rightarrow> string" where
  [repr_defs]: "IlAdd_repr n a b = cc_call ''il.Add'' [show_nat n, a, b]"

definition IlSub_repr :: "nat \<Rightarrow> string \<Rightarrow> string \<Rightarrow> string" where
  [repr_defs]: "IlSub_repr n a b = cc_call ''il.Sub'' [show_nat n, a, b]"

definition IlOr_repr :: "nat \<Rightarrow> string \<Rightarrow> string \<Rightarrow> string" where
  [repr_defs]: "IlOr_repr n a b = cc_call ''il.Or'' [show_nat n, a, b]"

definition IlAnd_repr :: "nat \<Rightarrow> string \<Rightarrow> string \<Rightarrow> string" where
  [repr_defs]: "IlAnd_repr n a b = cc_call ''il.And'' [show_nat n, a, b]"

definition IlXor_repr :: "nat \<Rightarrow> string \<Rightarrow> string \<Rightarrow> string" where
  [repr_defs]: "IlXor_repr n a b = cc_call ''il.Xor'' [show_nat n, a, b]"

definition IlNot_repr :: "nat \<Rightarrow> string \<Rightarrow> string" where
  [repr_defs]: "IlNot_repr n a = cc_call ''il.Not'' [show_nat n, a]"

definition IlNeg_repr :: "nat \<Rightarrow> string \<Rightarrow> string" where
  [repr_defs]: "IlNeg_repr n a = cc_call ''il.Neg'' [show_nat n, a]"

definition IlStore_repr :: "nat \<Rightarrow> string \<Rightarrow> string \<Rightarrow> string" where
  [repr_defs]: "IlStore_repr n a v = cc_call ''il.Store'' [show_nat n, a, v]"

definition IlLoad_repr :: "nat \<Rightarrow> string \<Rightarrow> string" where
  [repr_defs]: "IlLoad_repr n a = cc_call ''il.Load'' [show_nat n, a]"

definition IlJump_repr :: "string \<Rightarrow> string" where
  [repr_defs]: "IlJump_repr d = cc_call ''il.Jump'' [d]"

definition IlCall_repr :: "string \<Rightarrow> string" where
  [repr_defs]: "IlCall_repr d = cc_call ''il.Call'' [d]"

definition IlReturn_repr :: "string \<Rightarrow> string" where
  [repr_defs]: "IlReturn_repr d = cc_call ''il.Return'' [d]"

definition IlShiftLeft_repr :: "nat \<Rightarrow> string \<Rightarrow> string \<Rightarrow> string" where
  [repr_defs]: "IlShiftLeft_repr n a b = cc_call ''il.ShiftLeft'' [show_nat n, a, b]"

definition IlLogicalShiftRight_repr :: "nat \<Rightarrow> string \<Rightarrow> string \<Rightarrow> string" where
  [repr_defs]: "IlLogicalShiftRight_repr n a b = cc_call ''il.LogicalShiftRight'' [show_nat n, a, b]"

definition IlArithShiftRight_repr :: "nat \<Rightarrow> string \<Rightarrow> string \<Rightarrow> string" where
  [repr_defs]: "IlArithShiftRight_repr n a b = cc_call ''il.ArithShiftRight'' [show_nat n, a, b]"

definition IlRotateLeft_repr :: "nat \<Rightarrow> string \<Rightarrow> string \<Rightarrow> string" where
  [repr_defs]: "IlRotateLeft_repr n a b = cc_call ''il.RotateLeft'' [show_nat n, a, b]"

definition IlMult_repr :: "nat \<Rightarrow> string \<Rightarrow> string \<Rightarrow> string" where
  [repr_defs]: "IlMult_repr n a b = cc_call ''il.Mult'' [show_nat n, a, b]"

definition IlTrap_repr :: "string \<Rightarrow> string" where
  [repr_defs]: "IlTrap_repr k = cc_call ''il.Trap'' [k]"

definition IlSystemCall_repr :: string where
  [repr_defs]: "IlSystemCall_repr = ''il.SystemCall()''"

definition IlBreakpoint_repr :: string where
  [repr_defs]: "IlBreakpoint_repr = ''il.Breakpoint()''"

definition IlBoolToInt_repr :: "nat \<Rightarrow> string \<Rightarrow> string" where
  [repr_defs]: "IlBoolToInt_repr n a = cc_call ''il.BoolToInt'' [show_nat n, a]"

definition IlCompareEqual_repr :: "nat \<Rightarrow> string \<Rightarrow> string \<Rightarrow> string" where
  [repr_defs]: "IlCompareEqual_repr n a b = cc_call ''il.CompareEqual'' [show_nat n, a, b]"

definition IlCompareNotEqual_repr :: "nat \<Rightarrow> string \<Rightarrow> string \<Rightarrow> string" where
  [repr_defs]: "IlCompareNotEqual_repr n a b = cc_call ''il.CompareNotEqual'' [show_nat n, a, b]"

definition IlCompareSignedGreaterThan_repr :: "nat \<Rightarrow> string \<Rightarrow> string \<Rightarrow> string" where
  [repr_defs]: "IlCompareSignedGreaterThan_repr n a b =
     cc_call ''il.CompareSignedGreaterThan'' [show_nat n, a, b]"

definition IlCompareUnsignedGreaterThan_repr :: "nat \<Rightarrow> string \<Rightarrow> string \<Rightarrow> string" where
  [repr_defs]: "IlCompareUnsignedGreaterThan_repr n a b =
     cc_call ''il.CompareUnsignedGreaterThan'' [show_nat n, a, b]"

definition IlCompareSignedGreaterEqual_repr :: "nat \<Rightarrow> string \<Rightarrow> string \<Rightarrow> string" where
  [repr_defs]: "IlCompareSignedGreaterEqual_repr n a b =
     cc_call ''il.CompareSignedGreaterEqual'' [show_nat n, a, b]"

definition IlCompareSignedLessThan_repr :: "nat \<Rightarrow> string \<Rightarrow> string \<Rightarrow> string" where
  [repr_defs]: "IlCompareSignedLessThan_repr n a b =
     cc_call ''il.CompareSignedLessThan'' [show_nat n, a, b]"

definition IlCompareUnsignedGreaterEqual_repr :: "nat \<Rightarrow> string \<Rightarrow> string \<Rightarrow> string" where
  [repr_defs]: "IlCompareUnsignedGreaterEqual_repr n a b =
     cc_call ''il.CompareUnsignedGreaterEqual'' [show_nat n, a, b]"

definition IlCompareUnsignedLessThan_repr :: "nat \<Rightarrow> string \<Rightarrow> string \<Rightarrow> string" where
  [repr_defs]: "IlCompareUnsignedLessThan_repr n a b =
     cc_call ''il.CompareUnsignedLessThan'' [show_nat n, a, b]"

definition IlCompareSignedLessEqual_repr :: "nat \<Rightarrow> string \<Rightarrow> string \<Rightarrow> string" where
  [repr_defs]: "IlCompareSignedLessEqual_repr n a b =
     cc_call ''il.CompareSignedLessEqual'' [show_nat n, a, b]"

definition IlCompareUnsignedLessEqual_repr :: "nat \<Rightarrow> string \<Rightarrow> string \<Rightarrow> string" where
  [repr_defs]: "IlCompareUnsignedLessEqual_repr n a b =
     cc_call ''il.CompareUnsignedLessEqual'' [show_nat n, a, b]"

definition IlIf_repr :: "string \<Rightarrow> string \<Rightarrow> string \<Rightarrow> string" where
  [repr_defs]: "IlIf_repr c t f = cc_call ''il.If'' [c, t, f]"

definition IlGoto_repr :: "string \<Rightarrow> string" where
  [repr_defs]: "IlGoto_repr l = cc_call ''il.Goto'' [l]"

definition IlPush_repr :: "nat \<Rightarrow> string \<Rightarrow> string" where
  [repr_defs]: "IlPush_repr n v = cc_call ''il.Push'' [show_nat n, v]"

definition IlPop_repr :: "nat \<Rightarrow> string" where
  [repr_defs]: "IlPop_repr n = cc_call ''il.Pop'' [show_nat n]"

definition IlReadGP_repr :: "nat \<Rightarrow> string" where
  [repr_defs]: "IlReadGP_repr n =
     ''(insn.extension_valid ? '' @ cc_call ''il.Const'' [show_nat n, ''0''] @ '' : ''
     @ cc_call ''il.Register'' [show_nat n, ''HEX_REG_GP''] @ '')''"

primrec il_repr :: "il \<Rightarrow> string" where
  "il_repr (IlSetRegister n r v) = IlSetRegister_repr n r (il_repr v)"
| "il_repr (IlRegister n r) = IlRegister_repr n r"
| "il_repr (IlSetRegisterSplit n h l v) = IlSetRegisterSplit_repr n h l (il_repr v)"
| "il_repr (IlRegisterSplit n h l) = IlRegisterSplit_repr n h l"
| "il_repr (IlConst n v) = IlConst_repr n v"
| "il_repr (IlConstPointer n v) = IlConstPointer_repr n v"
| "il_repr (IlLowPart n a) = IlLowPart_repr n (il_repr a)"
| "il_repr (IlZeroExtend n a) = IlZeroExtend_repr n (il_repr a)"
| "il_repr (IlSignExtend n a) = IlSignExtend_repr n (il_repr a)"
| "il_repr (IlAdd n a b) = IlAdd_repr n (il_repr a) (il_repr b)"
| "il_repr (IlSub n a b) = IlSub_repr n (il_repr a) (il_repr b)"
| "il_repr (IlOr n a b) = IlOr_repr n (il_repr a) (il_repr b)"
| "il_repr (IlAnd n a b) = IlAnd_repr n (il_repr a) (il_repr b)"
| "il_repr (IlXor n a b) = IlXor_repr n (il_repr a) (il_repr b)"
| "il_repr (IlNot n a) = IlNot_repr n (il_repr a)"
| "il_repr (IlNeg n a) = IlNeg_repr n (il_repr a)"
| "il_repr (IlStore n a v) = IlStore_repr n (il_repr a) (il_repr v)"
| "il_repr (IlLoad n a) = IlLoad_repr n (il_repr a)"
| "il_repr (IlJump d) = IlJump_repr (il_repr d)"
| "il_repr (IlCall d) = IlCall_repr (il_repr d)"
| "il_repr (IlReturn d) = IlReturn_repr (il_repr d)"
| "il_repr (IlShiftLeft n a b) = IlShiftLeft_repr n (il_repr a) (il_repr b)"
| "il_repr (IlLogicalShiftRight n a b) = IlLogicalShiftRight_repr n (il_repr a) (il_repr b)"
| "il_repr (IlArithShiftRight n a b) = IlArithShiftRight_repr n (il_repr a) (il_repr b)"
| "il_repr (IlRotateLeft n a b) = IlRotateLeft_repr n (il_repr a) (il_repr b)"
| "il_repr (IlMult n a b) = IlMult_repr n (il_repr a) (il_repr b)"
| "il_repr (IlTrap k) = IlTrap_repr (il_const_val k)"
| "il_repr IlSystemCall = IlSystemCall_repr"
| "il_repr IlBreakpoint = IlBreakpoint_repr"
| "il_repr (IlBoolToInt n a) = IlBoolToInt_repr n (il_repr a)"
| "il_repr (IlCompareEqual n a b) = IlCompareEqual_repr n (il_repr a) (il_repr b)"
| "il_repr (IlCompareNotEqual n a b) = IlCompareNotEqual_repr n (il_repr a) (il_repr b)"
| "il_repr (IlCompareSignedGreaterThan n a b) = IlCompareSignedGreaterThan_repr n (il_repr a) (il_repr b)"
| "il_repr (IlCompareUnsignedGreaterThan n a b) = IlCompareUnsignedGreaterThan_repr n (il_repr a) (il_repr b)"
| "il_repr (IlCompareSignedGreaterEqual n a b) = IlCompareSignedGreaterEqual_repr n (il_repr a) (il_repr b)"
| "il_repr (IlCompareSignedLessThan n a b) = IlCompareSignedLessThan_repr n (il_repr a) (il_repr b)"
| "il_repr (IlCompareUnsignedGreaterEqual n a b) = IlCompareUnsignedGreaterEqual_repr n (il_repr a) (il_repr b)"
| "il_repr (IlCompareUnsignedLessThan n a b) = IlCompareUnsignedLessThan_repr n (il_repr a) (il_repr b)"
| "il_repr (IlCompareSignedLessEqual n a b) = IlCompareSignedLessEqual_repr n (il_repr a) (il_repr b)"
| "il_repr (IlCompareUnsignedLessEqual n a b) = IlCompareUnsignedLessEqual_repr n (il_repr a) (il_repr b)"
| "il_repr (IlIf c t f) = IlIf_repr (il_repr c) t f"
| "il_repr (IlGoto l) = IlGoto_repr l"
| "il_repr (IlPush n v) = IlPush_repr n (il_repr v)"
| "il_repr (IlPop n) = IlPop_repr n"
| "il_repr (IlReadGP n) = IlReadGP_repr n"

section \<open>Items of a lifter body\<close>

text \<open>An IL instruction, an \<open>IlLabel\<close> or a line of \<open>RawC\<close>.\<close>

datatype item = Insn il | Label string | Raw string

abbreviation emit :: "il_obj \<Rightarrow> item" where
  "emit x \<equiv> Insn (obj x)"

end
