(* ===== verification/Il_Lift.thy ===== *)
theory Il_Lift
  imports Il_Ast
begin

text \<open>
  \<open>SemanticsTreeTransformer\<close> of \<^verbatim>\<open>plugin/gen_il_funcs.py\<close>: from the parse tree of an
  instruction's semantics to the items of its lifter. The tree is what the LALR parser of Lark
  delivers for \<open>semantics_grammar\<close> (\<open>fbody\<close>, \<open>stmt\<close>, \<open>expr\<close>, one
  constructor per production that has a callback; the parser itself is third-party code).
  Productions without a callback (\<open>while\<close>, \<open>for\<close>, \<open>return\<close>,
  \<open>expr LOGOP expr\<close>) leave a raw \<open>Tree\<close> that no caller accepts; they are not
  modelled. An exception of a callback, which Lark wraps in a \<open>VisitError\<close>, is the
  \<open>py_error\<close> it carries.
\<close>

section \<open>Tokens and parse trees\<close>

datatype tok_type =
    REG_OLD | REG_NEW | REG_LR | IMM | MACRO | EA | SIGN | BRANCH_TYPE | TMP
  | INTCON | STRINGCON | ASSGOP | BINOP | RELOP

datatype token = Token (ttype: tok_type) (tval: string)

datatype expr =
    EId token
  | ENeg expr
  | ENot expr
  | EBitNot expr
  | EBinop expr token expr
  | ERelop expr token expr
  | ECall token "expr list"
  | EIndex token expr

datatype stmt =
    SIf expr stmt "stmt option"
  | STernary expr "token \<times> expr" "token \<times> expr"
  | SAssg token expr
  | SAssgBinop token token expr
  | SCall token "expr list"
  | SMulti "stmt list"
  | SEmpty
  | SCancel

text \<open>What a callback receives for an expression: a token, or the object another callback built.\<close>

datatype arg = Tok token | Obj il_obj

section \<open>Operands\<close>

text \<open>\<open>re.search(r'dd|ss|tt|uu|vv', op)\<close>\<close>

definition pair_search :: "string \<Rightarrow> bool" where
  "pair_search s \<longleftrightarrow> list_ex (\<lambda>p. str_in p s) [''dd'', ''ss'', ''tt'', ''uu'', ''vv'']"

definition reg_operand :: "string \<Rightarrow> il_obj" where
  "reg_operand op =
     (if starts_with op ''P'' then IlRegister_init 1 op
      else if pair_search op then IlRegister_init 8 op
      else IlRegister_init 4 op)"

definition tmp_operand :: "string \<Rightarrow> il_obj res" where
  "tmp_operand v =
     (if v = ''tmp'' then Inr (IlRegister_init 8 ''TMP_REG'')
      else if v = ''width'' then Inr (IlRegister_init 8 ''WIDTH_REG'')
      else if v = ''offset'' then Inr (IlRegister_init 8 ''OFFSET_REG'')
      else if v = ''shamt'' then Inr (IlRegister_init 8 ''SHAMT_REG'')
      else Inl AssertionError)"

fun lift_operand :: "arg \<Rightarrow> il_obj res" where
  "lift_operand (Obj x) = Inr x"
| "lift_operand (Tok (Token ty v)) =
     (case ty of
        REG_OLD \<Rightarrow> Inr (reg_operand v)
      | REG_NEW \<Rightarrow> Inr (reg_operand v)
      | EA \<Rightarrow> Inr (IlRegister_init 4 ''EA_REG'')
      | REG_LR \<Rightarrow> Inr (IlRegister_init 4 ''HEX_REG_LR'')
      | IMM \<Rightarrow> Inr (IlConst_init 4 (CStr v))
      | INTCON \<Rightarrow> Inr (IlConst_init 4 (CStr v))
      | TMP \<Rightarrow> tmp_operand v
      | _ \<Rightarrow> Inl AssertionError)"

text \<open>
  \<open>assert (arg.type == ty)\<close>, an \<open>AttributeError\<close> on an IL object; the attribute
  \<open>reg\<close> of an operand.
\<close>

fun expect :: "tok_type \<Rightarrow> arg \<Rightarrow> string res" where
  "expect ty (Obj x) = Inl AttributeError"
| "expect ty (Tok (Token t v)) = assertR (t = ty) (Inr v)"

definition expect_int :: "arg \<Rightarrow> nat res" where
  "expect_int a = bindR (expect INTCON a) py_int"

definition reg_of :: "il_obj \<Rightarrow> string res" where
  "reg_of x = (case obj x of IlRegister _ r \<Rightarrow> Inr r | _ \<Rightarrow> Inl AttributeError)"

definition is_register :: "il_obj \<Rightarrow> bool" where
  "is_register x = (case obj x of IlRegister _ _ \<Rightarrow> True | _ \<Rightarrow> False)"

section \<open>Statement macros\<close>

fun macro_stmt_fIMMEXT :: "arg list \<Rightarrow> item list res" where
  "macro_stmt_fIMMEXT [a] = bindR (expect IMM a) (\<lambda>_. Inr [])"
| "macro_stmt_fIMMEXT _ = Inl AssertionError"

text \<open>\<open>'''{0} = {0} & ~PCALIGN_MASK;'''\<close>, the line of C++ that masks an immediate.\<close>

definition pcalign_line :: "string \<Rightarrow> string" where
  "pcalign_line v = v @ '' = '' @ v @ '' & ~PCALIGN_MASK;''"

fun macro_stmt_fPCALIGN :: "arg list \<Rightarrow> item list res" where
  "macro_stmt_fPCALIGN [a] = bindR (expect IMM a) (\<lambda>v. Inr [Raw (pcalign_line v)])"
| "macro_stmt_fPCALIGN _ = Inl AssertionError"

fun macro_stmt_fBRANCH :: "string set \<Rightarrow> arg list \<Rightarrow> item list res" where
  "macro_stmt_fBRANCH attrs [loc_arg, typ_arg] =
     bindR (expect BRANCH_TYPE typ_arg) (\<lambda>typ.
     bindR (lift_operand loc_arg) (\<lambda>loc.
       let cond = ''A_BN_COND_J'' \<in> attrs;
           taken = (if cond
             then [emit (IlSetRegister_init 1 ''BRANCH_TAKEN_ARRAY + insn_num''
                           (IlConst_init 1 (CInt 1)))]
             else []);
           dest = emit (IlSetRegister_init 4 ''BRANCHR_DEST_ARRAY + insn_num'' loc)
       in if typ \<in> set [''COF_TYPE_JUMP'', ''COF_TYPE_JUMPNEW'']
          then Inr (taken @ [emit (IlJump_init loc)])
          else if typ = ''COF_TYPE_JUMPR'' then Inr (taken @ [dest, emit (IlJump_init loc)])
          else if typ = ''COF_TYPE_CALL'' then Inr (taken @ [emit (IlCall_init loc)])
          else if typ = ''COF_TYPE_CALLR'' then Inr (taken @ [dest, emit (IlCall_init loc)])
          else if typ = ''COF_TYPE_RETURN'' then Inr (taken @ [emit (IlReturn_init loc)])
          else if typ \<in> set [''COF_TYPE_LOOPEND0'', ''COF_TYPE_LOOPEND1'']
          then assertR cond (Inr (taken @ [dest, emit (IlJump_init loc)]))
          else Inl AssertionError))"
| "macro_stmt_fBRANCH attrs _ = Inl AssertionError"

fun macro_stmt_fJUMPR :: "string set \<Rightarrow> arg list \<Rightarrow> item list res" where
  "macro_stmt_fJUMPR attrs [regno, loc, typ] =
     macro_stmt_fBRANCH attrs
       [loc, (case regno of
                Tok t \<Rightarrow> if tval t = ''REG_LR'' then Tok (Token BRANCH_TYPE ''COF_TYPE_RETURN'') else typ
              | Obj _ \<Rightarrow> typ)]"
| "macro_stmt_fJUMPR attrs _ = Inl AssertionError"

fun macro_stmt_fTRAP :: "arg list \<Rightarrow> item list res" where
  "macro_stmt_fTRAP [a, b] =
     bindR (lift_operand a) (\<lambda>typ. bindR (lift_operand b) (\<lambda>imm. Inr [emit IlSystemCall_init]))"
| "macro_stmt_fTRAP _ = Inl AssertionError"

fun macro_stmt_fBREAK :: "arg list \<Rightarrow> item list res" where
  "macro_stmt_fBREAK [] = Inr [emit IlBreakpoint_init]"
| "macro_stmt_fBREAK _ = Inl AssertionError"

fun macro_stmt_fSTORE :: "arg list \<Rightarrow> item list res" where
  "macro_stmt_fSTORE [num, sz_arg, ea_arg, src_arg] =
     bindR (expect INTCON sz_arg) (\<lambda>sz_str.
     bindR (expect EA ea_arg) (\<lambda>_.
     bindR (py_int sz_str) (\<lambda>sz.
     bindR (lift_operand ea_arg) (\<lambda>ea.
     bindR (lift_operand src_arg) (\<lambda>src. Inr [emit (IlStore_init sz ea src)])))))"
| "macro_stmt_fSTORE _ = Inl AssertionError"

fun macro_stmt_fSTORE_LOCKED :: "arg list \<Rightarrow> item list res" where
  "macro_stmt_fSTORE_LOCKED [num, sz, ea, src, pred_arg] =
     bindR (lift_operand pred_arg) (\<lambda>pred.
     bindR (macro_stmt_fSTORE [num, sz, ea, src]) (\<lambda>ret.
     bindR (reg_of pred) (\<lambda>reg.
       Inr (ret @ [emit (IlSetRegister_init (size_of pred) reg (IlConst_init 1 (CInt 1)))]))))"
| "macro_stmt_fSTORE_LOCKED _ = Inl AssertionError"

fun macro_stmt_fLOAD :: "arg list \<Rightarrow> item list res" where
  "macro_stmt_fLOAD [num, sz_arg, sign_arg, ea_arg, dst_arg] =
     bindR (expect INTCON sz_arg) (\<lambda>sz_str.
     bindR (expect SIGN sign_arg) (\<lambda>sign.
     bindR (expect EA ea_arg) (\<lambda>_.
     bindR (py_int sz_str) (\<lambda>sz.
     bindR (lift_operand ea_arg) (\<lambda>ea.
     bindR (lift_operand dst_arg) (\<lambda>dst.
       let val = IlLoad_init sz ea;
           ext = (if sz < size_of dst
                  then (if sign = ''s'' then IlSignExtend_init (size_of dst) val
                        else IlZeroExtend_init (size_of dst) val)
                  else val)
       in bindR (reg_of dst) (\<lambda>reg.
            Inr [emit (IlSetRegister_init (size_of dst) reg ext)])))))))"
| "macro_stmt_fLOAD _ = Inl AssertionError"

text \<open>\<open>fWRITE_FP\<close>, \<open>fWRITE_LR\<close>, \<open>fWRITE_SP\<close>, \<open>fWRITE_P0\<close> to \<open>fWRITE_P3\<close>, \<open>fSET_LPCFG\<close>: one register write each.\<close>

fun write_reg :: "nat \<Rightarrow> string \<Rightarrow> arg list \<Rightarrow> item list res" where
  "write_reg sz reg [a] =
     bindR (lift_operand a) (\<lambda>x. Inr [emit (IlSetRegister_init sz reg x)])"
| "write_reg sz reg _ = Inl AssertionError"

definition macro_stmt_fWRITE_FP :: "arg list \<Rightarrow> item list res" where
  "macro_stmt_fWRITE_FP args = write_reg 4 ''HEX_REG_FP'' args"

definition macro_stmt_fWRITE_LR :: "arg list \<Rightarrow> item list res" where
  "macro_stmt_fWRITE_LR args = write_reg 4 ''HEX_REG_LR'' args"

definition macro_stmt_fWRITE_SP :: "arg list \<Rightarrow> item list res" where
  "macro_stmt_fWRITE_SP args = write_reg 4 ''HEX_REG_SP'' args"

definition macro_stmt_fWRITE_P0 :: "arg list \<Rightarrow> item list res" where
  "macro_stmt_fWRITE_P0 args = write_reg 1 ''Pd0'' args"

definition macro_stmt_fWRITE_P1 :: "arg list \<Rightarrow> item list res" where
  "macro_stmt_fWRITE_P1 args = write_reg 1 ''Pd1'' args"

definition macro_stmt_fWRITE_P2 :: "arg list \<Rightarrow> item list res" where
  "macro_stmt_fWRITE_P2 args = write_reg 1 ''Pd2'' args"

definition macro_stmt_fWRITE_P3 :: "arg list \<Rightarrow> item list res" where
  "macro_stmt_fWRITE_P3 args = write_reg 1 ''Pd3'' args"

definition macro_stmt_fSET_LPCFG :: "arg list \<Rightarrow> item list res" where
  "macro_stmt_fSET_LPCFG args = write_reg 1 ''HEX_REG_USR_LPCFG'' args"

fun macro_stmt_fWRITE_LOOP_REGS :: "arg list \<Rightarrow> item list res" where
  "macro_stmt_fWRITE_LOOP_REGS [n_arg, start_arg, count_arg] =
     bindR (expect_int n_arg) (\<lambda>n.
     bindR (lift_operand start_arg) (\<lambda>start.
     bindR (lift_operand count_arg) (\<lambda>count.
       if n = 0 then Inr [emit (IlSetRegister_init 4 ''HEX_REG_LC0'' count),
                          emit (IlSetRegister_init 4 ''HEX_REG_SA0'' start)]
       else if n = 1 then Inr [emit (IlSetRegister_init 4 ''HEX_REG_LC1'' count),
                               emit (IlSetRegister_init 4 ''HEX_REG_SA1'' start)]
       else Inl AssertionError)))"
| "macro_stmt_fWRITE_LOOP_REGS _ = Inl AssertionError"

fun macro_stmt_fWRITE_LC :: "arg list \<Rightarrow> item list res" where
  "macro_stmt_fWRITE_LC [n_arg, val_arg] =
     bindR (expect_int n_arg) (\<lambda>n.
     bindR (lift_operand val_arg) (\<lambda>val.
       if n = 0 then Inr [emit (IlSetRegister_init 4 ''HEX_REG_LC0'' val)]
       else if n = 1 then Inr [emit (IlSetRegister_init 4 ''HEX_REG_LC1'' val)]
       else Inl AssertionError))"
| "macro_stmt_fWRITE_LC _ = Inl AssertionError"

text \<open>
  \<open>fSETHALF\<close> and \<open>fSETWORD\<close> put \<open>bits\<close> bits of a value at field
  \<open>n\<close> of the destination: \<open>(DST & ~(mask << n*bits)) | ((VAL & mask) << n*bits)\<close>.
\<close>

definition set_field :: "nat \<Rightarrow> nat \<Rightarrow> nat \<Rightarrow> il_obj \<Rightarrow> il_obj \<Rightarrow> il_obj" where
  "set_field fmask bits n dst val =
     (let sz = size_of dst;
          old = IlAnd_init sz dst
                  (IlNot_init sz
                    (IlShiftLeft_init sz (IlConst_init 4 (CInt fmask)) (IlConst_init 1 (CInt (n * bits)))));
          new = IlShiftLeft_init sz (IlAnd_init sz val (IlConst_init 4 (CInt fmask)))
                  (IlConst_init 1 (CInt (n * bits)))
      in IlOr_init sz old new)"

fun macro_stmt_fSETHALF :: "arg list \<Rightarrow> item list res" where
  "macro_stmt_fSETHALF [n_arg, dst_arg, val_arg] =
     bindR (expect_int n_arg) (\<lambda>n.
     bindR (lift_operand dst_arg) (\<lambda>dst.
     bindR (lift_operand val_arg) (\<lambda>val.
     assertR (is_register dst \<and> size_of dst = 4)
       (bindR (reg_of dst) (\<lambda>reg.
         Inr [emit (IlSetRegister_init (size_of dst) reg (set_field 0xffff 16 n dst val))])))))"
| "macro_stmt_fSETHALF _ = Inl AssertionError"

fun macro_stmt_fSETWORD :: "arg list \<Rightarrow> item list res" where
  "macro_stmt_fSETWORD [n_arg, dst_arg, val_arg] =
     bindR (expect_int n_arg) (\<lambda>n.
     bindR (lift_operand dst_arg) (\<lambda>dst.
     bindR (lift_operand val_arg) (\<lambda>val.
     assertR (is_register dst \<and> size_of dst = 8)
       (bindR (reg_of dst) (\<lambda>reg.
         Inr [emit (IlSetRegister_init (size_of dst) reg (set_field 0xffffffff 32 n dst val))])))))"
| "macro_stmt_fSETWORD _ = Inl AssertionError"

section \<open>Expression macros\<close>

fun macro_expr_fGETBYTE :: "arg list \<Rightarrow> il_obj res" where
  "macro_expr_fGETBYTE [n_arg, src_arg] =
     bindR (expect_int n_arg) (\<lambda>n. bindR (lift_operand src_arg) (\<lambda>src0.
       let src = src0\<lparr>signed := True\<rparr>
       in if n = 0 then Inr (IlLowPart_init 1 src)
          else Inr (IlLowPart_init 1
                 (IlArithShiftRight_init (size_of src) src (IlConst_init 1 (CInt (n * 8)))))))"
| "macro_expr_fGETBYTE _ = Inl AssertionError"

fun macro_expr_fGETUBYTE :: "arg list \<Rightarrow> il_obj res" where
  "macro_expr_fGETUBYTE [n_arg, src_arg] =
     bindR (expect_int n_arg) (\<lambda>n. bindR (lift_operand src_arg) (\<lambda>src0.
       let src = src0\<lparr>signed := False\<rparr>
       in if n = 0 then Inr (IlLowPart_init 1 src)
          else Inr (IlLowPart_init 1
                 (IlLogicalShiftRight_init (size_of src) src (IlConst_init 1 (CInt (n * 8)))))))"
| "macro_expr_fGETUBYTE _ = Inl AssertionError"

fun macro_expr_fGETHALF :: "arg list \<Rightarrow> il_obj res" where
  "macro_expr_fGETHALF [n_arg, src_arg] =
     bindR (expect_int n_arg) (\<lambda>n. bindR (lift_operand src_arg) (\<lambda>src0.
       let src = src0\<lparr>signed := True\<rparr>;
           half = (if n = 0 then IlLowPart_init 2 src
                   else IlLowPart_init 2
                     (IlArithShiftRight_init (size_of src) src (IlConst_init 1 (CInt (n * 16)))))
       in Inr (IlSignExtend_init (size_of src) half)))"
| "macro_expr_fGETHALF _ = Inl AssertionError"

fun macro_expr_fGETUHALF :: "arg list \<Rightarrow> il_obj res" where
  "macro_expr_fGETUHALF [n_arg, src_arg] =
     bindR (expect_int n_arg) (\<lambda>n. bindR (lift_operand src_arg) (\<lambda>src0.
       let src = src0\<lparr>signed := False\<rparr>;
           half = (if n = 0 then IlLowPart_init 2 src
                   else IlLowPart_init 2
                     (IlLogicalShiftRight_init (size_of src) src (IlConst_init 1 (CInt (n * 16)))))
       in Inr (IlZeroExtend_init (size_of src) half)))"
| "macro_expr_fGETUHALF _ = Inl AssertionError"

fun macro_expr_fGETWORD :: "arg list \<Rightarrow> il_obj res" where
  "macro_expr_fGETWORD [n_arg, src_arg] =
     bindR (expect_int n_arg) (\<lambda>n. bindR (lift_operand src_arg) (\<lambda>src0.
     assertR (size_of src0 = 8)
       (let src = src0\<lparr>signed := True\<rparr>;
            word = (if n = 0 then IlLowPart_init 4 src
                    else IlLowPart_init 4
                      (IlArithShiftRight_init (size_of src) src (IlConst_init 1 (CInt (n * 32)))))
        in Inr (IlSignExtend_init (size_of src) word))))"
| "macro_expr_fGETWORD _ = Inl AssertionError"

fun macro_expr_fGETUWORD :: "arg list \<Rightarrow> il_obj res" where
  "macro_expr_fGETUWORD [n_arg, src_arg] =
     bindR (expect_int n_arg) (\<lambda>n. bindR (lift_operand src_arg) (\<lambda>src0.
     assertR (size_of src0 = 8)
       (let src = src0\<lparr>signed := False\<rparr>;
            word = (if n = 0 then IlLowPart_init 4 src
                    else IlLowPart_init 4
                      (IlLogicalShiftRight_init (size_of src) src (IlConst_init 1 (CInt (n * 32)))))
        in Inr (IlZeroExtend_init (size_of src) word))))"
| "macro_expr_fGETUWORD _ = Inl AssertionError"

fun macro_expr_fROTL4_4u :: "arg list \<Rightarrow> il_obj res" where
  "macro_expr_fROTL4_4u [a, b] =
     bindR (lift_operand a) (\<lambda>src. bindR (lift_operand b) (\<lambda>shamt.
     assertR (size_of src = 4) (Inr (IlRotateLeft_init (size_of src) src shamt))))"
| "macro_expr_fROTL4_4u _ = Inl AssertionError"

fun macro_expr_fROTL8_8u :: "arg list \<Rightarrow> il_obj res" where
  "macro_expr_fROTL8_8u [a, b] =
     bindR (lift_operand a) (\<lambda>src. bindR (lift_operand b) (\<lambda>shamt.
     assertR (size_of src = 8) (Inr (IlRotateLeft_init (size_of src) src shamt))))"
| "macro_expr_fROTL8_8u _ = Inl AssertionError"

definition macro_expr_fFRAME_SCRAMBLE :: "arg list \<Rightarrow> il_obj res" where
  "macro_expr_fFRAME_SCRAMBLE args = Inr (IlRegisterSplit_init 4 ''HEX_REG_LR'' ''HEX_REG_FP'')"

definition macro_expr_fREAD_PC :: "arg list \<Rightarrow> il_obj res" where
  "macro_expr_fREAD_PC args = assertR (args = []) (Inr (IlConstPointer_init 4 ''pc''))"

definition macro_expr_fREAD_LR :: "arg list \<Rightarrow> il_obj res" where
  "macro_expr_fREAD_LR args = Inr (IlRegister_init 4 ''HEX_REG_LR'')"

definition macro_expr_fREAD_FP :: "arg list \<Rightarrow> il_obj res" where
  "macro_expr_fREAD_FP args = Inr (IlRegister_init 4 ''HEX_REG_FP'')"

definition macro_expr_fREAD_SP :: "arg list \<Rightarrow> il_obj res" where
  "macro_expr_fREAD_SP args = Inr (IlRegister_init 4 ''HEX_REG_SP'')"

definition macro_expr_fREAD_GP :: "arg list \<Rightarrow> il_obj res" where
  "macro_expr_fREAD_GP args = Inr (IlReadGP_init 4)"

definition macro_expr_fREAD_P0 :: "arg list \<Rightarrow> il_obj res" where
  "macro_expr_fREAD_P0 args = assertR (args = []) (Inr (IlRegister_init 1 ''Pd0''))"

definition macro_expr_fREAD_LPCFG :: "arg list \<Rightarrow> il_obj res" where
  "macro_expr_fREAD_LPCFG args = assertR (args = []) (Inr (IlRegister_init 1 ''HEX_REG_USR_LPCFG''))"

fun macro_expr_fREAD_LC :: "arg list \<Rightarrow> il_obj res" where
  "macro_expr_fREAD_LC [n_arg] =
     bindR (expect_int n_arg) (\<lambda>n.
       if n = 0 then Inr (IlRegister_init 4 ''HEX_REG_LC0'')
       else if n = 1 then Inr (IlRegister_init 4 ''HEX_REG_LC1'')
       else Inl AssertionError)"
| "macro_expr_fREAD_LC _ = Inl AssertionError"

fun macro_expr_fREAD_SA :: "arg list \<Rightarrow> il_obj res" where
  "macro_expr_fREAD_SA [n_arg] =
     bindR (expect_int n_arg) (\<lambda>n.
       if n = 0 then Inr (IlRegister_init 4 ''HEX_REG_SA0'')
       else if n = 1 then Inr (IlRegister_init 4 ''HEX_REG_SA1'')
       else Inl AssertionError)"
| "macro_expr_fREAD_SA _ = Inl AssertionError"

fun macro_expr_fCAST4s :: "arg list \<Rightarrow> il_obj res" where
  "macro_expr_fCAST4s [a] =
     bindR (lift_operand a) (\<lambda>val.
       if size_of val > 4 then Inr (IlLowPart_init 4 (val\<lparr>signed := True\<rparr>))
       else if size_of val = 4 then Inr (val\<lparr>signed := True\<rparr>)
       else Inr (IlSignExtend_init 4 val))"
| "macro_expr_fCAST4s _ = Inl AssertionError"

fun macro_expr_fCAST4u :: "arg list \<Rightarrow> il_obj res" where
  "macro_expr_fCAST4u [a] =
     bindR (lift_operand a) (\<lambda>val.
       if size_of val > 4 then Inr (IlLowPart_init 4 (val\<lparr>signed := False\<rparr>))
       else if size_of val = 4 then Inr (val\<lparr>signed := False\<rparr>)
       else Inr (IlZeroExtend_init 4 val))"
| "macro_expr_fCAST4u _ = Inl AssertionError"

fun macro_expr_fCAST8s :: "arg list \<Rightarrow> il_obj res" where
  "macro_expr_fCAST8s [a] =
     bindR (lift_operand a) (\<lambda>val. assertR (size_of val \<le> 8)
       (if size_of val = 8 then Inr (val\<lparr>signed := True\<rparr>) else Inr (IlSignExtend_init 8 val)))"
| "macro_expr_fCAST8s _ = Inl AssertionError"

fun macro_expr_fCAST8u :: "arg list \<Rightarrow> il_obj res" where
  "macro_expr_fCAST8u [a] =
     bindR (lift_operand a) (\<lambda>val. assertR (size_of val \<le> 8)
       (if size_of val = 8 then Inr (val\<lparr>signed := False\<rparr>) else Inr (IlZeroExtend_init 8 val)))"
| "macro_expr_fCAST8u _ = Inl AssertionError"

definition is_and_one :: "il \<Rightarrow> bool" where
  "is_and_one x = (case x of IlAnd _ _ b \<Rightarrow> b = obj (IlConst_init 4 (CInt 1)) | _ \<Rightarrow> False)"

fun macro_expr_f8BITSOF :: "arg list \<Rightarrow> il_obj res" where
  "macro_expr_f8BITSOF [a] =
     bindR (lift_operand a) (\<lambda>val.
     assertR (is_compare (obj val) \<or> is_and_one (obj val)) (Inr val))"
| "macro_expr_f8BITSOF _ = Inl AssertionError"

fun macro_expr_fLSBOLD :: "arg list \<Rightarrow> il_obj res" where
  "macro_expr_fLSBOLD [a] =
     bindR (lift_operand a) (\<lambda>val.
     assertR (case obj val of IlRegister _ r \<Rightarrow> starts_with r ''P'' | _ \<Rightarrow> False) (Inr val))"
| "macro_expr_fLSBOLD _ = Inl AssertionError"

fun macro_expr_fNEWREG_ST :: "arg list \<Rightarrow> il_obj res" where
  "macro_expr_fNEWREG_ST [a] = bindR (expect REG_NEW a) (\<lambda>_. lift_operand a)"
| "macro_expr_fNEWREG_ST _ = Inl AssertionError"

fun macro_expr_fNEWREG :: "arg list \<Rightarrow> il_obj res" where
  "macro_expr_fNEWREG [a] = bindR (expect REG_NEW a) (\<lambda>_. lift_operand a)"
| "macro_expr_fNEWREG _ = Inl AssertionError"

fun macro_expr_fLSBNEW :: "arg list \<Rightarrow> il_obj res" where
  "macro_expr_fLSBNEW [a] =
     bindR (lift_operand a) (\<lambda>pval.
       let one = IlConst_init 1 (CInt 1);
           default = IlAnd_init (size_of pval) pval one
       in case obj pval of
            IlConst _ v \<Rightarrow>
              if v = ''0'' then Inr (IlAnd_init 1 (IlRegister_init 1 ''Pd0'') one)
              else if v = ''1'' then Inr (IlAnd_init 1 (IlRegister_init 1 ''Pd1'') one)
              else Inr default
          | _ \<Rightarrow> Inr default)"
| "macro_expr_fLSBNEW _ = Inl AssertionError"

fun macro_expr_fIMMEXT :: "arg list \<Rightarrow> il_obj res" where
  "macro_expr_fIMMEXT [a] = bindR (expect IMM a) (\<lambda>_. lift_operand a)"
| "macro_expr_fIMMEXT _ = Inl AssertionError"

text \<open>
  IL has no ternary operator: \<open>c * a + d * b\<close> with two complementary comparisons
  \<open>c\<close>, \<open>d\<close> read as 0 or 1.
\<close>

definition il_choose :: "nat \<Rightarrow> il_obj \<Rightarrow> il_obj \<Rightarrow> il_obj \<Rightarrow> il_obj \<Rightarrow> il_obj" where
  "il_choose sz c a d b =
     IlAdd_init sz (IlMult_init sz (IlBoolToInt_init sz c) a) (IlMult_init sz (IlBoolToInt_init sz d) b)"

fun macro_expr_fMAX :: "arg list \<Rightarrow> il_obj res" where
  "macro_expr_fMAX [a_arg, b_arg] =
     bindR (lift_operand a_arg) (\<lambda>a. bindR (lift_operand b_arg) (\<lambda>b.
     assertR (size_of a = size_of b)
       (let sz = size_of a
        in if signed a
           then Inr (il_choose sz (IlCompareSignedGreaterEqual_init sz a b) a
                       (IlCompareSignedLessThan_init sz a b) b)
           else Inr (il_choose sz (IlCompareUnsignedGreaterEqual_init sz a b) a
                       (IlCompareUnsignedLessThan_init sz a b) b))))"
| "macro_expr_fMAX _ = Inl AssertionError"

fun macro_expr_fMIN :: "arg list \<Rightarrow> il_obj res" where
  "macro_expr_fMIN [a_arg, b_arg] =
     bindR (lift_operand a_arg) (\<lambda>a. bindR (lift_operand b_arg) (\<lambda>b.
     assertR (size_of a = size_of b)
       (let sz = size_of a
        in if signed a
           then Inr (il_choose sz (IlCompareSignedLessEqual_init sz a b) a
                       (IlCompareSignedGreaterThan_init sz a b) b)
           else Inr (il_choose sz (IlCompareUnsignedLessEqual_init sz a b) a
                       (IlCompareUnsignedGreaterThan_init sz a b) b))))"
| "macro_expr_fMIN _ = Inl AssertionError"

fun macro_expr_fABS :: "arg list \<Rightarrow> il_obj res" where
  "macro_expr_fABS [a_arg] =
     bindR (lift_operand a_arg) (\<lambda>a.
       let sz = size_of a
       in if \<not> signed a then Inr a
          else Inr (IlMult_init sz
                 (IlSub_init sz (IlConst_init sz (CInt 1))
                   (IlMult_init sz (IlConst_init sz (CInt 2))
                     (IlBoolToInt_init sz
                       (IlCompareSignedLessThan_init sz a (IlConst_init sz (CInt 0)))))) a))"
| "macro_expr_fABS _ = Inl AssertionError"

fun macro_expr_fBYTESWAP :: "arg list \<Rightarrow> il_obj res" where
  "macro_expr_fBYTESWAP [a] =
     bindR (lift_operand a) (\<lambda>x. assertR (size_of x = 4)
       (let sz = size_of x;
            b0 = IlAnd_init sz x (IlConst_init 4 (CInt 0x000000ff));
            b1 = IlAnd_init sz x (IlConst_init 4 (CInt 0x0000ff00));
            b2 = IlAnd_init sz x (IlConst_init 4 (CInt 0x00ff0000));
            b3 = IlAnd_init sz x (IlConst_init 4 (CInt 0xff000000))
        in Inr (IlOr_init sz (IlShiftLeft_init sz b0 (IlConst_init 1 (CInt 24)))
                 (IlOr_init sz (IlShiftLeft_init sz b1 (IlConst_init 1 (CInt 8)))
                   (IlOr_init sz (IlLogicalShiftRight_init sz b2 (IlConst_init 1 (CInt 8)))
                     (IlLogicalShiftRight_init sz b3 (IlConst_init 1 (CInt 24))))))))"
| "macro_expr_fBYTESWAP _ = Inl AssertionError"

end
