(* ===== verification/Il_Transform.thy ===== *)
theory Il_Transform
  imports Il_Lift
begin

text \<open>
  The callbacks of \<open>SemanticsTreeTransformer\<close> for calls, operators and statements, and the
  bottom-up traversal Lark's \<open>Transformer\<close> makes with them: \<open>transform_expr\<close>,
  \<open>transform_stmt\<close> and \<open>transform_fbody\<close>.
\<close>

section \<open>Macro calls\<close>

text \<open>\<open>getattr(self, 'macro_stmt_' + ident.value)\<close> and \<open>getattr(self, 'macro_expr_' + ident.value)\<close>.\<close>

definition macro_stmt_table :: "string set \<Rightarrow> (string \<times> (arg list \<Rightarrow> item list res)) list" where
  "macro_stmt_table attrs =
     [(''fIMMEXT'', macro_stmt_fIMMEXT), (''fPCALIGN'', macro_stmt_fPCALIGN),
      (''fBRANCH'', macro_stmt_fBRANCH attrs), (''fJUMPR'', macro_stmt_fJUMPR attrs),
      (''fTRAP'', macro_stmt_fTRAP), (''fBREAK'', macro_stmt_fBREAK),
      (''fSTORE'', macro_stmt_fSTORE), (''fSTORE_LOCKED'', macro_stmt_fSTORE_LOCKED),
      (''fLOAD'', macro_stmt_fLOAD), (''fWRITE_FP'', macro_stmt_fWRITE_FP),
      (''fWRITE_LR'', macro_stmt_fWRITE_LR), (''fWRITE_SP'', macro_stmt_fWRITE_SP),
      (''fWRITE_P0'', macro_stmt_fWRITE_P0), (''fWRITE_P1'', macro_stmt_fWRITE_P1),
      (''fWRITE_P2'', macro_stmt_fWRITE_P2), (''fWRITE_P3'', macro_stmt_fWRITE_P3),
      (''fWRITE_LOOP_REGS'', macro_stmt_fWRITE_LOOP_REGS), (''fSET_LPCFG'', macro_stmt_fSET_LPCFG),
      (''fWRITE_LC'', macro_stmt_fWRITE_LC), (''fSETHALF'', macro_stmt_fSETHALF),
      (''fSETWORD'', macro_stmt_fSETWORD)]"

definition macro_expr_table :: "(string \<times> (arg list \<Rightarrow> il_obj res)) list" where
  "macro_expr_table =
     [(''fGETBYTE'', macro_expr_fGETBYTE), (''fGETUBYTE'', macro_expr_fGETUBYTE),
      (''fGETHALF'', macro_expr_fGETHALF), (''fGETUHALF'', macro_expr_fGETUHALF),
      (''fGETWORD'', macro_expr_fGETWORD), (''fGETUWORD'', macro_expr_fGETUWORD),
      (''fROTL4_4u'', macro_expr_fROTL4_4u), (''fROTL8_8u'', macro_expr_fROTL8_8u),
      (''fFRAME_SCRAMBLE'', macro_expr_fFRAME_SCRAMBLE), (''fREAD_PC'', macro_expr_fREAD_PC),
      (''fREAD_LR'', macro_expr_fREAD_LR), (''fREAD_FP'', macro_expr_fREAD_FP),
      (''fREAD_SP'', macro_expr_fREAD_SP), (''fREAD_GP'', macro_expr_fREAD_GP),
      (''fREAD_P0'', macro_expr_fREAD_P0), (''fREAD_LPCFG'', macro_expr_fREAD_LPCFG),
      (''fREAD_LC'', macro_expr_fREAD_LC), (''fREAD_SA'', macro_expr_fREAD_SA),
      (''fCAST4s'', macro_expr_fCAST4s), (''fCAST4u'', macro_expr_fCAST4u),
      (''fCAST8s'', macro_expr_fCAST8s), (''fCAST8u'', macro_expr_fCAST8u),
      (''f8BITSOF'', macro_expr_f8BITSOF), (''fLSBOLD'', macro_expr_fLSBOLD),
      (''fNEWREG_ST'', macro_expr_fNEWREG_ST), (''fNEWREG'', macro_expr_fNEWREG),
      (''fLSBNEW'', macro_expr_fLSBNEW), (''fIMMEXT'', macro_expr_fIMMEXT),
      (''fMAX'', macro_expr_fMAX), (''fMIN'', macro_expr_fMIN),
      (''fABS'', macro_expr_fABS), (''fBYTESWAP'', macro_expr_fBYTESWAP)]"

definition call_stmt :: "string set \<Rightarrow> token \<Rightarrow> arg list \<Rightarrow> item list res" where
  "call_stmt attrs ident args =
     assertR (ttype ident = MACRO)
       (case map_of (macro_stmt_table attrs) (tval ident) of
          None \<Rightarrow> Inl AttributeError | Some f \<Rightarrow> f args)"

definition call_expr :: "token \<Rightarrow> arg list \<Rightarrow> il_obj res" where
  "call_expr ident args =
     assertR (ttype ident = MACRO)
       (case map_of macro_expr_table (tval ident) of
          None \<Rightarrow> Inl AttributeError | Some f \<Rightarrow> f args)"

section \<open>Operators\<close>

definition neg_expr :: "arg \<Rightarrow> il_obj res" where
  "neg_expr a = bindR (lift_operand a) (\<lambda>val. Inr (IlNeg_init (size_of val) val))"

definition not_expr :: "arg \<Rightarrow> il_obj res" where
  "not_expr a = bindR (lift_operand a) (\<lambda>val. Inr (IlNot_init (size_of val) val))"

definition bit_not_expr :: "arg \<Rightarrow> il_obj res" where
  "bit_not_expr a = bindR (lift_operand a) (\<lambda>val. Inr (IlNot_init (size_of val) val))"

definition binop_node :: "string \<Rightarrow> il_obj \<Rightarrow> il_obj \<Rightarrow> il_obj res" where
  "binop_node op op1 op2 =
     (let sz = size_of op1
      in if op = ''+'' then Inr (IlAdd_init sz op1 op2)
         else if op = ''-'' then Inr (IlSub_init sz op1 op2)
         else if op = ''*'' then Inr (IlMult_init sz op1 op2)
         else if op = ''|'' then Inr (IlOr_init sz op1 op2)
         else if op = ''&'' then Inr (IlAnd_init sz op1 op2)
         else if op = ''^'' then Inr (IlXor_init sz op1 op2)
         else if op = ''<<'' then Inr (IlShiftLeft_init sz op1 op2)
         else if op = ''>>'' then
           (if signed op1 then Inr (IlArithShiftRight_init sz op1 op2)
            else Inr (IlLogicalShiftRight_init sz op1 op2))
         else Inl AssertionError)"

definition expr_binop :: "arg \<Rightarrow> token \<Rightarrow> arg \<Rightarrow> il_obj res" where
  "expr_binop a binop b =
     assertR (ttype binop = BINOP)
       (bindR (lift_operand a) (\<lambda>op1. bindR (lift_operand b) (\<lambda>op2.
          binop_node (tval binop) op1 op2)))"

definition relop_node :: "string \<Rightarrow> il_obj \<Rightarrow> il_obj \<Rightarrow> il_obj res" where
  "relop_node op op1 op2 =
     (let sz = size_of op1
      in if op = ''=='' then Inr (IlCompareEqual_init sz op1 op2)
         else if op = ''!='' then Inr (IlCompareNotEqual_init sz op1 op2)
         else if op = ''<='' then
           (if signed op1 then Inr (IlCompareSignedLessEqual_init sz op1 op2)
            else Inr (IlCompareUnsignedLessEqual_init sz op1 op2))
         else if op = ''<'' then
           (if signed op1 then Inr (IlCompareSignedLessThan_init sz op1 op2)
            else Inr (IlCompareUnsignedLessThan_init sz op1 op2))
         else if op = ''>='' then
           (if signed op1 then Inr (IlCompareSignedGreaterEqual_init sz op1 op2)
            else Inr (IlCompareUnsignedGreaterEqual_init sz op1 op2))
         else if op = ''>'' then
           (if signed op1 then Inr (IlCompareSignedGreaterThan_init sz op1 op2)
            else Inr (IlCompareUnsignedGreaterThan_init sz op1 op2))
         else Inl AssertionError)"

definition expr_relop :: "arg \<Rightarrow> token \<Rightarrow> arg \<Rightarrow> il_obj res" where
  "expr_relop a relop b =
     assertR (ttype relop = RELOP)
       (bindR (lift_operand a) (\<lambda>op1. bindR (lift_operand b) (\<lambda>op2.
          relop_node (tval relop) op1 op2)))"

definition unexpected :: "arg \<Rightarrow> il_obj res" where
  "unexpected a = Inl ValueError"

section \<open>Statements\<close>

definition cancel_stmt :: "item list" where
  "cancel_stmt = []"

definition empty_stmt :: "item list" where
  "empty_stmt = []"

definition multi_stmt :: "item list list \<Rightarrow> item list" where
  "multi_stmt args = concat args"

definition fbody :: "item list list \<Rightarrow> item list" where
  "fbody args = concat args"

text \<open>The condition goes to \<open>IlIf\<close> unlifted: a bare token fails its type check.\<close>

definition if_stmt :: "arg \<Rightarrow> item list \<Rightarrow> item list \<Rightarrow> item list res" where
  "if_stmt cond tstmt fstmt =
     (case cond of
        Tok _ \<Rightarrow> Inl TypeError
      | Obj c \<Rightarrow>
          if fstmt \<noteq> []
          then Inr ([Raw ''{ LowLevelILLabel true_case, false_case, done;'',
                     emit (IlIf_init c ''true_case'' ''false_case''), Label ''true_case''] @ tstmt
                    @ [emit (IlGoto_init ''done''), Label ''false_case''] @ fstmt
                    @ [Label ''done'', Raw ''}''])
          else Inr ([Raw ''{ LowLevelILLabel true_case, done;'',
                     emit (IlIf_init c ''true_case'' ''done''), Label ''true_case''] @ tstmt
                    @ [Label ''done'', Raw ''}'']))"

definition ternary_stmt :: "arg \<Rightarrow> item list \<Rightarrow> item list \<Rightarrow> item list res" where
  "ternary_stmt cond t f = if_stmt cond t f"

definition assg :: "arg \<Rightarrow> arg \<Rightarrow> item list res" where
  "assg lvalue_arg rvalue_arg =
     bindR (lift_operand lvalue_arg) (\<lambda>lvalue. bindR (lift_operand rvalue_arg) (\<lambda>rvalue.
     assertR (is_register lvalue)
       (bindR (reg_of lvalue) (\<lambda>reg.
         Inr [emit (IlSetRegister_init (size_of lvalue) reg rvalue)]))))"

definition assg_stmt :: "item list \<Rightarrow> item list" where
  "assg_stmt s = s"

definition assg_binop_stmt :: "arg \<Rightarrow> token \<Rightarrow> arg \<Rightarrow> item list res" where
  "assg_binop_stmt lvalue_arg op rvalue_arg =
     bindR (lift_operand lvalue_arg) (\<lambda>lvalue. bindR (lift_operand rvalue_arg) (\<lambda>rvalue.
       let sz = size_of lvalue; upd = (\<lambda>x. assg (Obj lvalue) (Obj x))
       in if tval op = ''+='' then upd (IlAdd_init sz lvalue rvalue)
          else if tval op = ''-='' then upd (IlSub_init sz lvalue rvalue)
          else if tval op = ''&='' then upd (IlAnd_init sz lvalue rvalue)
          else if tval op = ''^='' then upd (IlXor_init sz lvalue rvalue)
          else if tval op = ''|='' then upd (IlOr_init sz lvalue rvalue)
          else Inl AssertionError))"

section \<open>The traversal\<close>

fun transform_expr :: "expr \<Rightarrow> arg res" where
  "transform_expr (EId t) = Inr (Tok t)"
| "transform_expr (ENeg e) = bindR (bindR (transform_expr e) neg_expr) (\<lambda>x. Inr (Obj x))"
| "transform_expr (ENot e) = bindR (bindR (transform_expr e) not_expr) (\<lambda>x. Inr (Obj x))"
| "transform_expr (EBitNot e) = bindR (bindR (transform_expr e) bit_not_expr) (\<lambda>x. Inr (Obj x))"
| "transform_expr (EBinop a t b) =
     bindR (transform_expr a) (\<lambda>x. bindR (transform_expr b) (\<lambda>y.
     bindR (expr_binop x t y) (\<lambda>z. Inr (Obj z))))"
| "transform_expr (ERelop a t b) =
     bindR (transform_expr a) (\<lambda>x. bindR (transform_expr b) (\<lambda>y.
     bindR (expr_relop x t y) (\<lambda>z. Inr (Obj z))))"
| "transform_expr (ECall ident es) =
     bindR (mapR transform_expr es) (\<lambda>xs. bindR (call_expr ident xs) (\<lambda>z. Inr (Obj z)))"
| "transform_expr (EIndex t e) =
     bindR (transform_expr e) (\<lambda>x. bindR (unexpected x) (\<lambda>z. Inr (Obj z)))"

fun transform_assg :: "token \<times> expr \<Rightarrow> item list res" where
  "transform_assg (t, e) = bindR (transform_expr e) (\<lambda>x. assg (Tok t) x)"

fun transform_stmt :: "string set \<Rightarrow> stmt \<Rightarrow> item list res" where
  "transform_stmt attrs (SIf c t None) =
     bindR (transform_expr c) (\<lambda>cond. bindR (transform_stmt attrs t) (\<lambda>ts. if_stmt cond ts []))"
| "transform_stmt attrs (SIf c t (Some f)) =
     bindR (transform_expr c) (\<lambda>cond. bindR (transform_stmt attrs t) (\<lambda>ts.
     bindR (transform_stmt attrs f) (\<lambda>fs. if_stmt cond ts fs)))"
| "transform_stmt attrs (STernary c t f) =
     bindR (transform_expr c) (\<lambda>cond. bindR (transform_assg t) (\<lambda>ts.
     bindR (transform_assg f) (\<lambda>fs. ternary_stmt cond ts fs)))"
| "transform_stmt attrs (SAssg t e) = bindR (transform_assg (t, e)) (\<lambda>s. Inr (assg_stmt s))"
| "transform_stmt attrs (SAssgBinop t op e) =
     bindR (transform_expr e) (\<lambda>x. assg_binop_stmt (Tok t) op x)"
| "transform_stmt attrs (SCall ident es) =
     bindR (mapR transform_expr es) (\<lambda>xs. call_stmt attrs ident xs)"
| "transform_stmt attrs (SMulti ss) =
     bindR (mapR (transform_stmt attrs) ss) (\<lambda>xs. Inr (multi_stmt xs))"
| "transform_stmt attrs SEmpty = Inr empty_stmt"
| "transform_stmt attrs SCancel = Inr cancel_stmt"

definition transform_fbody :: "string set \<Rightarrow> stmt list \<Rightarrow> item list res" where
  "transform_fbody attrs ss = bindR (mapR (transform_stmt attrs) ss) (\<lambda>xs. Inr (fbody xs))"

end
