(* ===== verification/Il_Closed.thy ===== *)
theory Il_Closed
  imports Il_Transform
begin

text \<open>
  Predicates that the transformer maintains, as an interface. The locale \<open>operand_pred\<close> is a
  predicate on operands that holds of the registers and constants of \<open>lift_operand\<close> and is
  closed under the value constructors; in it every expression macro and operator keeps the
  predicate. \<open>item_pred\<close> adds a predicate on the emitted items, \<open>body_pred\<close> the items of
  \<open>if_stmt\<close>. The sizes of \<open>Il_Typing\<close>, the statements of \<open>Il_Exec\<close> and the printing of
  \<open>Il_Repr\<close> are interpretations. Fallible routines are treated by a small weakest-precondition
  calculus (\<open>ensures\<close>).
\<close>

section \<open>Postconditions of fallible routines\<close>

definition ensures :: "'a res \<Rightarrow> ('a \<Rightarrow> bool) \<Rightarrow> bool" where
  "ensures m P \<longleftrightarrow> (\<forall>x. m = Inr x \<longrightarrow> P x)"

lemma ensuresI: "(\<And>x. m = Inr x \<Longrightarrow> P x) \<Longrightarrow> ensures m P"
  by (simp add: ensures_def)

lemma ensuresD: "ensures m P \<Longrightarrow> m = Inr x \<Longrightarrow> P x"
  by (simp add: ensures_def)

lemma ensures_simps [simp]:
  "ensures (Inr x) P = P x"
  "ensures (Inl e) P"
  "ensures (bindR k f) P = ensures k (\<lambda>x. ensures (f x) P)"
  "ensures (assertR c m) P = (c \<longrightarrow> ensures m P)"
  by (auto simp: ensures_def)

lemma ensures_mono: "ensures m Q \<Longrightarrow> (\<And>x. Q x \<Longrightarrow> P x) \<Longrightarrow> ensures m P"
  by (simp add: ensures_def)

lemma ensures_mapR:
  assumes "\<And>x. x \<in> set xs \<Longrightarrow> ensures (f x) P"
  shows "ensures (mapR f xs) (list_all P)"
  using assms
proof (induction xs)
  case (Cons x xs)
  then show ?case by (fastforce simp: ensures_def)
qed simp

lemma size_init [simp]:
  "size_of (IlRegister_init n r) = n"
  "size_of (IlConst_init n c) = n"
  "size_of (IlConstPointer_init n s) = n"
  "size_of (IlRegisterSplit_init n h l) = n"
  "size_of (IlReadGP_init n) = n"
  "size_of (IlLowPart_init n a) = n"
  "size_of (IlZeroExtend_init n a) = n"
  "size_of (IlSignExtend_init n a) = n"
  "size_of (IlNot_init n a) = n"
  "size_of (IlNeg_init n a) = n"
  "size_of (IlBoolToInt_init n a) = n"
  "size_of (IlAdd_init n a b) = n"
  "size_of (IlSub_init n a b) = n"
  "size_of (IlOr_init n a b) = n"
  "size_of (IlAnd_init n a b) = n"
  "size_of (IlXor_init n a b) = n"
  "size_of (IlShiftLeft_init n a b) = n"
  "size_of (IlLogicalShiftRight_init n a b) = n"
  "size_of (IlArithShiftRight_init n a b) = n"
  "size_of (IlRotateLeft_init n a b) = n"
  "size_of (IlMult_init n a b) = n"
  "size_of (IlCompareEqual_init n a b) = n"
  "size_of (IlCompareNotEqual_init n a b) = n"
  "size_of (IlCompareSignedGreaterThan_init n a b) = n"
  "size_of (IlCompareSignedGreaterEqual_init n a b) = n"
  "size_of (IlCompareSignedLessThan_init n a b) = n"
  "size_of (IlCompareSignedLessEqual_init n a b) = n"
  "size_of (IlCompareUnsignedGreaterThan_init n a b) = n"
  "size_of (IlCompareUnsignedGreaterEqual_init n a b) = n"
  "size_of (IlCompareUnsignedLessThan_init n a b) = n"
  "size_of (IlCompareUnsignedLessEqual_init n a b) = n"
  by (simp_all add: init_defs)

section \<open>Predicates on operands\<close>

text \<open>The names of registers and other texts that the macros write themselves.\<close>

definition fixed_names :: "string list" where
  "fixed_names = [''TMP_REG'', ''WIDTH_REG'', ''OFFSET_REG'', ''SHAMT_REG'', ''EA_REG'', ''HEX_REG_LR'', ''HEX_REG_FP'',
     ''HEX_REG_SP'', ''HEX_REG_USR_LPCFG'', ''HEX_REG_LC0'', ''HEX_REG_LC1'', ''HEX_REG_SA0'', ''HEX_REG_SA1'', ''Pd0'',
     ''Pd1'', ''Pd2'', ''Pd3'', ''pc'', ''BRANCH_TAKEN_ARRAY + insn_num'', ''BRANCHR_DEST_ARRAY + insn_num'', ''COF_TYPE_RETURN'']"

text \<open>An argument of a callback whose operand or token text satisfies the predicate.\<close>

fun arg_with :: "(il_obj \<Rightarrow> bool) \<Rightarrow> (string \<Rightarrow> bool) \<Rightarrow> arg \<Rightarrow> bool" where
  "arg_with ok name (Tok (Token ty v)) = name v"
| "arg_with ok name (Obj x) = ok x"

lemma arg_with_tval [simp]: "arg_with ok name (Tok t) = name (tval t)"
  by (cases t) simp

text \<open>The texts of the tokens of a tree.\<close>

primrec expr_with :: "(string \<Rightarrow> bool) \<Rightarrow> expr \<Rightarrow> bool" where
  "expr_with name (EId t) = name (tval t)"
| "expr_with name (ENeg e) = expr_with name e"
| "expr_with name (ENot e) = expr_with name e"
| "expr_with name (EBitNot e) = expr_with name e"
| "expr_with name (EBinop a t b) = (expr_with name a \<and> expr_with name b)"
| "expr_with name (ERelop a t b) = (expr_with name a \<and> expr_with name b)"
| "expr_with name (ECall t es) = list_all id (map (expr_with name) es)"
| "expr_with name (EIndex t e) = expr_with name e"

lemma expr_with_call [simp]: "expr_with name (ECall t es) = (\<forall>e \<in> set es. expr_with name e)"
  by (auto simp: list_all_iff)

declare expr_with.simps(7) [simp del]

fun stmt_with :: "(string \<Rightarrow> bool) \<Rightarrow> stmt \<Rightarrow> bool" where
  "stmt_with name (SIf c t None) = (expr_with name c \<and> stmt_with name t)"
| "stmt_with name (SIf c t (Some f)) = (expr_with name c \<and> stmt_with name t \<and> stmt_with name f)"
| "stmt_with name (STernary c (l, e) (l', e')) =
     (expr_with name c \<and> name (tval l) \<and> expr_with name e \<and> name (tval l') \<and> expr_with name e')"
| "stmt_with name (SAssg t e) = (name (tval t) \<and> expr_with name e)"
| "stmt_with name (SAssgBinop t op e) = (name (tval t) \<and> expr_with name e)"
| "stmt_with name (SCall t es) = (\<forall>e \<in> set es. expr_with name e)"
| "stmt_with name (SMulti ss) = (\<forall>s \<in> set ss. stmt_with name s)"
| "stmt_with name SEmpty = True"
| "stmt_with name SCancel = True"

lemma expr_with_True [simp]: "expr_with (\<lambda>_. True) e"
  by (induction e) auto

lemma wp_expect [wp_intros]:
  "(\<And>v. a = Tok (Token ty v) \<Longrightarrow> P v) \<Longrightarrow> ensures (expect ty a) P"
  by (cases "(ty, a)" rule: expect.cases) auto

lemma wp_py_int [wp_intros]: "(\<And>n. P n) \<Longrightarrow> ensures (py_int s) P"
  by (simp add: ensures_def)

lemma wp_expect_int [wp_intros]: "(\<And>n. P n) \<Longrightarrow> ensures (expect_int a) P"
  by (simp add: ensures_def)

lemma wp_case_const [wp_intros]:
  "(\<And>n v. ensures (f n v) P) \<Longrightarrow> ensures d P \<Longrightarrow>
     ensures (case x of IlConst n v \<Rightarrow> f n v | _ \<Rightarrow> d) P"
  by (cases x) simp_all

locale operand_pred =
  fixes ok :: "il_obj \<Rightarrow> bool" and name :: "string \<Rightarrow> bool" and sz_ok :: "nat \<Rightarrow> bool"
  assumes sizes [simp]: "sz_ok (Suc 0)" "sz_ok 4" "sz_ok 8"
    and size_ok [simp, intro]: "ok x \<Longrightarrow> sz_ok (size_of x)"
    and fixed: "list_all name fixed_names"
    and update [simp]: "ok (x\<lparr>signed := flag\<rparr>) = ok x"
    and leaf [wp_intros]:
      "name r \<Longrightarrow> sz_ok n \<Longrightarrow> ok (IlRegister_init n r)"
      "name v \<Longrightarrow> sz_ok n \<Longrightarrow> ok (IlConst_init n (CStr v))"
      "sz_ok n \<Longrightarrow> ok (IlConst_init n (CInt k))"
      "name v \<Longrightarrow> ok (IlConstPointer_init 4 v)"
      "name h \<Longrightarrow> name l \<Longrightarrow> ok (IlRegisterSplit_init 4 h l)"
      "ok (IlReadGP_init 4)"
    and unary [wp_intros]:
      "ok a \<Longrightarrow> sz_ok n \<Longrightarrow> ok (IlZeroExtend_init n a)"
      "ok a \<Longrightarrow> sz_ok n \<Longrightarrow> ok (IlSignExtend_init n a)"
      "ok a \<Longrightarrow> sz_ok n \<Longrightarrow> ok (IlNot_init n a)"
      "ok a \<Longrightarrow> sz_ok n \<Longrightarrow> ok (IlNeg_init n a)"
      "ok a \<Longrightarrow> sz_ok n \<Longrightarrow> ok (IlBoolToInt_init n a)"
      "ok a \<Longrightarrow> ok (IlLowPart_init (Suc 0) a)"
      "ok a \<Longrightarrow> ok (IlLowPart_init 4 a)"
      "ok a \<Longrightarrow> sz_ok n \<Longrightarrow> ok (IlSignExtend_init n (IlLowPart_init 2 a))"
      "ok a \<Longrightarrow> sz_ok n \<Longrightarrow> ok (IlZeroExtend_init n (IlLowPart_init 2 a))"
    and binary [wp_intros]:
      "ok a \<Longrightarrow> ok b \<Longrightarrow> sz_ok n \<Longrightarrow> ok (IlAdd_init n a b)"
      "ok a \<Longrightarrow> ok b \<Longrightarrow> sz_ok n \<Longrightarrow> ok (IlSub_init n a b)"
      "ok a \<Longrightarrow> ok b \<Longrightarrow> sz_ok n \<Longrightarrow> ok (IlOr_init n a b)"
      "ok a \<Longrightarrow> ok b \<Longrightarrow> sz_ok n \<Longrightarrow> ok (IlAnd_init n a b)"
      "ok a \<Longrightarrow> ok b \<Longrightarrow> sz_ok n \<Longrightarrow> ok (IlXor_init n a b)"
      "ok a \<Longrightarrow> ok b \<Longrightarrow> sz_ok n \<Longrightarrow> ok (IlShiftLeft_init n a b)"
      "ok a \<Longrightarrow> ok b \<Longrightarrow> sz_ok n \<Longrightarrow> ok (IlLogicalShiftRight_init n a b)"
      "ok a \<Longrightarrow> ok b \<Longrightarrow> sz_ok n \<Longrightarrow> ok (IlArithShiftRight_init n a b)"
      "ok a \<Longrightarrow> ok b \<Longrightarrow> sz_ok n \<Longrightarrow> ok (IlRotateLeft_init n a b)"
      "ok a \<Longrightarrow> ok b \<Longrightarrow> sz_ok n \<Longrightarrow> ok (IlMult_init n a b)"
      "ok a \<Longrightarrow> ok b \<Longrightarrow> sz_ok n \<Longrightarrow> ok (IlCompareEqual_init n a b)"
      "ok a \<Longrightarrow> ok b \<Longrightarrow> sz_ok n \<Longrightarrow> ok (IlCompareNotEqual_init n a b)"
      "ok a \<Longrightarrow> ok b \<Longrightarrow> sz_ok n \<Longrightarrow> ok (IlCompareSignedGreaterThan_init n a b)"
      "ok a \<Longrightarrow> ok b \<Longrightarrow> sz_ok n \<Longrightarrow> ok (IlCompareSignedGreaterEqual_init n a b)"
      "ok a \<Longrightarrow> ok b \<Longrightarrow> sz_ok n \<Longrightarrow> ok (IlCompareSignedLessThan_init n a b)"
      "ok a \<Longrightarrow> ok b \<Longrightarrow> sz_ok n \<Longrightarrow> ok (IlCompareSignedLessEqual_init n a b)"
      "ok a \<Longrightarrow> ok b \<Longrightarrow> sz_ok n \<Longrightarrow> ok (IlCompareUnsignedGreaterThan_init n a b)"
      "ok a \<Longrightarrow> ok b \<Longrightarrow> sz_ok n \<Longrightarrow> ok (IlCompareUnsignedGreaterEqual_init n a b)"
      "ok a \<Longrightarrow> ok b \<Longrightarrow> sz_ok n \<Longrightarrow> ok (IlCompareUnsignedLessThan_init n a b)"
      "ok a \<Longrightarrow> ok b \<Longrightarrow> sz_ok n \<Longrightarrow> ok (IlCompareUnsignedLessEqual_init n a b)"
    and register: "ok x \<Longrightarrow> obj x = IlRegister n r \<Longrightarrow> name r"
begin

abbreviation arg_ok :: "arg \<Rightarrow> bool" where
  "arg_ok \<equiv> arg_with ok name"

lemma name_fixed [simp]:
  "name ''TMP_REG''" "name ''WIDTH_REG''" "name ''OFFSET_REG''" "name ''SHAMT_REG''" "name ''EA_REG''" "name ''HEX_REG_LR''"
  "name ''HEX_REG_FP''" "name ''HEX_REG_SP''" "name ''HEX_REG_USR_LPCFG''" "name ''HEX_REG_LC0''" "name ''HEX_REG_LC1''"
  "name ''HEX_REG_SA0''" "name ''HEX_REG_SA1''" "name ''Pd0''" "name ''Pd1''" "name ''Pd2''" "name ''Pd3''" "name ''pc''"
  "name ''BRANCH_TAKEN_ARRAY + insn_num''" "name ''BRANCHR_DEST_ARRAY + insn_num''" "name ''COF_TYPE_RETURN''"
  using fixed by (simp_all add: fixed_names_def)

lemma reg_operand_ok: "name r \<Longrightarrow> ok (reg_operand r)"
  by (simp add: reg_operand_def leaf)

lemma tmp_operand_ok: "ensures (tmp_operand v) ok"
  by (simp add: tmp_operand_def leaf)

lemma lift_operand_ok: "arg_ok a \<Longrightarrow> ensures (lift_operand a) ok"
  by (induction a rule: lift_operand.induct) (auto simp: tmp_operand_ok reg_operand_ok leaf split: tok_type.split)

lemma wp_lift_operand [wp_intros]:
  "arg_ok a \<Longrightarrow> (\<And>x. ok x \<Longrightarrow> P x) \<Longrightarrow> ensures (lift_operand a) P"
  by (rule ensures_mono [OF lift_operand_ok])

lemma fGETBYTE_ok: "list_all arg_ok args \<Longrightarrow> ensures (macro_expr_fGETBYTE args) ok"
  by (induction args rule: macro_expr_fGETBYTE.induct) (auto simp: Let_def intro!: wp_intros)

lemma fGETUBYTE_ok: "list_all arg_ok args \<Longrightarrow> ensures (macro_expr_fGETUBYTE args) ok"
  by (induction args rule: macro_expr_fGETUBYTE.induct) (auto simp: Let_def intro!: wp_intros)

lemma fGETHALF_ok: "list_all arg_ok args \<Longrightarrow> ensures (macro_expr_fGETHALF args) ok"
  by (induction args rule: macro_expr_fGETHALF.induct) (auto simp: Let_def intro!: wp_intros)

lemma fGETUHALF_ok: "list_all arg_ok args \<Longrightarrow> ensures (macro_expr_fGETUHALF args) ok"
  by (induction args rule: macro_expr_fGETUHALF.induct) (auto simp: Let_def intro!: wp_intros)

lemma fGETWORD_ok: "list_all arg_ok args \<Longrightarrow> ensures (macro_expr_fGETWORD args) ok"
  by (induction args rule: macro_expr_fGETWORD.induct) (auto simp: Let_def intro!: wp_intros)

lemma fGETUWORD_ok: "list_all arg_ok args \<Longrightarrow> ensures (macro_expr_fGETUWORD args) ok"
  by (induction args rule: macro_expr_fGETUWORD.induct) (auto simp: Let_def intro!: wp_intros)

lemma fROTL4_4u_ok: "list_all arg_ok args \<Longrightarrow> ensures (macro_expr_fROTL4_4u args) ok"
  by (induction args rule: macro_expr_fROTL4_4u.induct) (auto simp: Let_def intro!: wp_intros)

lemma fROTL8_8u_ok: "list_all arg_ok args \<Longrightarrow> ensures (macro_expr_fROTL8_8u args) ok"
  by (induction args rule: macro_expr_fROTL8_8u.induct) (auto simp: Let_def intro!: wp_intros)

lemma fREAD_LC_ok: "list_all arg_ok args \<Longrightarrow> ensures (macro_expr_fREAD_LC args) ok"
  by (induction args rule: macro_expr_fREAD_LC.induct) (auto simp: Let_def intro!: wp_intros)

lemma fREAD_SA_ok: "list_all arg_ok args \<Longrightarrow> ensures (macro_expr_fREAD_SA args) ok"
  by (induction args rule: macro_expr_fREAD_SA.induct) (auto simp: Let_def intro!: wp_intros)

lemma fCAST4s_ok: "list_all arg_ok args \<Longrightarrow> ensures (macro_expr_fCAST4s args) ok"
  by (induction args rule: macro_expr_fCAST4s.induct) (auto simp: Let_def intro!: wp_intros)

lemma fCAST4u_ok: "list_all arg_ok args \<Longrightarrow> ensures (macro_expr_fCAST4u args) ok"
  by (induction args rule: macro_expr_fCAST4u.induct) (auto simp: Let_def intro!: wp_intros)

lemma fCAST8s_ok: "list_all arg_ok args \<Longrightarrow> ensures (macro_expr_fCAST8s args) ok"
  by (induction args rule: macro_expr_fCAST8s.induct) (auto simp: Let_def intro!: wp_intros)

lemma fCAST8u_ok: "list_all arg_ok args \<Longrightarrow> ensures (macro_expr_fCAST8u args) ok"
  by (induction args rule: macro_expr_fCAST8u.induct) (auto simp: Let_def intro!: wp_intros)

lemma f8BITSOF_ok: "list_all arg_ok args \<Longrightarrow> ensures (macro_expr_f8BITSOF args) ok"
  by (induction args rule: macro_expr_f8BITSOF.induct) (auto simp: Let_def intro!: wp_intros)

lemma fLSBOLD_ok: "list_all arg_ok args \<Longrightarrow> ensures (macro_expr_fLSBOLD args) ok"
  by (induction args rule: macro_expr_fLSBOLD.induct) (auto simp: Let_def intro!: wp_intros)

lemma fNEWREG_ST_ok: "list_all arg_ok args \<Longrightarrow> ensures (macro_expr_fNEWREG_ST args) ok"
  by (induction args rule: macro_expr_fNEWREG_ST.induct) (auto simp: Let_def intro!: wp_intros)

lemma fNEWREG_ok: "list_all arg_ok args \<Longrightarrow> ensures (macro_expr_fNEWREG args) ok"
  by (induction args rule: macro_expr_fNEWREG.induct) (auto simp: Let_def intro!: wp_intros)

lemma fLSBNEW_ok: "list_all arg_ok args \<Longrightarrow> ensures (macro_expr_fLSBNEW args) ok"
  by (induction args rule: macro_expr_fLSBNEW.induct) (auto simp: Let_def intro!: wp_intros)

lemma fIMMEXT_ok: "list_all arg_ok args \<Longrightarrow> ensures (macro_expr_fIMMEXT args) ok"
  by (induction args rule: macro_expr_fIMMEXT.induct) (auto simp: Let_def intro!: wp_intros)

lemma fMAX_ok: "list_all arg_ok args \<Longrightarrow> ensures (macro_expr_fMAX args) ok"
  by (induction args rule: macro_expr_fMAX.induct) (auto simp: Let_def il_choose_def intro!: wp_intros)

lemma fMIN_ok: "list_all arg_ok args \<Longrightarrow> ensures (macro_expr_fMIN args) ok"
  by (induction args rule: macro_expr_fMIN.induct) (auto simp: Let_def il_choose_def intro!: wp_intros)

lemma fABS_ok: "list_all arg_ok args \<Longrightarrow> ensures (macro_expr_fABS args) ok"
  by (induction args rule: macro_expr_fABS.induct) (auto simp: Let_def intro!: wp_intros)

lemma fBYTESWAP_ok: "list_all arg_ok args \<Longrightarrow> ensures (macro_expr_fBYTESWAP args) ok"
  by (induction args rule: macro_expr_fBYTESWAP.induct) (auto simp: Let_def intro!: wp_intros)

lemma const_macros_ok:
  "ensures (macro_expr_fFRAME_SCRAMBLE args) ok"
  "ensures (macro_expr_fREAD_PC args) ok"
  "ensures (macro_expr_fREAD_LR args) ok"
  "ensures (macro_expr_fREAD_FP args) ok"
  "ensures (macro_expr_fREAD_SP args) ok"
  "ensures (macro_expr_fREAD_GP args) ok"
  "ensures (macro_expr_fREAD_P0 args) ok"
  "ensures (macro_expr_fREAD_LPCFG args) ok"
  by (simp_all add: leaf macro_expr_fFRAME_SCRAMBLE_def macro_expr_fREAD_PC_def macro_expr_fREAD_LR_def macro_expr_fREAD_FP_def macro_expr_fREAD_SP_def macro_expr_fREAD_GP_def macro_expr_fREAD_P0_def macro_expr_fREAD_LPCFG_def)

lemmas macro_expr_ok = fGETBYTE_ok fGETUBYTE_ok fGETHALF_ok fGETUHALF_ok fGETWORD_ok fGETUWORD_ok fROTL4_4u_ok fROTL8_8u_ok fREAD_LC_ok fREAD_SA_ok fCAST4s_ok fCAST4u_ok fCAST8s_ok fCAST8u_ok f8BITSOF_ok fLSBOLD_ok fNEWREG_ST_ok fNEWREG_ok fLSBNEW_ok fIMMEXT_ok fMAX_ok fMIN_ok fABS_ok fBYTESWAP_ok const_macros_ok

lemma call_expr_ok:
  assumes "list_all arg_ok args"
  shows "ensures (call_expr ident args) ok"
proof -
  have "ensures (f args) ok" if "(m, f) \<in> set macro_expr_table" for m f
    using that assms by (auto simp: macro_expr_table_def macro_expr_ok)
  then show ?thesis
    by (auto simp: call_expr_def dest: map_of_SomeD split: option.split)
qed

lemma operator_ok:
  "arg_ok a \<Longrightarrow> ensures (neg_expr a) ok"
  "arg_ok a \<Longrightarrow> ensures (not_expr a) ok"
  "arg_ok a \<Longrightarrow> ensures (bit_not_expr a) ok"
  "arg_ok a \<Longrightarrow> arg_ok b \<Longrightarrow> ensures (expr_binop a t b) ok"
  "arg_ok a \<Longrightarrow> arg_ok b \<Longrightarrow> ensures (expr_relop a t b) ok"
  by (auto simp: neg_expr_def not_expr_def bit_not_expr_def expr_binop_def expr_relop_def
      binop_node_def relop_node_def Let_def intro!: wp_intros)

lemma ensures_into: "ensures m ok \<Longrightarrow> ensures m (\<lambda>x. arg_ok (Obj x))"
  by simp

lemma transform_expr_ok: "expr_with name e \<Longrightarrow> ensures (transform_expr e) arg_ok"
proof (induction e)
  case (EBinop a t b)
  then show ?case
    by (auto intro!: ensures_mono [OF EBinop.IH(1)] ensures_mono [OF EBinop.IH(2)] operator_ok)
next
  case (ERelop a t b)
  then show ?case
    by (auto intro!: ensures_mono [OF ERelop.IH(1)] ensures_mono [OF ERelop.IH(2)] operator_ok)
next
  case (ECall ident es)
  then have "ensures (mapR transform_expr es) (list_all arg_ok)"
    by (intro ensures_mapR) simp
  then show ?case
    by (auto elim!: ensures_mono dest: call_expr_ok)
qed (auto simp: unexpected_def elim!: ensures_mono dest: operator_ok)

lemma args_ok: "\<forall>e \<in> set es. expr_with name e \<Longrightarrow> ensures (mapR transform_expr es) (list_all arg_ok)"
  by (intro ensures_mapR transform_expr_ok) simp

lemma wp_reg_of [wp_intros]:
  assumes "ok x" "\<And>r. name r \<Longrightarrow> P r"
  shows "ensures (reg_of x) P"
  using assms register [OF assms(1)] by (auto simp: reg_of_def ensures_def split: il.splits)

lemma set_field_ok [wp_intros]:
  "ok dst \<Longrightarrow> ok val \<Longrightarrow> ok (set_field m bits n dst val)"
  by (auto simp: set_field_def Let_def intro!: wp_intros)

end

section \<open>Predicates on items\<close>

locale item_pred = operand_pred +
  fixes iok :: "item \<Rightarrow> bool"
  assumes assigns [wp_intros]: "name r \<Longrightarrow> sz_ok n \<Longrightarrow> ok x \<Longrightarrow> iok (emit (IlSetRegister_init n r x))"
    and loads [wp_intros]:
      "name r \<Longrightarrow> sz_ok n \<Longrightarrow> ok a \<Longrightarrow> iok (emit (IlSetRegister_init n r (IlLoad_init k a)))"
      "name r \<Longrightarrow> sz_ok n \<Longrightarrow> ok a \<Longrightarrow> iok (emit (IlSetRegister_init n r (IlSignExtend_init n (IlLoad_init k a))))"
      "name r \<Longrightarrow> sz_ok n \<Longrightarrow> ok a \<Longrightarrow> iok (emit (IlSetRegister_init n r (IlZeroExtend_init n (IlLoad_init k a))))"
    and stores [wp_intros]: "ok a \<Longrightarrow> ok x \<Longrightarrow> iok (emit (IlStore_init k a x))"
    and branches [wp_intros]: "ok x \<Longrightarrow> iok (emit (IlJump_init x))" "ok x \<Longrightarrow> iok (emit (IlCall_init x))"
      "ok x \<Longrightarrow> iok (emit (IlReturn_init x))"
    and traps [simp]: "iok (emit IlSystemCall_init)" "iok (emit IlBreakpoint_init)"
    and pcalign [wp_intros]: "name v \<Longrightarrow> iok (Raw (pcalign_line v))"
begin

abbreviation items_ok :: "item list res \<Rightarrow> bool" where
  "items_ok m \<equiv> ensures m (list_all iok)"

lemma fIMMEXT_items: "list_all arg_ok args \<Longrightarrow> items_ok (macro_stmt_fIMMEXT args)"
  by (induction args rule: macro_stmt_fIMMEXT.induct) (auto simp: Let_def intro!: wp_intros)

lemma fPCALIGN_items: "list_all arg_ok args \<Longrightarrow> items_ok (macro_stmt_fPCALIGN args)"
  by (induction args rule: macro_stmt_fPCALIGN.induct) (auto simp: Let_def intro!: wp_intros)

lemma fTRAP_items: "list_all arg_ok args \<Longrightarrow> items_ok (macro_stmt_fTRAP args)"
  by (induction args rule: macro_stmt_fTRAP.induct) (auto simp: Let_def intro!: wp_intros)

lemma fBREAK_items: "list_all arg_ok args \<Longrightarrow> items_ok (macro_stmt_fBREAK args)"
  by (induction args rule: macro_stmt_fBREAK.induct) (auto simp: Let_def intro!: wp_intros)

lemma fSTORE_items: "list_all arg_ok args \<Longrightarrow> items_ok (macro_stmt_fSTORE args)"
  by (induction args rule: macro_stmt_fSTORE.induct) (auto simp: Let_def intro!: wp_intros)

lemma fSTORE_LOCKED_items: "list_all arg_ok args \<Longrightarrow> items_ok (macro_stmt_fSTORE_LOCKED args)"
  by (induction args rule: macro_stmt_fSTORE_LOCKED.induct) (auto simp: Let_def intro!: wp_intros)

lemma fLOAD_items: "list_all arg_ok args \<Longrightarrow> items_ok (macro_stmt_fLOAD args)"
  by (induction args rule: macro_stmt_fLOAD.induct) (auto simp: Let_def intro!: wp_intros)

lemma fWRITE_LOOP_REGS_items: "list_all arg_ok args \<Longrightarrow> items_ok (macro_stmt_fWRITE_LOOP_REGS args)"
  by (induction args rule: macro_stmt_fWRITE_LOOP_REGS.induct) (auto simp: Let_def intro!: wp_intros)

lemma fWRITE_LC_items: "list_all arg_ok args \<Longrightarrow> items_ok (macro_stmt_fWRITE_LC args)"
  by (induction args rule: macro_stmt_fWRITE_LC.induct) (auto simp: Let_def intro!: wp_intros)

lemma fSETHALF_items: "list_all arg_ok args \<Longrightarrow> items_ok (macro_stmt_fSETHALF args)"
  by (induction args rule: macro_stmt_fSETHALF.induct) (auto simp: Let_def intro!: wp_intros)

lemma fSETWORD_items: "list_all arg_ok args \<Longrightarrow> items_ok (macro_stmt_fSETWORD args)"
  by (induction args rule: macro_stmt_fSETWORD.induct) (auto simp: Let_def intro!: wp_intros)

lemma items_ifI:
  "items_ok m \<Longrightarrow> items_ok k \<Longrightarrow> items_ok (if c then m else k)"
  "list_all iok xs \<Longrightarrow> list_all iok ys \<Longrightarrow> list_all iok (if c then xs else ys)"
  by simp_all

lemma fBRANCH_items: "list_all arg_ok args \<Longrightarrow> items_ok (macro_stmt_fBRANCH attrs args)"
  by (induction attrs args rule: macro_stmt_fBRANCH.induct)
     (auto simp: Let_def intro!: wp_intros items_ifI split del: if_split)

lemma fJUMPR_items: "list_all arg_ok args \<Longrightarrow> items_ok (macro_stmt_fJUMPR attrs args)"
  by (induction attrs args rule: macro_stmt_fJUMPR.induct)
     (auto intro!: fBRANCH_items simp del: macro_stmt_fBRANCH.simps split: arg.split)

lemma write_reg_items:
  "list_all arg_ok args \<Longrightarrow> name r \<Longrightarrow> sz_ok n \<Longrightarrow> items_ok (write_reg n r args)"
  by (induction n r args rule: write_reg.induct) (auto intro!: wp_intros)

lemma write_macros_items:
  "list_all arg_ok args \<Longrightarrow> items_ok (macro_stmt_fWRITE_FP args)"
  "list_all arg_ok args \<Longrightarrow> items_ok (macro_stmt_fWRITE_LR args)"
  "list_all arg_ok args \<Longrightarrow> items_ok (macro_stmt_fWRITE_SP args)"
  "list_all arg_ok args \<Longrightarrow> items_ok (macro_stmt_fWRITE_P0 args)"
  "list_all arg_ok args \<Longrightarrow> items_ok (macro_stmt_fWRITE_P1 args)"
  "list_all arg_ok args \<Longrightarrow> items_ok (macro_stmt_fWRITE_P2 args)"
  "list_all arg_ok args \<Longrightarrow> items_ok (macro_stmt_fWRITE_P3 args)"
  "list_all arg_ok args \<Longrightarrow> items_ok (macro_stmt_fSET_LPCFG args)"
  by (simp_all add: write_reg_items macro_stmt_fWRITE_FP_def
      macro_stmt_fWRITE_LR_def
      macro_stmt_fWRITE_SP_def
      macro_stmt_fWRITE_P0_def
      macro_stmt_fWRITE_P1_def
      macro_stmt_fWRITE_P2_def
      macro_stmt_fWRITE_P3_def
      macro_stmt_fSET_LPCFG_def)

lemmas macro_stmt_items = fIMMEXT_items fPCALIGN_items fTRAP_items fBREAK_items fSTORE_items fSTORE_LOCKED_items fLOAD_items fWRITE_LOOP_REGS_items fWRITE_LC_items fSETHALF_items fSETWORD_items
  fBRANCH_items fJUMPR_items write_macros_items

lemma call_stmt_items:
  assumes "list_all arg_ok args"
  shows "items_ok (call_stmt attrs ident args)"
proof -
  have "items_ok (f args)" if "(m, f) \<in> set (macro_stmt_table attrs)" for m f
    using that assms by (auto simp: macro_stmt_table_def macro_stmt_items)
  then show ?thesis
    by (auto simp: call_stmt_def dest: map_of_SomeD split: option.split)
qed

lemma assg_items: "arg_ok a \<Longrightarrow> arg_ok b \<Longrightarrow> items_ok (assg a b)"
  by (auto simp: assg_def intro!: wp_intros)

lemma assg_binop_items:
  "arg_ok a \<Longrightarrow> arg_ok b \<Longrightarrow> items_ok (assg_binop_stmt a op b)"
  by (auto simp: assg_binop_stmt_def Let_def intro!: wp_intros assg_items)

lemma transform_assg_items: "name (tval t) \<Longrightarrow> expr_with name e \<Longrightarrow> items_ok (transform_assg (t, e))"
  by (auto intro!: ensures_mono [OF transform_expr_ok] assg_items)

end

text \<open>Every statement but \<open>if\<close>, the conditional assignment and blocks emits only such items.\<close>

fun is_leaf :: "stmt \<Rightarrow> bool" where
  "is_leaf (SIf _ _ _) = False"
| "is_leaf (STernary _ _ _) = False"
| "is_leaf (SMulti _) = False"
| "is_leaf _ = True"

context item_pred begin

lemma leaf_items: "is_leaf st \<Longrightarrow> stmt_with name st \<Longrightarrow> items_ok (transform_stmt attrs st)"
  by (cases st)
     (auto simp: assg_stmt_def empty_stmt_def cancel_stmt_def simp del: transform_assg.simps
       intro!: ensures_mono [OF args_ok] ensures_mono [OF transform_expr_ok]
         call_stmt_items assg_binop_items transform_assg_items)

end

text \<open>With the items of \<open>if_stmt\<close>, every statement.\<close>

locale body_pred = item_pred +
  assumes block [simp]: "iok (Raw ''{ LowLevelILLabel true_case, false_case, done;'')" "iok (Raw ''{ LowLevelILLabel true_case, done;'')"
      "iok (Raw ''}'')" "iok (Label ''true_case'')" "iok (Label ''false_case'')" "iok (Label ''done'')"
    and ifs [wp_intros]: "ok c \<Longrightarrow> iok (emit (IlIf_init c ''true_case'' ''false_case''))"
      "ok c \<Longrightarrow> iok (emit (IlIf_init c ''true_case'' ''done''))"
    and gotos [simp]: "iok (emit (IlGoto_init ''done''))"
begin

lemma if_stmt_items: "arg_ok c \<Longrightarrow> list_all iok ts \<Longrightarrow> list_all iok fs \<Longrightarrow> items_ok (if_stmt c ts fs)"
  by (cases c) (auto simp: if_stmt_def intro!: wp_intros)

lemma transform_stmt_items: "stmt_with name st \<Longrightarrow> items_ok (transform_stmt attrs st)"
proof (induction st)
  case (SIf c t f)
  then show ?case
    by (cases f) (auto intro!: ensures_mono [OF transform_expr_ok] ensures_mono [OF SIf.IH(1)] ensures_mono [OF SIf.IH(2)] if_stmt_items)
next
  case (STernary c t f)
  then show ?case
    by (cases t; cases f) (auto simp: ternary_stmt_def simp del: transform_assg.simps intro!: ensures_mono [OF transform_expr_ok]
        ensures_mono [OF transform_assg_items] if_stmt_items)
next
  case (SMulti ss)
  then have "ensures (mapR (transform_stmt attrs) ss) (list_all (list_all iok))" by (intro ensures_mapR) simp
  then show ?case by (auto simp: multi_stmt_def list_all_iff elim!: ensures_mono)
qed (rule leaf_items; simp)+

lemma transform_fbody_items:
  assumes "\<forall>s \<in> set ss. stmt_with name s"
  shows "items_ok (transform_fbody attrs ss)"
proof -
  have "ensures (mapR (transform_stmt attrs) ss) (list_all (list_all iok))"
    using assms by (intro ensures_mapR transform_stmt_items) simp
  then show ?thesis by (auto simp: transform_fbody_def fbody_def list_all_iff elim!: ensures_mono)
qed

end

end
