(* ===== verification/Il_Typing.thy ===== *)
theory Il_Typing
  imports Il_Closed
begin

text \<open>
  The sizes of the operands the transformer builds. \<open>il_expr\<close> says that a node is an
  expression all of whose parts are expressions of the register sizes 1, 4, 8 (2 only under a
  widening), \<open>operand_ok\<close> that an object is such an expression, \<open>item_ok\<close> that an item is an
  instruction on such expressions. They are predicates as \<open>Il_Closed\<close> wants them.
\<close>

section \<open>Expressions and operands\<close>

definition operand_size :: "nat \<Rightarrow> bool" where
  "operand_size n \<longleftrightarrow> n = 1 \<or> n = 4 \<or> n = 8"

lemma operand_size_simps [simp]: "operand_size (Suc 0)" "operand_size 4" "operand_size 8"
  by (simp_all add: operand_size_def)

primrec il_expr :: "il \<Rightarrow> bool" where
  "il_expr (IlSetRegister n r v) = False"
| "il_expr (IlRegister n r) = (operand_size n)"
| "il_expr (IlSetRegisterSplit n h l v) = False"
| "il_expr (IlRegisterSplit n h l) = (n = 4)"
| "il_expr (IlConst n v) = (operand_size n)"
| "il_expr (IlConstPointer n v) = (n = 4)"
| "il_expr (IlLowPart n a) = (n \<in> {1, 2, 4} \<and> il_expr a)"
| "il_expr (IlZeroExtend n a) = (operand_size n \<and> il_expr a)"
| "il_expr (IlSignExtend n a) = (operand_size n \<and> il_expr a)"
| "il_expr (IlAdd n a b) = (operand_size n \<and> il_expr a \<and> il_expr b)"
| "il_expr (IlSub n a b) = (operand_size n \<and> il_expr a \<and> il_expr b)"
| "il_expr (IlOr n a b) = (operand_size n \<and> il_expr a \<and> il_expr b)"
| "il_expr (IlAnd n a b) = (operand_size n \<and> il_expr a \<and> il_expr b)"
| "il_expr (IlXor n a b) = (operand_size n \<and> il_expr a \<and> il_expr b)"
| "il_expr (IlNot n a) = (operand_size n \<and> il_expr a)"
| "il_expr (IlNeg n a) = (operand_size n \<and> il_expr a)"
| "il_expr (IlStore n a v) = False"
| "il_expr (IlLoad n a) = il_expr a"
| "il_expr (IlJump d) = False"
| "il_expr (IlCall d) = False"
| "il_expr (IlReturn d) = False"
| "il_expr (IlShiftLeft n a b) = (operand_size n \<and> il_expr a \<and> il_expr b)"
| "il_expr (IlLogicalShiftRight n a b) = (operand_size n \<and> il_expr a \<and> il_expr b)"
| "il_expr (IlArithShiftRight n a b) = (operand_size n \<and> il_expr a \<and> il_expr b)"
| "il_expr (IlRotateLeft n a b) = (operand_size n \<and> il_expr a \<and> il_expr b)"
| "il_expr (IlMult n a b) = (operand_size n \<and> il_expr a \<and> il_expr b)"
| "il_expr (IlTrap k) = False"
| "il_expr IlSystemCall = False"
| "il_expr IlBreakpoint = False"
| "il_expr (IlBoolToInt n a) = (operand_size n \<and> il_expr a)"
| "il_expr (IlCompareEqual n a b) = (operand_size n \<and> il_expr a \<and> il_expr b)"
| "il_expr (IlCompareNotEqual n a b) = (operand_size n \<and> il_expr a \<and> il_expr b)"
| "il_expr (IlCompareSignedGreaterThan n a b) = (operand_size n \<and> il_expr a \<and> il_expr b)"
| "il_expr (IlCompareUnsignedGreaterThan n a b) = (operand_size n \<and> il_expr a \<and> il_expr b)"
| "il_expr (IlCompareSignedGreaterEqual n a b) = (operand_size n \<and> il_expr a \<and> il_expr b)"
| "il_expr (IlCompareSignedLessThan n a b) = (operand_size n \<and> il_expr a \<and> il_expr b)"
| "il_expr (IlCompareUnsignedGreaterEqual n a b) = (operand_size n \<and> il_expr a \<and> il_expr b)"
| "il_expr (IlCompareUnsignedLessThan n a b) = (operand_size n \<and> il_expr a \<and> il_expr b)"
| "il_expr (IlCompareSignedLessEqual n a b) = (operand_size n \<and> il_expr a \<and> il_expr b)"
| "il_expr (IlCompareUnsignedLessEqual n a b) = (operand_size n \<and> il_expr a \<and> il_expr b)"
| "il_expr (IlIf c t f) = False"
| "il_expr (IlGoto l) = False"
| "il_expr (IlPush n v) = False"
| "il_expr (IlPop n) = False"
| "il_expr (IlReadGP n) = (n = 4)"

definition operand_ok :: "il_obj \<Rightarrow> bool" where
  "operand_ok x \<longleftrightarrow> il_expr (obj x) \<and> operand_size (size_of x)"

lemma operand_ok_update [simp]: "operand_ok (x\<lparr>signed := b\<rparr>) = operand_ok x"
  by (simp add: operand_ok_def)

lemma operand_ok_size [simp, intro]: "operand_ok x \<Longrightarrow> operand_size (size_of x)"
  by (simp add: operand_ok_def)

lemma operand_ok_leaf [simp]:
  "operand_ok (IlRegister_init n r) = operand_size n"
  "operand_ok (IlConst_init n c) = operand_size n"
  "operand_ok (IlConstPointer_init 4 s)"
  "operand_ok (IlRegisterSplit_init 4 h l)"
  "operand_ok (IlReadGP_init 4)"
  by (simp_all add: operand_ok_def init_defs)

lemma operand_ok_unary [wp_intros]:
  "operand_ok a \<Longrightarrow> operand_size n \<Longrightarrow> operand_ok (IlZeroExtend_init n a)"
  "operand_ok a \<Longrightarrow> operand_size n \<Longrightarrow> operand_ok (IlSignExtend_init n a)"
  "operand_ok a \<Longrightarrow> operand_size n \<Longrightarrow> operand_ok (IlNot_init n a)"
  "operand_ok a \<Longrightarrow> operand_size n \<Longrightarrow> operand_ok (IlNeg_init n a)"
  "operand_ok a \<Longrightarrow> operand_size n \<Longrightarrow> operand_ok (IlBoolToInt_init n a)"
  by (simp_all add: operand_ok_def init_defs)

lemma operand_ok_low [wp_intros]:
  "operand_ok a \<Longrightarrow> operand_ok (IlLowPart_init (Suc 0) a)"
  "operand_ok a \<Longrightarrow> operand_ok (IlLowPart_init 4 a)"
  "operand_ok a \<Longrightarrow> operand_size n \<Longrightarrow> operand_ok (IlSignExtend_init n (IlLowPart_init 2 a))"
  "operand_ok a \<Longrightarrow> operand_size n \<Longrightarrow> operand_ok (IlZeroExtend_init n (IlLowPart_init 2 a))"
  by (simp_all add: operand_ok_def init_defs)

lemma operand_ok_binary [wp_intros]:
  "operand_ok a \<Longrightarrow> operand_ok b \<Longrightarrow> operand_size n \<Longrightarrow> operand_ok (IlAdd_init n a b)"
  "operand_ok a \<Longrightarrow> operand_ok b \<Longrightarrow> operand_size n \<Longrightarrow> operand_ok (IlSub_init n a b)"
  "operand_ok a \<Longrightarrow> operand_ok b \<Longrightarrow> operand_size n \<Longrightarrow> operand_ok (IlOr_init n a b)"
  "operand_ok a \<Longrightarrow> operand_ok b \<Longrightarrow> operand_size n \<Longrightarrow> operand_ok (IlAnd_init n a b)"
  "operand_ok a \<Longrightarrow> operand_ok b \<Longrightarrow> operand_size n \<Longrightarrow> operand_ok (IlXor_init n a b)"
  "operand_ok a \<Longrightarrow> operand_ok b \<Longrightarrow> operand_size n \<Longrightarrow> operand_ok (IlShiftLeft_init n a b)"
  "operand_ok a \<Longrightarrow> operand_ok b \<Longrightarrow> operand_size n \<Longrightarrow> operand_ok (IlLogicalShiftRight_init n a b)"
  "operand_ok a \<Longrightarrow> operand_ok b \<Longrightarrow> operand_size n \<Longrightarrow> operand_ok (IlArithShiftRight_init n a b)"
  "operand_ok a \<Longrightarrow> operand_ok b \<Longrightarrow> operand_size n \<Longrightarrow> operand_ok (IlRotateLeft_init n a b)"
  "operand_ok a \<Longrightarrow> operand_ok b \<Longrightarrow> operand_size n \<Longrightarrow> operand_ok (IlMult_init n a b)"
  "operand_ok a \<Longrightarrow> operand_ok b \<Longrightarrow> operand_size n \<Longrightarrow> operand_ok (IlCompareEqual_init n a b)"
  "operand_ok a \<Longrightarrow> operand_ok b \<Longrightarrow> operand_size n \<Longrightarrow> operand_ok (IlCompareNotEqual_init n a b)"
  "operand_ok a \<Longrightarrow> operand_ok b \<Longrightarrow> operand_size n \<Longrightarrow> operand_ok (IlCompareSignedGreaterThan_init n a b)"
  "operand_ok a \<Longrightarrow> operand_ok b \<Longrightarrow> operand_size n \<Longrightarrow> operand_ok (IlCompareSignedGreaterEqual_init n a b)"
  "operand_ok a \<Longrightarrow> operand_ok b \<Longrightarrow> operand_size n \<Longrightarrow> operand_ok (IlCompareSignedLessThan_init n a b)"
  "operand_ok a \<Longrightarrow> operand_ok b \<Longrightarrow> operand_size n \<Longrightarrow> operand_ok (IlCompareSignedLessEqual_init n a b)"
  "operand_ok a \<Longrightarrow> operand_ok b \<Longrightarrow> operand_size n \<Longrightarrow> operand_ok (IlCompareUnsignedGreaterThan_init n a b)"
  "operand_ok a \<Longrightarrow> operand_ok b \<Longrightarrow> operand_size n \<Longrightarrow> operand_ok (IlCompareUnsignedGreaterEqual_init n a b)"
  "operand_ok a \<Longrightarrow> operand_ok b \<Longrightarrow> operand_size n \<Longrightarrow> operand_ok (IlCompareUnsignedLessThan_init n a b)"
  "operand_ok a \<Longrightarrow> operand_ok b \<Longrightarrow> operand_size n \<Longrightarrow> operand_ok (IlCompareUnsignedLessEqual_init n a b)"
  by (simp_all add: operand_ok_def init_defs)

lemma operand_ok_expr [simp, intro]: "operand_ok x \<Longrightarrow> il_expr (obj x)"
  by (simp add: operand_ok_def)

interpretation typing: operand_pred operand_ok "\<lambda>_. True" operand_size
  by unfold_locales (simp_all add: list_all_iff operand_ok_unary operand_ok_low operand_ok_binary)


end
