(* ===== verification/Il_Exec.thy ===== *)
theory Il_Exec
  imports Il_Typing
begin

text \<open>
  The instructions and the control flow of a lifter body. \<open>straight\<close> and \<open>item_ok\<close> say which items
  the callbacks emit; \<open>exec\<close> reads a body the way the generated C++ and
  Binary Ninja do: an \<open>IlIf\<close> or \<open>IlGoto\<close> continues after the label of that name in
  the same C++ block (\<open>skip_to\<close> looks for it, stepping over nested blocks), an instruction
  of a branch class is not emitted, every other instruction is one \<open>step\<close>. The machine
  state, the test of a condition and \<open>step\<close> are parameters. \<open>sem_stmt\<close> is the
  structured meaning of a statement, and \<open>exec_transform_stmt\<close> proves that the flat body
  computes it.
\<close>

section \<open>The instructions a body is made of\<close>

definition insn_ok :: "il \<Rightarrow> bool" where
  "insn_ok x = (case x of
     IlSetRegister n r v \<Rightarrow> operand_size n \<and> il_expr v
   | IlStore n a v \<Rightarrow> il_expr a \<and> il_expr v
   | IlJump d \<Rightarrow> il_expr d
   | IlCall d \<Rightarrow> il_expr d
   | IlReturn d \<Rightarrow> il_expr d
   | IlSystemCall \<Rightarrow> True
   | IlBreakpoint \<Rightarrow> True
   | _ \<Rightarrow> False)"

definition opens_block :: "string \<Rightarrow> bool" where
  "opens_block r \<longleftrightarrow>
     r = ''{ LowLevelILLabel true_case, false_case, done;'' \<or> r = ''{ LowLevelILLabel true_case, done;''"

definition closes_block :: "string \<Rightarrow> bool" where
  "closes_block r \<longleftrightarrow> r = ''}''"

text \<open>The items of a statement without control flow.\<close>

fun straight :: "item \<Rightarrow> bool" where
  "straight (Insn x) = insn_ok x"
| "straight (Label l) = False"
| "straight (Raw r) = (\<not> opens_block r \<and> \<not> closes_block r)"

lemma insn_ok_simps [simp]:
  "insn_ok (obj (IlSetRegister_init n r v)) = (operand_size n \<and> il_expr (obj v))"
  "insn_ok (obj (IlStore_init n a v)) = (il_expr (obj a) \<and> il_expr (obj v))"
  "insn_ok (obj (IlJump_init d)) = il_expr (obj d)"
  "insn_ok (obj (IlCall_init d)) = il_expr (obj d)"
  "insn_ok (obj (IlReturn_init d)) = il_expr (obj d)"
  "insn_ok (obj IlSystemCall_init)"
  "insn_ok (obj IlBreakpoint_init)"
  by (simp_all add: insn_ok_def init_defs)

lemma il_expr_load [simp]:
  "il_expr (obj (IlLoad_init n a)) = il_expr (obj a)"
  "il_expr (obj (IlSignExtend_init n x)) = (operand_size n \<and> il_expr (obj x))"
  "il_expr (obj (IlZeroExtend_init n x)) = (operand_size n \<and> il_expr (obj x))"
  by (simp_all add: init_defs)

lemma pcalign_straight [simp]:
  "\<not> opens_block (pcalign_line v)" "\<not> closes_block (pcalign_line v)"
proof -
  have "rev (pcalign_line v) \<noteq> rev r"
    if "r \<in> {''{ LowLevelILLabel true_case, false_case, done;'', ''{ LowLevelILLabel true_case, done;'', ''}''}" for r
    using that by (auto simp: pcalign_line_def)
  then show "\<not> opens_block (pcalign_line v)" "\<not> closes_block (pcalign_line v)"
    by (auto simp: opens_block_def closes_block_def)
qed

abbreviation straight_result :: "item list res \<Rightarrow> bool" where
  "straight_result m \<equiv> ensures m (list_all straight)"

interpretation straight: item_pred operand_ok "\<lambda>_. True" operand_size straight
  by unfold_locales simp_all

lemma stmt_with_True [simp]: "stmt_with (\<lambda>_. True) st"
proof (induction st)
  case (SIf c t f)
  then show ?case by (cases f) simp_all
next
  case (STernary c t f)
  then show ?case by (cases t; cases f) simp
qed simp_all

lemma transform_assg_straight: "straight_result (transform_assg a)"
  by (cases a) (simp add: straight.transform_assg_items del: transform_assg.simps)

lemma leaf_straight: "is_leaf st \<Longrightarrow> straight_result (transform_stmt attrs st)"
  by (rule straight.leaf_items) simp_all

text \<open>The items of a whole body: also conditional jumps on expressions, gotos, labels and lines of C++.\<close>

fun item_ok :: "item \<Rightarrow> bool" where
  "item_ok (Insn (IlIf c t f)) = il_expr c"
| "item_ok (Insn (IlGoto l)) = True"
| "item_ok (Insn x) = insn_ok x"
| "item_ok _ = True"

declare item_ok.simps [simp del]

lemma item_ok_simps [simp]:
  "insn_ok x \<Longrightarrow> item_ok (Insn x)" "item_ok (Insn (IlIf c t f)) = il_expr c" "item_ok (Insn (IlGoto l))"
  "item_ok (Label l)" "item_ok (Raw r)"
  by (cases x; simp add: insn_ok_def item_ok.simps) (simp_all add: item_ok.simps)

interpretation body: body_pred operand_ok "\<lambda>_. True" operand_size item_ok
  by unfold_locales (simp_all add: IlIf_init_def IlGoto_init_def IlExprId_init_def)

text \<open>C4: Type soundness of lifter bodies: everything the callbacks emit for a function body is an instruction that Binary Ninja can execute, an assignment of an expression to a register of 1, 4 or 8 bytes, a store, jump, call or return on expressions, a conditional jump on an expression, a goto, a system call or a breakpoint, or a label or line of C++. No statement ends up inside an expression and no bare expression is emitted as an instruction.\<close>

theorem transform_fbody_typed:
  assumes "transform_fbody attrs ss = Inr its"
  shows "\<forall>x. Insn x \<in> set its \<longrightarrow> insn_ok x \<or> (\<exists>c t f. x = IlIf c t f \<and> il_expr c) \<or> (\<exists>l. x = IlGoto l)"
proof (intro allI impI)
  fix x assume x: "Insn x \<in> set its"
  have "list_all item_ok its"
    using body.transform_fbody_items [of ss attrs] assms by (auto intro: ensuresD)
  then have "item_ok (Insn x)" using x by (simp add: list_all_iff)
  then show "insn_ok x \<or> (\<exists>c t f. x = IlIf c t f \<and> il_expr c) \<or> (\<exists>l. x = IlGoto l)"
    by (cases x) (simp_all add: item_ok.simps)
qed

theorem transform_fbody_typed_witness:
  "insn_ok (IlSetRegister 4 ''RdV'' (IlRegister 4 ''RsV''))"
proof -
  have "transform_fbody {} [SAssg (Token REG_OLD ''RdV'') (EId (Token REG_OLD ''RsV''))] =
      Inr [Insn (IlSetRegister 4 ''RdV'' (IlRegister 4 ''RsV''))]"
    by (simp add: transform_fbody_def fbody_def assg_stmt_def assg_def is_register_def reg_of_def reg_operand_def
        starts_with_def pair_search_def init_defs)
  from transform_fbody_typed [OF this] show ?thesis by simp
qed

section \<open>Reading a body\<close>

fun skip_to :: "string \<Rightarrow> nat \<Rightarrow> item list \<Rightarrow> item list option" where
  "skip_to l d [] = None"
| "skip_to l d (Insn x # xs) = skip_to l d xs"
| "skip_to l d (Label k # xs) = (if d = 0 \<and> k = l then Some xs else skip_to l d xs)"
| "skip_to l d (Raw r # xs) =
     (if opens_block r then skip_to l (Suc d) xs
      else if closes_block r then (case d of 0 \<Rightarrow> None | Suc d' \<Rightarrow> skip_to l d' xs)
      else skip_to l d xs)"

lemma skip_to_length: "skip_to l d xs = Some ys \<Longrightarrow> length ys < length xs"
  by (induction l d xs rule: skip_to.induct) (fastforce split: if_splits nat.splits)+

function exec :: "('s \<Rightarrow> il \<Rightarrow> bool) \<Rightarrow> (il \<Rightarrow> 's \<Rightarrow> 's) \<Rightarrow> item list \<Rightarrow> 's \<Rightarrow> 's option" where
  "exec tst step [] s = Some s"
| "exec tst step (Label l # xs) s = exec tst step xs s"
| "exec tst step (Raw r # xs) s = exec tst step xs s"
| "exec tst step (Insn x # xs) s =
     (case x of
        IlIf c t f \<Rightarrow>
          (case skip_to (if tst s c then t else f) 0 xs of
             None \<Rightarrow> None | Some ys \<Rightarrow> exec tst step ys s)
      | IlGoto l \<Rightarrow> (case skip_to l 0 xs of None \<Rightarrow> None | Some ys \<Rightarrow> exec tst step ys s)
      | _ \<Rightarrow> exec tst step xs (if is_branch x then s else step x s))"
  by pat_completeness auto
termination
  by (relation "measure (\<lambda>(tst, step, xs, s). length xs)") (auto dest: skip_to_length)

section \<open>The structured meaning of a statement\<close>

fun item_step :: "(il \<Rightarrow> 's \<Rightarrow> 's) \<Rightarrow> item \<Rightarrow> 's \<Rightarrow> 's" where
  "item_step step (Insn x) s = (if is_branch x then s else step x s)"
| "item_step step _ s = s"

definition run_items :: "(il \<Rightarrow> 's \<Rightarrow> 's) \<Rightarrow> item list res \<Rightarrow> 's \<Rightarrow> 's" where
  "run_items step m s = (case m of Inl _ \<Rightarrow> s | Inr xs \<Rightarrow> fold (item_step step) xs s)"

definition cond_holds :: "('s \<Rightarrow> il \<Rightarrow> bool) \<Rightarrow> expr \<Rightarrow> 's \<Rightarrow> bool" where
  "cond_holds tst c s = (case transform_expr c of Inr (Obj x) \<Rightarrow> tst s (obj x) | _ \<Rightarrow> False)"

fun sem_stmt :: "('s \<Rightarrow> il \<Rightarrow> bool) \<Rightarrow> (il \<Rightarrow> 's \<Rightarrow> 's) \<Rightarrow> string set \<Rightarrow> stmt \<Rightarrow> 's \<Rightarrow> 's" where
  "sem_stmt tst step attrs (SIf c t f) s =
     (if cond_holds tst c s then sem_stmt tst step attrs t s
      else (case f of None \<Rightarrow> s | Some f' \<Rightarrow> sem_stmt tst step attrs f' s))"
| "sem_stmt tst step attrs (STernary c t f) s =
     run_items step (transform_assg (if cond_holds tst c s then t else f)) s"
| "sem_stmt tst step attrs (SMulti ss) s = fold (sem_stmt tst step attrs) ss s"
| "sem_stmt tst step attrs st s = run_items step (transform_stmt attrs st) s"

definition sem_fbody :: "('s \<Rightarrow> il \<Rightarrow> bool) \<Rightarrow> (il \<Rightarrow> 's \<Rightarrow> 's) \<Rightarrow> string set \<Rightarrow> stmt list \<Rightarrow> 's \<Rightarrow> 's" where
  "sem_fbody tst step attrs ss s = fold (sem_stmt tst step attrs) ss s"

section \<open>The flat body computes the structured meaning\<close>

text \<open>
  A list of items that a search for a label passes over (\<open>passes\<close>), and that runs to its end
  and changes the state by \<open>g\<close> (\<open>computes\<close>).
\<close>

definition passes :: "item list \<Rightarrow> bool" where
  "passes xs \<longleftrightarrow> (\<forall>l d ys. skip_to l d (xs @ ys) = skip_to l d ys)"

definition computes :: "('s \<Rightarrow> il \<Rightarrow> bool) \<Rightarrow> (il \<Rightarrow> 's \<Rightarrow> 's) \<Rightarrow> item list \<Rightarrow> ('s \<Rightarrow> 's) \<Rightarrow> bool" where
  "computes tst step xs g \<longleftrightarrow> (\<forall>ys s. exec tst step (xs @ ys) s = exec tst step ys (g s))"

lemma passes_append: "passes xs \<Longrightarrow> passes ys \<Longrightarrow> passes (xs @ ys)"
  by (simp add: passes_def)

lemma computes_append:
  "computes tst step xs g \<Longrightarrow> computes tst step ys h \<Longrightarrow> computes tst step (xs @ ys) (\<lambda>s. h (g s))"
  by (simp add: computes_def)

lemma passes_straight: "list_all straight xs \<Longrightarrow> passes xs"
proof (induction xs)
  case (Cons x xs)
  then show ?case by (cases x) (auto simp: passes_def)
qed (simp add: passes_def)

lemma insn_ok_exec:
  "insn_ok x \<Longrightarrow> exec tst step (Insn x # xs) s = exec tst step xs (if is_branch x then s else step x s)"
  by (cases x) (simp_all add: insn_ok_def)

lemma computes_straight: "list_all straight xs \<Longrightarrow> computes tst step xs (fold (item_step step) xs)"
proof (induction xs)
  case (Cons x xs)
  then show ?case
    by (cases x) (simp_all add: computes_def insn_ok_exec del: exec.simps(4))
qed (simp add: computes_def)

lemma if_stmt_passes:
  assumes "if_stmt c ts fs = Inr xs" "passes ts" "passes fs"
  shows "passes xs"
  using assms
  by (auto simp: if_stmt_def passes_def opens_block_def closes_block_def init_defs
      split: arg.splits if_splits)

lemma if_stmt_computes:
  assumes "if_stmt (Obj c) ts fs = Inr xs" "passes ts" "passes fs"
    and "computes tst step ts g" "computes tst step fs h"
  shows "computes tst step xs (\<lambda>s. if tst s (obj c) then g s else h s)"
proof -
  have "exec tst step ys (h s) = exec tst step ys s" if "fs = []" for ys s
    using assms(5) that by (metis append_Nil computes_def)
  with assms show ?thesis
    by (auto simp: if_stmt_def passes_def computes_def opens_block_def closes_block_def init_defs
        split: if_splits)
qed

lemma if_stmt_cond: "if_stmt cond ts fs = Inr xs \<Longrightarrow> \<exists>c. cond = Obj c"
  by (cases cond) (simp_all add: if_stmt_def)

lemma computes_multi:
  assumes "mapR (transform_stmt attrs) ss = Inr xss"
    and "\<And>st xs. st \<in> set ss \<Longrightarrow> transform_stmt attrs st = Inr xs \<Longrightarrow>
           passes xs \<and> computes tst step xs (sem_stmt tst step attrs st)"
  shows "passes (concat xss) \<and> computes tst step (concat xss) (fold (sem_stmt tst step attrs) ss)"
  using assms
proof (induction ss arbitrary: xss)
  case Nil
  then show ?case by (simp add: passes_def computes_def)
next
  case (Cons st ss)
  then obtain xs xss' where parts: "transform_stmt attrs st = Inr xs"
      "mapR (transform_stmt attrs) ss = Inr xss'" "xss = xs # xss'"
    by auto
  with Cons have "passes xs \<and> computes tst step xs (sem_stmt tst step attrs st)"
    and "passes (concat xss') \<and> computes tst step (concat xss') (fold (sem_stmt tst step attrs) ss)"
    by auto
  with parts show ?case by (auto intro: passes_append computes_append)
qed

lemma leaf_computes:
  assumes "is_leaf st" "transform_stmt attrs st = Inr xs"
  shows "passes xs \<and> computes tst step xs (sem_stmt tst step attrs st)"
proof -
  have "list_all straight xs"
    using leaf_straight [OF assms(1), of attrs] assms(2) by (rule ensuresD)
  moreover have "sem_stmt tst step attrs st = fold (item_step step) xs"
    using assms by (cases st) (simp_all add: fun_eq_iff run_items_def del: transform_stmt.simps)
  ultimately show ?thesis by (simp add: passes_straight computes_straight)
qed

lemma exec_transform_stmt:
  "transform_stmt attrs st = Inr xs \<Longrightarrow>
     passes xs \<and> computes tst step xs (sem_stmt tst step attrs st)"
proof (induction st arbitrary: xs)
  case (SIf c t f)
  obtain cond ts where ct: "transform_expr c = Inr cond" "transform_stmt attrs t = Inr ts"
    using SIf.prems by (cases f) auto
  obtain fs h where fs: "if_stmt cond ts fs = Inr xs" "passes fs" "computes tst step fs h"
      "h = (\<lambda>s. case f of None \<Rightarrow> s | Some f' \<Rightarrow> sem_stmt tst step attrs f' s)"
  proof (cases f)
    case None
    then show ?thesis using SIf.prems ct that [of "[]"] by (simp add: passes_def computes_def)
  next
    case (Some f')
    then show ?thesis using SIf.prems SIf.IH(2) [of f'] ct that by auto
  qed
  obtain x where "cond = Obj x" using if_stmt_cond [OF fs(1)] by blast
  then have "computes tst step xs (\<lambda>s. if tst s (obj x) then sem_stmt tst step attrs t s else h s)"
    using if_stmt_computes fs SIf.IH(1) [OF ct(2)] by blast
  moreover have "passes xs" using if_stmt_passes fs SIf.IH(1) [OF ct(2)] by blast
  ultimately show ?case
    using ct \<open>cond = Obj x\<close> by (simp add: cond_holds_def computes_def fs(4))
next
  case (STernary c t f)
  then obtain cond ts fs where p: "transform_expr c = Inr cond" "transform_assg t = Inr ts"
      "transform_assg f = Inr fs" "if_stmt cond ts fs = Inr xs"
    by (auto simp: ternary_stmt_def simp del: transform_assg.simps)
  obtain x where "cond = Obj x" using if_stmt_cond [OF p(4)] by blast
  have st: "list_all straight ts" "list_all straight fs"
    using ensuresD [OF transform_assg_straight] p(2,3) by blast+
  have "computes tst step xs
      (\<lambda>s. if tst s (obj x) then fold (item_step step) ts s else fold (item_step step) fs s)"
    using p(4) st \<open>cond = Obj x\<close>
    by (auto intro!: if_stmt_computes passes_straight computes_straight)
  moreover have "passes xs"
    using p(4) st by (auto intro: if_stmt_passes passes_straight)
  ultimately show ?case
    using p \<open>cond = Obj x\<close>
    by (simp add: run_items_def cond_holds_def computes_def del: transform_assg.simps)
next
  case (SMulti ss)
  then show ?case by (auto simp: multi_stmt_def intro!: computes_multi)
qed (rule leaf_computes; simp)+

end
