(* ===== verification/Il_Repr.thy ===== *)
theory Il_Repr
  imports Il_Exec
begin

text \<open>
  Reading back what \<open>__repr__\<close> prints. A text with brackets is read into a bracket tree
  (\<open>read_tree\<close>, one pass with a stack of open brackets), and the tree of a printed IL node into
  the node (\<open>il_of\<close>). What the lifter generator writes can be read back, so two different IL
  trees never have the same C++ text. The reader is a specification; the C++ compiler plays its part.
\<close>

section \<open>Bracket trees\<close>

text \<open>Texts with argument lists after them, and a last text.\<close>

datatype btree = Item "(string \<times> btree list) list" string

fun show_tree :: "btree \<Rightarrow> string" where
  "show_tree (Item ps s) = concat (map (\<lambda>(f, ts). f @ ''('' @ str_join '', '' (map show_tree ts) @ '')'') ps) @ s"

definition plain :: "string \<Rightarrow> bool" where
  "plain s \<longleftrightarrow> list_all (\<lambda>c. c \<notin> {CHR ''('', CHR '')'', CHR '','', CHR 0x0a}) s"

fun tree_ok :: "btree \<Rightarrow> bool" where
  "tree_ok (Item ps s) \<longleftrightarrow> plain s \<and> (\<forall>(f, ts) \<in> set ps. plain f \<and> ts \<noteq> [] \<and> (\<forall>t \<in> set ts. tree_ok t))"

text \<open>The state of the reader: the open brackets, and the arguments, pieces and text read since the last one.\<close>

type_synonym frame = "btree list \<times> (string \<times> btree list) list \<times> string"

fun read_from :: "frame list \<Rightarrow> frame \<Rightarrow> string \<Rightarrow> btree option" where
  "read_from st (args, ps, cur) [] = (if st = [] \<and> args = [] then Some (Item ps cur) else None)"
| "read_from st (args, ps, cur) (c # s) =
     (if c = CHR ''('' then read_from ((args, ps, cur) # st) ([], [], []) s
      else if c = CHR '','' then
        (if st \<noteq> [] \<and> starts_with s '' '' then read_from st (args @ [Item ps cur], [], []) (drop 1 s) else None)
      else if c = CHR '')'' then
        (case st of
           [] \<Rightarrow> None
         | (args', ps', cur') # st' \<Rightarrow> read_from st' (args', ps' @ [(cur', args @ [Item ps cur])], []) s)
      else read_from st (args, ps, cur @ [c]) s)"

definition read_tree :: "string \<Rightarrow> btree option" where
  "read_tree s = read_from [] ([], [], []) s"

lemma read_plain: "plain f \<Longrightarrow> read_from st (args, ps, cur) (f @ s) = read_from st (args, ps, cur @ f) s"
  by (induction f arbitrary: cur) (auto simp: plain_def)

lemma read_args:
  assumes "\<And>t st args s. t \<in> set ts \<Longrightarrow> tree_ok t \<Longrightarrow>
      read_from st (args, [], []) (show_tree t @ s) = (case t of Item ps cur \<Rightarrow> read_from st (args, ps, cur) s)"
    and "\<forall>t \<in> set ts. tree_ok t" "ts \<noteq> []"
  shows "read_from ((args', ps', f) # st) (args, [], []) (str_join '', '' (map show_tree ts) @ '')'' @ s) =
    read_from st (args', ps' @ [(f, args @ ts)], []) s"
  using assms
proof (induction ts arbitrary: args)
  case (Cons t ts)
  obtain ps cur where t: "t = Item ps cur" by (cases t)
  note one = Cons.prems(1) [of t, unfolded t btree.case]
  show ?case
  proof (cases "ts = []")
    case True
    then show ?thesis using one Cons.prems(2) by (simp add: t del: show_tree.simps)
  next
    case False
    then have "str_join '', '' (map show_tree (t # ts)) = show_tree t @ '', '' @ str_join '', '' (map show_tree ts)"
      by (cases ts) simp_all
    moreover have "read_from ((args', ps', f) # st) (args @ [t], [], []) (str_join '', '' (map show_tree ts) @ '')'' @ s) =
        read_from st (args', ps' @ [(f, (args @ [t]) @ ts)], []) s"
      using Cons.IH Cons.prems False by simp
    ultimately show ?thesis using one Cons.prems(2) by (simp add: t starts_with_def del: show_tree.simps)
  qed
qed simp

lemma read_show:
  "tree_ok t \<Longrightarrow> read_from st (args, [], []) (show_tree t @ s) = (case t of Item ps cur \<Rightarrow> read_from st (args, ps, cur) s)"
proof (induction t arbitrary: st args s)
  case (Item qs cur)
  have "read_from st (args, ps, []) (concat (map (\<lambda>(f, ts). f @ ''('' @ str_join '', '' (map show_tree ts) @ '')'') us) @ cur @ s) =
      read_from st (args, ps @ us, cur) s" if "set us \<subseteq> set qs" for us ps
    using that
  proof (induction us arbitrary: ps)
    case Nil
    then show ?case using Item.prems by (simp add: read_plain)
  next
    case (Cons u us)
    obtain f ts where u: "u = (f, ts)" by force
    then have m: "(f, ts) \<in> set qs" "set us \<subseteq> set qs" using Cons.prems by simp_all
    then have f: "plain f" "ts \<noteq> []" "\<forall>t \<in> set ts. tree_ok t" using Item.prems by auto
    have ih: "read_from st (args, [], []) (show_tree t @ s) = (case t of Item ps cur \<Rightarrow> read_from st (args, ps, cur) s)"
      if "t \<in> set ts" "tree_ok t" for t st args s
      using Item.IH [OF m(1) _ that] by simp
    show ?case using Cons.IH [OF m(2)] f
      by (simp add: u read_plain read_args [OF ih f(3,2), simplified])
  qed
  from this [of qs "[]"] show ?case by simp
qed

lemma read_tree_show: "tree_ok t \<Longrightarrow> read_tree (show_tree t) = Some t"
  using read_show [of t "[]" "[]" "[]"] by (cases t) (simp add: read_tree_def)

section \<open>IL as bracket trees\<close>

abbreviation call_tree :: "string \<Rightarrow> btree list \<Rightarrow> btree" where
  "call_tree f ts \<equiv> Item [(f, ts)] []"

abbreviation atom :: "string \<Rightarrow> btree" where
  "atom s \<equiv> Item [] s"

abbreviation gp_tree :: "nat \<Rightarrow> btree" where
  "gp_tree n \<equiv> call_tree [] [Item [(''insn.extension_valid ? il.Const'', [atom (show_nat n), atom ''0'']),
     ('' : il.Register'', [atom (show_nat n), atom ''HEX_REG_GP''])] []]"

primrec il_tree :: "il \<Rightarrow> btree" where
  "il_tree (IlSetRegister n r a) = call_tree ''il.SetRegister'' [atom (show_nat n), atom r, il_tree a]"
| "il_tree (IlRegister n r) = call_tree ''il.Register'' [atom (show_nat n), atom r]"
| "il_tree (IlSetRegisterSplit n r r' a) = call_tree ''il.SetRegisterSplit'' [atom (show_nat n), atom r, atom r', il_tree a]"
| "il_tree (IlRegisterSplit n r r') = call_tree ''il.RegisterSplit'' [atom (show_nat n), atom r, atom r']"
| "il_tree (IlConst n r) = call_tree ''il.Const'' [atom (show_nat n), atom r]"
| "il_tree (IlConstPointer n r) = call_tree ''il.ConstPointer'' [atom (show_nat n), atom r]"
| "il_tree (IlLowPart n a) = call_tree ''il.LowPart'' [atom (show_nat n), il_tree a]"
| "il_tree (IlZeroExtend n a) = call_tree ''il.ZeroExtend'' [atom (show_nat n), il_tree a]"
| "il_tree (IlSignExtend n a) = call_tree ''il.SignExtend'' [atom (show_nat n), il_tree a]"
| "il_tree (IlAdd n a a') = call_tree ''il.Add'' [atom (show_nat n), il_tree a, il_tree a']"
| "il_tree (IlSub n a a') = call_tree ''il.Sub'' [atom (show_nat n), il_tree a, il_tree a']"
| "il_tree (IlOr n a a') = call_tree ''il.Or'' [atom (show_nat n), il_tree a, il_tree a']"
| "il_tree (IlAnd n a a') = call_tree ''il.And'' [atom (show_nat n), il_tree a, il_tree a']"
| "il_tree (IlXor n a a') = call_tree ''il.Xor'' [atom (show_nat n), il_tree a, il_tree a']"
| "il_tree (IlNot n a) = call_tree ''il.Not'' [atom (show_nat n), il_tree a]"
| "il_tree (IlNeg n a) = call_tree ''il.Neg'' [atom (show_nat n), il_tree a]"
| "il_tree (IlStore n a a') = call_tree ''il.Store'' [atom (show_nat n), il_tree a, il_tree a']"
| "il_tree (IlLoad n a) = call_tree ''il.Load'' [atom (show_nat n), il_tree a]"
| "il_tree (IlJump a) = call_tree ''il.Jump'' [il_tree a]"
| "il_tree (IlCall a) = call_tree ''il.Call'' [il_tree a]"
| "il_tree (IlReturn a) = call_tree ''il.Return'' [il_tree a]"
| "il_tree (IlShiftLeft n a a') = call_tree ''il.ShiftLeft'' [atom (show_nat n), il_tree a, il_tree a']"
| "il_tree (IlLogicalShiftRight n a a') = call_tree ''il.LogicalShiftRight'' [atom (show_nat n), il_tree a, il_tree a']"
| "il_tree (IlArithShiftRight n a a') = call_tree ''il.ArithShiftRight'' [atom (show_nat n), il_tree a, il_tree a']"
| "il_tree (IlRotateLeft n a a') = call_tree ''il.RotateLeft'' [atom (show_nat n), il_tree a, il_tree a']"
| "il_tree (IlMult n a a') = call_tree ''il.Mult'' [atom (show_nat n), il_tree a, il_tree a']"
| "il_tree (IlTrap a) = call_tree ''il.Trap'' [atom (il_const_val a)]"
| "il_tree IlSystemCall = call_tree ''il.SystemCall'' [atom []]"
| "il_tree IlBreakpoint = call_tree ''il.Breakpoint'' [atom []]"
| "il_tree (IlBoolToInt n a) = call_tree ''il.BoolToInt'' [atom (show_nat n), il_tree a]"
| "il_tree (IlCompareEqual n a a') = call_tree ''il.CompareEqual'' [atom (show_nat n), il_tree a, il_tree a']"
| "il_tree (IlCompareNotEqual n a a') = call_tree ''il.CompareNotEqual'' [atom (show_nat n), il_tree a, il_tree a']"
| "il_tree (IlCompareSignedGreaterThan n a a') = call_tree ''il.CompareSignedGreaterThan'' [atom (show_nat n), il_tree a, il_tree a']"
| "il_tree (IlCompareUnsignedGreaterThan n a a') = call_tree ''il.CompareUnsignedGreaterThan'' [atom (show_nat n), il_tree a, il_tree a']"
| "il_tree (IlCompareSignedGreaterEqual n a a') = call_tree ''il.CompareSignedGreaterEqual'' [atom (show_nat n), il_tree a, il_tree a']"
| "il_tree (IlCompareSignedLessThan n a a') = call_tree ''il.CompareSignedLessThan'' [atom (show_nat n), il_tree a, il_tree a']"
| "il_tree (IlCompareUnsignedGreaterEqual n a a') = call_tree ''il.CompareUnsignedGreaterEqual'' [atom (show_nat n), il_tree a, il_tree a']"
| "il_tree (IlCompareUnsignedLessThan n a a') = call_tree ''il.CompareUnsignedLessThan'' [atom (show_nat n), il_tree a, il_tree a']"
| "il_tree (IlCompareSignedLessEqual n a a') = call_tree ''il.CompareSignedLessEqual'' [atom (show_nat n), il_tree a, il_tree a']"
| "il_tree (IlCompareUnsignedLessEqual n a a') = call_tree ''il.CompareUnsignedLessEqual'' [atom (show_nat n), il_tree a, il_tree a']"
| "il_tree (IlIf a r r') = call_tree ''il.If'' [il_tree a, atom r, atom r']"
| "il_tree (IlGoto r) = call_tree ''il.Goto'' [atom r]"
| "il_tree (IlPush n a) = call_tree ''il.Push'' [atom (show_nat n), il_tree a]"
| "il_tree (IlPop n) = call_tree ''il.Pop'' [atom (show_nat n)]"
| "il_tree (IlReadGP n) = gp_tree n"

lemma show_call [simp]: "show_tree (call_tree f ts) = cc_call f (map show_tree ts)"
  by (simp add: cc_call_def)

lemma show_atom [simp]: "show_tree (atom s) = s"
  by simp

lemma il_repr_tree: "il_repr x = show_tree (il_tree x)"
  by (induction x) (simp_all add: repr_defs del: show_tree.simps, simp_all add: cc_call_def)

text \<open>The texts of a node have no bracket, comma or newline. (A trap prints the value of its constant without the size; no callback builds one.)\<close>

primrec printable :: "il \<Rightarrow> bool" where
  "printable (IlSetRegister n r a) = (plain r \<and> printable a)"
| "printable (IlRegister n r) = plain r"
| "printable (IlSetRegisterSplit n r r' a) = (plain r \<and> plain r' \<and> printable a)"
| "printable (IlRegisterSplit n r r') = (plain r \<and> plain r')"
| "printable (IlConst n r) = plain r"
| "printable (IlConstPointer n r) = plain r"
| "printable (IlLowPart n a) = printable a"
| "printable (IlZeroExtend n a) = printable a"
| "printable (IlSignExtend n a) = printable a"
| "printable (IlAdd n a a') = (printable a \<and> printable a')"
| "printable (IlSub n a a') = (printable a \<and> printable a')"
| "printable (IlOr n a a') = (printable a \<and> printable a')"
| "printable (IlAnd n a a') = (printable a \<and> printable a')"
| "printable (IlXor n a a') = (printable a \<and> printable a')"
| "printable (IlNot n a) = printable a"
| "printable (IlNeg n a) = printable a"
| "printable (IlStore n a a') = (printable a \<and> printable a')"
| "printable (IlLoad n a) = printable a"
| "printable (IlJump a) = printable a"
| "printable (IlCall a) = printable a"
| "printable (IlReturn a) = printable a"
| "printable (IlShiftLeft n a a') = (printable a \<and> printable a')"
| "printable (IlLogicalShiftRight n a a') = (printable a \<and> printable a')"
| "printable (IlArithShiftRight n a a') = (printable a \<and> printable a')"
| "printable (IlRotateLeft n a a') = (printable a \<and> printable a')"
| "printable (IlMult n a a') = (printable a \<and> printable a')"
| "printable (IlTrap a) = False"
| "printable IlSystemCall = True"
| "printable IlBreakpoint = True"
| "printable (IlBoolToInt n a) = printable a"
| "printable (IlCompareEqual n a a') = (printable a \<and> printable a')"
| "printable (IlCompareNotEqual n a a') = (printable a \<and> printable a')"
| "printable (IlCompareSignedGreaterThan n a a') = (printable a \<and> printable a')"
| "printable (IlCompareUnsignedGreaterThan n a a') = (printable a \<and> printable a')"
| "printable (IlCompareSignedGreaterEqual n a a') = (printable a \<and> printable a')"
| "printable (IlCompareSignedLessThan n a a') = (printable a \<and> printable a')"
| "printable (IlCompareUnsignedGreaterEqual n a a') = (printable a \<and> printable a')"
| "printable (IlCompareUnsignedLessThan n a a') = (printable a \<and> printable a')"
| "printable (IlCompareSignedLessEqual n a a') = (printable a \<and> printable a')"
| "printable (IlCompareUnsignedLessEqual n a a') = (printable a \<and> printable a')"
| "printable (IlIf a r r') = (printable a \<and> plain r \<and> plain r')"
| "printable (IlGoto r) = plain r"
| "printable (IlPush n a) = printable a"
| "printable (IlPop n) = True"
| "printable (IlReadGP n) = True"

lemma plain_show_nat [simp]: "plain (show_nat n)"
  using show_nat_digits(1) [of n] by (auto simp: plain_def list_all_iff is_digit_def)

lemma plain_literals [simp]: "plain []" "plain (c # s) \<longleftrightarrow> c \<notin> {CHR ''('', CHR '')'', CHR '','', CHR 0x0a} \<and> plain s"
  by (simp_all add: plain_def)

lemma il_tree_ok: "printable x \<Longrightarrow> tree_ok (il_tree x)"
  by (induction x) simp_all

section \<open>Reading IL\<close>

fun text_of :: "btree \<Rightarrow> string option" where
  "text_of (Item [] s) = Some s"
| "text_of _ = None"

text \<open>The arguments of a constructor: sizes, texts and nodes.\<close>

fun take_none :: "(il) \<Rightarrow> string option list \<Rightarrow> il option list \<Rightarrow> il option" where
  "take_none C [Some []] [_] = Some C"
| "take_none C _ _ = None"

fun take_e :: "(il \<Rightarrow> il) \<Rightarrow> string option list \<Rightarrow> il option list \<Rightarrow> il option" where
  "take_e C [_] [Some a] = Some (C a)"
| "take_e C _ _ = None"

fun take_ess :: "(il \<Rightarrow> string \<Rightarrow> string \<Rightarrow> il) \<Rightarrow> string option list \<Rightarrow> il option list \<Rightarrow> il option" where
  "take_ess C [_, Some r, Some r'] [Some a, _, _] = Some (C a r r')"
| "take_ess C _ _ = None"

fun take_n :: "(nat \<Rightarrow> il) \<Rightarrow> string option list \<Rightarrow> il option list \<Rightarrow> il option" where
  "take_n C [Some n] [_] = (case py_int n of Inr k \<Rightarrow> Some (C k) | Inl _ \<Rightarrow> None)"
| "take_n C _ _ = None"

fun take_ne :: "(nat \<Rightarrow> il \<Rightarrow> il) \<Rightarrow> string option list \<Rightarrow> il option list \<Rightarrow> il option" where
  "take_ne C [Some n, _] [_, Some a] = (case py_int n of Inr k \<Rightarrow> Some (C k a) | Inl _ \<Rightarrow> None)"
| "take_ne C _ _ = None"

fun take_nee :: "(nat \<Rightarrow> il \<Rightarrow> il \<Rightarrow> il) \<Rightarrow> string option list \<Rightarrow> il option list \<Rightarrow> il option" where
  "take_nee C [Some n, _, _] [_, Some a, Some a'] = (case py_int n of Inr k \<Rightarrow> Some (C k a a') | Inl _ \<Rightarrow> None)"
| "take_nee C _ _ = None"

fun take_ns :: "(nat \<Rightarrow> string \<Rightarrow> il) \<Rightarrow> string option list \<Rightarrow> il option list \<Rightarrow> il option" where
  "take_ns C [Some n, Some r] [_, _] = (case py_int n of Inr k \<Rightarrow> Some (C k r) | Inl _ \<Rightarrow> None)"
| "take_ns C _ _ = None"

fun take_nse :: "(nat \<Rightarrow> string \<Rightarrow> il \<Rightarrow> il) \<Rightarrow> string option list \<Rightarrow> il option list \<Rightarrow> il option" where
  "take_nse C [Some n, Some r, _] [_, _, Some a] = (case py_int n of Inr k \<Rightarrow> Some (C k r a) | Inl _ \<Rightarrow> None)"
| "take_nse C _ _ = None"

fun take_nss :: "(nat \<Rightarrow> string \<Rightarrow> string \<Rightarrow> il) \<Rightarrow> string option list \<Rightarrow> il option list \<Rightarrow> il option" where
  "take_nss C [Some n, Some r, Some r'] [_, _, _] = (case py_int n of Inr k \<Rightarrow> Some (C k r r') | Inl _ \<Rightarrow> None)"
| "take_nss C _ _ = None"

fun take_nsse :: "(nat \<Rightarrow> string \<Rightarrow> string \<Rightarrow> il \<Rightarrow> il) \<Rightarrow> string option list \<Rightarrow> il option list \<Rightarrow> il option" where
  "take_nsse C [Some n, Some r, Some r', _] [_, _, _, Some a] = (case py_int n of Inr k \<Rightarrow> Some (C k r r' a) | Inl _ \<Rightarrow> None)"
| "take_nsse C _ _ = None"

fun take_s :: "(string \<Rightarrow> il) \<Rightarrow> string option list \<Rightarrow> il option list \<Rightarrow> il option" where
  "take_s C [Some r] [_] = Some (C r)"
| "take_s C _ _ = None"

type_synonym reader = "string option list \<Rightarrow> il option list \<Rightarrow> il option"

definition il_readers :: "(string \<times> reader) list" where
  "il_readers = [
     (''il.SetRegister'', take_nse IlSetRegister),
     (''il.Register'', take_ns IlRegister),
     (''il.SetRegisterSplit'', take_nsse IlSetRegisterSplit),
     (''il.RegisterSplit'', take_nss IlRegisterSplit),
     (''il.Const'', take_ns IlConst),
     (''il.ConstPointer'', take_ns IlConstPointer),
     (''il.LowPart'', take_ne IlLowPart),
     (''il.ZeroExtend'', take_ne IlZeroExtend),
     (''il.SignExtend'', take_ne IlSignExtend),
     (''il.Add'', take_nee IlAdd),
     (''il.Sub'', take_nee IlSub),
     (''il.Or'', take_nee IlOr),
     (''il.And'', take_nee IlAnd),
     (''il.Xor'', take_nee IlXor),
     (''il.Not'', take_ne IlNot),
     (''il.Neg'', take_ne IlNeg),
     (''il.Store'', take_nee IlStore),
     (''il.Load'', take_ne IlLoad),
     (''il.Jump'', take_e IlJump),
     (''il.Call'', take_e IlCall),
     (''il.Return'', take_e IlReturn),
     (''il.ShiftLeft'', take_nee IlShiftLeft),
     (''il.LogicalShiftRight'', take_nee IlLogicalShiftRight),
     (''il.ArithShiftRight'', take_nee IlArithShiftRight),
     (''il.RotateLeft'', take_nee IlRotateLeft),
     (''il.Mult'', take_nee IlMult),
     (''il.SystemCall'', take_none IlSystemCall),
     (''il.Breakpoint'', take_none IlBreakpoint),
     (''il.BoolToInt'', take_ne IlBoolToInt),
     (''il.CompareEqual'', take_nee IlCompareEqual),
     (''il.CompareNotEqual'', take_nee IlCompareNotEqual),
     (''il.CompareSignedGreaterThan'', take_nee IlCompareSignedGreaterThan),
     (''il.CompareUnsignedGreaterThan'', take_nee IlCompareUnsignedGreaterThan),
     (''il.CompareSignedGreaterEqual'', take_nee IlCompareSignedGreaterEqual),
     (''il.CompareSignedLessThan'', take_nee IlCompareSignedLessThan),
     (''il.CompareUnsignedGreaterEqual'', take_nee IlCompareUnsignedGreaterEqual),
     (''il.CompareUnsignedLessThan'', take_nee IlCompareUnsignedLessThan),
     (''il.CompareSignedLessEqual'', take_nee IlCompareSignedLessEqual),
     (''il.CompareUnsignedLessEqual'', take_nee IlCompareUnsignedLessEqual),
     (''il.If'', take_ess IlIf),
     (''il.Goto'', take_s IlGoto),
     (''il.Push'', take_ne IlPush),
     (''il.Pop'', take_n IlPop)]"

definition read_gp :: "btree list \<Rightarrow> il option" where
  "read_gp ts =
     (case ts of
        [Item [(f, [a, z]), (g, [b, r])] []] \<Rightarrow>
          if f = ''insn.extension_valid ? il.Const'' \<and> g = '' : il.Register'' \<and> a = b \<and> z = atom ''0'' \<and> r = atom ''HEX_REG_GP''
          then (case text_of a of None \<Rightarrow> None | Some s \<Rightarrow> (case py_int s of Inr n \<Rightarrow> Some (IlReadGP n) | Inl _ \<Rightarrow> None))
          else None
      | _ \<Rightarrow> None)"

fun il_of :: "btree \<Rightarrow> il option" where
  "il_of (Item [(f, ts)] []) =
     (if f = [] then read_gp ts
      else case map_of il_readers f of None \<Rightarrow> None | Some r \<Rightarrow> r (map text_of ts) (map il_of ts))"
| "il_of _ = None"

definition read_il :: "string \<Rightarrow> il option" where
  "read_il s = (case read_tree s of None \<Rightarrow> None | Some t \<Rightarrow> il_of t)"

lemma il_of_call: "f \<noteq> [] \<Longrightarrow> map_of il_readers f = Some r \<Longrightarrow> il_of (call_tree f ts) = r (map text_of ts) (map il_of ts)"
  by simp

lemma readers:
  "map_of il_readers ''il.SetRegister'' = Some (take_nse IlSetRegister)"
  "map_of il_readers ''il.Register'' = Some (take_ns IlRegister)"
  "map_of il_readers ''il.SetRegisterSplit'' = Some (take_nsse IlSetRegisterSplit)"
  "map_of il_readers ''il.RegisterSplit'' = Some (take_nss IlRegisterSplit)"
  "map_of il_readers ''il.Const'' = Some (take_ns IlConst)"
  "map_of il_readers ''il.ConstPointer'' = Some (take_ns IlConstPointer)"
  "map_of il_readers ''il.LowPart'' = Some (take_ne IlLowPart)"
  "map_of il_readers ''il.ZeroExtend'' = Some (take_ne IlZeroExtend)"
  "map_of il_readers ''il.SignExtend'' = Some (take_ne IlSignExtend)"
  "map_of il_readers ''il.Add'' = Some (take_nee IlAdd)"
  "map_of il_readers ''il.Sub'' = Some (take_nee IlSub)"
  "map_of il_readers ''il.Or'' = Some (take_nee IlOr)"
  "map_of il_readers ''il.And'' = Some (take_nee IlAnd)"
  "map_of il_readers ''il.Xor'' = Some (take_nee IlXor)"
  "map_of il_readers ''il.Not'' = Some (take_ne IlNot)"
  "map_of il_readers ''il.Neg'' = Some (take_ne IlNeg)"
  "map_of il_readers ''il.Store'' = Some (take_nee IlStore)"
  "map_of il_readers ''il.Load'' = Some (take_ne IlLoad)"
  "map_of il_readers ''il.Jump'' = Some (take_e IlJump)"
  "map_of il_readers ''il.Call'' = Some (take_e IlCall)"
  "map_of il_readers ''il.Return'' = Some (take_e IlReturn)"
  "map_of il_readers ''il.ShiftLeft'' = Some (take_nee IlShiftLeft)"
  "map_of il_readers ''il.LogicalShiftRight'' = Some (take_nee IlLogicalShiftRight)"
  "map_of il_readers ''il.ArithShiftRight'' = Some (take_nee IlArithShiftRight)"
  "map_of il_readers ''il.RotateLeft'' = Some (take_nee IlRotateLeft)"
  "map_of il_readers ''il.Mult'' = Some (take_nee IlMult)"
  "map_of il_readers ''il.SystemCall'' = Some (take_none IlSystemCall)"
  "map_of il_readers ''il.Breakpoint'' = Some (take_none IlBreakpoint)"
  "map_of il_readers ''il.BoolToInt'' = Some (take_ne IlBoolToInt)"
  "map_of il_readers ''il.CompareEqual'' = Some (take_nee IlCompareEqual)"
  "map_of il_readers ''il.CompareNotEqual'' = Some (take_nee IlCompareNotEqual)"
  "map_of il_readers ''il.CompareSignedGreaterThan'' = Some (take_nee IlCompareSignedGreaterThan)"
  "map_of il_readers ''il.CompareUnsignedGreaterThan'' = Some (take_nee IlCompareUnsignedGreaterThan)"
  "map_of il_readers ''il.CompareSignedGreaterEqual'' = Some (take_nee IlCompareSignedGreaterEqual)"
  "map_of il_readers ''il.CompareSignedLessThan'' = Some (take_nee IlCompareSignedLessThan)"
  "map_of il_readers ''il.CompareUnsignedGreaterEqual'' = Some (take_nee IlCompareUnsignedGreaterEqual)"
  "map_of il_readers ''il.CompareUnsignedLessThan'' = Some (take_nee IlCompareUnsignedLessThan)"
  "map_of il_readers ''il.CompareSignedLessEqual'' = Some (take_nee IlCompareSignedLessEqual)"
  "map_of il_readers ''il.CompareUnsignedLessEqual'' = Some (take_nee IlCompareUnsignedLessEqual)"
  "map_of il_readers ''il.If'' = Some (take_ess IlIf)"
  "map_of il_readers ''il.Goto'' = Some (take_s IlGoto)"
  "map_of il_readers ''il.Push'' = Some (take_ne IlPush)"
  "map_of il_readers ''il.Pop'' = Some (take_n IlPop)"
  by (simp_all add: il_readers_def)

lemma il_of_tree: "printable x \<Longrightarrow> il_of (il_tree x) = Some x"
  by (induction x) (simp_all add: readers read_gp_def)

lemma read_il_repr: "printable x \<Longrightarrow> read_il (il_repr x) = Some x"
  by (simp add: read_il_def il_repr_tree read_tree_show il_tree_ok il_of_tree del: show_tree.simps)

end
