(* ===== verification/Il_Semantics.thy ===== *)
theory Il_Semantics
  imports Il_Exec
begin

text \<open>
  What the lifted expressions mean. The locale \<open>llil\<close> states the documented behaviour of the
  Binary Ninja operations the lifter uses as laws of an evaluator \<open>ev\<close> (a value is the unsigned
  number an expression holds; \<open>cst\<close> gives the value of the C++ literal or variable of a constant),
  and the macros' lemmas are proved from these laws alone. \<open>il_eval\<close> is a concrete evaluator over a
  machine of registers and memory, on which the locale is interpreted, and \<open>il_test\<close> and
  \<open>il_step\<close> run a body with \<open>exec\<close>.
\<close>

unbundle bit_operations_syntax

section \<open>The laws of LLIL\<close>

definition sval :: "nat \<Rightarrow> int \<Rightarrow> int" where
  "sval n x = signed_take_bit (8 * n - 1) x"

definition fits :: "(il \<Rightarrow> int) \<Rightarrow> il_obj \<Rightarrow> bool" where
  "fits ev x \<longleftrightarrow> 0 \<le> ev (obj x) \<and> ev (obj x) < 2 ^ (8 * size_of x)"

locale llil =
  fixes ev :: "il \<Rightarrow> int" and cst :: "string \<Rightarrow> int"
  assumes cst_nat: "cst (show_nat k) = int k"
    and ev_const: "ev (IlConst n v) = take_bit (8 * n) (cst v)"
    and ev_low: "ev (IlLowPart n a) = take_bit (8 * n) (ev a)"
    and ev_zext: "ev (IlZeroExtend n a) = take_bit (8 * n) (take_bit (8 * il_size a) (ev a))"
    and ev_sext: "ev (IlSignExtend n a) = take_bit (8 * n) (sval (il_size a) (ev a))"
    and ev_add: "ev (IlAdd n a b) = take_bit (8 * n) (ev a + ev b)"
    and ev_sub: "ev (IlSub n a b) = take_bit (8 * n) (ev a - ev b)"
    and ev_mult: "ev (IlMult n a b) = take_bit (8 * n) (ev a * ev b)"
    and ev_or: "ev (IlOr n a b) = take_bit (8 * n) (ev a OR ev b)"
    and ev_and: "ev (IlAnd n a b) = take_bit (8 * n) (ev a AND ev b)"
    and ev_xor: "ev (IlXor n a b) = take_bit (8 * n) (ev a XOR ev b)"
    and ev_not: "ev (IlNot n a) = take_bit (8 * n) (NOT (ev a))"
    and ev_neg: "ev (IlNeg n a) = take_bit (8 * n) (- ev a)"
    and ev_shl: "ev (IlShiftLeft n a b) = take_bit (8 * n) (push_bit (nat (ev b)) (ev a))"
    and ev_shr: "ev (IlLogicalShiftRight n a b) = drop_bit (nat (ev b)) (take_bit (8 * n) (ev a))"
    and ev_sar: "ev (IlArithShiftRight n a b) = take_bit (8 * n) (drop_bit (nat (ev b)) (sval n (ev a)))"
    and ev_bool: "ev (IlBoolToInt n a) = of_bool (ev a \<noteq> 0)"
    and ev_eq: "ev (IlCompareEqual n a b) = of_bool (take_bit (8 * n) (ev a) = take_bit (8 * n) (ev b))"
    and ev_ne: "ev (IlCompareNotEqual n a b) = of_bool (take_bit (8 * n) (ev a) \<noteq> take_bit (8 * n) (ev b))"
    and ev_sgt: "ev (IlCompareSignedGreaterThan n a b) = of_bool (sval n (ev b) < sval n (ev a))"
    and ev_sge: "ev (IlCompareSignedGreaterEqual n a b) = of_bool (sval n (ev b) \<le> sval n (ev a))"
    and ev_slt: "ev (IlCompareSignedLessThan n a b) = of_bool (sval n (ev a) < sval n (ev b))"
    and ev_sle: "ev (IlCompareSignedLessEqual n a b) = of_bool (sval n (ev a) \<le> sval n (ev b))"
    and ev_ugt: "ev (IlCompareUnsignedGreaterThan n a b) = of_bool (take_bit (8 * n) (ev b) < take_bit (8 * n) (ev a))"
    and ev_uge: "ev (IlCompareUnsignedGreaterEqual n a b) = of_bool (take_bit (8 * n) (ev b) \<le> take_bit (8 * n) (ev a))"
    and ev_ult: "ev (IlCompareUnsignedLessThan n a b) = of_bool (take_bit (8 * n) (ev a) < take_bit (8 * n) (ev b))"
    and ev_ule: "ev (IlCompareUnsignedLessEqual n a b) = of_bool (take_bit (8 * n) (ev a) \<le> take_bit (8 * n) (ev b))"
begin

lemmas laws = ev_const ev_low ev_zext ev_sext ev_add ev_sub ev_mult ev_or ev_and ev_xor ev_not ev_neg
  ev_shl ev_shr ev_sar ev_bool ev_eq ev_ne ev_sgt ev_sge ev_slt ev_sle ev_ugt ev_uge ev_ult ev_ule

lemma fits_take: "fits ev x \<Longrightarrow> size_of x = n \<Longrightarrow> take_bit (8 * n) (ev (obj x)) = ev (obj x)"
  by (auto simp: fits_def take_bit_int_eq_self)

lemma choose_value:
  assumes "fits ev a" "fits ev b" "size_of a = sz" "size_of b = sz"
    and "ev (obj c) = of_bool p" "ev (obj d) = of_bool (\<not> p)"
  shows "ev (obj (il_choose sz c a d b)) = (if p then ev (obj a) else ev (obj b))"
  using assms by (simp add: il_choose_def init_defs laws fits_take)

lemma const_value: "k < 2 ^ (8 * n) \<Longrightarrow> ev (obj (IlConst_init n (CInt k))) = int k"
  by (simp add: init_defs laws cst_nat take_bit_int_eq_self)

lemma fMAX_val:
  assumes "lift_operand a = Inr x" "lift_operand b = Inr y"
    and "size_of x = size_of y" "fits ev x" "fits ev y" "macro_expr_fMAX [a, b] = Inr r"
  shows "ev (obj r) = (if (if signed x then sval (size_of x) (ev (obj x)) \<ge> sval (size_of x) (ev (obj y))
                      else ev (obj x) \<ge> ev (obj y))
                  then ev (obj x) else ev (obj y))"
  using assms
  by (auto simp: Let_def init_defs laws fits_take choose_value [where p = "ev (obj x) \<ge> ev (obj y)"]
       choose_value [where p = "sval (size_of x) (ev (obj x)) \<ge> sval (size_of x) (ev (obj y))"])

lemma set_field_bits:
  assumes "fits ev dst" "k \<le> 32" "n * k < 256" 
  shows "bit (ev (obj (set_field (2 ^ k - 1) k n dst val))) i \<longleftrightarrow>
    i < 8 * size_of dst \<and>
     (if n * k \<le> i \<and> i < n * k + k then bit (ev (obj val)) (i - n * k) else bit (ev (obj dst)) i)"
proof -
  have m: "take_bit 32 (cst (show_nat (2 ^ k - Suc 0))) = mask k"
  proof -
    have "(2::int) ^ k - 1 < 2 ^ 32"
      using power_increasing [of k 32 "2::int"] assms(2) by linarith
    then show ?thesis
      by (simp add: cst_nat mask_eq_exp_minus_1 of_nat_diff take_bit_int_eq_self)
  qed
  have s: "take_bit 8 (cst (show_nat (n * k))) = int (n * k)"
    using assms(3) by (simp add: cst_nat take_bit_int_eq_self del: of_nat_mult)
  show ?thesis
    using assms
    by (auto simp: set_field_def Let_def init_defs laws m s bit_simps simp del: of_nat_mult)
qed

lemma fMIN_val:
  assumes "lift_operand a = Inr x" "lift_operand b = Inr y"
    and "size_of x = size_of y" "fits ev x" "fits ev y" "macro_expr_fMIN [a, b] = Inr r"
  shows "ev (obj r) = (if (if signed x then sval (size_of x) (ev (obj x)) \<le> sval (size_of x) (ev (obj y))
                      else ev (obj x) \<le> ev (obj y))
                  then ev (obj x) else ev (obj y))"
  using assms
  by (auto simp: Let_def init_defs laws fits_take choose_value [where p = "ev (obj x) \<le> ev (obj y)"]
       choose_value [where p = "sval (size_of x) (ev (obj x)) \<le> sval (size_of x) (ev (obj y))"])

lemma sval_take: "0 < n \<Longrightarrow> take_bit (8 * n) (sval n x) = take_bit (8 * n) x"
  by (rule bit_eqI) (auto simp: sval_def bit_simps)

lemma take_mult: "take_bit m (a * b) = take_bit m (a * take_bit m (b::int))"
  by (simp add: take_bit_eq_mod mod_mult_right_eq)

lemma fABS_val:
  assumes "lift_operand a = Inr x" "signed x" "0 < size_of x" "macro_expr_fABS [a] = Inr r"
  shows "ev (obj r) = take_bit (8 * size_of x) \<bar>sval (size_of x) (ev (obj x))\<bar>"
proof -
  define n where "n = size_of x"
  define v where "v = ev (obj x)"
  have c: "take_bit (8 * n) (2::int) = 2" "take_bit (8 * n) (1::int) = 1" "sval n 0 = 0"
    using assms(3) power_increasing [of 8 "8 * n" "2::int"]
    by (auto simp: n_def sval_def take_bit_int_eq_self)
  have cc: "cst (show_nat 2) = 2" "cst (show_nat (Suc 0)) = 1" "cst (show_nat 0) = 0"
    using cst_nat [of 2] cst_nat [of 1] cst_nat [of 0] by simp_all
  have "ev (obj r) = take_bit (8 * n) ((1 - 2 * of_bool (sval n v < 0)) * v)"
  proof -
    have "take_bit m (take_bit m (1 - take_bit m (2 * of_bool b)) * v) =
        take_bit m ((1 - 2 * of_bool b) * v)" for m b
      by (simp add: take_bit_eq_mod mod_simps)
    moreover have "take_bit m (mask m * v) = take_bit m (- v)" for m
      using mod_mult_self1 [of "- v" v "2 ^ m"]
      by (simp add: take_bit_eq_mod mask_eq_exp_minus_1 algebra_simps)
    ultimately show ?thesis
      using assms by (auto simp: init_defs laws cc c Let_def n_def [symmetric] v_def [symmetric])
  qed
  also have "\<dots> = take_bit (8 * n) ((1 - 2 * of_bool (sval n v < 0)) * sval n v)"
    using sval_take [of n v] assms(3) unfolding n_def by (metis take_mult)
  also have "(1 - 2 * of_bool (sval n v < 0)) * sval n v = \<bar>sval n v\<bar>"
    by (simp add: abs_if)
  finally show ?thesis unfolding n_def v_def .
qed

lemma shift_const: "k < 256 \<Longrightarrow> take_bit 8 (cst (show_nat k)) = int k"
  by (simp add: cst_nat take_bit_int_eq_self)

lemma field_sval: "k + w \<le> 8 * n \<Longrightarrow> 0 < n \<Longrightarrow> take_bit w (drop_bit k (sval n v)) = take_bit w (drop_bit k v)"
proof -
  assume "k + w \<le> 8 * n" "0 < n"
  then have "take_bit w (drop_bit k y) = take_bit w (drop_bit k (take_bit (8 * n) y))" for y :: int
    by (intro bit_eqI) (auto simp: bit_simps)
  then show ?thesis by (metis sval_take \<open>0 < n\<close>)
qed

lemma low_sar:
  assumes "s + 8 * w \<le> 8 * n" "s < 256" "0 < w"
  shows "ev (IlLowPart w (IlArithShiftRight n x (IlConst 1 (show_nat s)))) = take_bit (8 * w) (drop_bit s (ev x))"
  using assms by (simp add: laws shift_const field_sval min_def)

lemma low_shr:
  assumes "s + 8 * w \<le> 8 * n" "s < 256"
  shows "ev (IlLowPart w (IlLogicalShiftRight n x (IlConst 1 (show_nat s)))) = take_bit (8 * w) (drop_bit s (ev x))"
  using assms by (simp add: laws shift_const take_bit_drop_bit min_def)

lemma fGETBYTE_val:
  assumes "expect_int a = Inr k" "lift_operand b = Inr x" "k < size_of x" "size_of x \<le> 8"
    "macro_expr_fGETBYTE [a, b] = Inr r"
  shows "ev (obj r) = take_bit 8 (drop_bit (8 * k) (ev (obj x)))"
  using assms low_sar [of "k * 8" 1 "size_of x" "obj x"] 
    by (auto simp: Let_def init_defs mult.commute ev_low split: if_splits)

lemma fGETHALF_val:
  assumes "expect_int a = Inr k" "lift_operand b = Inr x" "2 * k + 2 \<le> size_of x" "size_of x \<le> 8"
    "macro_expr_fGETHALF [a, b] = Inr r"
  shows "ev (obj r) = take_bit (8 * size_of x) (sval 2 (drop_bit (16 * k) (ev (obj x))))"
  using assms low_sar [of "k * 16" 2 "size_of x" "obj x"] 
    by (auto simp: Let_def init_defs mult.commute ev_low ev_sext sval_def signed_take_bit_take_bit min_def split: if_splits)

lemma fBYTESWAP_val:
  assumes "lift_operand a = Inr x" "fits ev x" "macro_expr_fBYTESWAP [a] = Inr r"
  shows "bit (ev (obj r)) i \<longleftrightarrow> i < 32 \<and> bit (ev (obj x)) (8 * (3 - i div 8) + i mod 8)"
proof -
  have k: "ev (IlConst 4 (show_nat 255)) = mask 8"
    "ev (IlConst 4 (show_nat 65280)) = push_bit 8 (mask 8)"
    "ev (IlConst 4 (show_nat 16711680)) = push_bit 16 (mask 8)"
    "ev (IlConst 4 (show_nat 4278190080)) = push_bit 24 (mask 8)"
    "ev (IlConst (Suc 0) (show_nat 8)) = 8" "ev (IlConst (Suc 0) (show_nat 24)) = 24"
    by (simp_all add: ev_const cst_nat take_bit_int_eq_self mask_eq_exp_minus_1 push_bit_eq_mult)
  have q: "i div 8 = q \<and> i mod 8 = i - 8 * q" if "8 * q \<le> i" "i < 8 * q + 8" for q
  proof -
    have "i div 8 = q" using that by (intro div_nat_eqI) simp_all
    then show ?thesis using minus_mult_div_eq_mod [of i 8] by simp
  qed
  have r: "ev (obj r) = take_bit 32 (take_bit 32 (push_bit 24 (take_bit 32 (ev (obj x) AND mask 8))) OR
      take_bit 32 (take_bit 32 (push_bit 8 (take_bit 32 (ev (obj x) AND push_bit 8 (mask 8)))) OR
      take_bit 32 (drop_bit 8 (take_bit 32 (ev (obj x) AND push_bit 16 (mask 8))) OR
        drop_bit 24 (take_bit 32 (ev (obj x) AND push_bit 24 (mask 8))))))"
    using assms by (auto simp: init_defs ev_or ev_and ev_shl ev_shr Let_def k)
  consider "i < 8" | "8 \<le> i" "i < 16" | "16 \<le> i" "i < 24" | "24 \<le> i" "i < 32" | "32 \<le> i"
    by linarith
  then show ?thesis
    by cases (use q [of 0] q [of 1] q [of 2] q [of 3] in \<open>auto simp: r bit_simps\<close>)
qed

lemma fGETUBYTE_val:
  assumes "expect_int a = Inr k" "lift_operand b = Inr x" "k < size_of x" "size_of x \<le> 8"
    "macro_expr_fGETUBYTE [a, b] = Inr r"
  shows "ev (obj r) = take_bit 8 (drop_bit (8 * k) (ev (obj x)))"
proof (cases "k = 0")
  case True
  then show ?thesis using assms by (auto simp: Let_def init_defs ev_low)
next
  case False
  then have "obj r = IlLowPart 1 (IlLogicalShiftRight (size_of x) (obj x) (IlConst 1 (show_nat (k * 8))))"
    using assms by (auto simp: Let_def init_defs)
  then show ?thesis
    using assms low_shr [of "k * 8" 1 "size_of x" "obj x"] by (simp only: mult.commute [of k]) simp
qed

lemma fGETUHALF_val:
  assumes "expect_int a = Inr k" "lift_operand b = Inr x" "2 * k + 2 \<le> size_of x" "size_of x \<le> 8"
    "macro_expr_fGETUHALF [a, b] = Inr r"
  shows "ev (obj r) = take_bit 16 (drop_bit (16 * k) (ev (obj x)))"
proof -
  have "take_bit (8 * size_of x) (take_bit 16 y) = take_bit 16 y" for y :: int
    using assms(3) by simp
  then show ?thesis
    using assms low_shr [of "16 * k" 2 "size_of x" "obj x"]
    by (cases "k = 0") (auto simp: Let_def init_defs mult.commute [of k] ev_low ev_zext)
qed

lemma fGETWORD_val:
  assumes "expect_int a = Inr k" "lift_operand b = Inr x" "k < 2"
    "macro_expr_fGETWORD [a, b] = Inr r"
  shows "ev (obj r) = take_bit 64 (sval 4 (drop_bit (32 * k) (ev (obj x))))"
  using assms low_sar [of "k * 32" 4 "size_of x" "obj x"]
  by (auto simp: Let_def init_defs mult.commute ev_low ev_sext sval_def signed_take_bit_take_bit
      min_def split: if_splits)

lemma fGETUWORD_val:
  assumes "expect_int a = Inr k" "lift_operand b = Inr x" "k < 2"
    "macro_expr_fGETUWORD [a, b] = Inr r"
  shows "ev (obj r) = take_bit 32 (drop_bit (32 * k) (ev (obj x)))"
  using assms low_shr [of "k * 32" 4 "size_of x" "obj x"]
  by (auto simp: Let_def init_defs mult.commute ev_low ev_zext min_def split: if_splits)

lemma fCAST4_val:
  assumes "lift_operand a = Inr x" "fits ev x"
  shows "macro_expr_fCAST4s [a] = Inr r \<Longrightarrow> size_of x \<in> {1, 2, 4, 8} \<Longrightarrow>
      ev (obj r) = take_bit 32 (sval (size_of x) (ev (obj x)))"
    and "macro_expr_fCAST4u [a] = Inr r \<Longrightarrow> ev (obj r) = take_bit 32 (ev (obj x))"
proof -
  show "macro_expr_fCAST4s [a] = Inr r \<Longrightarrow> size_of x \<in> {1, 2, 4, 8} \<Longrightarrow>
      ev (obj r) = take_bit 32 (sval (size_of x) (ev (obj x)))"
    using assms fits_take [of x] field_sval [of 0 32 "size_of x" "ev (obj x)"]
    by (auto simp: init_defs laws split: if_splits)
  show "macro_expr_fCAST4u [a] = Inr r \<Longrightarrow> ev (obj r) = take_bit 32 (ev (obj x))"
    using assms fits_take [of x] by (auto simp: init_defs laws split: if_splits)
qed
end

section \<open>A machine\<close>

text \<open>
  The state the emitted IL runs on: one value per register name the lifter writes in its items,
  and a byte-addressed memory of 32-bit addresses. \<open>imm\<close> gives the values of the C++
  variables (the immediates) an \<open>IlConst\<close> may name.
\<close>

record mach =
  regs :: "string \<Rightarrow> int"
  mem :: "int \<Rightarrow> int"

primrec load_mem :: "(int \<Rightarrow> int) \<Rightarrow> int \<Rightarrow> nat \<Rightarrow> int" where
  "load_mem m a 0 = 0"
| "load_mem m a (Suc n) = take_bit 8 (m (take_bit 32 a)) + 256 * load_mem m (a + 1) n"

primrec store_mem :: "int \<Rightarrow> nat \<Rightarrow> int \<Rightarrow> (int \<Rightarrow> int) \<Rightarrow> (int \<Rightarrow> int)" where
  "store_mem a 0 v m = m"
| "store_mem a (Suc n) v m = (store_mem (a + 1) n (drop_bit 8 v) m)(take_bit 32 a := take_bit 8 v)"

definition c_lit :: "(string \<Rightarrow> int) \<Rightarrow> string \<Rightarrow> int" where
  "c_lit imm v = (case py_int v of Inr k \<Rightarrow> int k | Inl _ \<Rightarrow> imm v)"

definition rotl :: "nat \<Rightarrow> int \<Rightarrow> nat \<Rightarrow> int" where
  "rotl w v k = take_bit w (push_bit (k mod w) v) OR drop_bit (w - k mod w) (take_bit w v)"

primrec il_eval :: "(string \<Rightarrow> int) \<Rightarrow> mach \<Rightarrow> il \<Rightarrow> int" where
  "il_eval imm m (IlSetRegister n r v) = 0"
| "il_eval imm m (IlRegister n r) = take_bit (8 * n) (regs m r)"
| "il_eval imm m (IlSetRegisterSplit n hi lo v) = 0"
| "il_eval imm m (IlRegisterSplit n hi lo) =
     push_bit (8 * n) (take_bit (8 * n) (regs m hi)) + take_bit (8 * n) (regs m lo)"
| "il_eval imm m (IlConst n v) = take_bit (8 * n) (c_lit imm v)"
| "il_eval imm m (IlConstPointer n v) = take_bit (8 * n) (imm v)"
| "il_eval imm m (IlLowPart n a) = take_bit (8 * n) (il_eval imm m a)"
| "il_eval imm m (IlZeroExtend n a) = take_bit (8 * n) (take_bit (8 * il_size a) (il_eval imm m a))"
| "il_eval imm m (IlSignExtend n a) = take_bit (8 * n) (sval (il_size a) (il_eval imm m a))"
| "il_eval imm m (IlAdd n a b) = take_bit (8 * n) (il_eval imm m a + il_eval imm m b)"
| "il_eval imm m (IlSub n a b) = take_bit (8 * n) (il_eval imm m a - il_eval imm m b)"
| "il_eval imm m (IlOr n a b) = take_bit (8 * n) (il_eval imm m a OR il_eval imm m b)"
| "il_eval imm m (IlAnd n a b) = take_bit (8 * n) (il_eval imm m a AND il_eval imm m b)"
| "il_eval imm m (IlXor n a b) = take_bit (8 * n) (il_eval imm m a XOR il_eval imm m b)"
| "il_eval imm m (IlNot n a) = take_bit (8 * n) (NOT (il_eval imm m a))"
| "il_eval imm m (IlNeg n a) = take_bit (8 * n) (- il_eval imm m a)"
| "il_eval imm m (IlStore n a v) = 0"
| "il_eval imm m (IlLoad n a) = load_mem (mem m) (il_eval imm m a) n"
| "il_eval imm m (IlJump d) = 0"
| "il_eval imm m (IlCall d) = 0"
| "il_eval imm m (IlReturn d) = 0"
| "il_eval imm m (IlShiftLeft n a b) =
     take_bit (8 * n) (push_bit (nat (il_eval imm m b)) (il_eval imm m a))"
| "il_eval imm m (IlLogicalShiftRight n a b) =
     drop_bit (nat (il_eval imm m b)) (take_bit (8 * n) (il_eval imm m a))"
| "il_eval imm m (IlArithShiftRight n a b) =
     take_bit (8 * n) (drop_bit (nat (il_eval imm m b)) (sval n (il_eval imm m a)))"
| "il_eval imm m (IlRotateLeft n a b) = rotl (8 * n) (il_eval imm m a) (nat (il_eval imm m b))"
| "il_eval imm m (IlMult n a b) = take_bit (8 * n) (il_eval imm m a * il_eval imm m b)"
| "il_eval imm m (IlTrap v) = 0"
| "il_eval imm m IlSystemCall = 0"
| "il_eval imm m IlBreakpoint = 0"
| "il_eval imm m (IlBoolToInt n a) = of_bool (il_eval imm m a \<noteq> 0)"
| "il_eval imm m (IlCompareEqual n a b) =
     of_bool (take_bit (8 * n) (il_eval imm m a) = take_bit (8 * n) (il_eval imm m b))"
| "il_eval imm m (IlCompareNotEqual n a b) =
     of_bool (take_bit (8 * n) (il_eval imm m a) \<noteq> take_bit (8 * n) (il_eval imm m b))"
| "il_eval imm m (IlCompareSignedGreaterThan n a b) =
     of_bool (sval n (il_eval imm m b) < sval n (il_eval imm m a))"
| "il_eval imm m (IlCompareUnsignedGreaterThan n a b) =
     of_bool (take_bit (8 * n) (il_eval imm m b) < take_bit (8 * n) (il_eval imm m a))"
| "il_eval imm m (IlCompareSignedGreaterEqual n a b) =
     of_bool (sval n (il_eval imm m b) \<le> sval n (il_eval imm m a))"
| "il_eval imm m (IlCompareSignedLessThan n a b) =
     of_bool (sval n (il_eval imm m a) < sval n (il_eval imm m b))"
| "il_eval imm m (IlCompareUnsignedGreaterEqual n a b) =
     of_bool (take_bit (8 * n) (il_eval imm m b) \<le> take_bit (8 * n) (il_eval imm m a))"
| "il_eval imm m (IlCompareUnsignedLessThan n a b) =
     of_bool (take_bit (8 * n) (il_eval imm m a) < take_bit (8 * n) (il_eval imm m b))"
| "il_eval imm m (IlCompareSignedLessEqual n a b) =
     of_bool (sval n (il_eval imm m a) \<le> sval n (il_eval imm m b))"
| "il_eval imm m (IlCompareUnsignedLessEqual n a b) =
     of_bool (take_bit (8 * n) (il_eval imm m a) \<le> take_bit (8 * n) (il_eval imm m b))"
| "il_eval imm m (IlIf c t f) = 0"
| "il_eval imm m (IlGoto l) = 0"
| "il_eval imm m (IlPush n v) = 0"
| "il_eval imm m (IlPop n) = 0"
| "il_eval imm m (IlReadGP n) = take_bit (8 * n) (regs m ''HEX_REG_GP'')"

interpretation ref: llil "il_eval imm m" "c_lit imm" for imm m
  by unfold_locales (simp_all add: c_lit_def)

definition il_test :: "(string \<Rightarrow> int) \<Rightarrow> mach \<Rightarrow> il \<Rightarrow> bool" where
  "il_test imm m c \<longleftrightarrow> il_eval imm m c \<noteq> 0"

fun il_step :: "(string \<Rightarrow> int) \<Rightarrow> il \<Rightarrow> mach \<Rightarrow> mach" where
  "il_step imm (IlSetRegister n r v) m =
     m\<lparr>regs := (regs m)(r := take_bit (8 * n) (il_eval imm m v))\<rparr>"
| "il_step imm (IlStore n a v) m =
     m\<lparr>mem := store_mem (il_eval imm m a) n (il_eval imm m v) (mem m)\<rparr>"
| "il_step imm x m = m"

lemma load_store_other:
  assumes "\<And>i. i < n \<Longrightarrow> take_bit 32 (a + int i) \<noteq> b"
  shows "load_mem (m(b := x)) a n = load_mem m a n"
  using assms
proof (induction n arbitrary: a)
  case (Suc n)
  have "load_mem (m(b := x)) (a + 1) n = load_mem m (a + 1) n"
    by (rule Suc.IH) (use Suc.prems [of "Suc i" for i] in \<open>auto simp: add.assoc\<close>)
  with Suc.prems [of 0] show ?case by (simp del: fun_upd_apply add: fun_upd_other)
qed simp

lemma load_store: "n \<le> 2 ^ 32 \<Longrightarrow> load_mem (store_mem a n v m) a n = take_bit (8 * n) v"
proof (induction n arbitrary: a v)
  case (Suc n)
  have "take_bit 32 (a + 1 + int i) \<noteq> take_bit 32 a" if "i < n" for i
  proof
    assume "take_bit 32 (a + 1 + int i) = take_bit 32 a"
    then have "2 ^ 32 dvd 1 + int i"
      using mod_eq_dvd_iff [of "a + 1 + int i" "2 ^ 32" a] by (simp add: take_bit_eq_mod)
    then show False using zdvd_not_zless [of "1 + int i" "2 ^ 32"] Suc.prems that by simp
  qed
  then have "load_mem ((store_mem (a + 1) n (drop_bit 8 v) m)(take_bit 32 a := take_bit 8 v)) (a + 1) n =
      take_bit (8 * n) (drop_bit 8 v)"
    using Suc.prems by (simp add: load_store_other Suc.IH)
  moreover have "take_bit 8 v + 256 * take_bit k (drop_bit 8 v) = take_bit (8 + k) v" for k
    using zmod_zmult2_eq [of "2 ^ k" v 256]
    by (simp add: take_bit_eq_mod drop_bit_eq_div power_add add.commute mult.commute)
  ultimately show ?case by (simp add: fun_upd_same del: fun_upd_apply)
qed simp

section \<open>Properties of the lifted expressions\<close>

text \<open>C6: fMAX on operands of one size, signed or unsigned by the flag of the first, is the larger of the two values.\<close>

theorem fMAX_value:
  assumes "lift_operand a = Inr x" "lift_operand b = Inr y" "size_of x = size_of y"
    and "fits (il_eval imm m) x" "fits (il_eval imm m) y"
  shows "\<exists>r. macro_expr_fMAX [a, b] = Inr r \<and> il_eval imm m (obj r) =
    (let v = il_eval imm m (obj x); w = il_eval imm m (obj y)
     in if (if signed x then sval (size_of x) w \<le> sval (size_of x) v else w \<le> v) then v else w)"
proof -
  obtain r where "macro_expr_fMAX [a, b] = Inr r" using assms by (cases "signed x") (simp_all add: Let_def)
  then show ?thesis using ref.fMAX_val [OF assms] by (auto simp: Let_def simp del: macro_expr_fMAX.simps)
qed

theorem fMAX_value_witness:
  "\<exists>r. macro_expr_fMAX [Tok (Token REG_OLD ''RsV''), Tok (Token REG_OLD ''RtV'')] = Inr r \<and>
     il_eval (\<lambda>_. 0) \<lparr>regs = (\<lambda>r. if r = ''RsV'' then 4294967295 else 7), mem = (\<lambda>_. 0)\<rparr> (obj r) = 7"
  using fMAX_value [of "Tok (Token REG_OLD ''RsV'')" "reg_operand ''RsV''" "Tok (Token REG_OLD ''RtV'')" "reg_operand ''RtV''"
      "\<lambda>_. 0" "\<lparr>regs = (\<lambda>r. if r = ''RsV'' then 4294967295 else 7), mem = (\<lambda>_. 0)\<rparr>"]
  by (simp add: reg_operand_def starts_with_def pair_search_def init_defs fits_def sval_def
      signed_take_bit_eq_take_bit_shift take_bit_eq_mod Let_def)

text \<open>C5: The lifted fSTORE followed by the lifted fLOAD of the same size leaves in the destination the stored value's low bytes, sign- or zero-extended to the destination as the sign letter says.\<close>

theorem store_load:
  assumes "macro_stmt_fSTORE [num, sza, ea, src] = Inr xs"
    and "macro_stmt_fLOAD [num', sza, Tok (Token SIGN sg), ea, dst] = Inr ys"
    and "lift_operand src = Inr x" "lift_operand dst = Inr y" "obj y = IlRegister n d"
    and "expect_int sza = Inr sz" "0 < sz" "sz \<le> n" "sz \<le> 8"
  shows "map_option (\<lambda>m'. regs m' d) (exec (il_test imm) (il_step imm) (xs @ ys) m) =
    Some (take_bit (8 * n) (if sz < n \<and> sg = ''s'' then sval sz (il_eval imm m (obj x))
                            else take_bit (8 * sz) (il_eval imm m (obj x))))"
proof -
  have "sz \<le> 2 ^ 32" using assms(9) by simp
  show ?thesis
  proof (cases ea)
    case (Tok t)
    obtain ty v where "t = Token ty v" by (cases t)
    show ?thesis
      using assms \<open>sz \<le> 2 ^ 32\<close> \<open>t = Token ty v\<close> Tok
      by (auto simp: init_defs expect_int_def Let_def load_store is_branch_def reg_of_def sval_def signed_take_bit_take_bit min_def split: if_splits)
  qed (use assms in auto)
qed

lemmas lift_eval = reg_operand_def starts_with_def pair_search_def init_defs Let_def
  signed_take_bit_eq_take_bit_shift take_bit_eq_mod sval_def fits_def expect_int_def
  py_int_def is_digit_def digit_val_def

text \<open>fMIN on operands of one size, signed or unsigned by the flag of the first, is the smaller of the two values.\<close>

lemma fMIN_value:
  assumes "lift_operand a = Inr x" "lift_operand b = Inr y" "size_of x = size_of y"
    and "fits (il_eval imm m) x" "fits (il_eval imm m) y"
  shows "\<exists>r. macro_expr_fMIN [a, b] = Inr r \<and> il_eval imm m (obj r) =
    (let v = il_eval imm m (obj x); w = il_eval imm m (obj y)
     in if (if signed x then sval (size_of x) v \<le> sval (size_of x) w else v \<le> w) then v else w)"
proof -
  obtain r where "macro_expr_fMIN [a, b] = Inr r"
    using assms by (cases "signed x") (simp_all add: Let_def)
  then show ?thesis
    using ref.fMIN_val [OF assms] by (auto simp: Let_def simp del: macro_expr_fMIN.simps)
qed

lemma fMIN_value_witness:
  "\<exists>r. macro_expr_fMIN [Tok (Token REG_OLD ''RssV''), Tok (Token REG_OLD ''RttV'')] = Inr r \<and>
     il_eval (\<lambda>_. 0) \<lparr>regs = (\<lambda>r. if r = ''RssV'' then 2 ^ 64 - 1 else 7), mem = (\<lambda>_. 0)\<rparr> (obj r) =
       2 ^ 64 - 1"
  using fMIN_value [of "Tok (Token REG_OLD ''RssV'')" "reg_operand ''RssV''"
      "Tok (Token REG_OLD ''RttV'')" "reg_operand ''RttV''"
      "\<lambda>_. 0" "\<lparr>regs = (\<lambda>r. if r = ''RssV'' then 2 ^ 64 - 1 else 7), mem = (\<lambda>_. 0)\<rparr>"]
  by (simp add: lift_eval)

text \<open>C7: fABS of a signed operand is the absolute value of its two's complement reading, modulo its width; of an unsigned operand it is the operand.\<close>

theorem fABS_value:
  assumes "lift_operand a = Inr x" "0 < size_of x"
  shows "\<exists>r. macro_expr_fABS [a] = Inr r \<and> il_eval imm m (obj r) =
    (if signed x then take_bit (8 * size_of x) \<bar>sval (size_of x) (il_eval imm m (obj x))\<bar>
     else il_eval imm m (obj x))"
proof (cases "signed x")
  case True
  then obtain r where "macro_expr_fABS [a] = Inr r" using assms by (auto simp: Let_def)
  then show ?thesis
    using True ref.fABS_val [OF assms(1) True assms(2)] by (auto simp del: macro_expr_fABS.simps)
qed (use assms in \<open>simp add: Let_def\<close>)

theorem fABS_value_witness:
  "\<exists>r. macro_expr_fABS [Tok (Token REG_OLD ''RsV'')] = Inr r \<and>
     il_eval (\<lambda>_. 0) \<lparr>regs = (\<lambda>r. 2 ^ 32 - 5), mem = (\<lambda>_. 0)\<rparr> (obj r) = 5"
  using fABS_value [of "Tok (Token REG_OLD ''RsV'')" "reg_operand ''RsV''" "\<lambda>_. 0"
      "\<lparr>regs = (\<lambda>r. 2 ^ 32 - 5), mem = (\<lambda>_. 0)\<rparr>"]
  by (simp add: lift_eval del: macro_expr_fABS.simps)

text \<open>C8: fBYTESWAP of a 32-bit operand reverses its four bytes: bit i of the result is the bit of the operand at the same place of the mirrored byte.\<close>

theorem fBYTESWAP_value:
  assumes "lift_operand a = Inr x" "fits (il_eval imm m) x" "size_of x = 4"
  shows "\<exists>r. macro_expr_fBYTESWAP [a] = Inr r \<and>
    (\<forall>i. bit (il_eval imm m (obj r)) i =
           (i < 32 \<and> bit (il_eval imm m (obj x)) (8 * (3 - i div 8) + i mod 8)))"
proof -
  obtain r where "macro_expr_fBYTESWAP [a] = Inr r"
    using assms by (simp add: Let_def del: push_bit_mask_eq)
  then show ?thesis
    using ref.fBYTESWAP_val [OF assms(1,2)] by (auto simp del: macro_expr_fBYTESWAP.simps)
qed

theorem fBYTESWAP_value_witness:
  "\<exists>r. macro_expr_fBYTESWAP [Tok (Token REG_OLD ''RsV'')] = Inr r \<and>
     (\<forall>i. bit (il_eval (\<lambda>_. 0) \<lparr>regs = (\<lambda>r. 1), mem = (\<lambda>_. 0)\<rparr> (obj r)) i =
       (i < 32 \<and> bit (1::int) (8 * (3 - i div 8) + i mod 8)))"
  using fBYTESWAP_value [of "Tok (Token REG_OLD ''RsV'')" "reg_operand ''RsV''" "\<lambda>_. 0"
      "\<lparr>regs = (\<lambda>r. 1), mem = (\<lambda>_. 0)\<rparr>"]
  by (simp add: lift_eval del: bit_1_iff macro_expr_fBYTESWAP.simps)

text \<open>C9: The statement fSETHALF(n, Rd, v) emits one assignment that replaces bits 16n to 16n+15 of the 32-bit register by the low half of v and leaves its other bits, the other registers and the memory as they were.\<close>

theorem fSETHALF_exec:
  assumes "expect_int k = Inr n" "n < 2" "lift_operand a = Inr dst" "obj dst = IlRegister 4 d"
    and "lift_operand b = Inr v"
  shows "\<exists>xs w. macro_stmt_fSETHALF [k, a, b] = Inr xs \<and>
    exec (il_test imm) (il_step imm) xs m = Some (m\<lparr>regs := (regs m)(d := w)\<rparr>) \<and>
    (\<forall>i. bit w i = (i < 32 \<and>
       (if 16 * n \<le> i \<and> i < 16 * n + 16 then bit (il_eval imm m (obj v)) (i - 16 * n)
        else bit (regs m d) i)))"
proof -
  have f: "fits (il_eval imm m) dst"
    using assms take_bit_int_less_exp [of 32 "regs m d"] by (simp add: fits_def)
  define w where "w = take_bit 32 (il_eval imm m (obj (set_field 0xffff 16 n dst v)))"
  have "bit w i = (i < 32 \<and> (if 16 * n \<le> i \<and> i < 16 * n + 16
      then bit (il_eval imm m (obj v)) (i - 16 * n) else bit (regs m d) i))" for i
    using ref.set_field_bits [OF f, of 16 n v i] assms
    by (auto simp: w_def bit_simps mult.commute [of 16])
  moreover have "exec (il_test imm) (il_step imm)
      [emit (IlSetRegister_init 4 d (set_field 0xffff 16 n dst v))] m = Some (m\<lparr>regs := (regs m)(d := w)\<rparr>)"
    by (simp add: init_defs is_branch_def w_def)
  ultimately show ?thesis
    using assms by (auto simp: is_register_def reg_of_def)
qed

theorem fSETHALF_exec_witness:
  "\<exists>xs. macro_stmt_fSETHALF [Tok (Token INTCON ''1''), Tok (Token REG_OLD ''RxV''), Tok (Token REG_OLD ''RsV'')] = Inr xs \<and>
     map_option (\<lambda>m'. bit (regs m' ''RxV'') 16 \<and> bit (regs m' ''RxV'') 2 \<and> \<not> bit (regs m' ''RxV'') 1)
       (exec (il_test (\<lambda>_. 0)) (il_step (\<lambda>_. 0)) xs \<lparr>regs = (\<lambda>r. 5), mem = (\<lambda>_. 0)\<rparr>) = Some True"
  using fSETHALF_exec [of "Tok (Token INTCON ''1'')" 1 "Tok (Token REG_OLD ''RxV'')" "reg_operand ''RxV''" "''RxV''"
      "Tok (Token REG_OLD ''RsV'')" "reg_operand ''RsV''" "\<lambda>_. 0" "\<lparr>regs = (\<lambda>r. 5), mem = (\<lambda>_. 0)\<rparr>"]
  by (auto simp add: lift_eval bit_simps simp del: macro_stmt_fSETHALF.simps)

text \<open>C10: The statement fSETWORD(n, Rd, v) emits one assignment that replaces bits 32n to 32n+31 of the 64-bit register pair by the low word of v and leaves its other bits, the other registers and the memory as they were.\<close>

theorem fSETWORD_exec:
  assumes "expect_int k = Inr n" "n < 2" "lift_operand a = Inr dst" "obj dst = IlRegister 8 d"
    and "lift_operand b = Inr v"
  shows "\<exists>xs w. macro_stmt_fSETWORD [k, a, b] = Inr xs \<and>
    exec (il_test imm) (il_step imm) xs m = Some (m\<lparr>regs := (regs m)(d := w)\<rparr>) \<and>
    (\<forall>i. bit w i = (i < 64 \<and>
       (if 32 * n \<le> i \<and> i < 32 * n + 32 then bit (il_eval imm m (obj v)) (i - 32 * n)
        else bit (regs m d) i)))"
proof -
  have f: "fits (il_eval imm m) dst"
    using assms take_bit_int_less_exp [of 64 "regs m d"] by (simp add: fits_def)
  define w where "w = take_bit 64 (il_eval imm m (obj (set_field 0xffffffff 32 n dst v)))"
  have "bit w i = (i < 64 \<and> (if 32 * n \<le> i \<and> i < 32 * n + 32
      then bit (il_eval imm m (obj v)) (i - 32 * n) else bit (regs m d) i))" for i
    using ref.set_field_bits [OF f, of 32 n v i] assms
    by (auto simp: w_def bit_simps mult.commute [of 32])
  moreover have "exec (il_test imm) (il_step imm)
      [emit (IlSetRegister_init 8 d (set_field 0xffffffff 32 n dst v))] m = Some (m\<lparr>regs := (regs m)(d := w)\<rparr>)"
    by (simp add: init_defs is_branch_def w_def)
  ultimately show ?thesis
    using assms by (auto simp: is_register_def reg_of_def)
qed

theorem fSETWORD_exec_witness:
  "\<exists>xs. macro_stmt_fSETWORD [Tok (Token INTCON ''1''), Tok (Token REG_OLD ''RddV''), Tok (Token REG_OLD ''RtV'')] = Inr xs \<and>
     map_option (\<lambda>m'. bit (regs m' ''RddV'') 32 \<and> bit (regs m' ''RddV'') 2 \<and> \<not> bit (regs m' ''RddV'') 1)
       (exec (il_test (\<lambda>_. 0)) (il_step (\<lambda>_. 0)) xs \<lparr>regs = (\<lambda>r. 5), mem = (\<lambda>_. 0)\<rparr>) = Some True"
  using fSETWORD_exec [of "Tok (Token INTCON ''1'')" 1 "Tok (Token REG_OLD ''RddV'')" "reg_operand ''RddV''" "''RddV''"
      "Tok (Token REG_OLD ''RtV'')" "reg_operand ''RtV''" "\<lambda>_. 0" "\<lparr>regs = (\<lambda>r. 5), mem = (\<lambda>_. 0)\<rparr>"]
  by (auto simp add: lift_eval bit_simps simp del: macro_stmt_fSETWORD.simps)

text \<open>C11: Shifting and truncating: fGETHALF(k, s) is halfword k of the operand sign-extended to the operand's width, and fGETUHALF(k, s) is the same halfword zero-extended.\<close>

theorem fGETHALF_value:
  assumes "expect_int a = Inr k" "lift_operand b = Inr x" "2 * k + 2 \<le> size_of x" "size_of x \<le> 8"
  shows "\<exists>r u. macro_expr_fGETHALF [a, b] = Inr r \<and> macro_expr_fGETUHALF [a, b] = Inr u \<and>
    size_of r = size_of x \<and> size_of u = size_of x \<and>
    il_eval imm m (obj r) = take_bit (8 * size_of x) (sval 2 (drop_bit (16 * k) (il_eval imm m (obj x)))) \<and>
    il_eval imm m (obj u) = take_bit 16 (drop_bit (16 * k) (il_eval imm m (obj x)))"
proof -
  obtain r u where "macro_expr_fGETHALF [a, b] = Inr r" "macro_expr_fGETUHALF [a, b] = Inr u"
      "size_of r = size_of x" "size_of u = size_of x"
    using assms by (auto simp: Let_def init_defs)
  then show ?thesis
    using ref.fGETHALF_val [OF assms] ref.fGETUHALF_val [OF assms] by blast
qed

theorem fGETHALF_value_witness:
  "\<exists>r u. macro_expr_fGETHALF [Tok (Token INTCON ''1''), Tok (Token REG_OLD ''RsV'')] = Inr r \<and>
     macro_expr_fGETUHALF [Tok (Token INTCON ''1''), Tok (Token REG_OLD ''RsV'')] = Inr u \<and>
     il_eval (\<lambda>_. 0) \<lparr>regs = (\<lambda>r. 0xfffe0003), mem = (\<lambda>_. 0)\<rparr> (obj r) = 0xfffffffe \<and>
     il_eval (\<lambda>_. 0) \<lparr>regs = (\<lambda>r. 0xfffe0003), mem = (\<lambda>_. 0)\<rparr> (obj u) = 0xfffe"
  using fGETHALF_value [of "Tok (Token INTCON ''1'')" 1 "Tok (Token REG_OLD ''RsV'')"
      "reg_operand ''RsV''" "\<lambda>_. 0" "\<lparr>regs = (\<lambda>r. 0xfffe0003), mem = (\<lambda>_. 0)\<rparr>"]
  by (simp add: lift_eval)

text \<open>fGETWORD(k, s) of a 64-bit operand is word k sign-extended to 64 bits, fGETUWORD(k, s) the same word zero-extended; an operand of another size is an assertion failure.\<close>

lemma fGETWORD_value:
  assumes "expect_int a = Inr k" "lift_operand b = Inr x" "k < 2"
  shows "if size_of x = 8
    then \<exists>r u. macro_expr_fGETWORD [a, b] = Inr r \<and> macro_expr_fGETUWORD [a, b] = Inr u \<and>
      size_of r = 8 \<and> size_of u = 8 \<and>
      il_eval imm m (obj r) = take_bit 64 (sval 4 (drop_bit (32 * k) (il_eval imm m (obj x)))) \<and>
      il_eval imm m (obj u) = take_bit 32 (drop_bit (32 * k) (il_eval imm m (obj x)))
    else macro_expr_fGETWORD [a, b] = Inl AssertionError \<and> macro_expr_fGETUWORD [a, b] = Inl AssertionError"
proof (cases "size_of x = 8")
  case True
  then obtain r u where "macro_expr_fGETWORD [a, b] = Inr r" "macro_expr_fGETUWORD [a, b] = Inr u"
      "size_of r = 8" "size_of u = 8"
    using assms by (auto simp: Let_def init_defs)
  with True show ?thesis
    using ref.fGETWORD_val [OF assms] ref.fGETUWORD_val [OF assms]
    by (simp del: macro_expr_fGETWORD.simps macro_expr_fGETUWORD.simps)
qed (use assms in \<open>simp add: assertR_def\<close>)

lemma fGETWORD_value_witness:
  "macro_expr_fGETWORD [Tok (Token INTCON ''1''), Tok (Token REG_OLD ''RsV'')] = Inl AssertionError \<and>
   (\<exists>r. macro_expr_fGETWORD [Tok (Token INTCON ''1''), Tok (Token REG_OLD ''RssV'')] = Inr r \<and>
     il_eval (\<lambda>_. 0) \<lparr>regs = (\<lambda>r. 0xffffffff00000003), mem = (\<lambda>_. 0)\<rparr> (obj r) = 0xffffffffffffffff)"
  using fGETWORD_value [of "Tok (Token INTCON ''1'')" 1 "Tok (Token REG_OLD ''RssV'')"
      "reg_operand ''RssV''" "\<lambda>_. 0" "\<lparr>regs = (\<lambda>r. 0xffffffff00000003), mem = (\<lambda>_. 0)\<rparr>"]
    fGETWORD_value [of "Tok (Token INTCON ''1'')" 1 "Tok (Token REG_OLD ''RsV'')" "reg_operand ''RsV''"]
  by (auto simp add: lift_eval simp del: macro_expr_fGETWORD.simps macro_expr_fGETUWORD.simps)

theorem store_load_witness:
  "map_option (\<lambda>m'. regs m' ''RdV'') (exec (il_test (\<lambda>_. 0)) (il_step (\<lambda>_. 0))
     [Insn (IlStore 2 (IlRegister 4 ''EA_REG'') (IlRegister 4 ''RtV'')),
      Insn (IlSetRegister 4 ''RdV'' (IlSignExtend 4 (IlLoad 2 (IlRegister 4 ''EA_REG''))))]
     \<lparr>regs = (\<lambda>r. 0x1ffff), mem = (\<lambda>_. 0)\<rparr>) = Some 0xffffffff"
  using store_load [of "Tok (Token INTCON ''1'')" "Tok (Token INTCON ''2'')" "Tok (Token EA ''EA'')"
      "Tok (Token REG_OLD ''RtV'')" "[Insn (IlStore 2 (IlRegister 4 ''EA_REG'') (IlRegister 4 ''RtV''))]"
      "Tok (Token INTCON ''1'')" "''s''" "Tok (Token REG_OLD ''RdV'')"
      "[Insn (IlSetRegister 4 ''RdV'' (IlSignExtend 4 (IlLoad 2 (IlRegister 4 ''EA_REG''))))]"
      "reg_operand ''RtV''" "reg_operand ''RdV''" 4 "''RdV''" 2 "\<lambda>_. 0"
      "\<lparr>regs = (\<lambda>r. 0x1ffff), mem = (\<lambda>_. 0)\<rparr>"]
  by (simp add: lift_eval reg_of_def)

text \<open>C23: The callback of the operator ! complements every bit of the operand, so it is not C's logical negation: it is zero only for the all-ones value (of a predicate holding 1 it is 254).\<close>

theorem not_expr_value:
  assumes "lift_operand a = Inr x" "fits (il_eval imm m) x"
  shows "\<exists>r. not_expr a = Inr r \<and>
    il_eval imm m (obj r) = 2 ^ (8 * size_of x) - 1 - il_eval imm m (obj x) \<and>
    (il_test imm m (obj r) \<longleftrightarrow> il_eval imm m (obj x) \<noteq> 2 ^ (8 * size_of x) - 1)"
proof -
  have "take_bit (8 * size_of x) (NOT (il_eval imm m (obj x))) = 2 ^ (8 * size_of x) - 1 - il_eval imm m (obj x)"
    using ref.fits_take [OF assms(2) refl] assms(2)
    by (simp add: take_bit_not_eq_mask_diff mask_eq_exp_minus_1)
  then show ?thesis
    using assms by (auto simp: not_expr_def init_defs il_test_def)
qed

theorem not_expr_value_witness:
  "\<exists>r. not_expr (Tok (Token REG_OLD ''PuV'')) = Inr r \<and>
     il_eval (\<lambda>_. 0) \<lparr>regs = (\<lambda>r. 1), mem = (\<lambda>_. 0)\<rparr> (obj r) = 254 \<and>
     il_test (\<lambda>_. 0) \<lparr>regs = (\<lambda>r. 1), mem = (\<lambda>_. 0)\<rparr> (obj r)"
  using not_expr_value [of "Tok (Token REG_OLD ''PuV'')" "reg_operand ''PuV''" "\<lambda>_. 0"
      "\<lparr>regs = (\<lambda>r. 1), mem = (\<lambda>_. 0)\<rparr>"]
  by (simp add: lift_eval)

end
