(* ===== verification/Il_Grammar.thy ===== *)
theory Il_Grammar
  imports Il_Repr Il_Semantics Py_Regex
begin

text \<open>
  \<open>semantics_grammar\<close> of \<^verbatim>\<open>plugin/gen_il_funcs.py\<close>: the texts of its terminals
  (\<open>terminal\<close>) and its productions for expressions and statements (\<open>expr_derives\<close>,
  \<open>stmt_derives\<close>: a parse tree and a list of lexemes). The productions whose callbacks the
  transformer lacks (\<open>while\<close>, \<open>for\<close>, \<open>return\<close>, \<open>expr LOGOP expr\<close>) are left out, as in
  \<open>Il_Lift\<close>. Which of several derivations of a text Lark's LALR parser picks is its own matter.
\<close>

section \<open>Terminals\<close>

definition reg_types :: "string list" where
  "reg_types = [''C'', ''N'', ''P'', ''R'', ''M'', ''Q'', ''V'', ''O'']"

definition reg_ids :: "string list" where
  "reg_ids = [''d'', ''e'', ''dd'', ''s'', ''t'', ''u'', ''v'', ''w'', ''ss'', ''tt'', ''uu'', ''vv'', ''x'', ''y'', ''xx'', ''yy'']"

definition reg_terminal :: "string \<Rightarrow> string \<Rightarrow> bool" where
  "reg_terminal suffix s \<longleftrightarrow> s \<in> set [t @ i @ suffix. t \<leftarrow> reg_types, i \<leftarrow> reg_ids]"

text \<open>\<open>/\w+/\<close> after a prefix.\<close>

definition word_after :: "string \<Rightarrow> string \<Rightarrow> bool" where
  "word_after p s \<longleftrightarrow> starts_with s p \<and> drop (length p) s \<noteq> [] \<and> list_all is_word (drop (length p) s)"

definition is_hex :: "char \<Rightarrow> bool" where
  "is_hex c \<longleftrightarrow> is_digit c \<or> (65 \<le> (of_char c :: nat) \<and> (of_char c :: nat) \<le> 70) \<or> (97 \<le> (of_char c :: nat) \<and> (of_char c :: nat) \<le> 102)"

definition int_terminal :: "string \<Rightarrow> bool" where
  "int_terminal s \<longleftrightarrow>
     (starts_with s ''0x'' \<or> starts_with s ''0X'') \<and> list_all is_hex (drop 2 s) \<or> s = ''0'' \<or>
     (s \<noteq> [] \<and> is_digit (hd s) \<and> hd s \<noteq> CHR ''0'' \<and> list_all (\<lambda>c. is_digit c \<or> c = CHR ''_'') s)"

definition terminal :: "tok_type \<Rightarrow> string \<Rightarrow> bool" where
  "terminal ty s =
     (case ty of
        REG_OLD \<Rightarrow> reg_terminal ''V'' s
      | REG_NEW \<Rightarrow> reg_terminal ''N'' s
      | REG_LR \<Rightarrow> s = ''REG_LR''
      | IMM \<Rightarrow> s \<in> set (map (\<lambda>l. l @ ''iV'') [''r'', ''R'', ''s'', ''S'', ''u'', ''U'', ''m''])
      | MACRO \<Rightarrow> word_after ''f'' s
      | EA \<Rightarrow> s = ''EA''
      | SIGN \<Rightarrow> s \<in> {''s'', ''u''}
      | BRANCH_TYPE \<Rightarrow> word_after ''COF_TYPE_'' s
      | TMP \<Rightarrow> s \<in> {''tmp'', ''width'', ''offset'', ''shamt''}
      | INTCON \<Rightarrow> int_terminal s
      | STRINGCON \<Rightarrow> starts_with s [CHR 0x22]
      | ASSGOP \<Rightarrow> s \<in> {''+='', ''-='', ''&='', ''^='', ''|=''}
      | BINOP \<Rightarrow> s \<in> {''+'', ''-'', ''*'', ''/'', ''|'', ''&'', ''^'', ''<<'', ''>>''}
      | RELOP \<Rightarrow> s \<in> {''=='', ''!='', ''<='', ''<'', ''>='', ''>''})"

text \<open>\<open>id\<close>: the terminals that name an operand, a macro or a keyword argument.\<close>

definition id_types :: "tok_type list" where
  "id_types = [REG_OLD, REG_NEW, REG_LR, IMM, MACRO, EA, SIGN, BRANCH_TYPE, TMP]"

definition is_id :: "token \<Rightarrow> bool" where
  "is_id t \<longleftrightarrow> ttype t \<in> set id_types \<and> terminal (ttype t) (tval t)"

section \<open>Productions\<close>

text \<open>The lexemes of an argument list with its commas.\<close>

fun comma_list :: "string list list \<Rightarrow> string list" where
  "comma_list [] = []"
| "comma_list [ws] = ws"
| "comma_list (ws # vs # wss) = ws @ '','' # comma_list (vs # wss)"

inductive expr_derives :: "expr \<Rightarrow> string list \<Rightarrow> bool" where
  id: "is_id t \<Longrightarrow> expr_derives (EId t) [tval t]"
| const: "ttype t \<in> {INTCON, STRINGCON} \<Longrightarrow> terminal (ttype t) (tval t) \<Longrightarrow> expr_derives (EId t) [tval t]"
| neg: "expr_derives e ws \<Longrightarrow> expr_derives (ENeg e) (''-'' # ws)"
| not: "expr_derives e ws \<Longrightarrow> expr_derives (ENot e) (''!'' # ws)"
| bit_not: "expr_derives e ws \<Longrightarrow> expr_derives (EBitNot e) (''~'' # ws)"
| binop: "expr_derives a us \<Longrightarrow> expr_derives b vs \<Longrightarrow> ttype t = BINOP \<Longrightarrow> terminal BINOP (tval t) \<Longrightarrow>
    expr_derives (EBinop a t b) (us @ tval t # vs)"
| relop: "expr_derives a us \<Longrightarrow> expr_derives b vs \<Longrightarrow> ttype t = RELOP \<Longrightarrow> terminal RELOP (tval t) \<Longrightarrow>
    expr_derives (ERelop a t b) (us @ tval t # vs)"
| call: "is_id t \<Longrightarrow> length wss = length es \<Longrightarrow> (\<forall>i < length es. expr_derives (es ! i) (wss ! i)) \<Longrightarrow>
    expr_derives (ECall t es) (tval t # ''('' # comma_list wss @ ['')''])"
| index: "is_id t \<Longrightarrow> expr_derives e ws \<Longrightarrow> expr_derives (EIndex t e) (tval t # ''['' # ws @ ['']''])"
| paren: "expr_derives e ws \<Longrightarrow> expr_derives e (''('' # ws @ ['')''])"

definition assg_derives :: "token \<times> expr \<Rightarrow> string list \<Rightarrow> bool" where
  "assg_derives a ws \<longleftrightarrow> is_id (fst a) \<and> (\<exists>vs. expr_derives (snd a) vs \<and> ws = tval (fst a) # ''='' # vs)"

inductive stmt_derives :: "stmt \<Rightarrow> string list \<Rightarrow> bool" where
  if_then: "expr_derives c ws \<Longrightarrow> stmt_derives t us \<Longrightarrow> stmt_derives (SIf c t None) (''if'' # ''('' # ws @ '')'' # us)"
| if_else: "expr_derives c ws \<Longrightarrow> stmt_derives t us \<Longrightarrow> stmt_derives f vs \<Longrightarrow>
    stmt_derives (SIf c t (Some f)) (''if'' # ''('' # ws @ '')'' # us @ ''else'' # vs)"
| ternary: "expr_derives c ws \<Longrightarrow> assg_derives t us \<Longrightarrow> assg_derives f vs \<Longrightarrow>
    stmt_derives (STernary c t f) (ws @ ''?'' # ''('' # us @ '')'' # '':'' # ''('' # vs @ ['')''])"
| assg: "assg_derives (t, e) ws \<Longrightarrow> stmt_derives (SAssg t e) (ws @ ['';''])"
| assg_binop: "is_id t \<Longrightarrow> ttype op = ASSGOP \<Longrightarrow> terminal ASSGOP (tval op) \<Longrightarrow> expr_derives e ws \<Longrightarrow>
    stmt_derives (SAssgBinop t op e) (tval t # tval op # ws @ ['';''])"
| call: "is_id t \<Longrightarrow> length wss = length es \<Longrightarrow> (\<forall>i < length es. expr_derives (es ! i) (wss ! i)) \<Longrightarrow>
    stmt_derives (SCall t es) (tval t # ''('' # comma_list wss @ ['')'', '';''])"
| multi: "length wss = length ss \<Longrightarrow> (\<forall>i < length ss. stmt_derives (ss ! i) (wss ! i)) \<Longrightarrow>
    stmt_derives (SMulti ss) (''{'' # concat wss @ [''}''])"
| empty: "stmt_derives SEmpty ['';'']"
| cancel: "stmt_derives SCancel [''CANCEL;'']"

definition fbody_derives :: "stmt list \<Rightarrow> string list \<Rightarrow> bool" where
  "fbody_derives ss ws \<longleftrightarrow> (\<exists>wss. length wss = length ss \<and> (\<forall>i < length ss. stmt_derives (ss ! i) (wss ! i)) \<and> ws = concat wss)"

section \<open>The texts of tokens\<close>

lemma word_plain: "is_word c \<Longrightarrow> c \<notin> {CHR ''('', CHR '')'', CHR '','', CHR 0x0a}"
  by (auto simp: is_word_def is_digit_def)

lemma plain_all: "list_all P v \<Longrightarrow> (\<And>c. P c \<Longrightarrow> c \<notin> {CHR ''('', CHR '')'', CHR '','', CHR 0x0a}) \<Longrightarrow> plain v"
  by (auto simp: plain_def list_all_iff)

lemma plain_after: "starts_with s p \<Longrightarrow> plain p \<Longrightarrow> plain (drop (length p) s) \<Longrightarrow> plain s"
  unfolding plain_def starts_with_def by (metis append_take_drop_id list_all_append)

lemma int_plain:
  assumes "int_terminal s"
  shows "plain s"
proof -
  have h: "is_hex c \<Longrightarrow> c \<notin> {CHR ''('', CHR '')'', CHR '','', CHR 0x0a}" for c
    by (auto simp: is_hex_def is_digit_def)
  have d: "is_digit c \<or> c = CHR ''_'' \<Longrightarrow> c \<notin> {CHR ''('', CHR '')'', CHR '','', CHR 0x0a}" for c
    by (auto simp: is_digit_def)
  have x: "plain s" if "starts_with s p" "plain p" "length p = 2" "list_all is_hex (drop 2 s)" for p
    using plain_after [OF that(1,2)] plain_all [OF that(4) h] that(3) by simp
  consider "starts_with s ''0x''" "list_all is_hex (drop 2 s)" | "starts_with s ''0X''" "list_all is_hex (drop 2 s)"
    | "s = ''0''" | "list_all (\<lambda>c. is_digit c \<or> c = CHR ''_'') s"
    using assms unfolding int_terminal_def by blast
  then show ?thesis
  proof cases
    case 1
    then show ?thesis by (intro x [of "''0x''"]) simp_all
  next
    case 2
    then show ?thesis by (intro x [of "''0X''"]) simp_all
  next
    case 4
    then show ?thesis using plain_all d by blast
  qed simp
qed

lemma word_after_plain: "word_after p s \<Longrightarrow> plain p \<Longrightarrow> plain s"
  using plain_after [of s p] plain_all [of is_word "drop (length p) s"] word_plain by (auto simp: word_after_def)

lemma reg_plain: "reg_terminal suffix s \<Longrightarrow> plain suffix \<Longrightarrow> plain s"
  by (auto simp: reg_terminal_def reg_types_def reg_ids_def)

lemma terminal_plain: "terminal ty s \<Longrightarrow> ty \<noteq> STRINGCON \<Longrightarrow> plain s"
  by (cases ty) (auto simp: terminal_def reg_plain int_plain intro: word_after_plain)

lemma id_plain: "is_id t \<Longrightarrow> plain (tval t)"
  by (rule terminal_plain [of "ttype t"]) (auto simp: is_id_def id_types_def)

text \<open>No lexeme is a string constant.\<close>

definition no_strings :: "string list \<Rightarrow> bool" where
  "no_strings ws \<longleftrightarrow> list_all (\<lambda>w. \<not> starts_with w [CHR 0x22]) ws"

lemma no_strings_simps [simp]:
  "no_strings []" "no_strings (w # ws) \<longleftrightarrow> \<not> starts_with w [CHR 0x22] \<and> no_strings ws"
  "no_strings (us @ vs) \<longleftrightarrow> no_strings us \<and> no_strings vs"
  "no_strings (concat wss) \<longleftrightarrow> (\<forall>ws \<in> set wss. no_strings ws)"
  by (auto simp: no_strings_def list_all_iff)

lemma no_strings_comma: "no_strings (comma_list wss) \<longleftrightarrow> (\<forall>ws \<in> set wss. no_strings ws)"
  by (induction wss rule: comma_list.induct) (auto simp: starts_with_def)

lemma expr_derives_plain: "expr_derives e ws \<Longrightarrow> no_strings ws \<Longrightarrow> expr_with plain e"
proof (induction rule: expr_derives.induct)
  case (const t)
  then show ?case using terminal_plain [of "ttype t" "tval t"] by (auto simp: terminal_def)
next
  case (call t wss es)
  then have "no_strings (wss ! i)" if "i < length es" for i
    using that by (simp add: no_strings_comma)
  then show ?case using call.IH by (auto simp: in_set_conv_nth)
qed (auto simp: id_plain)

lemma assg_derives_plain: "assg_derives a ws \<Longrightarrow> no_strings ws \<Longrightarrow> plain (tval (fst a)) \<and> expr_with plain (snd a)"
  using id_plain expr_derives_plain by (auto simp: assg_derives_def)

lemma stmt_derives_plain: "stmt_derives st ws \<Longrightarrow> no_strings ws \<Longrightarrow> stmt_with plain st"
proof (induction rule: stmt_derives.induct)
  case (ternary c ws t us f vs)
  then show ?case using assg_derives_plain [of t us] assg_derives_plain [of f vs]
    by (cases t; cases f) (auto dest: expr_derives_plain)
next
  case (assg t e ws)
  then show ?case using assg_derives_plain [of "(t, e)" ws] by simp
next
  case (call t wss es)
  then have "expr_with plain (es ! i)" if "i < length es" for i
    using that expr_derives_plain [of "es ! i" "wss ! i"] by (simp add: no_strings_comma)
  then show ?case by (auto simp: in_set_conv_nth)
next
  case (multi wss ss)
  then have "stmt_with plain (ss ! i)" if "i < length ss" for i
    using that by simp
  then show ?case by (auto simp: in_set_conv_nth)
qed (auto simp: id_plain dest: expr_derives_plain)

lemma fbody_derives_plain:
  assumes "fbody_derives ss ws" "no_strings ws"
  shows "\<forall>s \<in> set ss. stmt_with plain s"
proof -
  obtain wss where w: "length wss = length ss" "\<forall>i < length ss. stmt_derives (ss ! i) (wss ! i)" "ws = concat wss"
    using assms(1) by (auto simp: fbody_derives_def)
  then have "stmt_with plain (ss ! i)" if "i < length ss" for i
    using that assms(2) w stmt_derives_plain [of "ss ! i" "wss ! i"] by simp
  then show ?thesis by (auto simp: in_set_conv_nth)
qed

section \<open>The grammar is ambiguous\<close>

text \<open>\<open>S4_subaddi\<close>: the right-hand side of \<open>RdV = RsV - RuV + fIMMEXT(siV);\<close>.\<close>

abbreviation subaddi_imm :: expr where
  "subaddi_imm \<equiv> ECall (Token MACRO ''fIMMEXT'') [EId (Token IMM ''siV'')]"

definition subaddi_text :: "string list" where
  "subaddi_text = [''RsV'', ''-'', ''RuV'', ''+'', ''fIMMEXT'', ''('', ''siV'', '')'']"

definition subaddi_left :: expr where
  "subaddi_left = EBinop (EBinop (EId (Token REG_OLD ''RsV'')) (Token BINOP ''-'') (EId (Token REG_OLD ''RuV'')))
     (Token BINOP ''+'') subaddi_imm"

definition subaddi_right :: expr where
  "subaddi_right = EBinop (EId (Token REG_OLD ''RsV'')) (Token BINOP ''-'')
     (EBinop (EId (Token REG_OLD ''RuV'')) (Token BINOP ''+'') subaddi_imm)"

text \<open>C37: The grammar of the semantics does not say how operators associate: the text of S4_subaddi, RsV - RuV + fIMMEXT(siV), has both the derivation that C means and one that groups to the right, and the lifters of the two compute different values. Which of them is lifted is left to the conflict resolution of the parser generator (Lark's LALR shifts, which groups to the right).\<close>

theorem grammar_ambiguous:
  "expr_derives subaddi_left subaddi_text \<and> expr_derives subaddi_right subaddi_text \<and>
   (\<exists>x y. transform_expr subaddi_left = Inr (Obj x) \<and> transform_expr subaddi_right = Inr (Obj y) \<and>
      (\<exists>imm m. il_eval imm m (obj x) = 1 \<and> il_eval imm m (obj y) = 2 ^ 32 - 1))"
proof -
  have t: "is_id (Token REG_OLD ''RsV'')" "is_id (Token REG_OLD ''RuV'')" "is_id (Token IMM ''siV'')" "is_id (Token MACRO ''fIMMEXT'')"
    "terminal BINOP ''-''" "terminal BINOP ''+''" by code_simp+
  have imm: "expr_derives subaddi_imm [''fIMMEXT'', ''('', ''siV'', '')'']"
    using expr_derives.call [OF t(4), of "[[''siV'']]" "[EId (Token IMM ''siV'')]"] expr_derives.id [OF t(3)] by simp
  have ids: "expr_derives (EId (Token REG_OLD ''RsV'')) [''RsV'']" "expr_derives (EId (Token REG_OLD ''RuV'')) [''RuV'']"
    using t expr_derives.id by fastforce+
  have l: "expr_derives subaddi_left subaddi_text"
    using expr_derives.binop [OF expr_derives.binop [OF ids(1,2), of "Token BINOP ''-''"] imm, of "Token BINOP ''+''"] t
    by (simp add: subaddi_left_def subaddi_text_def)
  have r: "expr_derives subaddi_right subaddi_text"
    using expr_derives.binop [OF ids(1) expr_derives.binop [OF ids(2) imm, of "Token BINOP ''+''"], of "Token BINOP ''-''"] t
    by (simp add: subaddi_right_def subaddi_text_def)
  have x: "transform_expr subaddi_left = Inr (Obj (IlAdd_init 4 (IlSub_init 4 (reg_operand ''RsV'') (reg_operand ''RuV'')) (IlConst_init 4 (CStr ''siV''))))"
    by (simp add: subaddi_left_def expr_binop_def binop_node_def call_expr_def macro_expr_table_def lift_eval)
  have y: "transform_expr subaddi_right = Inr (Obj (IlSub_init 4 (reg_operand ''RsV'') (IlAdd_init 4 (reg_operand ''RuV'') (IlConst_init 4 (CStr ''siV'')))))"
    by (simp add: subaddi_right_def expr_binop_def binop_node_def call_expr_def macro_expr_table_def lift_eval)
  have "il_eval (\<lambda>_. 1) \<lparr>regs = (\<lambda>_. 0), mem = (\<lambda>_. 0)\<rparr> (obj (IlAdd_init 4 (IlSub_init 4 (reg_operand ''RsV'') (reg_operand ''RuV'')) (IlConst_init 4 (CStr ''siV'')))) = 1"
    by (simp add: lift_eval c_lit_def py_int_def is_digit_def take_bit_eq_mod)
  moreover have "il_eval (\<lambda>_. 1) \<lparr>regs = (\<lambda>_. 0), mem = (\<lambda>_. 0)\<rparr> (obj (IlSub_init 4 (reg_operand ''RsV'') (IlAdd_init 4 (reg_operand ''RuV'') (IlConst_init 4 (CStr ''siV''))))) = 2 ^ 32 - 1"
    by (simp add: lift_eval c_lit_def py_int_def is_digit_def take_bit_eq_mod)
  ultimately show ?thesis using l r x y by blast
qed

end
