(* ===== verification/Hex_Attribs.thy ===== *)
theory Hex_Attribs
  imports Hex_Common
begin

text \<open>
  What the tables of \<open>Hex_Common\<close> hold: which macros a text names (the alternation of the
  macros' patterns finds exactly the maximal identifiers that are macro names, whatever the order
  in which Python joined it), and which attributes an instruction ends up with (those of every
  macro its semantics reaches through macro bodies).
\<close>

section \<open>The macro names in a text\<close>

function idents :: "string \<Rightarrow> string list" where
  "idents [] = []"
| "idents (c # s) =
     (if is_word c then (c # takeWhile is_word s) # idents (dropWhile is_word s) else idents s)"
  by pat_completeness auto
termination
  by (relation "measure length") (auto simp: le_imp_less_Suc length_dropWhile_le)

definition ident :: "string \<Rightarrow> bool" where
  "ident w \<longleftrightarrow> w \<noteq> [] \<and> list_all is_word w"

abbreviation advance :: "string \<Rightarrow> rx_state \<Rightarrow> rx_state" where
  "advance w st \<equiv> st\<lparr>pre_text := rev w @ pre_text st, post_text := drop (length w) (post_text st)\<rparr>"

lemma Lit_match:
  "rx_match (Lit w) st = (if starts_with (post_text st) w then [advance w st] else [])"
proof (induction w arbitrary: st)
  case Nil
  then show ?case by (simp add: Lit_def starts_with_def)
next
  case (Cons c w)
  then show ?case by (auto simp: Lit_def starts_with_def split: list.split)
qed

lemma not_word_start_dropWhile [simp]: "\<not> word_start (dropWhile is_word s)"
  by (induction s) (simp_all add: word_start_def)

lemma word_start_rev: "ident w \<Longrightarrow> word_start (rev w @ t)"
  by (cases w rule: rev_cases) (auto simp: ident_def word_start_def list_all_iff)

lemma starts_with_word:
  assumes "ident w"
  shows "starts_with s w \<and> \<not> word_start (drop (length w) s) \<longleftrightarrow> takeWhile is_word s = w"
proof
  assume l: "starts_with s w \<and> \<not> word_start (drop (length w) s)"
  then have s: "s = w @ drop (length w) s" by (metis starts_with_def append_take_drop_id)
  moreover have "takeWhile is_word (w @ t) = w" if "\<not> word_start t" for t
    using assms that by (auto simp: ident_def list_all_iff word_start_def split: list.splits)
  ultimately show "takeWhile is_word s = w" using l by metis
next
  assume w: "takeWhile is_word s = w"
  then have "drop (length w) s = dropWhile is_word s" by (metis dropWhile_eq_drop)
  moreover have "starts_with s w" using w by (metis starts_with_def takeWhile_eq_take)
  ultimately show "starts_with s w \<and> \<not> word_start (drop (length w) s)" by (simp only:) simp
qed

lemma macro_re_match:
  assumes "ident w"
  shows "rx_match (macro_re w) st =
    (if \<not> word_start (pre_text st) \<and> takeWhile is_word (post_text st) = w then [advance w st] else [])"
proof -
  have "word_start s" if "starts_with s w" for s
    using assms that by (cases w; cases s) (auto simp: ident_def starts_with_def word_start_def)
  then show ?thesis
    using word_start_rev [OF assms] starts_with_word [OF assms, of "post_text st"]
    by (auto simp: macro_re_def Lit_match simp del: drop_drop)
qed

lemma allmacros_match:
  assumes "names \<noteq> []" "\<forall>w \<in> set names. ident w"
  shows "first_match (allmacros_re names) must st =
    (let w = takeWhile is_word (post_text st)
     in if \<not> word_start (pre_text st) \<and> w \<in> set names then Some (advance w st) else None)"
proof -
  define w where "w = takeWhile is_word (post_text st)"
  have "rx_match (allmacros_re ns) st = concat (map (\<lambda>n. rx_match (macro_re n) st) ns)" if "ns \<noteq> []" for ns
    using that unfolding allmacros_re_def
  proof (induction ns)
    case (Cons n ns)
    then show ?case by (cases ns) simp_all
  qed simp
  then have m: "rx_match (allmacros_re names) st =
      concat (map (\<lambda>n. if \<not> word_start (pre_text st) \<and> w = n then [advance n st] else []) names)"
    using assms by (auto simp: macro_re_match w_def intro!: arg_cong [of _ _ concat])
  have f: "List.find P (concat (map (\<lambda>n. if c \<and> w = n then [g n] else []) ns)) =
      (if c \<and> w \<in> set ns then Some (g w) else None)" if "P (g w)" for P :: "rx_state \<Rightarrow> bool" and c g ns
    using that by (induction ns) auto
  have "length (drop (length w) (post_text st)) < length (post_text st)" if "w \<in> set names"
    using assms that w_def by (cases "post_text st") (auto simp: ident_def)
  then show ?thesis
    unfolding first_match_def m Let_def w_def [symmetric]
    by (cases "w \<in> set names") (subst f, auto simp: find_None_iff)
qed

lemma finditer_macros:
  assumes "names \<noteq> []" "\<forall>w \<in> set names. ident w"
  shows "map fst (finditer (allmacros_re names) must b a) =
    filter (\<lambda>w. w \<in> set names) (idents (if word_start b then dropWhile is_word a else a))"
proof (induction "length a" arbitrary: must b a rule: less_induct)
  case less
  let ?r = "allmacros_re names" and ?w = "takeWhile is_word a"
  have drop: "drop (length ?w) a = dropWhile is_word a" by (simp add: dropWhile_eq_drop)
  show ?case
  proof (cases "\<not> word_start b \<and> ?w \<in> set names")
    case True
    then have w: "?w \<noteq> []" "word_start (rev ?w @ b)"
      using assms(2) word_start_rev [of ?w b] by (auto simp: ident_def)
    then have len: "length (dropWhile is_word a) < length a" by (cases a) (auto simp: le_imp_less_Suc length_dropWhile_le split: if_splits)
    have "take (length a - length (dropWhile is_word a)) a = ?w"
      by (metis add_diff_cancel_right' append_eq_conv_conj length_append takeWhile_dropWhile_id)
    then have "finditer ?r must b a = (?w, []) # finditer ?r False (rev ?w @ b) (dropWhile is_word a)"
      using True len by (subst finditer.simps) (simp add: allmacros_match assms Let_def matched_def drop)
    moreover have "idents a = ?w # idents (dropWhile is_word a)" using w by (cases a) (auto split: if_splits)
    ultimately show ?thesis using less [OF len] True w by (simp add: dropWhile_idem)
  next
    case False
    then have none: "first_match ?r must \<lparr>pre_text = b, post_text = a, groups = []\<rparr> = None"
      by (simp add: allmacros_match assms Let_def)
    show ?thesis
    proof (cases a)
      case Nil
      then show ?thesis using none by (subst finditer.simps) simp
    next
      case (Cons c s)
      have "finditer ?r must b a = finditer ?r False (c # b) s"
        using none Cons by (subst finditer.simps) simp
      then show ?thesis using less [of s False "c # b"] Cons False by (auto simp: word_start_def split: if_splits)
    qed
  qed
qed

lemma findall_macros:
  assumes "names \<noteq> []" "\<forall>w \<in> set names. ident w"
  shows "findall (allmacros_re names) s = filter (\<lambda>w. w \<in> set names) (idents s)"
  using finditer_macros [OF assms, of False "[]" s] by (simp add: findall_def word_start_def)

section \<open>Attributes through macro bodies\<close>

text \<open>
  \<open>uses db\<close> relates a macro to the macros its body names; \<open>inherited db k\<close> are the
  attributes of the macros reachable from \<open>k\<close>.
\<close>

definition macro_names :: "hexdb \<Rightarrow> string set" where
  "macro_names db = fst ` set (macros db)"

definition body_of :: "hexdb \<Rightarrow> string \<Rightarrow> string" where
  "body_of db k = (case map_of (macros db) k of None \<Rightarrow> [] | Some m \<Rightarrow> mbeh m)"

definition attribs_of :: "hexdb \<Rightarrow> string \<Rightarrow> string set" where
  "attribs_of db k = (case map_of (macros db) k of None \<Rightarrow> {} | Some m \<Rightarrow> mattribs m)"

definition macros_in :: "hexdb \<Rightarrow> string \<Rightarrow> string set" where
  "macros_in db s = {w \<in> set (idents s). w \<in> macro_names db}"

definition uses :: "hexdb \<Rightarrow> (string \<times> string) set" where
  "uses db = {(k, w). k \<in> macro_names db \<and> w \<in> macros_in db (body_of db k)}"

definition inherited :: "hexdb \<Rightarrow> string \<Rightarrow> string set" where
  "inherited db k = \<Union> (attribs_of db ` ((uses db)\<^sup>* `` {k}))"

lemma inherited_step:
  "inherited db k = attribs_of db k \<union> \<Union> (inherited db ` (uses db `` {k}))"
proof -
  have "(uses db)\<^sup>* `` {k} = insert k (\<Union>w \<in> uses db `` {k}. (uses db)\<^sup>* `` {w})"
    by (auto intro: converse_rtrancl_into_rtrancl elim: converse_rtranclE)
  then show ?thesis by (auto simp: inherited_def)
qed

lemma map_of_or_attribs:
  "map_of (macros (or_attribs key as db)) k =
     map_option (\<lambda>m. if k = key then m\<lparr>mattribs := mattribs m \<union> as\<rparr> else m) (map_of (macros db) k)"
proof -
  have "map_of (map (\<lambda>(k, m). (k, if k = key then f m else m)) xs) k =
      map_option (\<lambda>m. if k = key then f m else m) (map_of xs k)" for f and xs :: "(string \<times> macro) list"
    by (induction xs) auto
  then show ?thesis by (simp add: or_attribs_def)
qed

lemma or_attribs_keys: "map fst (macros (or_attribs key as db)) = map fst (macros db)"
  by (simp add: or_attribs_def comp_def case_prod_beta)

lemma names_iff: "k \<in> macro_names db \<longleftrightarrow> (\<exists>m. map_of (macros db) k = Some m)"
  by (metis macro_names_def map_of_eq_None_iff not_None_eq)

text \<open>What every step keeps: the tables of the tags, and the macros' names and bodies.\<close>

definition same_shape :: "hexdb \<Rightarrow> hexdb \<Rightarrow> bool" where
  "same_shape db db' \<longleftrightarrow> map fst (macros db') = map fst (macros db) \<and>
     body_of db' = body_of db \<and> semdict db' = semdict db \<and> attribdict db' = attribdict db \<and>
     tags db' = tags db"

lemma same_shape_refl: "same_shape db db"
  by (simp add: same_shape_def)

lemma same_shape_trans: "same_shape a b \<Longrightarrow> same_shape b c \<Longrightarrow> same_shape a c"
  by (simp add: same_shape_def)

lemma same_shape_names: "same_shape db db' \<Longrightarrow> macro_names db' = macro_names db"
  unfolding same_shape_def macro_names_def by (metis list.set_map)

lemma or_attribs_shape: "same_shape db ((or_attribs key as db)\<lparr>finished_macros := F\<rparr>)"
proof -
  have "body_of (or_attribs key as db) k = body_of db k" for k
    by (simp add: body_of_def map_of_or_attribs split: option.split)
  then have "body_of ((or_attribs key as db)\<lparr>finished_macros := F\<rparr>) = body_of db"
    by (simp add: fun_eq_iff body_of_def)
  then show ?thesis
    by (simp add: same_shape_def or_attribs_keys) (simp add: or_attribs_def)
qed

lemma attribs_of_or:
  "key \<in> macro_names db \<Longrightarrow> attribs_of ((or_attribs key as db)\<lparr>finished_macros := F\<rparr>) k =
     (if k = key then attribs_of db k \<union> as else attribs_of db k)"
  by (auto simp: attribs_of_def map_of_or_attribs names_iff split: option.split)

text \<open>
  The invariant of the recursion, relative to the tables \<open>db0\<close> it started from and to a
  \<open>rank\<close> that falls along \<open>uses\<close>: attributes only grow, stay within those inherited, and a
  finished macro of rank below \<open>B\<close> has them all.
\<close>

definition expanding :: "(string \<Rightarrow> nat) \<Rightarrow> hexdb \<Rightarrow> nat \<Rightarrow> hexdb \<Rightarrow> bool" where
  "expanding rank db0 B db \<longleftrightarrow> same_shape db0 db \<and>
     (\<forall>k. attribs_of db0 k \<subseteq> attribs_of db k \<and> attribs_of db k \<subseteq> inherited db0 k) \<and>
     (\<forall>k \<in> finished_macros db. rank k < B \<longrightarrow> inherited db0 k \<subseteq> attribs_of db k)"

text \<open>A run for \<open>key\<close> leaves alone the other macros of its rank and above.\<close>

definition untouched :: "(string \<Rightarrow> nat) \<Rightarrow> string \<Rightarrow> hexdb \<Rightarrow> hexdb \<Rightarrow> bool" where
  "untouched rank key db db' \<longleftrightarrow>
     (\<forall>k. attribs_of db k \<subseteq> attribs_of db' k) \<and>
     (\<forall>k. rank key \<le> rank k \<and> k \<noteq> key \<longrightarrow>
        attribs_of db' k = attribs_of db k \<and> (k \<in> finished_macros db' \<longleftrightarrow> k \<in> finished_macros db))"

lemma untouched_refl: "untouched rank key db db"
  by (simp add: untouched_def)

lemma untouched_trans: "untouched rank key a b \<Longrightarrow> untouched rank key b c \<Longrightarrow> untouched rank key a c"
  unfolding untouched_def by (metis subset_trans)

lemma untouched_sub: "untouched rank w a b \<Longrightarrow> rank w < rank key \<Longrightarrow> untouched rank key a b"
  unfolding untouched_def by (metis less_le_trans less_imp_le nat_neq_iff)

definition expand_body :: "nat \<Rightarrow> rx \<Rightarrow> string \<Rightarrow> string \<Rightarrow> hexdb \<Rightarrow> hexdb res" where
  "expand_body n r key submacro db =
     (if submacro = [] then Inr db
      else bindR (getitem (map_of (macros db)) submacro) (\<lambda>_.
           bindR (expand_macro_attribs n r submacro db) (\<lambda>(db', as).
           Inr ((or_attribs key as db')\<lparr>finished_macros := insert key (finished_macros db')\<rparr>))))"

lemma expand_Suc:
  "expand_macro_attribs (Suc n) r key db =
     bindR (getitem (map_of (macros db)) key) (\<lambda>m.
     bindR (if key \<in> finished_macros db then Inr db
            else foldR (expand_body n r key) (findall r (mbeh m)) db)
       (\<lambda>db'. bindR (macro_attribs db' key) (\<lambda>as. Inr (db', as))))"
proof -
  have "expand_body n r key = (\<lambda>submacro db.
     if submacro = [] then Inr db
      else bindR (getitem (map_of (macros db)) submacro) (\<lambda>_.
           bindR (expand_macro_attribs n r submacro db) (\<lambda>(db', as).
           Inr ((or_attribs key as db')\<lparr>finished_macros := insert key (finished_macros db')\<rparr>))))"
    by (intro ext) (simp add: expand_body_def)
  then show ?thesis by (simp only: expand_macro_attribs.simps(2))
qed

declare expand_macro_attribs.simps(2) [simp del]

lemma macro_attribs_eq: "k \<in> macro_names db \<Longrightarrow> macro_attribs db k = Inr (attribs_of db k)"
  by (auto simp: macro_attribs_def attribs_of_def names_iff getitem_def)

lemma expand_body_step:
  assumes "expanding rank db0 (rank key) db" "key \<in> macro_names db0" "(key, w) \<in> uses db0"
    and "rank w < rank key" "w \<noteq> []" "w \<in> macro_names db0"
    and "\<exists>db'. expand_macro_attribs n r w db = Inr (db', inherited db0 w) \<and>
           expanding rank db0 (rank key) db' \<and> untouched rank w db db'"
  shows "\<exists>db'. expand_body n r key w db = Inr db' \<and> expanding rank db0 (rank key) db' \<and>
    untouched rank key db db' \<and> inherited db0 w \<subseteq> attribs_of db' key"
proof -
  obtain db' where e: "expand_macro_attribs n r w db = Inr (db', inherited db0 w)"
      "expanding rank db0 (rank key) db'" "untouched rank w db db'"
    using assms(7) by blast
  define d where "d = (or_attribs key (inherited db0 w) db')\<lparr>finished_macros := insert key (finished_macros db')\<rparr>"
  have names: "macro_names db = macro_names db0" "macro_names db' = macro_names db0"
    using assms(1) e(2) same_shape_names by (auto simp: expanding_def)
  have at: "attribs_of d k = (if k = key then attribs_of db' k \<union> inherited db0 w else attribs_of db' k)" for k
    using assms(2) names by (simp add: d_def attribs_of_or)
  have fin: "finished_macros d = insert key (finished_macros db')" by (simp add: d_def)
  have "inherited db0 w \<subseteq> inherited db0 key"
    using assms(3) by (subst (2) inherited_step) blast
  moreover have "same_shape db0 d"
    using e(2) or_attribs_shape same_shape_trans unfolding expanding_def d_def by blast
  ultimately have "expanding rank db0 (rank key) d"
    using e(2) by (auto simp: expanding_def at fin)
  moreover have "untouched rank key db' d"
    by (auto simp: untouched_def at fin)
  moreover have "expand_body n r key w db = Inr d"
  proof -
    obtain m where "map_of (macros db) w = Some m" using assms(6) names(1) names_iff by blast
    then show ?thesis using assms(5) e(1) by (simp add: expand_body_def d_def getitem_def)
  qed
  ultimately show ?thesis
    using untouched_trans [OF untouched_sub [OF e(3) assms(4)]] at by auto
qed

lemma expand_loop:
  assumes "expanding rank db0 (rank key) db" "key \<in> macro_names db0"
    and "\<And>w. w \<in> set l \<Longrightarrow> (key, w) \<in> uses db0 \<and> rank w < rank key \<and> w \<noteq> [] \<and> w \<in> macro_names db0"
    and "\<And>w db. w \<in> set l \<Longrightarrow> expanding rank db0 (rank key) db \<Longrightarrow>
      \<exists>db'. expand_macro_attribs n r w db = Inr (db', inherited db0 w) \<and>
            expanding rank db0 (rank key) db' \<and> untouched rank w db db'"
  shows "\<exists>db'. foldR (expand_body n r key) l db = Inr db' \<and> expanding rank db0 (rank key) db' \<and>
    untouched rank key db db' \<and> \<Union> (inherited db0 ` set l) \<subseteq> attribs_of db' key"
  using assms
proof (induction l arbitrary: db)
  case Nil
  then show ?case by (simp add: untouched_refl)
next
  case (Cons w l)
  then obtain db1 where s: "expand_body n r key w db = Inr db1" "expanding rank db0 (rank key) db1"
      "untouched rank key db db1" "inherited db0 w \<subseteq> attribs_of db1 key"
    using expand_body_step [of rank db0 key db w n r] by auto
  then obtain db2 where "foldR (expand_body n r key) l db1 = Inr db2" "expanding rank db0 (rank key) db2"
      "untouched rank key db1 db2" "\<Union> (inherited db0 ` set l) \<subseteq> attribs_of db2 key"
    using Cons by force
  moreover from this have "attribs_of db1 key \<subseteq> attribs_of db2 key" by (simp add: untouched_def)
  ultimately show ?case using s untouched_trans by auto
qed

lemma expand_complete:
  assumes r: "\<And>s. findall r s = filter (\<lambda>w. w \<in> macro_names db0) (idents s)"
    and rank: "\<And>k w. (k, w) \<in> uses db0 \<Longrightarrow> rank w < rank k"
    and "[] \<notin> macro_names db0"
  shows "rank key < n \<Longrightarrow> rank key < B \<Longrightarrow> key \<in> macro_names db0 \<Longrightarrow> expanding rank db0 B db \<Longrightarrow>
    \<exists>db'. expand_macro_attribs n r key db = Inr (db', inherited db0 key) \<and>
      expanding rank db0 B db' \<and> untouched rank key db db' \<and> inherited db0 key \<subseteq> attribs_of db' key"
proof (induction n arbitrary: key B db)
  case (Suc n)
  have shape: "same_shape db0 db" using Suc.prems(4) by (simp add: expanding_def)
  have names: "macro_names db = macro_names db0" "body_of db = body_of db0"
    using same_shape_names [OF shape] shape by (simp_all add: same_shape_def)
  obtain m where m: "map_of (macros db) key = Some m"
    using names(1) Suc.prems(3) names_iff by blast
  then have beh: "mbeh m = body_of db0 key"
    unfolding names(2) [symmetric] by (simp add: body_of_def)
  have ret: "macro_attribs d key = Inr (inherited db0 key)"
    if "expanding rank db0 C d" "inherited db0 key \<subseteq> attribs_of d key" for C d
  proof -
    have "attribs_of d key = inherited db0 key" "key \<in> macro_names d"
      using that Suc.prems(3) same_shape_names [of db0 d] unfolding expanding_def by blast+
    then show ?thesis by (simp add: macro_attribs_eq)
  qed
  show ?case
  proof (cases "key \<in> finished_macros db")
    case True
    then have "inherited db0 key \<subseteq> attribs_of db key"
      using Suc.prems by (auto simp: expanding_def)
    then show ?thesis
      using True ret Suc.prems m beh by (auto simp: expand_Suc getitem_def untouched_refl)
  next
    case False
    let ?l = "findall r (body_of db0 key)"
    have low: "expanding rank db0 (rank key) db"
      using Suc.prems by (auto simp: expanding_def)
    have l: "(key, w) \<in> uses db0 \<and> rank w < rank key \<and> w \<noteq> [] \<and> w \<in> macro_names db0" if "w \<in> set ?l" for w
      using that rank [of key w] assms(3) Suc.prems(3) by (auto simp: r uses_def macros_in_def)
    have "\<exists>d. foldR (expand_body n r key) ?l db = Inr d \<and> expanding rank db0 (rank key) d \<and>
        untouched rank key db d \<and> \<Union> (inherited db0 ` set ?l) \<subseteq> attribs_of d key"
    proof (rule expand_loop [OF low Suc.prems(3) l])
      fix w d assume w: "w \<in> set ?l" "expanding rank db0 (rank key) d"
      have "rank w < n" using l [OF w(1)] Suc.prems(1) by linarith
      with w show "\<exists>db'. expand_macro_attribs n r w d = Inr (db', inherited db0 w) \<and>
          expanding rank db0 (rank key) db' \<and> untouched rank w d db'"
        using Suc.IH [of w "rank key" d] l [OF w(1)] by blast
    qed
    then obtain d where d: "foldR (expand_body n r key) ?l db = Inr d" "expanding rank db0 (rank key) d"
        "untouched rank key db d" "\<Union> (inherited db0 ` set ?l) \<subseteq> attribs_of d key"
      by blast
    have "uses db0 `` {key} = set ?l"
      using Suc.prems(3) by (auto simp: r uses_def macros_in_def)
    moreover have "attribs_of db0 key \<subseteq> attribs_of d key" using d(2) by (simp add: expanding_def)
    ultimately have all: "inherited db0 key \<subseteq> attribs_of d key"
      using d(4) by (subst inherited_step) auto
    have "expanding rank db0 B d"
      unfolding expanding_def
    proof (intro conjI ballI impI)
      fix k assume k: "k \<in> finished_macros d" "rank k < B"
      show "inherited db0 k \<subseteq> attribs_of d k"
      proof (cases "rank k < rank key \<or> k = key")
        case True
        then show ?thesis using all d(2) k(1) by (auto simp: expanding_def)
      next
        case False
        then have "attribs_of d k = attribs_of db k" "k \<in> finished_macros db"
          using d(3) k(1) by (auto simp: untouched_def)
        then show ?thesis using Suc.prems(4) k(2) by (auto simp: expanding_def)
      qed
    qed (use d(2) in \<open>auto simp: expanding_def\<close>)
    then show ?thesis
      using False ret d m beh all by (auto simp: expand_Suc getitem_def)
  qed
qed simp

lemma expand_all:
  assumes r: "\<And>s. findall r s = filter (\<lambda>w. w \<in> macro_names db0) (idents s)"
    and rank: "\<And>k w. (k, w) \<in> uses db0 \<Longrightarrow> rank w < rank k"
    and "[] \<notin> macro_names db0" "\<And>k. k \<in> macro_names db0 \<Longrightarrow> rank k < n"
  shows "set ks \<subseteq> macro_names db0 \<Longrightarrow> expanding rank db0 n db \<Longrightarrow>
    \<exists>db'. foldR (\<lambda>key db. bindR (expand_macro_attribs n r key db) (\<lambda>(db', _). Inr db')) ks db = Inr db' \<and>
      expanding rank db0 n db' \<and> (\<forall>k. attribs_of db k \<subseteq> attribs_of db' k) \<and>
      (\<forall>k \<in> set ks. inherited db0 k \<subseteq> attribs_of db' k)"
proof (induction ks arbitrary: db)
  case Nil
  then show ?case by simp
next
  case (Cons k ks)
  then have "k \<in> macro_names db0" by simp
  then obtain d where d: "expand_macro_attribs n r k db = Inr (d, inherited db0 k)"
      "expanding rank db0 n d" "untouched rank k db d" "inherited db0 k \<subseteq> attribs_of d k"
    using expand_complete [where rank = rank and key = k and n = n and B = n and db = db, OF r rank assms(3)] assms(4) Cons.prems(2) by blast
  have "set ks \<subseteq> macro_names db0" using Cons.prems(1) by simp
  from Cons.IH [OF this d(2)] obtain e where
      e: "foldR (\<lambda>key db. bindR (expand_macro_attribs n r key db) (\<lambda>(db', _). Inr db')) ks d = Inr e"
      "expanding rank db0 n e" "\<forall>j. attribs_of d j \<subseteq> attribs_of e j"
      "\<forall>j \<in> set ks. inherited db0 j \<subseteq> attribs_of e j"
    by blast
  moreover have "attribs_of db j \<subseteq> attribs_of e j" for j
    using d(3) e(3) unfolding untouched_def by (meson subset_trans)
  moreover have "inherited db0 k \<subseteq> attribs_of e k" using d(4) e(3) by (meson subset_trans)
  ultimately show ?case using d(1) by simp
qed

text \<open>The second loop: an instruction takes the attributes of the macros its semantics names.\<close>

definition tag_attribs :: "string set \<Rightarrow> string \<Rightarrow> hexdb \<Rightarrow> hexdb" where
  "tag_attribs as tag d = d\<lparr>attribdict := (attribdict d)(tag \<mapsto> the (attribdict d tag) \<union> as)\<rparr>"

definition tag_body :: "string \<Rightarrow> string \<Rightarrow> hexdb \<Rightarrow> hexdb res" where
  "tag_body tag macname db =
     (if macname = [] then Inr db
      else bindR (macro_attribs db macname) (\<lambda>as.
           bindR (getitem (attribdict db) tag) (\<lambda>old.
           Inr (db\<lparr>attribdict := (attribdict db)(tag \<mapsto> old \<union> as)\<rparr>))))"

lemma tag_attribs_simps:
  "tag_attribs as tag (tag_attribs bs tag d) = tag_attribs (bs \<union> as) tag d"
  "macros (tag_attribs as tag d) = macros d" "semdict (tag_attribs as tag d) = semdict d"
  "macro_names (tag_attribs as tag d) = macro_names d" "attribs_of (tag_attribs as tag d) = attribs_of d"
  "attribdict (tag_attribs as tag d) t =
     (if t = tag then Some (the (attribdict d tag) \<union> as) else attribdict d t)"
  by (simp_all add: tag_attribs_def Un_assoc macro_names_def attribs_of_def fun_eq_iff)

lemma tag_loop:
  assumes "set ws \<subseteq> macro_names db" "[] \<notin> macro_names db" "attribdict db tag \<noteq> None"
  shows "foldR (tag_body tag) ws db = Inr (tag_attribs (\<Union> (attribs_of db ` set ws)) tag db)"
  using assms
proof (induction ws arbitrary: db)
  case Nil
  then have "(attribdict db)(tag \<mapsto> the (attribdict db tag)) = attribdict db" by auto
  then show ?case by (simp add: tag_attribs_def)
next
  case (Cons w ws)
  let ?d = "tag_attribs (attribs_of db w) tag db"
  have "tag_body tag w db = Inr ?d"
    using Cons.prems by (auto simp: tag_body_def macro_attribs_eq getitem_def tag_attribs_def)
  moreover have "foldR (tag_body tag) ws ?d = Inr (tag_attribs (\<Union> (attribs_of ?d ` set ws)) tag ?d)"
    by (rule Cons.IH) (use Cons.prems in \<open>auto simp: tag_attribs_simps\<close>)
  ultimately show ?case by (simp add: tag_attribs_simps)
qed

definition tag_step :: "rx \<Rightarrow> string \<Rightarrow> hexdb \<Rightarrow> hexdb res" where
  "tag_step r tag db = bindR (getitem (semdict db) tag) (\<lambda>sem. foldR (tag_body tag) (findall r sem) db)"

lemma calculate_attribs_eq:
  "calculate_attribs limit names db =
     bindR (foldR (\<lambda>key db. bindR (expand_macro_attribs limit (allmacros_re names) key db) (\<lambda>(db', _). Inr db'))
             (map fst (macros db)) db)
       (\<lambda>db1. foldR (tag_step (allmacros_re names)) (tags db1) db1)"
proof -
  have b: "tag_body tag = (\<lambda>macname db.
     if macname = [] then Inr db
      else bindR (macro_attribs db macname) (\<lambda>as.
           bindR (getitem (attribdict db) tag) (\<lambda>old.
           Inr (db\<lparr>attribdict := (attribdict db)(tag \<mapsto> old \<union> as)\<rparr>))))" for tag
    by (intro ext) (simp add: tag_body_def)
  show ?thesis
    by (simp only: calculate_attribs_def Let_def b [symmetric] tag_step_def [symmetric])
qed

lemma tags_loop:
  assumes "\<And>s. findall r s = filter (\<lambda>w. w \<in> macro_names db) (idents s)" "[] \<notin> macro_names db"
    and "\<And>t. t \<in> set ts \<Longrightarrow> semdict db t \<noteq> None \<and> attribdict db t \<noteq> None"
  shows "\<exists>db'. foldR (tag_step r) ts db = Inr db' \<and> (\<forall>t. attribdict db' t =
    (if t \<in> set ts then Some (the (attribdict db t) \<union> \<Union> (attribs_of db ` macros_in db (the (semdict db t))))
     else attribdict db t))"
  using assms
proof (induction ts arbitrary: db)
  case Nil
  then show ?case by simp
next
  case (Cons t ts)
  let ?as = "\<Union> (attribs_of db ` macros_in db (the (semdict db t)))"
  let ?d = "tag_attribs ?as t db"
  obtain sem where sem: "semdict db t = Some sem" using Cons.prems(3) [of t] by auto
  have "set (findall r sem) = macros_in db sem" using Cons.prems(1) by (auto simp: macros_in_def)
  moreover have "foldR (tag_body t) (findall r sem) db =
      Inr (tag_attribs (\<Union> (attribs_of db ` set (findall r sem))) t db)"
    by (rule tag_loop) (use Cons.prems in auto)
  ultimately have step: "tag_step r t db = Inr ?d"
    by (simp add: tag_step_def sem getitem_def)
  have "\<exists>db'. foldR (tag_step r) ts ?d = Inr db' \<and> (\<forall>u. attribdict db' u =
    (if u \<in> set ts then Some (the (attribdict ?d u) \<union> \<Union> (attribs_of ?d ` macros_in ?d (the (semdict ?d u))))
     else attribdict ?d u))"
    by (rule Cons.IH) (use Cons.prems in \<open>auto simp: tag_attribs_simps\<close>)
  then show ?case
    using step by (auto simp: tag_attribs_simps macros_in_def)
qed

text \<open>C13: Attribute inheritance. When no macro's body leads back to the macro (a rank below Python's recursion limit falls along the uses) and macro names are identifiers, calculate_attribs ends without an exception for every order in which the macro patterns are joined, and each instruction ends up with its own attributes and those of every macro reachable from its semantics through macro bodies.\<close>

theorem calculate_attribs_inherited:
  assumes "set names = macro_names db" "names \<noteq> []" "\<forall>w \<in> set names. ident w"
    and "finished_macros db = {}"
    and "\<And>t. t \<in> set (tags db) \<Longrightarrow> semdict db t \<noteq> None \<and> attribdict db t \<noteq> None"
    and "\<And>k w. (k, w) \<in> uses db \<Longrightarrow> rank w < rank k"
    and "\<And>k. k \<in> macro_names db \<Longrightarrow> rank k < limit"
  shows "\<exists>db'. calculate_attribs limit names db = Inr db' \<and>
    (\<forall>t \<in> set (tags db). attribdict db' t =
       Some (the (attribdict db t) \<union> \<Union> (inherited db ` macros_in db (the (semdict db t)))))"
proof -
  let ?r = "allmacros_re names"
  have r: "findall ?r s = filter (\<lambda>w. w \<in> macro_names db) (idents s)" for s
    using findall_macros [OF assms(2,3)] assms(1) by simp
  have "[] \<notin> macro_names db" using assms(1,3) by (auto simp: ident_def)
  moreover have "attribs_of db k \<subseteq> inherited db k" for k by (subst inherited_step) simp
  then have "expanding rank db limit db"
    using assms(4) by (auto simp: expanding_def same_shape_refl)
  ultimately obtain db1 where d1:
      "foldR (\<lambda>key db. bindR (expand_macro_attribs limit ?r key db) (\<lambda>(db', _). Inr db'))
         (map fst (macros db)) db = Inr db1" "expanding rank db limit db1"
      "\<forall>k \<in> macro_names db. inherited db k \<subseteq> attribs_of db1 k"
    using expand_all [where rank = rank and n = limit and ks = "map fst (macros db)" and db = db, OF r assms(6)] assms(7)
    by (auto simp: macro_names_def)
  have same: "same_shape db db1" using d1(2) by (simp add: expanding_def)
  then have shape: "macro_names db1 = macro_names db" "tags db1 = tags db" "semdict db1 = semdict db"
      "attribdict db1 = attribdict db"
    using same_shape_names [OF same] by (simp_all add: same_shape_def)
  have at: "attribs_of db1 ` macros_in db1 s = inherited db ` macros_in db s" for s
    using d1(2,3) shape(1) by (auto simp: expanding_def macros_in_def intro!: image_cong subset_antisym)
  have "\<exists>db'. foldR (tag_step ?r) (tags db) db1 = Inr db' \<and> (\<forall>t. attribdict db' t =
    (if t \<in> set (tags db) then Some (the (attribdict db1 t) \<union> \<Union> (attribs_of db1 ` macros_in db1 (the (semdict db1 t))))
     else attribdict db1 t))"
    by (rule tags_loop) (use r assms(5) \<open>[] \<notin> macro_names db\<close> shape in auto)
  then show ?thesis using d1(1) shape at by (auto simp: calculate_attribs_eq)
qed

theorem calculate_attribs_inherited_witness:
  "\<exists>db'. calculate_attribs 2 [''fA'', ''fB'']
      (SEMANTICS ''T'' [] ''fA();'' (MACROATTRIB ''fA'' ''fB(x)'' ''(A_ONE)'' (MACROATTRIB ''fB'' ''x'' ''(A_TWO)'' empty_db)))
      = Inr db' \<and> attribdict db' ''T'' = Some {''A_ONE'', ''A_TWO''}"
proof -
  let ?db = "SEMANTICS ''T'' [] ''fA();'' (MACROATTRIB ''fA'' ''fB(x)'' ''(A_ONE)'' (MACROATTRIB ''fB'' ''x'' ''(A_TWO)'' empty_db))"
  have macros: "macros ?db = [(''fB'', \<lparr>mname = ''fB'', mbeh = ''x'', mattribs = {''A_TWO''}\<rparr>), (''fA'', \<lparr>mname = ''fA'', mbeh = ''fB(x)'', mattribs = {''A_ONE''}\<rparr>)]"
    by (simp add: SEMANTICS_def MACROATTRIB_def Let_def starts_with_def empty_db_def Macro_init_def)
  have ids: "idents ''fB(x)'' = [''fB'', ''x'']" "idents ''x'' = [''x'']" "idents ''fA();'' = [''fA'']" by code_simp+
  have uses: "uses ?db = {(''fA'', ''fB'')}"
    unfolding uses_def macros_in_def body_of_def macro_names_def macros by (auto simp: is_word_def is_digit_def split: if_splits)
  have reach: "(uses ?db)\<^sup>* `` {''fA''} = {''fA'', ''fB''}"
    unfolding uses by (auto elim: converse_rtranclE)
  have db: "finished_macros ?db = {}" "tags ?db = [''T'']" "semdict ?db ''T'' = Some ''fA();''" "attribdict ?db ''T'' = Some {}"
    by (simp_all add: SEMANTICS_def MACROATTRIB_def Let_def empty_db_def)
  have names: "macro_names ?db = {''fA'', ''fB''}" unfolding macro_names_def macros by auto
  have id: "\<forall>w \<in> set [''fA'', ''fB'']. ident w" by code_simp
  have "\<exists>db'. calculate_attribs 2 [''fA'', ''fB''] ?db = Inr db' \<and>
    (\<forall>t \<in> set (tags ?db). attribdict db' t =
       Some (the (attribdict ?db t) \<union> \<Union> (inherited ?db ` macros_in ?db (the (semdict ?db t)))))"
    by (rule calculate_attribs_inherited [where rank = "\<lambda>k. if k = ''fA'' then 1 else 0"])
      (use names uses db id in auto)
  moreover have "inherited ?db ''fA'' = {''A_ONE'', ''A_TWO''}"
    unfolding inherited_def reach by (simp add: attribs_of_def macros insert_commute)
  moreover have "macros_in ?db ''fA();'' = {''fA''}"
    unfolding macros_in_def names ids by auto
  ultimately show ?thesis by (simp add: db)
qed

text \<open>C22: A macro whose body names the macro itself first never becomes finished before it is expanded again: expand_macro_attribs runs into Python's recursion limit, whatever the limit is.\<close>

theorem expand_self_recursive:
  assumes "map_of (macros db) key = Some m" "key \<noteq> []" "key \<notin> finished_macros db"
    and "findall r (mbeh m) = key # rest"
  shows "expand_macro_attribs limit r key db = Inl RecursionError"
proof (induction limit)
  case (Suc n)
  have "expand_body n r key key db = Inl RecursionError"
    using assms(1,2) Suc by (simp add: expand_body_def getitem_def)
  then show ?case using assms by (simp add: expand_Suc getitem_def)
qed simp

theorem expand_self_recursive_witness:
  "expand_macro_attribs 1000 (allmacros_re [''fA'']) ''fA'' (MACROATTRIB ''fA'' ''fA(x)'' [] empty_db)
   = Inl RecursionError"
proof -
  let ?db = "MACROATTRIB ''fA'' ''fA(x)'' [] empty_db"
  have m: "map_of (macros ?db) ''fA'' = Some \<lparr>mname = ''fA'', mbeh = ''fA(x)'', mattribs = {}\<rparr>" "finished_macros ?db = {}"
    by (simp_all add: MACROATTRIB_def empty_db_def Macro_init_def)
  have "findall (allmacros_re [''fA'']) ''fA(x)'' = [''fA'']"
    by (subst findall_macros) (simp_all add: ident_def is_word_def is_digit_def)
  then show ?thesis
    using expand_self_recursive [OF m(1), of "allmacros_re [''fA'']" "[]" 1000] m(2) by simp
qed

section \<open>Reading the files\<close>

text \<open>
  A logical line of the semantics file: physical lines that all end in a backslash but the last,
  none of them a comment; comment lines may stand anywhere.
\<close>

definition continued :: "string \<Rightarrow> bool" where
  "continued l \<longleftrightarrow> ends_with l [CHR 0x5c, CHR 0x0a]"

definition logical_line :: "string list \<Rightarrow> bool" where
  "logical_line ls \<longleftrightarrow> ls \<noteq> [] \<and> list_all continued (butlast ls) \<and> \<not> continued (last ls) \<and>
     list_all (\<lambda>l. \<not> starts_with l ''#'') ls"

lemma read_logical_line:
  "logical_line ls \<Longrightarrow> read_semantics_lines ev acc (ls @ rest) db =
     bindR (ev (str_strip (acc @ concat ls)) db) (read_semantics_lines ev [] rest)"
proof (induction ls arbitrary: acc)
  case (Cons l ls)
  then show ?case by (cases "ls = []") (auto simp: logical_line_def continued_def)
qed (simp add: logical_line_def)

lemma read_comments:
  "read_semantics_lines ev acc ls db = read_semantics_lines ev acc (filter (\<lambda>l. \<not> starts_with l ''#'') ls) db"
  by (induction ev acc ls db rule: read_semantics_lines.induct) (auto intro!: bindR_cong)

text \<open>C18: Reading a semantics file evaluates each logical line exactly once, in order, as the concatenation of its physical lines, ignoring comment lines wherever they stand (also inside a continued line), and stops at the first exception.\<close>

theorem read_semantics_file_obj_lines:
  assumes "filter (\<lambda>l. \<not> starts_with l ''#'') ls = concat blocks" "\<forall>b \<in> set blocks. logical_line b"
  shows "read_semantics_file_obj ev ls db = foldR (\<lambda>b. ev (str_strip (concat b))) blocks db"
proof -
  have "read_semantics_lines ev [] (concat blocks) db = foldR (\<lambda>b. ev (str_strip (concat b))) blocks db"
    using assms(2) by (induction blocks arbitrary: db) (auto simp: read_logical_line intro!: bindR_cong)
  then show ?thesis
    unfolding read_semantics_file_obj_def assms(1) [symmetric] by (simp flip: read_comments)
qed

theorem read_semantics_file_obj_lines_witness:
  "read_semantics_file_obj (\<lambda>s db. Inr (db\<lparr>tags := tags db @ [s]\<rparr>))
     [''#x'', ''S(a,'' @ [CHR 0x5c, CHR 0x0a], ''# y'', ''b)'' @ [CHR 0x0a]] empty_db =
   Inr (empty_db\<lparr>tags := [''S(a,'' @ [CHR 0x5c, CHR 0x0a] @ ''b)'']\<rparr>)"
  using read_semantics_file_obj_lines [of "[''#x'', ''S(a,'' @ [CHR 0x5c, CHR 0x0a], ''# y'', ''b)'' @ [CHR 0x0a]]"
      "[[''S(a,'' @ [CHR 0x5c, CHR 0x0a], ''b)'' @ [CHR 0x0a]]]" "\<lambda>s db. Inr (db\<lparr>tags := tags db @ [s]\<rparr>)" empty_db]
  by (simp add: starts_with_def logical_line_def continued_def ends_with_def str_strip_def is_space_def empty_db_def)

section \<open>The operands of an instruction\<close>

lemma star_match_chars:
  assumes "\<And>st st'. st' \<in> set (f st) \<Longrightarrow>
    \<exists>c. c \<in> set cs \<and> post_text st = c # post_text st' \<and> groups st' = groups st"
  shows "st' \<in> set (star_match f n st) \<Longrightarrow>
    \<exists>w. set w \<subseteq> set cs \<and> post_text st = w @ post_text st' \<and> groups st' = groups st"
proof (induction n arbitrary: st)
  case (Suc n)
  then consider "st' = st" | u where "u \<in> set (f st)" "st' \<in> set (star_match f n u)"
    by (auto split: if_splits)
  then show ?case
  proof cases
    case 1
    then show ?thesis by (intro exI [of _ "[]"]) simp
  next
    case 2
    obtain c where c: "c \<in> set cs" "post_text st = c # post_text u" "groups u = groups st"
      using assms [OF 2(1)] by blast
    obtain w where "set w \<subseteq> set cs" "post_text u = w @ post_text st'" "groups st' = groups u"
      using Suc.IH [OF 2(2)] by blast
    with c show ?thesis by (intro exI [of _ "c # w"]) simp
  qed
qed (auto intro: exI [of _ "[]"])

lemma Cls_chars:
  "st' \<in> set (rx_match (Cls cs) st) \<Longrightarrow>
     \<exists>c. c \<in> set cs \<and> post_text st = c # post_text st' \<and> groups st' = groups st"
  by (auto split: list.splits if_splits)

lemma Plus_chars:
  assumes "st' \<in> set (rx_match (Plus (Cls cs)) st)"
  shows "\<exists>c w. set (c # w) \<subseteq> set cs \<and> post_text st = c # w @ post_text st' \<and> groups st' = groups st"
proof -
  obtain u where u: "u \<in> set (rx_match (Cls cs) st)"
      "st' \<in> set (star_match (rx_match (Cls cs)) (length (post_text u)) u)"
    using assms unfolding Plus_def by auto
  obtain c where c: "c \<in> set cs" "post_text st = c # post_text u" "groups u = groups st"
    using Cls_chars [OF u(1)] by blast
  obtain w where "set w \<subseteq> set cs" "post_text u = w @ post_text st'" "groups st' = groups u"
    using star_match_chars [OF Cls_chars u(2)] by blast
  with c show ?thesis by (intro exI [of _ c] exI [of _ w]) simp
qed

lemma finditer_sound:
  "(w, gs) \<in> set (finditer r must b a) \<Longrightarrow>
     \<exists>st st'. groups st = [] \<and> st' \<in> set (rx_match r st) \<and> gs = groups st'"
proof (induction r must b a rule: finditer.induct)
  case (1 r must b a)
  let ?st = "\<lparr>pre_text = b, post_text = a, groups = []\<rparr>"
  show ?case
  proof (cases "first_match r must ?st")
    case None
    then have "(w, gs) \<in> set (case a of [] \<Rightarrow> [] | c # s \<Rightarrow> finditer r False (c # b) s)"
      using "1.prems" by (subst (asm) finditer.simps) simp
    then show ?thesis using "1.IH"(1) [OF refl None] by (cases a) auto
  next
    case (Some st')
    then have "(w, gs) = (matched ?st st', groups st') \<or>
        (w, gs) \<in> set (finditer r (length (post_text st') = length a) (pre_text st') (post_text st'))"
      using "1.prems" by (subst (asm) finditer.simps) simp
    moreover have "st' \<in> set (rx_match r ?st)"
      using Some by (auto simp: first_match_def find_Some_iff)
    ultimately show ?thesis using "1.IH"(2) [OF refl Some] by (metis (no_types, lifting) prod.inject rx_state.select_convs(3))
  qed
qed

primrec group_free :: "rx \<Rightarrow> bool" where
  "group_free (Cls cs) = True"
| "group_free (NCls cs) = True"
| "group_free Eps = True"
| "group_free (Seq r q) = (group_free r \<and> group_free q)"
| "group_free (Alt r q) = (group_free r \<and> group_free q)"
| "group_free (Star r) = group_free r"
| "group_free (Grp k r) = False"
| "group_free (NotBehind w) = True"
| "group_free WordB = True"

lemma star_match_groups:
  assumes "\<And>st st'. st' \<in> set (f st) \<Longrightarrow> groups st' = groups st"
  shows "st' \<in> set (star_match f n st) \<Longrightarrow> groups st' = groups st"
  by (induction n arbitrary: st) (auto dest: assms split: if_splits)

lemma group_free_groups:
  "group_free r \<Longrightarrow> st' \<in> set (rx_match r st) \<Longrightarrow> groups st' = groups st"
proof (induction r arbitrary: st st')
  case (Star r)
  show ?case by (rule star_match_groups [of "rx_match r"]) (use Star in auto)
qed (fastforce split: list.splits if_splits)+

lemma Grp_match:
  assumes "st' \<in> set (rx_match (Grp k r) st)" "group_free r"
  shows "\<exists>u. u \<in> set (rx_match r st) \<and> post_text st' = post_text u \<and>
    groups st' = (k, take (length (post_text st) - length (post_text u)) (post_text st)) # groups st"
  using assms group_free_groups by auto

lemma Seq_match: "st' \<in> set (rx_match (Seq r q) st) \<longleftrightarrow> (\<exists>u \<in> set (rx_match r st). st' \<in> set (rx_match q u))"
  by auto

lemma regre_groups:
  assumes "st' \<in> set (rx_match regre st)" "groups st = []"
  shows "\<exists>c i1 i2 h n. groups st' = [(4, n), (3, h), (2, i1 # i2), (1, [c])] \<and>
    c \<in> set ''MNORCPQXSGVZA'' \<and> set (i1 # i2) \<subseteq> set ''stuvwxyzdefg''"
proof -
  let ?types = "''MNORCPQXSGVZA''" and ?ids = "''stuvwxyzdefg''"
  obtain a b d where m: "a \<in> set (rx_match (Grp 1 (Seq (NotBehind ''DUP'') (Cls ?types))) st)"
      "b \<in> set (rx_match (Grp 2 (Plus (Cls ?ids))) a)"
      "d \<in> set (rx_match (Grp 3 (Seq (Opt (Cls ''.'')) (Opt (Cls ''LlHh'')))) b)"
      "st' \<in> set (rx_match (Grp 4 (Seq (Plus digit_rx) (Opt (Cls ''S'')))) d)"
    using assms(1) unfolding regre_def Seq_match by blast
  obtain a' where a': "a' \<in> set (rx_match (Seq (NotBehind ''DUP'') (Cls ?types)) st)"
      "groups a = [(1, take (length (post_text st) - length (post_text a')) (post_text st))]"
    using Grp_match [OF m(1)] assms(2) group_free.simps by metis
  then have "a' \<in> set (rx_match (Cls ?types) st)" unfolding Seq_match by (auto split: if_splits)
  then obtain c where c: "c \<in> set ?types" "post_text st = c # post_text a'"
    using Cls_chars by blast
  obtain b' where b': "b' \<in> set (rx_match (Plus (Cls ?ids)) a)"
      "groups b = (2, take (length (post_text a) - length (post_text b')) (post_text a)) # groups a"
    using Grp_match [OF m(2)] group_free.simps unfolding Plus_def by blast
  obtain i1 i2 where i: "set (i1 # i2) \<subseteq> set ?ids" "post_text a = i1 # i2 @ post_text b'"
    using Plus_chars [OF b'(1)] by blast
  have gf: "group_free (Seq (Opt (Cls ''.'')) (Opt (Cls ''LlHh'')))"
      "group_free (Seq (Plus digit_rx) (Opt (Cls ''S'')))"
    by (simp_all add: Plus_def Opt_def digit_rx_def)
  obtain h where "groups d = (3, h) # groups b"
    using Grp_match [OF m(3) gf(1)] by blast
  moreover obtain n where "groups st' = (4, n) # groups d"
    using Grp_match [OF m(4) gf(2)] by blast
  ultimately have "groups st' = (4, n) # (3, h) # groups b" by simp
  then show ?thesis
    using a'(2) b'(2) c i by (intro exI [of _ c] exI [of _ i1] exI [of _ i2] exI [of _ h] exI [of _ n]) simp
qed

text \<open>C16: The register operands computed for a tag: none is listed twice, each has a one-letter type of the known register classes and a non-empty identifier over the operand letters, so the predicates that look at the identifier's first letter never raise IndexError on them.\<close>

theorem compute_tag_regs_operands:
  assumes "compute_tag_regs db tag = Inr rs"
  shows "distinct rs \<and> (\<forall>regtype regid toss numregs. (regtype, regid, toss, numregs) \<in> set rs \<longrightarrow>
    (\<exists>c \<in> set ''MNORCPQXSGVZA''. regtype = [c]) \<and> regid \<noteq> [] \<and> set regid \<subseteq> set ''stuvwxyzdefg'' \<and>
    (\<exists>r w. is_read regid = Inr r \<and> is_written regid = Inr w))"
proof -
  obtain b where b: "rs = uniquify (regs_in b)" using assms by (auto simp: compute_tag_regs_def)
  have "(\<exists>c \<in> set ''MNORCPQXSGVZA''. regtype = [c]) \<and> regid \<noteq> [] \<and> set regid \<subseteq> set ''stuvwxyzdefg'' \<and>
      (\<exists>r w. is_read regid = Inr r \<and> is_written regid = Inr w)"
    if mem: "(regtype, regid, toss, numregs) \<in> set rs" for regtype regid toss numregs
  proof -
    obtain w gs where g: "(w, gs) \<in> set (finditer regre False [] b)" "regtype = group_of 1 gs" "regid = group_of 2 gs"
      using mem by (auto simp: b uniquify_def set_first_occs regs_in_def)
    obtain st st' where st: "groups st = []" "st' \<in> set (rx_match regre st)" "gs = groups st'"
      using finditer_sound [OF g(1)] by blast
    obtain c i1 i2 h n where "gs = [(4, n), (3, h), (2, i1 # i2), (1, [c])]"
        "c \<in> set ''MNORCPQXSGVZA''" "set (i1 # i2) \<subseteq> set ''stuvwxyzdefg''"
      using regre_groups [OF st(2,1)] st(3) by blast
    with g show ?thesis by (simp add: group_of_def is_read_def is_written_def)
  qed
  moreover have "distinct rs" by (simp add: b uniquify_def distinct_first_occs)
  ultimately show ?thesis by blast
qed

theorem compute_tag_regs_operands_witness:
  "compute_tag_regs (SEMANTICS ''A2_add'' ''Rd32=add(Rs32,Rs32)'' [] empty_db) ''A2_add''
     = Inr [(''R'', ''d'', [], ''32''), (''R'', ''s'', [], ''32'')] \<and>
   distinct [(''R'', ''d'', [], ''32''), (''R'', ''s'', [], ''32'')]"
proof -
  have "uniquify (regs_in ''Rd32=add(Rs32,Rs32)'') = [(''R'', ''d'', [], ''32''), (''R'', ''s'', [], ''32'')]"
    by code_simp
  then have c: "compute_tag_regs (SEMANTICS ''A2_add'' ''Rd32=add(Rs32,Rs32)'' [] empty_db) ''A2_add''
     = Inr [(''R'', ''d'', [], ''32''), (''R'', ''s'', [], ''32'')]"
    by (simp add: compute_tag_regs_def SEMANTICS_def getitem_def)
  with compute_tag_regs_operands [OF c] show ?thesis by simp
qed

section \<open>The tables agree on the tags\<close>

definition tables_ok :: "hexdb \<Rightarrow> bool" where
  "tables_ok db \<longleftrightarrow> dom (behdict db) = set (tags db) \<and> dom (semdict db) = set (tags db) \<and>
     dom (attribdict db) = set (tags db)"

lemma tables_ok_update:
  assumes "tables_ok db" "attribdict db tag = Some x"
  shows "tables_ok (db\<lparr>attribdict := (attribdict db)(tag \<mapsto> y)\<rparr>)"
proof -
  have "tag \<in> set (tags db)" using assms by (auto simp: tables_ok_def)
  then show ?thesis using assms(1) by (simp add: tables_ok_def insert_absorb)
qed

lemma add_attrib_ok: "tables_ok db \<Longrightarrow> add_attrib tag a db = Inr db' \<Longrightarrow> tables_ok db'"
  by (auto simp: add_attrib_def tables_ok_update)

lemma or_attribs_ok: "tables_ok db \<Longrightarrow> tables_ok ((or_attribs key as db)\<lparr>finished_macros := F\<rparr>)"
  by (simp add: tables_ok_def or_attribs_def)

lemma expand_ok: "tables_ok db \<Longrightarrow> expand_macro_attribs n r key db = Inr (db', as) \<Longrightarrow> tables_ok db'"
proof (induction n arbitrary: key db db' as)
  case (Suc n)
  have "tables_ok t" if "tables_ok s" "expand_body n r key w s = Inr t" for w s t
    using that Suc.IH by (auto simp: expand_body_def or_attribs_ok split: if_splits)
  then have "tables_ok t" if "foldR (expand_body n r key) ws db = Inr t" for ws t
    using foldR_preserves [where P = tables_ok and f = "expand_body n r key"] that Suc.prems(1) by blast
  then show ?case
    using Suc.prems by (auto simp: expand_Suc split: if_splits)
qed simp

lemma tag_body_ok: "tables_ok s \<Longrightarrow> tag_body tag w s = Inr t \<Longrightarrow> tables_ok t"
  by (auto simp: tag_body_def tables_ok_update split: if_splits)

lemma tag_step_ok:
  assumes "tables_ok db" "tag_step r tag db = Inr db'"
  shows "tables_ok db'"
proof -
  obtain sem where f: "foldR (tag_body tag) (findall r sem) db = Inr db'"
    using assms(2) by (auto simp: tag_step_def)
  show ?thesis
    by (rule foldR_preserves [where P = tables_ok, OF _ assms(1) f]) (rule tag_body_ok)
qed

lemma calculate_ok: "tables_ok db \<Longrightarrow> calculate_attribs n names db = Inr db' \<Longrightarrow> tables_ok db'"
proof -
  let ?f = "\<lambda>key db. bindR (expand_macro_attribs n (allmacros_re names) key db) (\<lambda>(db', _). Inr db')"
  assume ok: "tables_ok db" and c: "calculate_attribs n names db = Inr db'"
  obtain d where d: "foldR ?f (map fst (macros db)) db = Inr d"
      "foldR (tag_step (allmacros_re names)) (tags d) d = Inr db'"
    using c by (auto simp: calculate_attribs_eq)
  have "tables_ok d"
    by (rule foldR_preserves [where P = tables_ok, OF _ ok d(1)]) (auto intro: expand_ok)
  then show ?thesis
    by (rule foldR_preserves [where P = tables_ok, OF _ _ d(2), rotated]) (rule tag_step_ok)
qed

text \<open>C15: The module's tables stay in step: behaviours, semantics and attributes are defined for exactly the listed tags after every SEMANTICS, MACROATTRIB, ATTRIBUTES and calculate_attribs call, and ATTRIBUTES can only fail with KeyError, on a tag without SEMANTICS.\<close>

theorem tables_ok_preserved:
  assumes "tables_ok db"
  shows "tables_ok (SEMANTICS tag b s db) \<and> tables_ok (MACROATTRIB m b a db) \<and>
    (\<forall>db'. ATTRIBUTES tag a db = Inr db' \<longrightarrow> tables_ok db') \<and>
    (\<forall>e. ATTRIBUTES tag a db = Inl e \<longrightarrow> e = KeyError \<and> tag \<notin> set (tags db)) \<and>
    (\<forall>db'. calculate_attribs n names db = Inr db' \<longrightarrow> tables_ok db')"
proof (intro conjI allI impI)
  show "tables_ok (SEMANTICS tag b s db)" using assms by (auto simp: tables_ok_def SEMANTICS_def)
  show "tables_ok (MACROATTRIB m b a db)" using assms by (simp add: tables_ok_def MACROATTRIB_def Let_def)
  show "tables_ok db'" if "ATTRIBUTES tag a db = Inr db'" for db'
    using that foldR_preserves [where P = tables_ok and f = "\<lambda>a. add_attrib tag (str_strip a)" and s = db]
      assms add_attrib_ok by (auto simp: ATTRIBUTES_def Let_def split: if_splits)
  show "tables_ok db'" if "calculate_attribs n names db = Inr db'" for db'
    using calculate_ok [OF assms that] .
  have fails: "e = KeyError \<and> tag \<notin> set (tags d)"
    if "foldR (\<lambda>a. add_attrib tag (str_strip a)) xs d = Inl e" "tables_ok d" for e xs d
    using that
  proof (induction xs arbitrary: d)
    case (Cons x xs)
    show ?case
    proof (cases "add_attrib tag (str_strip x) d")
      case (Inl e')
      with Cons.prems show ?thesis by (auto simp: add_attrib_def bindR_eq_Inl getitem_Inl tables_ok_def)
    next
      case (Inr d')
      moreover from this have "tags d' = tags d" by (auto simp: add_attrib_def)
      ultimately show ?thesis using Cons.IH [of d'] Cons.prems add_attrib_ok [OF Cons.prems(2)] by auto
    qed
  qed simp
  fix e assume "ATTRIBUTES tag a db = Inl e"
  then show "e = KeyError" "tag \<notin> set (tags db)"
    using fails [of _ db e] assms by (auto simp: ATTRIBUTES_def Let_def split: if_splits)
qed

theorem tables_ok_preserved_witness:
  "tables_ok (SEMANTICS ''A2_nop'' [] ''{}'' empty_db)"
  using tables_ok_preserved [of empty_db "''A2_nop''" "[]" "''{}''"] by (simp add: tables_ok_def empty_db_def)



end
