(* ===== verification/Il_Gen.thy ===== *)
theory Il_Gen
  imports Il_Semantics Hex_Attribs Il_Data
begin

text \<open>
  The rest of \<^verbatim>\<open>plugin/gen_il_funcs.py\<close>: from an instruction's tag to the text of its C++
  lifter, and the generated file. Two pieces of code are not part of the repository and are
  parameters: \<open>cpp\<close>, the preprocessor of \<^verbatim>\<open>pcpp\<close> (the macro definitions given to it
  so far and a text, to the concatenated values of the resulting tokens), and \<open>parse\<close>, the LALR
  parser Lark builds from \<open>semantics_grammar\<close>. \<open>order\<close> is the order in which Python walks a
  set of macro patterns, \<open>ev\<close> is \<open>eval\<close> on a line of the generated semantics file.
\<close>

abbreviation nl :: string where
  "nl \<equiv> [CHR 0x0a]"

abbreviation sq :: string where
  "sq \<equiv> [CHR 0x27]"

section \<open>Operand declarations\<close>

definition mapped_regno :: "string \<Rightarrow> nat \<Rightarrow> string" where
  "mapped_regno regtype regno =
     ''MapRegNum('' @ sq @ regtype @ sq @ '', insn.regno['' @ show_nat regno @ ''])''"

definition decl_src_pair :: "string \<Rightarrow> string \<Rightarrow> string \<Rightarrow> item list" where
  "decl_src_pair regtype regid mapped =
     [Raw (''SourcePairReg tmp_'' @ regtype @ regid @ ''V('' @ mapped @ '', il);'' @ nl @
           ''                  const int '' @ regtype @ regid @ ''V = tmp_'' @ regtype @
           regid @ ''V.Reg();'')]"

definition decl_src :: "string \<Rightarrow> string \<Rightarrow> string \<Rightarrow> item list" where
  "decl_src regtype regid mapped =
     [Raw (''const int '' @ regtype @ regid @ ''V = '' @ mapped @ '';'')]"

definition decl_wo_pair :: "string \<Rightarrow> string \<Rightarrow> string \<Rightarrow> item list" where
  "decl_wo_pair regtype regid mapped =
     [Raw (''const int '' @ regtype @ regid @ ''V = ctx.AddDestWriteOnlyRegPair('' @ mapped @
           '');'')]"

definition decl_rw_pair :: "string \<Rightarrow> string \<Rightarrow> string \<Rightarrow> item list" where
  "decl_rw_pair regtype regid mapped =
     [Raw (''const int '' @ regtype @ regid @ ''V = ctx.AddDestReadWriteRegPair('' @ mapped @
           '');'')]"

definition decl_wo :: "string \<Rightarrow> string \<Rightarrow> string \<Rightarrow> item list" where
  "decl_wo regtype regid mapped =
     [Raw (''const int '' @ regtype @ regid @ ''V = ctx.AddDestWriteOnlyReg('' @ mapped @ '');'')]"

definition decl_rw :: "string \<Rightarrow> string \<Rightarrow> string \<Rightarrow> item list" where
  "decl_rw regtype regid mapped =
     [Raw (''const int '' @ regtype @ regid @ ''V = ctx.AddDestReadWriteReg('' @ mapped @ '');'')]"

definition decl_wo_pred :: "string \<Rightarrow> string \<Rightarrow> string \<Rightarrow> item list" where
  "decl_wo_pred regtype regid mapped =
     [Raw (''const int '' @ regtype @ regid @ ''V = ctx.AddDestWriteOnlyPredReg('' @ mapped @
           '');'')]"

definition decl_rw_pred :: "string \<Rightarrow> string \<Rightarrow> string \<Rightarrow> item list" where
  "decl_rw_pred regtype regid mapped =
     [Raw (''const int '' @ regtype @ regid @ ''V = ctx.AddDestReadWritePredReg('' @ mapped @
           '');'')]"

definition genptr_decl :: "string \<Rightarrow> string \<Rightarrow> string \<Rightarrow> nat \<Rightarrow> item list res" where
  "genptr_decl tag regtype regid regno =
     (let d = (\<lambda>decl. Inr (decl regtype regid (mapped_regno regtype regno)))
      in if regtype = ''R'' \<and> regid \<in> {''ss'', ''tt''} then d decl_src_pair
         else if regtype = ''R'' \<and> regid \<in> {''dd'', ''ee''} then d decl_wo_pair
         else if regtype = ''R'' \<and> regid \<in> {''xx'', ''yy''} then d decl_rw_pair
         else if regtype = ''R'' \<and> regid \<in> {''s'', ''t'', ''u'', ''v''} then d decl_src
         else if regtype = ''R'' \<and> regid \<in> {''d'', ''e''} then d decl_wo
         else if regtype = ''R'' \<and> regid \<in> {''x'', ''y''} then d decl_rw
         else if regtype = ''P'' \<and> regid \<in> {''s'', ''t'', ''u'', ''v''} then d decl_src
         else if regtype = ''P'' \<and> regid \<in> {''d'', ''e''} then d decl_wo_pred
         else if regtype = ''P'' \<and> regid = ''x'' then d decl_rw_pred
         else if regtype = ''C'' \<and> regid = ''ss'' then d decl_src_pair
         else if regtype = ''C'' \<and> regid = ''dd'' then d decl_wo_pair
         else if regtype = ''C'' \<and> regid = ''s'' then d decl_src
         else if regtype = ''C'' \<and> regid = ''d'' then d decl_wo
         else Inl AssertionError)"

definition genptr_decl_new :: "string \<Rightarrow> string \<Rightarrow> nat \<Rightarrow> item list res" where
  "genptr_decl_new regtype regid regno =
     (let m = mapped_regno regtype regno
      in if regtype = ''N''
         then assertR (regid \<in> {''s'', ''t''})
           (Inr [Raw (''const int '' @ regtype @ regid @ ''N = ctx.AddDestWriteOnlyReg('' @ m @ '');'')])
         else if regtype = ''P''
         then assertR (regid \<in> {''t'', ''u'', ''v''})
           (Inr [Raw (''const int '' @ regtype @ regid @ ''N = ctx.AddDestWriteOnlyPredReg('' @ m @ '');'')])
         else Inl AssertionError)"

definition genptr_decl_opn :: "hexdb \<Rightarrow> string \<Rightarrow> regop \<Rightarrow> nat \<Rightarrow> item list res" where
  "genptr_decl_opn db tag reg i =
     (case reg of (regtype, regid, toss, numregs) \<Rightarrow>
        if is_pair regid then genptr_decl tag regtype regid i
        else assertR (is_single regid)
          (bindR (is_old_val db regtype regid tag) (\<lambda>old.
             if old then genptr_decl tag regtype regid i
             else bindR (is_new_val db regtype regid tag) (\<lambda>new.
               assertR new (genptr_decl_new regtype regid i)))))"

text \<open>\<open>immlett\<close> is one ASCII letter; \<open>isupper\<close> asks for an upper-case one.\<close>

definition is_upper :: "string \<Rightarrow> bool" where
  "is_upper s \<longleftrightarrow> list_ex (\<lambda>c. 65 \<le> (of_char c :: nat) \<and> (of_char c :: nat) \<le> 90) s \<and>
     \<not> list_ex (\<lambda>c. 97 \<le> (of_char c :: nat) \<and> (of_char c :: nat) \<le> 122) s"

definition genptr_decl_imm :: "string \<Rightarrow> item list" where
  "genptr_decl_imm immlett =
     [Raw (''int '' @ imm_name immlett @ '' = insn.immed['' @ show_nat (if is_upper immlett then 1 else 0) @ ''];'')]"

section \<open>Semantics of a tag\<close>

definition set_overrides :: "hexdb \<Rightarrow> hexdb" where
  "set_overrides db =
     db\<lparr>behdict := (behdict db)(''A2_swiz'' \<mapsto> ''Rd32=swiz(Rs32)''),
        semdict := (semdict db)(''A2_swiz'' \<mapsto> ''{ RdV = fBYTESWAP(RsV); }'')\<rparr>"

type_synonym cpp = "string list \<Rightarrow> string \<Rightarrow> string"

definition cpp_defines :: "string list" where
  "cpp_defines =
     [''fBRANCH_SPECULATE_STALL(DOTNEWVAL, JUMP_COND, SPEC_DIR, HINTBITNUM, STRBITNUM)'',
      ''fHIDE(A)'',
      ''CANCEL'',
      ''LOAD_CANCEL(A)'',
      ''STORE_CANCEL(A)'',
      ''fFRAMECHECK(ADDR, EA)'',
      ''fBARRIER()'',
      ''fSYNCH()'',
      ''fISYNC()'',
      ''fICFETCH(REG)'',
      ''fDCFETCH(REG)'',
      ''fICINVA(REG)'',
      ''fL2FETCH(ADDR, HEIGHT, WIDTH, STRIDE, FLAGS)'',
      ''fDCCLEANA(REG)'',
      ''fDCCLEANINVA(REG)'',
      ''fDCINVA(REG)'',
      ''fFRAME_UNSCRAMBLE(VAL) VAL'',
      ''fECHO(A) A'',
      ''fLSBOLDNOT(VAL) !fLSBOLD(VAL)'',
      ''fCONSTLL(A) fCAST8s(A)'',
      ''fPAUSE(IMM)'',
      ''fZXTN(N, M, VAL) ((VAL) & ((1<<(N))-1))'',
      ''fSXTN(N, M, VAL) ((fZXTN(N,M,VAL) ^ (1<<((N)-1))) - (1<<((N)-1)))'',
      ''fCALL(A) { fBRANCH(A, COF_TYPE_CALL); }'',
      ''fCALLR(A) { fBRANCH(A, COF_TYPE_CALLR); }'',
      ''fEA_RI(REG, IMM) { EA = REG + IMM; }'',
      ''fEA_RRs(REG, REG2, SCALE) { EA = REG + (REG2 << SCALE); }'',
      ''fEA_IRs(IMM, REG, SCALE) { EA = IMM + (REG << SCALE); }'',
      ''fEA_IMM(IMM) { EA = (IMM); }'',
      ''fEA_REG(REG) { EA = (REG); }'',
      ''fEA_GPI(IMM) { EA = (fREAD_GP() + (IMM)); }'',
      ''fPM_I(REG, IMM) { REG = REG + (IMM); }'',
      ''fPM_M(REG, MVAL) { REG = REG + (MVAL); }'',
      ''fCAST4_4s(A) fCAST4s(A)'',
      ''fCAST4_4u(A) fCAST4u(A)'',
      ''fCAST8_8s(A) fCAST8s(A)'',
      ''fCAST8_8u(A) fCAST8u(A)'',
      ''fASHIFTL(SRC, SHAMT, REGSTYPE) (fCAST##REGSTYPE##s(SRC) << (SHAMT))'',
      ''fASHIFTR(SRC, SHAMT, REGSTYPE) (fCAST##REGSTYPE##s(SRC) >> (SHAMT))'',
      ''fLSHIFTR(SRC, SHAMT, REGSTYPE) (fCAST##REGSTYPE##u(SRC) >> (SHAMT))'',
      ''fROTL(SRC, SHAMT, REGSTYPE) (fROTL##REGSTYPE##u(SRC, SHAMT))'',
      ''fSE32_64(A) (fCAST8s(fCAST4s(A)))'',
      ''fZE32_64(A) (fCAST8u(fCAST4u(A)))'',
      ''fMPY32SS(A, B) (fSE32_64(A) * fSE32_64(B))'',
      ''fMPY32UU(A, B) (fZE32_64(A) * fZE32_64(B))'',
      ''fMPY32SU(A, B) (fSE32_64(A) * fZE32_64(B))'',
      ''fLSBNEW0 fLSBNEW(0)'',
      ''fLSBNEW1 fLSBNEW(1)'',
      ''fLSBNEW0NOT !fLSBNEW(0)'',
      ''fLSBNEW1NOT !fLSBNEW(1)'',
      ''fLSBNEWNOT(PNUM) !fLSBNEW(PNUM)'',
      ''fGET_LPCFG fREAD_LPCFG()'',
      ''fREAD_SA0 fREAD_SA(0)'',
      ''fREAD_SA1 fREAD_SA(1)'',
      ''fREAD_LC0 fREAD_LC(0)'',
      ''fREAD_LC1 fREAD_LC(1)'',
      ''fWRITE_LC0(VAL) fWRITE_LC(0, VAL)'',
      ''fWRITE_LC1(VAL) fWRITE_LC(1, VAL)'',
      ''fWRITE_LOOP_REGS0(START, COUNT) fWRITE_LOOP_REGS(0, START, COUNT)'',
      ''fWRITE_LOOP_REGS1(START, COUNT) fWRITE_LOOP_REGS(1, START, COUNT)'',
      ''fLOAD_LOCKED(NUM, SIZE, SIGN, EA, DST) fLOAD(NUM, SIZE, SIGN, EA, DST);'',
      ''fSTORE_LOCKED(NUM, SIZE, EA, SRC, PRED) fSTORE_LOCKED(NUM, SIZE, EA, SRC, PRED);'',
      ''fMUST_IMMEXT(IMM) fIMMEXT(IMM)'']"

definition preprocess_semantics :: "cpp \<Rightarrow> hexdb \<Rightarrow> string \<Rightarrow> string list res" where
  "preprocess_semantics cpp db tag =
     bindR (getitem (semdict db) tag) (\<lambda>sem.
     bindR (getitem (attribdict db) tag) (\<lambda>attrs.
       let newcmp = ''A_NEWCMPJUMP'' \<in> attrs;
           defs1 = cpp_defines @ [''fPART1(WORK) */{ WORK; }/*''];
           part1 = cpp defs1 (''/*'' @ cpp defs1 sem @ ''*/'');
           defs2 = (if newcmp then defs1 else cpp_defines) @ [''fPART1(WORK)''];
           part2 = cpp defs2 (cpp defs2 sem)
       in Inr (if newcmp then [part1, part2] else [part2])))"

definition pred_defines :: "string list" where
  "pred_defines =
     [''fLSBNEW(PVAL) */PVAL/*'',
      ''fWRITE_P0(PVAL) */0/*'',
      ''fWRITE_P1(PVAL) */1/*'',
      ''fWRITE_P2(PVAL) */2/*'',
      ''fWRITE_P3(PVAL) */3/*'',
      ''fREAD_P0(PVAL)  */0/*'']"

definition part_pid :: "cpp \<Rightarrow> string \<Rightarrow> string" where
  "part_pid cpp sem = str_strip (cpp pred_defines (''/*'' @ cpp pred_defines sem @ ''*/''))"

definition pred_decl :: "string \<Rightarrow> item" where
  "pred_decl pid = Raw (''const int Pd'' @ pid @ '' = ctx.AddDestReadWritePredReg(MapRegNum('' @ sq @ ''P'' @ sq
     @ '', '' @ pid @ ''));'')"

fun fixed_preds :: "cpp \<Rightarrow> string list \<Rightarrow> string list \<Rightarrow> item list" where
  "fixed_preds cpp seen [] = []"
| "fixed_preds cpp seen (sem # parts) =
     (let pid = part_pid cpp sem
      in if pid \<noteq> [] \<and> str_in pid ''0123'' \<and> pid \<notin> set seen
         then pred_decl pid # fixed_preds cpp (pid # seen) parts
         else fixed_preds cpp seen parts)"

definition genptr_decl_fixed_pred :: "cpp \<Rightarrow> string list \<Rightarrow> item list" where
  "genptr_decl_fixed_pred cpp parts = fixed_preds cpp [] parts"

type_synonym parser = "string \<Rightarrow> stmt list res"

definition process_semantics :: "parser \<Rightarrow> hexdb \<Rightarrow> string \<Rightarrow> string \<Rightarrow> item list res" where
  "process_semantics parse db tag sem =
     bindR (parse sem) (\<lambda>tree.
     bindR (getitem (attribdict db) tag) (\<lambda>attrs. transform_fbody attrs tree))"

section \<open>A lifter\<close>

definition operand_items :: "hexdb \<Rightarrow> string \<Rightarrow> regop list \<Rightarrow> immop list \<Rightarrow> item list res" where
  "operand_items db tag regops imms =
     bindR (mapR (\<lambda>(i, reg). genptr_decl_opn db tag reg i) (enumerate 0 regops)) (\<lambda>ds.
     Inr (concat ds @ concat (map (\<lambda>(immlett, bits, immshift). genptr_decl_imm immlett) imms)))"

definition lifter_items :: "cpp \<Rightarrow> parser \<Rightarrow> hexdb \<Rightarrow> string \<Rightarrow> regop list \<Rightarrow> immop list \<Rightarrow> item list res" where
  "lifter_items cpp parse db tag regops imms =
     bindR (operand_items db tag regops imms) (\<lambda>decls.
     bindR (preprocess_semantics cpp db tag) (\<lambda>parts.
       let prog = decls @ genptr_decl_fixed_pred cpp parts
       in case parts of
            [] \<Rightarrow> Inl IndexError
          | [sem] \<Rightarrow> bindR (process_semantics parse db tag sem) (\<lambda>body. Inr (prog @ body))
          | [sem1, sem2] \<Rightarrow>
              bindR (process_semantics parse db tag sem1) (\<lambda>body1.
              bindR (process_semantics parse db tag sem2) (\<lambda>body2.
              Inr (prog @ [Raw ''if (insn.part1) {''] @ body1 @ [Raw ''} else {''] @ body2 @ [Raw ''}''])))
          | _ \<Rightarrow> Inl ValueError))"

text \<open>Branch instructions are deferred to the end of the packet: they give no line.\<close>

definition emitted :: "item \<Rightarrow> bool" where
  "emitted x = (case x of Insn i \<Rightarrow> \<not> is_branch i | _ \<Rightarrow> True)"

fun item_line :: "item \<Rightarrow> string" where
  "item_line (Insn x) = ''il.AddInstruction('' @ il_repr x @ '');''"
| "item_line (Label l) = ''il.MarkLabel('' @ l @ '');''"
| "item_line (Raw r) = r"

definition gen_il_func :: "cpp \<Rightarrow> parser \<Rightarrow> hexdb \<Rightarrow> string \<Rightarrow> regop list \<Rightarrow> immop list \<Rightarrow> string res" where
  "gen_il_func cpp parse db tag regops imms =
     bindR (lifter_items cpp parse db tag regops imms) (\<lambda>prog.
     Inr (str_join nl (map item_line (filter emitted prog))))"

section \<open>The generated file\<close>

definition file_header :: string where
  "file_header =
     nl @ ''#include \"binaryninjaapi.h\"'' @ nl @
     ''#include \"third_party/qemu-hexagon/attribs.h\"'' @ nl @
     ''#include \"third_party/qemu-hexagon/iclass.h\"'' @ nl @
     ''#include \"third_party/qemu-hexagon/insn.h\"'' @ nl @
     ''#include \"third_party/qemu-hexagon/opcodes.h\"'' @ nl @
     ''#include \"plugin/packet_context.h\"'' @ nl @ ''#include \"plugin/hex_regs.h\"'' @ nl @
     ''#include \"glog/logging.h\"'' @ nl @ nl @ ''using namespace BinaryNinja;'' @ nl @ nl @
     ''#define PCALIGN 4'' @ nl @ ''#define PCALIGN_MASK (PCALIGN - 1)'' @ nl @ nl @
     ''#define EA_REG  LLIL_TEMP(100)'' @ nl @ ''#define TMP_REG LLIL_TEMP(101)'' @ nl @
     ''#define WIDTH_REG LLIL_TEMP(104)'' @ nl @ ''#define OFFSET_REG LLIL_TEMP(105)'' @ nl @
     ''#define SHAMT_REG LLIL_TEMP(106)'' @ nl @ nl"

definition lifter_comment :: "string \<Rightarrow> string \<Rightarrow> string \<Rightarrow> string" where
  "lifter_comment tag b sem =
     ''/*'' @ nl @ tag @ '':'' @ nl @ b @ nl @ sem @ nl @ ''*/'' @ nl"

definition lifter_head :: "string \<Rightarrow> string" where
  "lifter_head tag =
     ''void lift_'' @ tag @ ''(Architecture *arch,'' @ nl @
     ''                             uint64_t pc,'' @ nl @
     ''                             const Packet &pkt,'' @ nl @
     ''                             const Insn &insn,'' @ nl @
     ''                             int insn_num,'' @ nl @
     ''                             PacketContext &ctx) {'' @ nl @
     ''                LowLevelILFunction &il = ctx.IL();'' @ nl"

definition table_head :: string where
  "table_head =
     ''typedef void (*IlLiftFunc)(Architecture *arch,'' @ nl @
     ''                                        uint64_t pc,'' @ nl @
     ''                                        const Packet &pkt,'' @ nl @
     ''                                        const Insn &insn,'' @ nl @
     ''                                        int insn_num,'' @ nl @
     ''                                        PacketContext &ctx);'' @ nl @ nl @
     ''extern const IlLiftFunc opcode_liftptr[XX_LAST_OPCODE] = {'' @ nl"

definition table_entry :: "string list \<Rightarrow> string \<Rightarrow> string" where
  "table_entry supported tag =
     (if tag \<in> set supported
      then ''['' @ tag @ ''] = lift_'' @ tag @ '','' @ nl
      else ''['' @ tag @ ''] = nullptr,'' @ nl)"

definition lifter_text :: "cpp \<Rightarrow> parser \<Rightarrow> hexdb \<Rightarrow> (string \<rightharpoonup> regop list) \<Rightarrow> (string \<rightharpoonup> immop list) \<Rightarrow> string \<Rightarrow> string res" where
  "lifter_text cpp parse db tagregs tagimms tag =
     bindR (getitem (behdict db) tag) (\<lambda>b.
     bindR (getitem (semdict db) tag) (\<lambda>sem.
     bindR (getitem tagregs tag) (\<lambda>regops.
     bindR (getitem tagimms tag) (\<lambda>imms.
     bindR (gen_il_func cpp parse db tag regops imms) (\<lambda>body.
     Inr (lifter_comment tag b sem @ lifter_head tag @ body @ ''}'' @ nl @ nl))))))"

definition file_text :: "cpp \<Rightarrow> parser \<Rightarrow> string list \<Rightarrow> hexdb \<Rightarrow> string res" where
  "file_text cpp parse supported db =
     bindR (get_tagregs db) (\<lambda>tagregs.
     bindR (get_tagimms db) (\<lambda>tagimms.
     bindR (mapR (lifter_text cpp parse db tagregs tagimms) supported) (\<lambda>lifters.
     Inr (file_header @ concat lifters @ table_head @ concat (map (table_entry supported) (tags db)) @ ''};'' @ nl))))"

definition main_il_funcs ::
  "cpp \<Rightarrow> parser \<Rightarrow> (string \<Rightarrow> hexdb \<Rightarrow> hexdb res) \<Rightarrow> (string list \<Rightarrow> string list) \<Rightarrow> nat \<Rightarrow>
   string list \<Rightarrow> string list \<Rightarrow> string res" where
  "main_il_funcs cpp parse ev order limit semantics attribs =
     bindR (read_semantics_file_obj ev semantics empty_db) (\<lambda>db1.
     bindR (read_attribs_file_obj attribs db1) (\<lambda>db2.
     let db3 = set_overrides db2 in
     bindR (calculate_attribs limit (order (map fst (macros db3))) db3) (\<lambda>db4.
     file_text cpp parse SUPPORTED_TAGS db4)))"

section \<open>Dropping the branches\<close>

lemma emitted_simps [simp]:
  "emitted (Insn x) = (\<not> is_branch x)" "emitted (Label l)" "emitted (Raw r)"
  by (simp_all add: emitted_def)

lemma skip_to_emitted: "skip_to l d (filter emitted its) = map_option (filter emitted) (skip_to l d its)"
  by (induction l d its rule: skip_to.induct) (auto split: nat.split)

lemma exec_emitted: "exec tst step (filter emitted its) s = exec tst step its s"
proof (induction tst step its s rule: exec.induct)
  case (4 tst step x xs s)
  show ?case
  proof (cases x)
    case (IlIf c t f)
    then show ?thesis
      using "4.IH" by (cases "skip_to (if tst s c then t else f) 0 xs") (simp_all add: is_branch_def skip_to_emitted)
  next
    case (IlGoto l)
    then show ?thesis using "4.IH" by (cases "skip_to l 0 xs") (simp_all add: is_branch_def skip_to_emitted)
  qed (use "4.IH" in \<open>simp_all add: is_branch_def\<close>)
qed simp_all



section \<open>Declarations\<close>

lemma str_in_append: "str_in p a \<Longrightarrow> str_in p (a @ b)" "str_in p b \<Longrightarrow> str_in p (a @ b)"
  by (metis append.assoc str_in_iff)+

lemma str_in_refl: "str_in p p"
  unfolding str_in_iff by (intro exI [of _ "[]"]) simp

lemma str_in_mid: "str_in p (u @ p @ m)"
  unfolding str_in_iff by blast

lemma decl_names:
  "\<exists>w. decl_src_pair t i m = [Raw w] \<and> str_in (''const int '' @ t @ i @ ''V = '') w"
  "\<exists>w. decl_src t i m = [Raw w] \<and> str_in (''const int '' @ t @ i @ ''V = '') w"
  "\<exists>w. decl_wo_pair t i m = [Raw w] \<and> str_in (''const int '' @ t @ i @ ''V = '') w"
  "\<exists>w. decl_rw_pair t i m = [Raw w] \<and> str_in (''const int '' @ t @ i @ ''V = '') w"
  "\<exists>w. decl_wo t i m = [Raw w] \<and> str_in (''const int '' @ t @ i @ ''V = '') w"
  "\<exists>w. decl_rw t i m = [Raw w] \<and> str_in (''const int '' @ t @ i @ ''V = '') w"
  "\<exists>w. decl_wo_pred t i m = [Raw w] \<and> str_in (''const int '' @ t @ i @ ''V = '') w"
  "\<exists>w. decl_rw_pred t i m = [Raw w] \<and> str_in (''const int '' @ t @ i @ ''V = '') w"
proof -
  have start: "\<exists>w. [Raw (p @ v)] = [Raw w] \<and> str_in p w" for p v
    using str_in_mid [of p "[]" v] by simp
  show "\<exists>w. decl_src_pair t i m = [Raw w] \<and> str_in (''const int '' @ t @ i @ ''V = '') w"
    using str_in_mid [of "''const int '' @ t @ i @ ''V = ''"
        "''SourcePairReg tmp_'' @ t @ i @ ''V('' @ m @ '', il);'' @ nl @ ''                  ''"
        "''tmp_'' @ t @ i @ ''V.Reg();''"]
    by (simp add: decl_src_pair_def)
  show "\<exists>w. decl_src t i m = [Raw w] \<and> str_in (''const int '' @ t @ i @ ''V = '') w"
    "\<exists>w. decl_wo_pair t i m = [Raw w] \<and> str_in (''const int '' @ t @ i @ ''V = '') w"
    "\<exists>w. decl_rw_pair t i m = [Raw w] \<and> str_in (''const int '' @ t @ i @ ''V = '') w"
    "\<exists>w. decl_wo t i m = [Raw w] \<and> str_in (''const int '' @ t @ i @ ''V = '') w"
    "\<exists>w. decl_rw t i m = [Raw w] \<and> str_in (''const int '' @ t @ i @ ''V = '') w"
    "\<exists>w. decl_wo_pred t i m = [Raw w] \<and> str_in (''const int '' @ t @ i @ ''V = '') w"
    "\<exists>w. decl_rw_pred t i m = [Raw w] \<and> str_in (''const int '' @ t @ i @ ''V = '') w"
    using start [of "''const int '' @ t @ i @ ''V = ''"]
    by (simp_all add: decl_src_def decl_wo_pair_def decl_rw_pair_def decl_wo_def decl_rw_def
        decl_wo_pred_def decl_rw_pred_def del: str_in.simps)
qed

lemma genptr_decl_name:
  assumes "genptr_decl tag t i k = Inr xs"
  shows "\<exists>w. xs = [Raw w] \<and> str_in (''const int '' @ t @ i @ ''V = '') w"
proof -
  have "\<exists>d \<in> {decl_src_pair, decl_src, decl_wo_pair, decl_rw_pair, decl_wo, decl_rw, decl_wo_pred, decl_rw_pred}.
      xs = d t i (mapped_regno t k)"
    using assms by (simp add: genptr_decl_def Let_def split: if_splits)
  then obtain d where d: "d \<in> {decl_src_pair, decl_src, decl_wo_pair, decl_rw_pair, decl_wo, decl_rw, decl_wo_pred, decl_rw_pred}"
      "xs = d t i (mapped_regno t k)"
    by blast
  from d(1) have "\<exists>w. d t i (mapped_regno t k) = [Raw w] \<and> str_in (''const int '' @ t @ i @ ''V = '') w"
    by (elim insertE emptyE) (simp_all only: decl_names)
  then show ?thesis by (simp only: d(2))
qed

lemma genptr_decl_new_name:
  assumes "genptr_decl_new t i k = Inr xs"
  shows "\<exists>w. xs = [Raw w] \<and> str_in (''const int '' @ t @ i @ ''N = '') w"
proof -
  have "\<exists>v. xs = [Raw ((''const int '' @ t @ i @ ''N = '') @ v)]"
    using assms by (auto simp: genptr_decl_new_def Let_def assertR_def split: if_splits)
  then show ?thesis using str_in_mid [of "''const int '' @ t @ i @ ''N = ''" "[]"] by auto
qed

text \<open>C14: The declarations at the head of a lifter define a C++ variable for every register operand of the behaviour string, under the name the semantics uses for it (with V for a pair or an old value, N for a new value), and one for every immediate.\<close>

theorem operand_items_declare:
  assumes "operand_items db tag regops imms = Inr items" "semdict db tag = Some sem"
  shows "(\<forall>t i toss n. (t, i, toss, n) \<in> set regops \<longrightarrow> (\<exists>text. Raw text \<in> set items \<and>
      str_in (''const int '' @ t @ i @ (if is_pair i \<or> str_in (t @ i @ ''V'') sem then ''V = '' else ''N = '')) text)) \<and>
    (\<forall>l b sh. (l, b, sh) \<in> set imms \<longrightarrow> (\<exists>text. Raw text \<in> set items \<and>
      str_in (''int '' @ imm_name l @ '' = insn.immed['') text))"
proof -
  obtain ds where ds: "mapR (\<lambda>(i, reg). genptr_decl_opn db tag reg i) (enumerate 0 regops) = Inr ds"
      "items = concat ds @ concat (map (\<lambda>(l, b, sh). genptr_decl_imm l) imms)"
    using assms(1) by (auto simp: operand_items_def)
  have reg: "\<exists>text. Raw text \<in> set items \<and>
      str_in (''const int '' @ t @ i @ (if is_pair i \<or> str_in (t @ i @ ''V'') sem then ''V = '' else ''N = '')) text"
    if mem: "(t, i, toss, n) \<in> set regops" for t i toss n
  proof -
    obtain k where k: "k < length regops" "regops ! k = (t, i, toss, n)"
      using mem unfolding in_set_conv_nth by blast
    have "length ds = length regops"
      using mapR_length [OF ds(1)] by simp
    moreover have "genptr_decl_opn db tag (t, i, toss, n) k = Inr (ds ! k)"
      using ds(1) k unfolding mapR_Inr_iff list_all2_conv_all_nth
      by (auto simp: nth_enumerate_eq dest!: spec [of _ k])
    ultimately obtain xs where xs: "genptr_decl_opn db tag (t, i, toss, n) k = Inr xs" "xs \<in> set ds"
      using k(1) by (metis nth_mem)
    have "\<exists>text. xs = [Raw text] \<and> str_in (''const int '' @ t @ i @
        (if is_pair i \<or> str_in (t @ i @ ''V'') sem then ''V = '' else ''N = '')) text"
      using xs(1) assms(2) genptr_decl_name [of tag t i k xs] genptr_decl_new_name [of t i k xs]
      by (auto simp: genptr_decl_opn_def is_old_val_def is_new_val_def getitem_def split: if_splits)
    then show ?thesis using xs(2) ds(2) by (auto intro!: bexI [of _ xs])
  qed
  have imm: "\<exists>text. Raw text \<in> set items \<and> str_in (''int '' @ imm_name l @ '' = insn.immed['') text"
    if mem: "(l, b, sh) \<in> set imms" for l b sh
  proof -
    let ?p = "''int '' @ imm_name l @ '' = insn.immed[''"
    let ?w = "?p @ show_nat (if is_upper l then 1 else 0) @ ''];''"
    have "Raw ?w \<in> set (genptr_decl_imm l)" by (simp add: genptr_decl_imm_def)
    moreover have "set (genptr_decl_imm l) \<subseteq> set items" using mem ds(2) by fastforce
    moreover have "str_in ?p ?w" using str_in_mid [of ?p "[]"] by (simp only: append_Nil)
    ultimately show ?thesis by blast
  qed
  show ?thesis using reg imm by blast
qed

theorem operand_items_declare_witness:
  "\<exists>items text. operand_items (SEMANTICS ''T'' [] ''RdV=siV'' empty_db) ''T'' [(''R'', ''d'', [], ''32'')] [(''s'', ''8'', [])] = Inr items \<and>
     Raw text \<in> set items \<and> str_in ''const int RdV = '' text"
proof -
  let ?db = "SEMANTICS ''T'' [] ''RdV=siV'' empty_db"
  obtain items where "operand_items ?db ''T'' [(''R'', ''d'', [], ''32'')] [(''s'', ''8'', [])] = Inr items"
    by (simp add: operand_items_def genptr_decl_opn_def is_pair_def is_single_def is_old_val_def SEMANTICS_def
        getitem_def starts_with_def genptr_decl_def Let_def)
  moreover from operand_items_declare [OF this, of "''RdV=siV''"]
  have "\<exists>text. Raw text \<in> set items \<and> str_in ''const int RdV = '' text"
    by (simp add: SEMANTICS_def is_pair_def starts_with_def)
  ultimately show ?thesis by blast
qed

text \<open>C21: Register pairs are declared as pairs for the identifiers ss, tt, dd, ee, xx and yy, but lift_operand reads and writes them as 8-byte registers only for ss, tt and dd: a read-write pair RxxV, RyyV and the pair ReeV are lifted as 4-byte registers.\<close>

theorem pair_operand_size:
  assumes "genptr_decl tag ''R'' i k = Inr xs" "is_pair i"
  shows "i \<in> {''ss'', ''tt'', ''dd'', ''ee'', ''xx'', ''yy''} \<and>
    (\<exists>x. lift_operand (Tok (Token REG_OLD (''R'' @ i @ ''V''))) = Inr x \<and>
       size_of x = (if i \<in> {''ss'', ''tt'', ''dd''} then 8 else 4))"
proof -
  have "i \<in> {''ss'', ''tt'', ''dd'', ''ee'', ''xx'', ''yy''}"
  proof (rule ccontr)
    assume "i \<notin> {''ss'', ''tt'', ''dd'', ''ee'', ''xx'', ''yy''}"
    moreover have "i \<notin> {''s'', ''t'', ''u'', ''v''}" "i \<notin> {''d'', ''e''}" "i \<notin> {''x'', ''y''}"
      using assms(2) by (auto simp: is_pair_def)
    ultimately show False using assms(1) by (simp add: genptr_decl_def Let_def)
  qed
  then show ?thesis
    by (elim insertE emptyE) (simp_all add: reg_operand_def pair_search_def starts_with_def init_defs)
qed

theorem pair_operand_size_witness:
  "(\<exists>xs. genptr_decl ''M4_xor_xacc'' ''R'' ''xx'' 0 = Inr xs) \<and>
   (\<exists>x. lift_operand (Tok (Token REG_OLD ''RxxV'')) = Inr x \<and> size_of x = 4)"
proof -
  obtain xs where xs: "genptr_decl ''M4_xor_xacc'' ''R'' ''xx'' 0 = Inr xs" by (simp add: genptr_decl_def Let_def)
  show ?thesis using pair_operand_size [OF xs] xs by (simp add: is_pair_def)
qed

lemma fixed_preds_distinct:
  "\<exists>ps. fixed_preds cpp seen parts = map pred_decl ps \<and> distinct ps \<and> set ps \<inter> set seen = {} \<and>
     set ps = {p \<in> part_pid cpp ` set parts. p \<noteq> [] \<and> str_in p ''0123''} - set seen"
proof (induction parts arbitrary: seen)
  case (Cons sem parts)
  let ?p = "part_pid cpp sem"
  show ?case
  proof (cases "?p \<noteq> [] \<and> str_in ?p ''0123'' \<and> ?p \<notin> set seen")
    case True
    obtain ps where ps: "fixed_preds cpp (?p # seen) parts = map pred_decl ps" "distinct ps"
        "set ps \<inter> set (?p # seen) = {}"
        "set ps = {p \<in> part_pid cpp ` set parts. p \<noteq> [] \<and> str_in p ''0123''} - set (?p # seen)"
      using Cons.IH by blast
    with True show ?thesis by (intro exI [of _ "?p # ps"]) (auto simp: Let_def)
  next
    case False
    obtain ps where "fixed_preds cpp seen parts = map pred_decl ps" "distinct ps" "set ps \<inter> set seen = {}"
        "set ps = {p \<in> part_pid cpp ` set parts. p \<noteq> [] \<and> str_in p ''0123''} - set seen"
      using Cons.IH by blast
    with False show ?thesis by (intro exI [of _ ps]) (auto simp: Let_def)
  qed
qed simp


section \<open>The file\<close>

lemma str_in_concat: "w \<in> set ws \<Longrightarrow> str_in p w \<Longrightarrow> str_in p (concat ws)"
  by (induction ws) (auto intro: str_in_append)



end
