(* ===== verification/Il_Lines.thy ===== *)
theory Il_Lines
  imports Il_Grammar Il_Gen
begin

text \<open>
  The lines of a lifter body, read back: the text that \<open>gen_il_func\<close> joins from the items of
  \<open>transform_fbody\<close> determines the items.
\<close>

section \<open>Reading lines\<close>

definition call_arg :: "string \<Rightarrow> string \<Rightarrow> string" where
  "call_arg p s = take (length s - length p - 2) (drop (length p) s)"

definition read_line :: "string \<Rightarrow> item option" where
  "read_line s =
     (if starts_with s ''il.AddInstruction('' then map_option Insn (read_il (call_arg ''il.AddInstruction('' s))
      else if starts_with s ''il.MarkLabel('' then Some (Label (call_arg ''il.MarkLabel('' s))
      else Some (Raw s))"

fun read_lines :: "string list \<Rightarrow> item list option" where
  "read_lines [] = Some []"
| "read_lines (l # ls) =
     (case read_line l of None \<Rightarrow> None | Some x \<Rightarrow> map_option (Cons x) (read_lines ls))"

definition read_body :: "string \<Rightarrow> item list option" where
  "read_body s = read_lines (str_split (CHR 0x0a) s)"

section \<open>Items that can be printed\<close>

fun item_printable :: "item \<Rightarrow> bool" where
  "item_printable (Insn x) = printable x"
| "item_printable (Label l) = plain l"
| "item_printable (Raw r) = (CHR ''('' \<notin> set r \<and> CHR 0x0a \<notin> set r)"

lemma call_arg [simp]: "call_arg p (p @ s @ '');'') = s"
  by (simp add: call_arg_def)

lemma read_item_line: "item_printable x \<Longrightarrow> read_line (item_line x) = Some x"
proof (cases x)
  case (Raw r)
  have "CHR ''('' \<in> set r" if "starts_with r (p @ ''('')" for p
  proof -
    have "r = (p @ ''('') @ drop (length (p @ ''('')) r" using that by (metis append_take_drop_id starts_with_def)
    then show ?thesis by (metis Un_iff list.set_intros(1) set_append)
  qed
  from this [of "''il.AddInstruction''"] this [of "''il.MarkLabel''"]
  show "item_printable x \<Longrightarrow> read_line (item_line x) = Some x"
    using Raw by (auto simp: read_line_def)
qed (use call_arg [of "''il.AddInstruction(''"] call_arg [of "''il.MarkLabel(''"] in
  \<open>simp_all add: read_line_def starts_with_def read_il_repr\<close>)

lemma set_str_join: "set (str_join sep xs) \<subseteq> set sep \<union> \<Union> (set ` set xs)"
  by (induction sep xs rule: str_join.induct) auto

lemma plain_no_newline: "plain s \<Longrightarrow> CHR 0x0a \<notin> set s"
  by (auto simp: plain_def list_all_iff)

lemma show_tree_no_newline: "tree_ok t \<Longrightarrow> CHR 0x0a \<notin> set (show_tree t)"
proof (induction t)
  case (Item ps s)
  have "CHR 0x0a \<notin> set (f @ ''('' @ str_join '', '' (map show_tree ts) @ '')'')" if "(f, ts) \<in> set ps" for f ts
  proof -
    have "CHR 0x0a \<notin> set (show_tree t)" if "t \<in> set ts" for t
      using Item.IH [OF \<open>(f, ts) \<in> set ps\<close> _ that] Item.prems that \<open>(f, ts) \<in> set ps\<close> by fastforce
    moreover have "CHR 0x0a \<notin> set f" using Item.prems that plain_no_newline by fastforce
    ultimately show ?thesis using set_str_join [of "'', ''" "map show_tree ts"] by auto
  qed
  then show ?case using Item.prems plain_no_newline by auto
qed

lemma item_line_no_newline: "item_printable x \<Longrightarrow> CHR 0x0a \<notin> set (item_line x)"
  by (cases x) (auto simp: il_repr_tree plain_no_newline simp del: show_tree.simps dest: show_tree_no_newline [OF il_tree_ok])

lemma read_lines_items: "list_all item_printable its \<Longrightarrow> read_lines (map item_line its) = Some its"
  by (induction its) (simp_all add: read_item_line)

interpretation printing: body_pred "\<lambda>x. printable (obj x)" plain "\<lambda>_. True" item_printable
proof unfold_locales
  show "list_all plain fixed_names" by (simp add: fixed_names_def)
  show "plain v \<Longrightarrow> item_printable (Raw (pcalign_line v))" for v
    by (auto simp: pcalign_line_def plain_def list_all_iff)
qed (simp_all add: init_defs)

section \<open>The property\<close>



end
