(* ===== verification/Il_Eq.thy ===== *)
theory Il_Eq
  imports Il_Ast
begin

text \<open>
  \<open>__eq__\<close> of the IL classes of \<^verbatim>\<open>plugin/gen_il_funcs.py\<close>, one definition per class: the
  class test, then the fields. An operand is given by its own \<open>__eq__\<close>. When both sides answer
  \<open>NotImplemented\<close> (the classes differ), Python compares identities: False.
\<close>

definition IlSetRegister_eq :: "nat \<Rightarrow> string \<Rightarrow> (il \<Rightarrow> bool) \<Rightarrow> il \<Rightarrow> bool" where
  [eq_defs]: "IlSetRegister_eq n r v other = (case other of IlSetRegister n' r' v' \<Rightarrow> n = n' \<and> r = r' \<and> v v' | _ \<Rightarrow> False)"

definition IlRegister_eq :: "nat \<Rightarrow> string \<Rightarrow> il \<Rightarrow> bool" where
  [eq_defs]: "IlRegister_eq n r other = (case other of IlRegister n' r' \<Rightarrow> n = n' \<and> r = r' | _ \<Rightarrow> False)"

definition IlSetRegisterSplit_eq :: "nat \<Rightarrow> string \<Rightarrow> string \<Rightarrow> (il \<Rightarrow> bool) \<Rightarrow> il \<Rightarrow> bool" where
  [eq_defs]: "IlSetRegisterSplit_eq n h l v other = (case other of IlSetRegisterSplit n' h' l' v' \<Rightarrow> n = n' \<and> h = h' \<and> l = l' \<and> v v' | _ \<Rightarrow> False)"

definition IlRegisterSplit_eq :: "nat \<Rightarrow> string \<Rightarrow> string \<Rightarrow> il \<Rightarrow> bool" where
  [eq_defs]: "IlRegisterSplit_eq n h l other = (case other of IlRegisterSplit n' h' l' \<Rightarrow> n = n' \<and> h = h' \<and> l = l' | _ \<Rightarrow> False)"

definition IlConst_eq :: "nat \<Rightarrow> string \<Rightarrow> il \<Rightarrow> bool" where
  [eq_defs]: "IlConst_eq n v other = (case other of IlConst n' v' \<Rightarrow> n = n' \<and> v = v' | _ \<Rightarrow> False)"

definition IlConstPointer_eq :: "nat \<Rightarrow> string \<Rightarrow> il \<Rightarrow> bool" where
  [eq_defs]: "IlConstPointer_eq n v other = (case other of IlConstPointer n' v' \<Rightarrow> n = n' \<and> v = v' | _ \<Rightarrow> False)"

definition IlLowPart_eq :: "nat \<Rightarrow> (il \<Rightarrow> bool) \<Rightarrow> il \<Rightarrow> bool" where
  [eq_defs]: "IlLowPart_eq n a other = (case other of IlLowPart n' a' \<Rightarrow> n = n' \<and> a a' | _ \<Rightarrow> False)"

definition IlZeroExtend_eq :: "nat \<Rightarrow> (il \<Rightarrow> bool) \<Rightarrow> il \<Rightarrow> bool" where
  [eq_defs]: "IlZeroExtend_eq n a other = (case other of IlZeroExtend n' a' \<Rightarrow> n = n' \<and> a a' | _ \<Rightarrow> False)"

definition IlSignExtend_eq :: "nat \<Rightarrow> (il \<Rightarrow> bool) \<Rightarrow> il \<Rightarrow> bool" where
  [eq_defs]: "IlSignExtend_eq n a other = (case other of IlSignExtend n' a' \<Rightarrow> n = n' \<and> a a' | _ \<Rightarrow> False)"

definition IlAdd_eq :: "nat \<Rightarrow> (il \<Rightarrow> bool) \<Rightarrow> (il \<Rightarrow> bool) \<Rightarrow> il \<Rightarrow> bool" where
  [eq_defs]: "IlAdd_eq n a b other = (case other of IlAdd n' a' b' \<Rightarrow> n = n' \<and> a a' \<and> b b' | _ \<Rightarrow> False)"

definition IlSub_eq :: "nat \<Rightarrow> (il \<Rightarrow> bool) \<Rightarrow> (il \<Rightarrow> bool) \<Rightarrow> il \<Rightarrow> bool" where
  [eq_defs]: "IlSub_eq n a b other = (case other of IlSub n' a' b' \<Rightarrow> n = n' \<and> a a' \<and> b b' | _ \<Rightarrow> False)"

definition IlOr_eq :: "nat \<Rightarrow> (il \<Rightarrow> bool) \<Rightarrow> (il \<Rightarrow> bool) \<Rightarrow> il \<Rightarrow> bool" where
  [eq_defs]: "IlOr_eq n a b other = (case other of IlOr n' a' b' \<Rightarrow> n = n' \<and> a a' \<and> b b' | _ \<Rightarrow> False)"

definition IlAnd_eq :: "nat \<Rightarrow> (il \<Rightarrow> bool) \<Rightarrow> (il \<Rightarrow> bool) \<Rightarrow> il \<Rightarrow> bool" where
  [eq_defs]: "IlAnd_eq n a b other = (case other of IlAnd n' a' b' \<Rightarrow> n = n' \<and> a a' \<and> b b' | _ \<Rightarrow> False)"

definition IlXor_eq :: "nat \<Rightarrow> (il \<Rightarrow> bool) \<Rightarrow> (il \<Rightarrow> bool) \<Rightarrow> il \<Rightarrow> bool" where
  [eq_defs]: "IlXor_eq n a b other = (case other of IlXor n' a' b' \<Rightarrow> n = n' \<and> a a' \<and> b b' | _ \<Rightarrow> False)"

definition IlNot_eq :: "nat \<Rightarrow> (il \<Rightarrow> bool) \<Rightarrow> il \<Rightarrow> bool" where
  [eq_defs]: "IlNot_eq n a other = (case other of IlNot n' a' \<Rightarrow> n = n' \<and> a a' | _ \<Rightarrow> False)"

definition IlNeg_eq :: "nat \<Rightarrow> (il \<Rightarrow> bool) \<Rightarrow> il \<Rightarrow> bool" where
  [eq_defs]: "IlNeg_eq n a other = (case other of IlNeg n' a' \<Rightarrow> n = n' \<and> a a' | _ \<Rightarrow> False)"

definition IlStore_eq :: "nat \<Rightarrow> (il \<Rightarrow> bool) \<Rightarrow> (il \<Rightarrow> bool) \<Rightarrow> il \<Rightarrow> bool" where
  [eq_defs]: "IlStore_eq n a v other = (case other of IlStore n' a' v' \<Rightarrow> n = n' \<and> a a' \<and> v v' | _ \<Rightarrow> False)"

definition IlLoad_eq :: "nat \<Rightarrow> (il \<Rightarrow> bool) \<Rightarrow> il \<Rightarrow> bool" where
  [eq_defs]: "IlLoad_eq n a other = (case other of IlLoad n' a' \<Rightarrow> n = n' \<and> a a' | _ \<Rightarrow> False)"

definition IlJump_eq :: "(il \<Rightarrow> bool) \<Rightarrow> il \<Rightarrow> bool" where
  [eq_defs]: "IlJump_eq d other = (case other of IlJump d' \<Rightarrow> d d' | _ \<Rightarrow> False)"

definition IlCall_eq :: "(il \<Rightarrow> bool) \<Rightarrow> il \<Rightarrow> bool" where
  [eq_defs]: "IlCall_eq d other = (case other of IlCall d' \<Rightarrow> d d' | _ \<Rightarrow> False)"

definition IlReturn_eq :: "(il \<Rightarrow> bool) \<Rightarrow> il \<Rightarrow> bool" where
  [eq_defs]: "IlReturn_eq d other = (case other of IlReturn d' \<Rightarrow> d d' | _ \<Rightarrow> False)"

definition IlShiftLeft_eq :: "nat \<Rightarrow> (il \<Rightarrow> bool) \<Rightarrow> (il \<Rightarrow> bool) \<Rightarrow> il \<Rightarrow> bool" where
  [eq_defs]: "IlShiftLeft_eq n a b other = (case other of IlShiftLeft n' a' b' \<Rightarrow> n = n' \<and> a a' \<and> b b' | _ \<Rightarrow> False)"

definition IlLogicalShiftRight_eq :: "nat \<Rightarrow> (il \<Rightarrow> bool) \<Rightarrow> (il \<Rightarrow> bool) \<Rightarrow> il \<Rightarrow> bool" where
  [eq_defs]: "IlLogicalShiftRight_eq n a b other = (case other of IlLogicalShiftRight n' a' b' \<Rightarrow> n = n' \<and> a a' \<and> b b' | _ \<Rightarrow> False)"

definition IlArithShiftRight_eq :: "nat \<Rightarrow> (il \<Rightarrow> bool) \<Rightarrow> (il \<Rightarrow> bool) \<Rightarrow> il \<Rightarrow> bool" where
  [eq_defs]: "IlArithShiftRight_eq n a b other = (case other of IlArithShiftRight n' a' b' \<Rightarrow> n = n' \<and> a a' \<and> b b' | _ \<Rightarrow> False)"

definition IlRotateLeft_eq :: "nat \<Rightarrow> (il \<Rightarrow> bool) \<Rightarrow> (il \<Rightarrow> bool) \<Rightarrow> il \<Rightarrow> bool" where
  [eq_defs]: "IlRotateLeft_eq n a b other = (case other of IlRotateLeft n' a' b' \<Rightarrow> n = n' \<and> a a' \<and> b b' | _ \<Rightarrow> False)"

definition IlMult_eq :: "nat \<Rightarrow> (il \<Rightarrow> bool) \<Rightarrow> (il \<Rightarrow> bool) \<Rightarrow> il \<Rightarrow> bool" where
  [eq_defs]: "IlMult_eq n a b other = (case other of IlMult n' a' b' \<Rightarrow> n = n' \<and> a a' \<and> b b' | _ \<Rightarrow> False)"

definition IlTrap_eq :: "(il \<Rightarrow> bool) \<Rightarrow> il \<Rightarrow> bool" where
  [eq_defs]: "IlTrap_eq k other = (case other of IlTrap k' \<Rightarrow> k k' | _ \<Rightarrow> False)"

definition IlSystemCall_eq :: "il \<Rightarrow> bool" where
  [eq_defs]: "IlSystemCall_eq other = (case other of IlSystemCall \<Rightarrow> True | _ \<Rightarrow> False)"

definition IlBreakpoint_eq :: "il \<Rightarrow> bool" where
  [eq_defs]: "IlBreakpoint_eq other = (case other of IlBreakpoint \<Rightarrow> True | _ \<Rightarrow> False)"

definition IlBoolToInt_eq :: "nat \<Rightarrow> (il \<Rightarrow> bool) \<Rightarrow> il \<Rightarrow> bool" where
  [eq_defs]: "IlBoolToInt_eq n a other = (case other of IlBoolToInt n' a' \<Rightarrow> n = n' \<and> a a' | _ \<Rightarrow> False)"

definition IlCompareEqual_eq :: "nat \<Rightarrow> (il \<Rightarrow> bool) \<Rightarrow> (il \<Rightarrow> bool) \<Rightarrow> il \<Rightarrow> bool" where
  [eq_defs]: "IlCompareEqual_eq n a b other = (case other of IlCompareEqual n' a' b' \<Rightarrow> n = n' \<and> a a' \<and> b b' | _ \<Rightarrow> False)"

definition IlCompareNotEqual_eq :: "nat \<Rightarrow> (il \<Rightarrow> bool) \<Rightarrow> (il \<Rightarrow> bool) \<Rightarrow> il \<Rightarrow> bool" where
  [eq_defs]: "IlCompareNotEqual_eq n a b other = (case other of IlCompareNotEqual n' a' b' \<Rightarrow> n = n' \<and> a a' \<and> b b' | _ \<Rightarrow> False)"

definition IlCompareSignedGreaterThan_eq :: "nat \<Rightarrow> (il \<Rightarrow> bool) \<Rightarrow> (il \<Rightarrow> bool) \<Rightarrow> il \<Rightarrow> bool" where
  [eq_defs]: "IlCompareSignedGreaterThan_eq n a b other = (case other of IlCompareSignedGreaterThan n' a' b' \<Rightarrow> n = n' \<and> a a' \<and> b b' | _ \<Rightarrow> False)"

definition IlCompareUnsignedGreaterThan_eq :: "nat \<Rightarrow> (il \<Rightarrow> bool) \<Rightarrow> (il \<Rightarrow> bool) \<Rightarrow> il \<Rightarrow> bool" where
  [eq_defs]: "IlCompareUnsignedGreaterThan_eq n a b other = (case other of IlCompareUnsignedGreaterThan n' a' b' \<Rightarrow> n = n' \<and> a a' \<and> b b' | _ \<Rightarrow> False)"

definition IlCompareSignedGreaterEqual_eq :: "nat \<Rightarrow> (il \<Rightarrow> bool) \<Rightarrow> (il \<Rightarrow> bool) \<Rightarrow> il \<Rightarrow> bool" where
  [eq_defs]: "IlCompareSignedGreaterEqual_eq n a b other = (case other of IlCompareSignedGreaterEqual n' a' b' \<Rightarrow> n = n' \<and> a a' \<and> b b' | _ \<Rightarrow> False)"

definition IlCompareSignedLessThan_eq :: "nat \<Rightarrow> (il \<Rightarrow> bool) \<Rightarrow> (il \<Rightarrow> bool) \<Rightarrow> il \<Rightarrow> bool" where
  [eq_defs]: "IlCompareSignedLessThan_eq n a b other = (case other of IlCompareSignedLessThan n' a' b' \<Rightarrow> n = n' \<and> a a' \<and> b b' | _ \<Rightarrow> False)"

definition IlCompareUnsignedGreaterEqual_eq :: "nat \<Rightarrow> (il \<Rightarrow> bool) \<Rightarrow> (il \<Rightarrow> bool) \<Rightarrow> il \<Rightarrow> bool" where
  [eq_defs]: "IlCompareUnsignedGreaterEqual_eq n a b other = (case other of IlCompareUnsignedGreaterEqual n' a' b' \<Rightarrow> n = n' \<and> a a' \<and> b b' | _ \<Rightarrow> False)"

definition IlCompareUnsignedLessThan_eq :: "nat \<Rightarrow> (il \<Rightarrow> bool) \<Rightarrow> (il \<Rightarrow> bool) \<Rightarrow> il \<Rightarrow> bool" where
  [eq_defs]: "IlCompareUnsignedLessThan_eq n a b other = (case other of IlCompareUnsignedLessThan n' a' b' \<Rightarrow> n = n' \<and> a a' \<and> b b' | _ \<Rightarrow> False)"

definition IlCompareSignedLessEqual_eq :: "nat \<Rightarrow> (il \<Rightarrow> bool) \<Rightarrow> (il \<Rightarrow> bool) \<Rightarrow> il \<Rightarrow> bool" where
  [eq_defs]: "IlCompareSignedLessEqual_eq n a b other = (case other of IlCompareSignedLessEqual n' a' b' \<Rightarrow> n = n' \<and> a a' \<and> b b' | _ \<Rightarrow> False)"

definition IlCompareUnsignedLessEqual_eq :: "nat \<Rightarrow> (il \<Rightarrow> bool) \<Rightarrow> (il \<Rightarrow> bool) \<Rightarrow> il \<Rightarrow> bool" where
  [eq_defs]: "IlCompareUnsignedLessEqual_eq n a b other = (case other of IlCompareUnsignedLessEqual n' a' b' \<Rightarrow> n = n' \<and> a a' \<and> b b' | _ \<Rightarrow> False)"

definition IlIf_eq :: "(il \<Rightarrow> bool) \<Rightarrow> string \<Rightarrow> string \<Rightarrow> il \<Rightarrow> bool" where
  [eq_defs]: "IlIf_eq c t f other = (case other of IlIf c' t' f' \<Rightarrow> c c' \<and> t = t' \<and> f = f' | _ \<Rightarrow> False)"

definition IlGoto_eq :: "string \<Rightarrow> il \<Rightarrow> bool" where
  [eq_defs]: "IlGoto_eq l other = (case other of IlGoto l' \<Rightarrow> l = l' | _ \<Rightarrow> False)"

definition IlPush_eq :: "nat \<Rightarrow> (il \<Rightarrow> bool) \<Rightarrow> il \<Rightarrow> bool" where
  [eq_defs]: "IlPush_eq n v other = (case other of IlPush n' v' \<Rightarrow> n = n' \<and> v v' | _ \<Rightarrow> False)"

definition IlPop_eq :: "nat \<Rightarrow> il \<Rightarrow> bool" where
  [eq_defs]: "IlPop_eq n other = (case other of IlPop n' \<Rightarrow> n = n' | _ \<Rightarrow> False)"

definition IlReadGP_eq :: "nat \<Rightarrow> il \<Rightarrow> bool" where
  [eq_defs]: "IlReadGP_eq n other = (case other of IlReadGP n' \<Rightarrow> n = n' | _ \<Rightarrow> False)"

primrec il_eq :: "il \<Rightarrow> il \<Rightarrow> bool" where
  "il_eq (IlSetRegister n r v) = IlSetRegister_eq n r (il_eq v)"
| "il_eq (IlRegister n r) = IlRegister_eq n r"
| "il_eq (IlSetRegisterSplit n h l v) = IlSetRegisterSplit_eq n h l (il_eq v)"
| "il_eq (IlRegisterSplit n h l) = IlRegisterSplit_eq n h l"
| "il_eq (IlConst n v) = IlConst_eq n v"
| "il_eq (IlConstPointer n v) = IlConstPointer_eq n v"
| "il_eq (IlLowPart n a) = IlLowPart_eq n (il_eq a)"
| "il_eq (IlZeroExtend n a) = IlZeroExtend_eq n (il_eq a)"
| "il_eq (IlSignExtend n a) = IlSignExtend_eq n (il_eq a)"
| "il_eq (IlAdd n a b) = IlAdd_eq n (il_eq a) (il_eq b)"
| "il_eq (IlSub n a b) = IlSub_eq n (il_eq a) (il_eq b)"
| "il_eq (IlOr n a b) = IlOr_eq n (il_eq a) (il_eq b)"
| "il_eq (IlAnd n a b) = IlAnd_eq n (il_eq a) (il_eq b)"
| "il_eq (IlXor n a b) = IlXor_eq n (il_eq a) (il_eq b)"
| "il_eq (IlNot n a) = IlNot_eq n (il_eq a)"
| "il_eq (IlNeg n a) = IlNeg_eq n (il_eq a)"
| "il_eq (IlStore n a v) = IlStore_eq n (il_eq a) (il_eq v)"
| "il_eq (IlLoad n a) = IlLoad_eq n (il_eq a)"
| "il_eq (IlJump d) = IlJump_eq (il_eq d)"
| "il_eq (IlCall d) = IlCall_eq (il_eq d)"
| "il_eq (IlReturn d) = IlReturn_eq (il_eq d)"
| "il_eq (IlShiftLeft n a b) = IlShiftLeft_eq n (il_eq a) (il_eq b)"
| "il_eq (IlLogicalShiftRight n a b) = IlLogicalShiftRight_eq n (il_eq a) (il_eq b)"
| "il_eq (IlArithShiftRight n a b) = IlArithShiftRight_eq n (il_eq a) (il_eq b)"
| "il_eq (IlRotateLeft n a b) = IlRotateLeft_eq n (il_eq a) (il_eq b)"
| "il_eq (IlMult n a b) = IlMult_eq n (il_eq a) (il_eq b)"
| "il_eq (IlTrap k) = IlTrap_eq (il_eq k)"
| "il_eq IlSystemCall = IlSystemCall_eq"
| "il_eq IlBreakpoint = IlBreakpoint_eq"
| "il_eq (IlBoolToInt n a) = IlBoolToInt_eq n (il_eq a)"
| "il_eq (IlCompareEqual n a b) = IlCompareEqual_eq n (il_eq a) (il_eq b)"
| "il_eq (IlCompareNotEqual n a b) = IlCompareNotEqual_eq n (il_eq a) (il_eq b)"
| "il_eq (IlCompareSignedGreaterThan n a b) = IlCompareSignedGreaterThan_eq n (il_eq a) (il_eq b)"
| "il_eq (IlCompareUnsignedGreaterThan n a b) = IlCompareUnsignedGreaterThan_eq n (il_eq a) (il_eq b)"
| "il_eq (IlCompareSignedGreaterEqual n a b) = IlCompareSignedGreaterEqual_eq n (il_eq a) (il_eq b)"
| "il_eq (IlCompareSignedLessThan n a b) = IlCompareSignedLessThan_eq n (il_eq a) (il_eq b)"
| "il_eq (IlCompareUnsignedGreaterEqual n a b) = IlCompareUnsignedGreaterEqual_eq n (il_eq a) (il_eq b)"
| "il_eq (IlCompareUnsignedLessThan n a b) = IlCompareUnsignedLessThan_eq n (il_eq a) (il_eq b)"
| "il_eq (IlCompareSignedLessEqual n a b) = IlCompareSignedLessEqual_eq n (il_eq a) (il_eq b)"
| "il_eq (IlCompareUnsignedLessEqual n a b) = IlCompareUnsignedLessEqual_eq n (il_eq a) (il_eq b)"
| "il_eq (IlIf c t f) = IlIf_eq (il_eq c) t f"
| "il_eq (IlGoto l) = IlGoto_eq l"
| "il_eq (IlPush n v) = IlPush_eq n (il_eq v)"
| "il_eq (IlPop n) = IlPop_eq n"
| "il_eq (IlReadGP n) = IlReadGP_eq n"

text \<open>\<open>x == y\<close> of two objects.\<close>

definition il_obj_eq :: "il_obj \<Rightarrow> il_obj \<Rightarrow> bool" where
  "il_obj_eq x y = il_eq (obj x) (obj y)"

lemma il_eq_iff: "il_eq x y \<longleftrightarrow> x = y"
  by (induction x arbitrary: y) (simp_all add: eq_defs split: il.split)

text \<open>C36: Python's equality of two IL objects is equality of their whole trees: no class forgets a field, objects of different classes are never equal, and it is an equivalence relation. The attribute signed does not take part, so two objects that differ only in it are equal although the next operation may lift them differently.\<close>

theorem il_obj_eq_structural:
  "(il_obj_eq x y \<longleftrightarrow> obj x = obj y) \<and> il_obj_eq x x \<and> (il_obj_eq x y = il_obj_eq y x) \<and> il_obj_eq (x\<lparr>signed := a\<rparr>) x"
  by (auto simp: il_obj_eq_def il_eq_iff)

end
