(* ===== verification/Spec2Isabelle.thy ===== *)
theory Spec2Isabelle
  imports Insn_Props Dec_Main Type_Check Il_Lines Il_Eq
begin

text \<open>
  A verification library for the Python programs of the Binary Ninja Hexagon plugin, the programs
  that run while the plugin is built and write its C++ tables. From \<^verbatim>\<open>semantics_generated.pyinc\<close>
  and the attribute definitions of \<^verbatim>\<open>third_party/qemu-hexagon\<close>, read into the tables of
  \<^verbatim>\<open>hex_common.py\<close>, \<^verbatim>\<open>plugin/gen_il_funcs.py\<close> writes one lifter function per instruction tag:
  it declares the operands, preprocesses and parses the C-like semantics, turns the tree into
  Binary Ninja IL and prints that as C++. \<^verbatim>\<open>plugin/gen_insn_text_funcs.py\<close> writes one function per
  tag that prints the instruction's assembly text. From the generated module \<^verbatim>\<open>iset\<close>,
  \<^verbatim>\<open>dectree.py\<close> writes the decode tables. \<^verbatim>\<open>plugin/type_util.py\<close> is the decorator that checks the
  argument types of the IL classes.

  Conventions. Strings are character lists. An exception is the left side of a sum (\<open>'a res\<close>,
  \<open>bindR\<close>); every raise, failed assertion, missing key and wrong type is such a branch. Python
  objects are values: the code copies before it changes an operand, so no two names share a
  mutable object. A set whose order is observable is a list in some order. Output to a file is the
  list of its lines or the text. Code that is not in the repository is an argument: the C
  preprocessor, the parsers Lark builds, \<open>eval\<close>, \<open>isinstance\<close>, the module \<open>iset\<close>.

  Theories, bottom up.
  \<open>Hex_Prelude\<close>: results and errors, decimal numerals, Python's string methods, ordered
  dictionaries, the named collections of rules.
  \<open>Py_Regex\<close>: the fragment of \<open>re\<close> the code uses, as a backtracking matcher.
  \<open>Hex_Common\<close>, \<open>Hex_Attribs\<close>: the tables of \<^verbatim>\<open>hex_common.py\<close>, its readers, and their
  properties (attributes are inherited along macro calls, the tables agree with each other, the
  operands found in a text).
  \<open>Il_Ast\<close>, \<open>Il_Eq\<close>: the IL classes, one definition per method \<open>__init__\<close>, \<open>__repr__\<close> and
  \<open>__eq__\<close>. \<open>Il_Lift\<close>, \<open>Il_Transform\<close>: the \<open>macro_*\<close> methods and the callbacks of
  \<open>SemanticsTreeTransformer\<close>, one definition per method.
  \<open>Il_Closed\<close>: the interface that proofs about the transformer share, the locales
  \<open>operand_pred\<close>, \<open>item_pred\<close> and \<open>body_pred\<close> of predicates closed under the constructors;
  every macro keeps them. \<open>Il_Typing\<close>, \<open>Il_Exec\<close> and \<open>Il_Lines\<close> interpret them: sizes of
  operands and shape of IL expressions, items without control flow, items of a body, items whose
  text can be read back. \<open>Il_Exec\<close> also runs flat IL (labels, jumps, blocks) against structured
  statements. \<open>Il_Semantics\<close>: values of IL expressions; the locale \<open>llil\<close> is what the
  properties need of a machine, \<open>il_eval\<close> is the machine that provides it.
  \<open>Il_Repr\<close>, \<open>Il_Grammar\<close>, \<open>Il_Lines\<close>: a reader for the printed IL, the terminals and
  productions of \<open>semantics_grammar\<close>, and the round trip from bodies to C++ text and back.
  \<open>Il_Data\<close>, \<open>Il_Gen\<close>: the list of supported tags (\<^verbatim>\<open>gen_il_funcs_data.py\<close>); operand
  declarations, preprocessing, one lifter per tag, the generated file.
  \<open>Insn_Text\<close>, \<open>Insn_Render\<close>, \<open>Insn_Props\<close>: the grammar tree of an instruction's syntax,
  the callbacks of \<open>InsnTreeTransformer\<close>, the generated file; \<open>render\<close> writes the text a
  tree stands for, and the tokens are shown to print it.
  \<open>Dec_Tree\<close>, \<open>Dec_Print\<close>, \<open>Dec_Sort\<close>, \<open>Dec_Props\<close>, \<open>Dec_Tables\<close>, \<open>Dec_Main\<close>:
  decode trees, their printing, sorting the tags into trees, operand fields and links between
  tables; \<open>decodes\<close> walks the printed lines, \<open>dt_decode\<close> the tree, and the last two theories
  show that the file as a whole decodes every instruction.
  \<open>Type_Check\<close>: \<open>type_check\<close> of \<^verbatim>\<open>type_util.py\<close> with its wrapper and generators.

  Fuel. \<open>expand_macro_attribs\<close> carries Python's recursion limit; running out is
  \<open>RecursionError\<close>. Everything else terminates by a measure.

  Not modelled: the C++ plugin (decoding, packets, text, the interface to Binary Ninja), the C
  programs that generate \<^verbatim>\<open>semantics_generated.pyinc\<close> and \<^verbatim>\<open>iset.py\<close>, the small generators of
  \<^verbatim>\<open>third_party/qemu-hexagon\<close> that print opcode, register and attribute tables, command lines and
  files, the order in which the worker processes of \<^verbatim>\<open>gen_insn_text_funcs.py\<close> finish, and the unit
  tests.
\<close>

section \<open>Properties of the lifter as a whole\<close>

text \<open>C1: A lifter body is flat IL: C++ blocks with labels, conditional jumps and gotos. Whatever the machine, running the flat body ends, and in the state the structured statements give: an if runs exactly one branch, nested and sequential blocks do not interfere although every block reuses the label names true_case, false_case and done, and no jump misses its label.\<close>

theorem transform_fbody_refines:
  assumes "transform_fbody attrs ss = Inr its"
  shows "exec tst step its s = Some (sem_fbody tst step attrs ss s)"
proof -
  obtain xss where xss: "mapR (transform_stmt attrs) ss = Inr xss" "its = concat xss"
    using assms by (auto simp: transform_fbody_def fbody_def)
  have "passes (concat xss) \<and> computes tst step (concat xss) (fold (sem_stmt tst step attrs) ss)"
    by (rule computes_multi [OF xss(1)]) (rule exec_transform_stmt)
  with xss have "computes tst step its (fold (sem_stmt tst step attrs) ss)" by simp
  then have "exec tst step (its @ []) s = exec tst step [] (fold (sem_stmt tst step attrs) ss s)"
    unfolding computes_def by blast
  then show ?thesis by (simp add: sem_fbody_def)
qed

theorem transform_fbody_refines_witness:
  "exec (\<lambda>s c. s = (1::int)) (\<lambda>x s. s + 10)
     [Raw ''{ LowLevelILLabel true_case, done;'', Insn (IlIf (IlRegister 1 ''PuV'') ''true_case'' ''done''),
      Label ''true_case'', Insn (IlSetRegister 4 ''RdV'' (IlRegister 4 ''RsV'')), Label ''done'', Raw ''}''] 1
   = Some 11"
  using transform_fbody_refines [of "{}"
      "[SIf (ECall (Token MACRO ''fLSBOLD'') [EId (Token REG_OLD ''PuV'')])
         (SAssg (Token REG_OLD ''RdV'') (EId (Token REG_OLD ''RsV''))) None]"
      "[Raw ''{ LowLevelILLabel true_case, done;'', Insn (IlIf (IlRegister 1 ''PuV'') ''true_case'' ''done''),
        Label ''true_case'', Insn (IlSetRegister 4 ''RdV'' (IlRegister 4 ''RsV'')), Label ''done'', Raw ''}'']"
      "\<lambda>s c. s = (1::int)" "\<lambda>x s. s + 10" 1]
  by (simp add: transform_fbody_def fbody_def if_stmt_def assg_def assg_stmt_def call_expr_def
      macro_expr_table_def lift_eval is_register_def reg_of_def sem_fbody_def run_items_def
      cond_holds_def is_branch_def del: exec.simps)



end
